(* ===== verification/Py_Values.thy ===== *)
theory Py_Values
  imports Complex_Main "HOL-Library.AList" "HOL-Library.Product_Lexorder" "HOL-Library.Code_Target_Nat"
begin

text \<open>
  Prelude, part 1: the Python values the gateway's code inspects at run time, the exceptions it
  raises, computations that may raise, the loop shapes the code uses, and dictionaries.

  A Python dictionary is an association list in insertion order: \<^const>\<open>AList.update\<close>
  overwrites a key in place or appends it, and \<^const>\<open>AList.delete\<close> removes it, as
  \<^verbatim>\<open>d[k] = v\<close> and \<^verbatim>\<open>del d[k]\<close> do.  Byte strings and text are both char lists, told apart
  by the constructor of \<open>pyval\<close> they appear under.
\<close>

named_theorems py_defs \<open>definitions of the Python-level helper functions\<close>
named_theorems py_splits \<open>case-split rules for computations that may raise\<close>

section \<open>Exceptions and values\<close>

text \<open>The exception classes that the modelled code raises or lets escape.  A filter error carries the key
  of the filter, an interception error its class and SMPP status, an error of the HTTP API its code and
  message.\<close>

datatype pyexc =
    TypeError | KeyError | AttributeError | IndexError | ValueError | StructError
  | ZeroDivisionError | UnicodeDecodeError | UnicodeEncodeError | IOError | NotImplementedError
  | OverflowError | ReError | NameError
  | JasminApiInvalidParamError | JasminApiCredentialError
  | InvalidBillKeyError | InvalidBillValueError
  | InvalidFilterParameterError | InvalidTagError | TagNotFoundError | InvalidLockError
  | InvalidRouteParameterError | InvalidRouteFilterError | InvalidRoutingTableParameterError
  | InvalidInterceptorParameterError | InvalidInterceptorFilterError
  | InvalidInterceptionTableParameterError
  | InvalidParameterError | UnknownMessageStatusError
  | ConfigUndefinedIdError | ConfigInvalidIdError | TypeMismatch | UnknownValue
  | KeyNotFound | KeyNotIncrementable | RedisError | DLRMapError | DLRMapNotFound
  | MessageAcknowledgementError | SmppsNotSetError | SystemIdNotBound | NoDelivererForSystemId
  | DeliveringFailed | LongSubmitSmTransactionError | ConfigProfileLoadingError
  | SMPPClientConnectionCorruptedError | SMPPClientError | SMPPRequestTimoutError | SMPPProtocolError
  | SMPPGenericNackTransactionError | SMPPTransactionError | UnauthorizedLogin
  | SubmitSmInvalidArgsError | SubmitSmWithoutDestinationAddrError | SubmitSmRouteNotFoundError
  | SubmitSmRoutingError | SubmitSmChargingError | SubmitSmThroughputExceededError
  | CredentialValidationError | AuthorizationError | FilterError string
  | InterceptorError string string | HttpApiError int string

text \<open>Calendar dates are compared as (year, month, day), times of day as (hour, minute, second,
  microsecond), both lexicographically, as \<^verbatim>\<open>datetime.date\<close> and \<^verbatim>\<open>datetime.time\<close> do.\<close>

type_synonym date = "int \<times> int \<times> int"
type_synonym time = "int \<times> int \<times> int \<times> int"

datatype pyval =
    PNone
  | PBool bool
  | PInt int
  | PFloat rat
  | PStr string
  | PBytes string
  | PDate date
  | PTime time
  | PEnum string string
  | PList "pyval list"
  | PDict "(pyval \<times> pyval) list"
  | PObj string

text \<open>\<^verbatim>\<open>bool\<close> is a subclass of \<^verbatim>\<open>int\<close>: \<^verbatim>\<open>isinstance(True, int)\<close> holds.\<close>

fun is_int :: "pyval \<Rightarrow> bool" where
  "is_int (PInt _) = True"
| "is_int (PBool _) = True"
| "is_int _ = False"

fun is_float :: "pyval \<Rightarrow> bool" where
  "is_float (PFloat _) = True"
| "is_float _ = False"

fun is_bool :: "pyval \<Rightarrow> bool" where
  "is_bool (PBool _) = True"
| "is_bool _ = False"

fun is_str :: "pyval \<Rightarrow> bool" where
  "is_str (PStr _) = True"
| "is_str _ = False"

fun is_bytes :: "pyval \<Rightarrow> bool" where
  "is_bytes (PBytes _) = True"
| "is_bytes _ = False"

definition is_number :: "pyval \<Rightarrow> bool" where
  "is_number v \<longleftrightarrow> is_int v \<or> is_float v"

text \<open>Truth value of an object, as \<^verbatim>\<open>if v:\<close> computes it.\<close>

fun truthy :: "pyval \<Rightarrow> bool" where
  "truthy PNone = False"
| "truthy (PBool b) = b"
| "truthy (PInt i) = (i \<noteq> 0)"
| "truthy (PFloat r) = (r \<noteq> 0)"
| "truthy (PStr s) = (s \<noteq> [])"
| "truthy (PBytes s) = (s \<noteq> [])"
| "truthy (PList xs) = (xs \<noteq> [])"
| "truthy (PDict xs) = (xs \<noteq> [])"
| "truthy _ = True"

section \<open>Computations that may raise\<close>

type_synonym 'a res = "pyexc + 'a"

definition res_bind :: "'a res \<Rightarrow> ('a \<Rightarrow> 'b res) \<Rightarrow> 'b res" where
  "res_bind r f = (case r of Inl e \<Rightarrow> Inl e | Inr x \<Rightarrow> f x)"

lemma res_bind_simps [simp]:
  "res_bind (Inl e) f = Inl e"
  "res_bind (Inr x) f = f x"
  by (simp_all add: res_bind_def)

lemma res_bind_split [py_splits]:
  "P (res_bind r f) \<longleftrightarrow> (\<forall>e. r = Inl e \<longrightarrow> P (Inl e)) \<and> (\<forall>x. r = Inr x \<longrightarrow> P (f x))"
  by (cases r) auto

lemma res_bind_split_asm [py_splits]:
  "P (res_bind r f) \<longleftrightarrow>
     \<not> ((\<exists>e. r = Inl e \<and> \<not> P (Inl e)) \<or> (\<exists>x. r = Inr x \<and> \<not> P (f x)))"
  by (cases r) auto

lemma res_bind_eq_Inr [simp]:
  "res_bind r f = Inr y \<longleftrightarrow> (\<exists>x. r = Inr x \<and> f x = Inr y)"
  by (cases r) auto

text \<open>\<^verbatim>\<open>if c: raise e\<close>, followed by the rest of the block.\<close>

definition raise_if :: "bool \<Rightarrow> pyexc \<Rightarrow> 'a res \<Rightarrow> 'a res" where
  "raise_if c e r = (if c then Inl e else r)"

lemma raise_if_simps [simp]:
  "raise_if True e r = Inl e"
  "raise_if False e r = r"
  by (simp_all add: raise_if_def)

lemma raise_if_eq_Inr [simp]:
  "raise_if c e r = Inr x \<longleftrightarrow> \<not> c \<and> r = Inr x"
  by (simp add: raise_if_def)

text \<open>A loop whose body may raise, run for its checks.\<close>

fun for_check :: "('a \<Rightarrow> unit res) \<Rightarrow> 'a list \<Rightarrow> unit res" where
  "for_check f [] = Inr ()"
| "for_check f (x # xs) = res_bind (f x) (\<lambda>_. for_check f xs)"

lemma for_check_ok [simp]: "for_check f xs = Inr () \<longleftrightarrow> (\<forall>x \<in> set xs. f x = Inr ())"
  by (induction xs) auto

lemma for_check_Inl:
  "for_check f xs = Inl e \<Longrightarrow> \<exists>x \<in> set xs. f x = Inl e"
  by (induction xs) (auto split: py_splits)

text \<open>\<^verbatim>\<open>for x in xs: if not f(x): return False\<close> / \<^verbatim>\<open>return True\<close>.\<close>

fun for_all :: "('a \<Rightarrow> bool res) \<Rightarrow> 'a list \<Rightarrow> bool res" where
  "for_all f [] = Inr True"
| "for_all f (x # xs) = res_bind (f x) (\<lambda>b. if b then for_all f xs else Inr False)"

lemma for_all_True [simp]: "for_all f xs = Inr True \<longleftrightarrow> (\<forall>x \<in> set xs. f x = Inr True)"
  by (induction xs) (auto split: if_splits)

lemma for_all_total:
  "(\<And>x. x \<in> set xs \<Longrightarrow> \<exists>b. f x = Inr b) \<Longrightarrow> \<exists>b. for_all f xs = Inr b"
  by (induction xs) (auto, metis)

lemma for_all_Inl:
  "for_all f xs = Inl e \<Longrightarrow> \<exists>x \<in> set xs. f x = Inl e"
  by (induction xs) (auto split: py_splits if_splits)

text \<open>\<^verbatim>\<open>[f(x) for x in xs]\<close> where \<open>f\<close> may raise.\<close>

fun map_res :: "('a \<Rightarrow> 'b res) \<Rightarrow> 'a list \<Rightarrow> 'b list res" where
  "map_res f [] = Inr []"
| "map_res f (x # xs) = res_bind (f x) (\<lambda>y. res_bind (map_res f xs) (\<lambda>ys. Inr (y # ys)))"

lemma map_res_Inr_map: "(\<And>x. x \<in> set xs \<Longrightarrow> f x = Inr (g x)) \<Longrightarrow> map_res f xs = Inr (map g xs)"
  by (induction xs) auto

lemma map_res_in: "map_res f xs = Inr ys \<Longrightarrow> y \<in> set ys \<Longrightarrow> \<exists>x \<in> set xs. f x = Inr y"
  by (induction xs arbitrary: ys) auto

lemma map_res_Inr_iff: "map_res f xs = Inr ys \<longleftrightarrow> list_all2 (\<lambda>x y. f x = Inr y) xs ys"
  by (induction xs arbitrary: ys) (auto simp: list_all2_Cons1)

section \<open>Dictionaries\<close>

type_synonym ('k, 'v) dict = "('k \<times> 'v) list"

definition dget :: "('k, 'v) dict \<Rightarrow> 'k \<Rightarrow> 'v res" where
  "dget d k = (case map_of d k of None \<Rightarrow> Inl KeyError | Some v \<Rightarrow> Inr v)"

definition has_key :: "('k, 'v) dict \<Rightarrow> 'k \<Rightarrow> bool" where
  "has_key d k \<longleftrightarrow> map_of d k \<noteq> None"

abbreviation dset :: "('k, 'v) dict \<Rightarrow> 'k \<Rightarrow> 'v \<Rightarrow> ('k, 'v) dict" where
  "dset d k v \<equiv> AList.update k v d"

abbreviation ddel :: "('k, 'v) dict \<Rightarrow> 'k \<Rightarrow> ('k, 'v) dict" where
  "ddel d k \<equiv> AList.delete k d"

lemma map_of_dset [simp]: "map_of (dset d k v) = (map_of d)(k \<mapsto> v)"
  by (rule update_conv')

lemma map_of_ddel [simp]: "map_of (ddel d k) = (map_of d)(k := None)"
  by (rule delete_conv')

lemma dget_dset_same [simp]: "dget (dset d k v) k = Inr v"
  by (simp add: dget_def)

lemma dget_dset_other [simp]: "k \<noteq> j \<Longrightarrow> dget (dset d k v) j = dget d j"
  by (simp add: dget_def)

lemma has_key_dset [simp]: "has_key (dset d k v) j \<longleftrightarrow> j = k \<or> has_key d j"
  by (simp add: has_key_def)

lemma has_key_ddel [simp]: "has_key (ddel d k) j \<longleftrightarrow> j \<noteq> k \<and> has_key d j"
  by (simp add: has_key_def)

lemma dset_new: "\<not> has_key d k \<Longrightarrow> dset d k v = d @ [(k, v)]"
  by (induction d) (auto simp: has_key_def split: if_splits)

lemma dget_Inr_iff: "dget d k = Inr v \<longleftrightarrow> map_of d k = Some v"
  by (simp add: dget_def split: option.splits)

lemma dget_ok_iff: "(\<exists>v. dget d k = Inr v) \<longleftrightarrow> has_key d k"
  by (auto simp: dget_def has_key_def split: option.splits)

lemma dget_KeyError_iff: "dget d k = Inl e \<longleftrightarrow> e = KeyError \<and> \<not> has_key d k"
  by (auto simp: dget_def has_key_def split: option.splits)

section \<open>Lists\<close>

text \<open>\<^verbatim>\<open>for x in xs: if P(x): xs.remove(x); break\<close>: drop the first element that satisfies
  \<open>P\<close>.\<close>

fun remove_first :: "('a \<Rightarrow> bool) \<Rightarrow> 'a list \<Rightarrow> 'a list" where
  "remove_first P [] = []"
| "remove_first P (x # xs) = (if P x then xs else x # remove_first P xs)"

text \<open>\<^verbatim>\<open>for x in xs: if P(x): (update x in place); return\<close>: update the first element that
  satisfies \<open>P\<close>.\<close>

fun update_first :: "('a \<Rightarrow> bool) \<Rightarrow> ('a \<Rightarrow> 'a) \<Rightarrow> 'a list \<Rightarrow> 'a list" where
  "update_first P f [] = []"
| "update_first P f (x # xs) = (if P x then f x # xs else x # update_first P f xs)"

lemma remove_first_id: "(\<And>x. x \<in> set xs \<Longrightarrow> \<not> P x) \<Longrightarrow> remove_first P xs = xs"
  by (induction xs) auto

lemma set_remove_first_subset: "set (remove_first P xs) \<subseteq> set xs"
  by (induction xs) auto

lemma remove_first_keeps: "x \<in> set xs \<Longrightarrow> \<not> P x \<Longrightarrow> x \<in> set (remove_first P xs)"
  by (induction xs) auto

lemma distinct_map_remove_first:
  "distinct (map f xs) \<Longrightarrow> distinct (map f (remove_first P xs))"
  using set_remove_first_subset by (induction xs) fastforce+

lemma remove_first_unique:
  "distinct (map f xs) \<Longrightarrow> remove_first (\<lambda>x. f x = k) xs = filter (\<lambda>x. f x \<noteq> k) xs"
  by (induction xs) (auto simp: image_iff intro!: filter_True[symmetric])

lemma sorted_wrt_remove_first:
  "sorted_wrt R xs \<Longrightarrow> sorted_wrt R (remove_first P xs)"
  using set_remove_first_subset by (induction xs) fastforce+

lemma length_remove_first:
  "length (remove_first P xs) = (if \<exists>x \<in> set xs. P x then length xs - 1 else length xs)"
  by (induction xs) (auto dest: length_pos_if_in_set)

lemma map_update_first:
  "(\<And>x. P x \<Longrightarrow> g (f x) = g x) \<Longrightarrow> map g (update_first P f xs) = map g xs"
  by (induction xs) auto

lemma length_update_first [simp]: "length (update_first P f xs) = length xs"
  by (induction xs) auto

lemma set_update_first:
  "y \<in> set (update_first P f xs) \<Longrightarrow> y \<in> set xs \<or> (\<exists>x \<in> set xs. P x \<and> y = f x)"
  by (induction xs) (auto split: if_splits)

lemma update_first_id: "(\<And>x. x \<in> set xs \<Longrightarrow> \<not> P x) \<Longrightarrow> update_first P f xs = xs"
  by (induction xs) auto

lemma find_update_first:
  "(\<And>x. P x \<Longrightarrow> P (f x)) \<Longrightarrow>
   find P (update_first P f xs) = map_option f (find P xs)"
  by (induction xs) auto

lemma find_update_first_other:
  "(\<And>x. P x \<Longrightarrow> Q (f x) = Q x) \<Longrightarrow> (\<And>x. P x \<Longrightarrow> \<not> Q x) \<Longrightarrow>
   find Q (update_first P f xs) = find Q xs"
  by (induction xs) auto

lemma find_Some_in: "find P xs = Some x \<Longrightarrow> x \<in> set xs \<and> P x"
  by (induction xs) (auto split: if_splits)

lemma find_None_all: "find P xs = None \<longleftrightarrow> (\<forall>x \<in> set xs. \<not> P x)"
  by (induction xs) auto

end
