(* ===== verification/Py_Float.thy ===== *)
theory Py_Float
  imports Py_Values "HOL-Library.Log_Nat"
begin

text \<open>
  Prelude, part 2: Python's numbers.  A finite \<^verbatim>\<open>float\<close> is the rational number it denotes; every
  arithmetic operation rounds its exact result to 53 significant bits, ties to even, which is what
  IEEE-754 binary64 arithmetic does inside the normal range (overflow to infinity and subnormal
  numbers do not occur for the gateway's prices, balances and percentages and are left out).
  Integers are unbounded.  A comparison between an \<^verbatim>\<open>int\<close> and a \<^verbatim>\<open>float\<close> is exact, as in Python.
\<close>

section \<open>Rounding to binary64\<close>

definition pow2 :: "int \<Rightarrow> rat" where
  "pow2 k = (if 0 \<le> k then 2 ^ nat k else 1 / 2 ^ nat (- k))"

definition ilog2 :: "rat \<Rightarrow> int" where
  "ilog2 x =
     (let (n, d) = quotient_of x; k = bitlen n - bitlen d
      in if pow2 k \<le> x then k else k - 1)"

definition round_half_even :: "rat \<Rightarrow> int" where
  "round_half_even x =
     (let f = \<lfloor>x\<rfloor>; r = x - of_int f
      in if r < 1 / 2 then f else if 1 / 2 < r then f + 1 else if even f then f else f + 1)"

definition fl_pos :: "rat \<Rightarrow> rat" where
  "fl_pos x = (let u = pow2 (ilog2 x - 52) in of_int (round_half_even (x / u)) * u)"

definition fl :: "rat \<Rightarrow> rat" where
  "fl x = (if x = 0 then 0 else if 0 < x then fl_pos x else - fl_pos (- x))"

lemma pow2_pos [simp]: "0 < pow2 k"
  by (simp add: pow2_def)

lemma pow2_nonzero [simp]: "pow2 k \<noteq> 0"
  by (simp add: pow2_def)

lemma pow2_add: "pow2 (a + b) = pow2 a * pow2 b"
proof -
  have *: "pow2 k = 2 powi k" for k
    by (simp add: pow2_def power_int_def field_simps)
  show ?thesis by (simp add: * power_int_add)
qed

lemma pow2_0 [simp]: "pow2 0 = 1"
  by (simp add: pow2_def)

lemma pow2_1 [simp]: "pow2 1 = 2"
  by (simp add: pow2_def)

lemma pow2_Suc: "pow2 (k + 1) = 2 * pow2 k"
  by (simp add: pow2_add)

lemma pow2_nat: "pow2 (int n) = 2 ^ n"
  by (simp add: pow2_def)

lemma pow2_mono: "a \<le> b \<Longrightarrow> pow2 a \<le> pow2 b"
proof -
  assume "a \<le> b"
  then obtain n where b: "b = a + int n" using zle_iff_zadd by blast
  have "(1::rat) \<le> 2 ^ n" by simp
  then show ?thesis by (simp add: b pow2_add pow2_nat)
qed

lemma round_half_even_int [simp]: "round_half_even (of_int n) = n"
  by (simp add: round_half_even_def)

lemma round_half_even_bounds:
  "\<lfloor>x\<rfloor> \<le> round_half_even x" "round_half_even x \<le> \<lfloor>x\<rfloor> + 1"
  by (auto simp: round_half_even_def Let_def)

lemma round_half_even_mono:
  assumes "x \<le> y" shows "round_half_even x \<le> round_half_even y"
proof (cases "\<lfloor>x\<rfloor> = \<lfloor>y\<rfloor>")
  case True
  with assms show ?thesis by (auto simp: round_half_even_def Let_def)
next
  case False
  with assms have "\<lfloor>x\<rfloor> + 1 \<le> \<lfloor>y\<rfloor>" using floor_mono[OF assms] by linarith
  then show ?thesis using round_half_even_bounds[of x] round_half_even_bounds[of y] by linarith
qed

lemma bitlen_rat_bounds:
  assumes "0 < n" shows "pow2 (bitlen n - 1) \<le> of_int n" "(of_int n :: rat) < pow2 (bitlen n)"
proof -
  have b: "2 ^ nat (bitlen n - 1) \<le> n \<and> n < 2 ^ nat (bitlen n)"
    using bitlen_bounds[OF assms] .
  have p: "0 < bitlen n" using assms by (simp add: bitlen_def floorlog_def log_def zero_less_divide_iff add_pos_nonneg)
  from b have "of_int (2 ^ nat (bitlen n - 1)) \<le> (of_int n :: rat)"
    and "(of_int n :: rat) < of_int (2 ^ nat (bitlen n))"
    by (simp_all only: of_int_le_iff of_int_less_iff)
  then show "pow2 (bitlen n - 1) \<le> of_int n" "(of_int n :: rat) < pow2 (bitlen n)"
    using p by (simp_all add: pow2_def)
qed

lemma ilog2_bounds:
  assumes "0 < x" shows "pow2 (ilog2 x) \<le> x" "x < pow2 (ilog2 x + 1)"
proof -
  obtain n d where q: "quotient_of x = (n, d)" by force
  have d: "0 < d" using quotient_of_denom_pos[OF q] .
  have x: "x = of_int n / of_int d" using quotient_of_div[OF q] .
  with assms d have n: "0 < n" by (simp add: zero_less_divide_iff)
  let ?k = "bitlen n - bitlen d"
  have up: "x < pow2 (?k + 1)"
  proof -
    have "of_int n < pow2 (bitlen n)" using bitlen_rat_bounds(2)[OF n] .
    also have "\<dots> = pow2 (?k + 1) * pow2 (bitlen d - 1)"
      by (simp flip: pow2_add)
    also have "\<dots> \<le> pow2 (?k + 1) * of_int d"
      using bitlen_rat_bounds(1)[OF d] by simp
    finally show ?thesis using d by (simp add: x field_simps)
  qed
  have lo: "pow2 (?k - 1) \<le> x"
  proof -
    have "pow2 (?k - 1) * of_int d \<le> pow2 (?k - 1) * pow2 (bitlen d)"
      using bitlen_rat_bounds(2)[OF d] by simp
    also have "\<dots> = pow2 (bitlen n - 1)" by (simp flip: pow2_add)
    also have "\<dots> \<le> of_int n" using bitlen_rat_bounds(1)[OF n] .
    finally show ?thesis using d by (simp add: x field_simps)
  qed
  show "pow2 (ilog2 x) \<le> x" "x < pow2 (ilog2 x + 1)"
    using up lo by (auto simp: ilog2_def q Let_def)
qed

lemma ilog2_mono:
  assumes "0 < x" "x \<le> y" shows "ilog2 x \<le> ilog2 y"
proof (rule ccontr)
  assume "\<not> ilog2 x \<le> ilog2 y"
  then have "ilog2 y + 1 \<le> ilog2 x" by simp
  then have "pow2 (ilog2 y + 1) \<le> pow2 (ilog2 x)" by (rule pow2_mono)
  moreover have "y < pow2 (ilog2 y + 1)" "pow2 (ilog2 x) \<le> x"
    using assms ilog2_bounds by auto
  ultimately show False using assms by linarith
qed

lemma fl_pos_bounds:
  assumes "0 < x" shows "pow2 (ilog2 x) \<le> fl_pos x" "fl_pos x \<le> pow2 (ilog2 x + 1)"
proof -
  define u where "u = pow2 (ilog2 x - 52)"
  have u: "0 < u" by (simp add: u_def)
  have e: "pow2 (ilog2 x) = of_int (2 ^ 52) * u" "pow2 (ilog2 x + 1) = of_int (2 ^ 53) * u"
    using pow2_add[of 52 "ilog2 x - 52"] pow2_add[of 53 "ilog2 x - 52"]
    by (simp_all add: u_def pow2_def algebra_simps)
  have "of_int (2 ^ 52) \<le> x / u" "x / u \<le> of_int (2 ^ 53)"
    using ilog2_bounds[OF assms] u unfolding e by (simp_all add: field_simps)
  then have "2 ^ 52 \<le> round_half_even (x / u)" "round_half_even (x / u) \<le> 2 ^ 53"
    using round_half_even_mono round_half_even_int by metis+
  then have "of_int (2 ^ 52) \<le> (of_int (round_half_even (x / u)) :: rat)"
    and "(of_int (round_half_even (x / u)) :: rat) \<le> of_int (2 ^ 53)"
    by (simp_all only: of_int_le_iff)
  then show "pow2 (ilog2 x) \<le> fl_pos x" "fl_pos x \<le> pow2 (ilog2 x + 1)"
    using u by (simp_all add: e fl_pos_def Let_def flip: u_def)
qed

lemma fl_pos_pos: "0 < x \<Longrightarrow> 0 < fl_pos x"
  using fl_pos_bounds(1)[of x] pow2_pos[of "ilog2 x"] by linarith

lemma fl_0 [simp]: "fl 0 = 0"
  by (simp add: fl_def)

lemma fl_pos_iff [simp]: "0 < fl x \<longleftrightarrow> 0 < x"
  using fl_pos_pos[of x] fl_pos_pos[of "- x"] by (auto simp: fl_def)

lemma fl_minus: "fl (- x) = - fl x"
  by (auto simp: fl_def)

lemma fl_nonneg_iff [simp]: "0 \<le> fl x \<longleftrightarrow> 0 \<le> x"
  using fl_pos_iff[of "- x"] by (simp add: fl_minus not_less[symmetric] del: fl_pos_iff)

lemma fl_eq_0_iff [simp]: "fl x = 0 \<longleftrightarrow> x = 0"
  using fl_pos_iff[of x] fl_pos_iff[of "- x"] by (cases "x = 0") (auto simp: fl_minus simp del: fl_pos_iff)

lemma fl_pos_mono:
  assumes "0 < x" "x \<le> y" shows "fl_pos x \<le> fl_pos y"
proof (cases "ilog2 x = ilog2 y")
  case True
  have "x / pow2 (ilog2 y - 52) \<le> y / pow2 (ilog2 y - 52)"
    using assms by (simp add: divide_right_mono less_imp_le)
  then have "round_half_even (x / pow2 (ilog2 y - 52)) \<le> round_half_even (y / pow2 (ilog2 y - 52))"
    by (rule round_half_even_mono)
  with True show ?thesis by (simp add: fl_pos_def Let_def)
next
  case False
  with ilog2_mono[OF assms] have "ilog2 x + 1 \<le> ilog2 y" by simp
  then have "pow2 (ilog2 x + 1) \<le> pow2 (ilog2 y)" by (rule pow2_mono)
  with fl_pos_bounds(2)[of x] fl_pos_bounds(1)[of y] assms show ?thesis by linarith
qed

text \<open>Rounding is monotone, which is what the order of charged amounts rests on.\<close>

lemma fl_mono: "x \<le> y \<Longrightarrow> fl x \<le> fl y"
proof -
  assume le: "x \<le> y"
  consider "0 < x" | "x \<le> 0" "0 \<le> y" | "y < 0" by linarith
  then show ?thesis
  proof cases
    case 1
    with le show ?thesis using fl_pos_mono by (simp add: fl_def)
  next
    case 2
    then have "\<not> 0 < fl x" "0 \<le> fl y" by simp_all
    then show ?thesis by linarith
  next
    case 3
    with le fl_pos_mono[of "- y" "- x"] show ?thesis by (simp add: fl_def)
  qed
qed

text \<open>A rounded number is a double: rounding it again changes nothing.\<close>

lemma ilog2_unique:
  assumes "pow2 k \<le> y" "y < pow2 (k + 1)" shows "ilog2 y = k"
proof -
  have y: "0 < y" using assms(1) pow2_pos[of k] by linarith
  have "\<not> ilog2 y + 1 \<le> k" using pow2_mono ilog2_bounds(2)[OF y] assms(1) by force
  moreover have "\<not> k + 1 \<le> ilog2 y" using pow2_mono ilog2_bounds(1)[OF y] assms(2) by force
  ultimately show ?thesis by linarith
qed

lemma fl_pos_multiple:
  assumes "pow2 k \<le> of_int n * pow2 (k - 52)" "of_int n * pow2 (k - 52) < pow2 (k + 1)"
  shows "fl_pos (of_int n * pow2 (k - 52)) = of_int n * pow2 (k - 52)"
  using ilog2_unique[OF assms] by (simp add: fl_pos_def Let_def)

lemma fl_pos_idem:
  assumes "0 < x" shows "fl_pos (fl_pos x) = fl_pos x"
proof (cases "fl_pos x < pow2 (ilog2 x + 1)")
  case True
  obtain n where n: "fl_pos x = of_int n * pow2 (ilog2 x - 52)"
    by (auto simp: fl_pos_def Let_def)
  with True fl_pos_multiple[of "ilog2 x" n] fl_pos_bounds(1)[OF assms] show ?thesis by simp
next
  case False
  have e: "pow2 (ilog2 x + 1) = of_int (2 ^ 52) * pow2 (ilog2 x + 1 - 52)"
    using pow2_add[of 52 "ilog2 x + 1 - 52"] by (simp add: pow2_def[of 52] add.commute)
  from False fl_pos_bounds(2)[OF assms] have "fl_pos x = pow2 (ilog2 x + 1)" by linarith
  moreover have "fl_pos (pow2 (ilog2 x + 1)) = pow2 (ilog2 x + 1)"
    using fl_pos_multiple[of "ilog2 x + 1" "2 ^ 52"] e pow2_Suc[of "ilog2 x + 1"]
      pow2_pos[of "ilog2 x + 1"] by (metis less_add_same_cancel1 mult_2 order_refl)
  ultimately show ?thesis by simp
qed

lemma fl_idem [simp]: "fl (fl x) = fl x"
proof -
  have pos: "0 < y \<Longrightarrow> fl (fl y) = fl y" for y
    by (simp add: fl_def fl_pos_idem fl_pos_pos order_less_imp_not_less)
  consider "x = 0" | "0 < x" | "0 < - x" by linarith
  then show ?thesis
  proof cases
    case 3
    with pos[of "- x"] show ?thesis by (simp add: fl_minus)
  qed (use pos in simp_all)
qed

section \<open>Numbers as Python computes with them\<close>

text \<open>The number a value denotes, where it is one.\<close>

fun num :: "pyval \<Rightarrow> rat" where
  "num (PInt i) = of_int i"
| "num (PBool b) = of_bool b"
| "num (PFloat r) = r"
| "num _ = 0"

fun int_of :: "pyval \<Rightarrow> int" where
  "int_of (PInt i) = i"
| "int_of (PBool b) = of_bool b"
| "int_of _ = 0"

text \<open>\<^verbatim>\<open>float(v)\<close> of a number, as the mixed arithmetic operators convert an \<^verbatim>\<open>int\<close> operand.\<close>

fun to_float :: "pyval \<Rightarrow> rat" where
  "to_float (PFloat r) = r"
| "to_float v = fl (num v)"

definition py_arith :: "(int \<Rightarrow> int \<Rightarrow> int) \<Rightarrow> (rat \<Rightarrow> rat \<Rightarrow> rat) \<Rightarrow> pyval \<Rightarrow> pyval \<Rightarrow> pyval res" where
  "py_arith fi fr a b =
     (if is_int a \<and> is_int b then Inr (PInt (fi (int_of a) (int_of b)))
      else if is_number a \<and> is_number b then Inr (PFloat (fl (fr (to_float a) (to_float b))))
      else Inl TypeError)"

definition py_add :: "pyval \<Rightarrow> pyval \<Rightarrow> pyval res" where
  "py_add = py_arith (+) (+)"

definition py_sub :: "pyval \<Rightarrow> pyval \<Rightarrow> pyval res" where
  "py_sub = py_arith (-) (-)"

definition py_mul :: "pyval \<Rightarrow> pyval \<Rightarrow> pyval res" where
  "py_mul = py_arith (*) (*)"

text \<open>True division of two numbers, the divisor not zero.\<close>

definition py_truediv :: "pyval \<Rightarrow> pyval \<Rightarrow> pyval res" where
  "py_truediv a b =
     (if \<not> (is_number a \<and> is_number b) then Inl TypeError
      else if num b = 0 then Inl ZeroDivisionError
      else if is_int a \<and> is_int b then Inr (PFloat (fl (num a / num b)))
      else Inr (PFloat (fl (to_float a / to_float b))))"

definition py_neg :: "pyval \<Rightarrow> pyval res" where
  "py_neg a =
     (if is_int a then Inr (PInt (- int_of a))
      else if is_float a then Inr (PFloat (- num a))
      else Inl TypeError)"

definition py_lt :: "pyval \<Rightarrow> pyval \<Rightarrow> bool res" where
  "py_lt a b = (if is_number a \<and> is_number b then Inr (num a < num b) else Inl TypeError)"

definition py_le :: "pyval \<Rightarrow> pyval \<Rightarrow> bool res" where
  "py_le a b = (if is_number a \<and> is_number b then Inr (num a \<le> num b) else Inl TypeError)"

lemmas py_num_defs [py_defs] =
  py_add_def py_sub_def py_mul_def py_arith_def py_truediv_def py_neg_def py_lt_def py_le_def
  is_number_def

lemma is_int_cases: "is_int v \<Longrightarrow> (\<And>i. v = PInt i \<Longrightarrow> P) \<Longrightarrow> (\<And>b. v = PBool b \<Longrightarrow> P) \<Longrightarrow> P"
  by (cases v) auto

lemma is_float_iff: "is_float v \<longleftrightarrow> (\<exists>r. v = PFloat r)"
  by (cases v) auto

lemma num_int_of: "is_int v \<Longrightarrow> num v = of_int (int_of v)"
  by (cases v) auto

lemma to_float_nonneg_iff [simp]: "is_number v \<Longrightarrow> 0 \<le> to_float v \<longleftrightarrow> 0 \<le> num v"
  by (cases v) (auto simp: is_number_def)

lemma to_float_pos_iff [simp]: "is_number v \<Longrightarrow> 0 < to_float v \<longleftrightarrow> 0 < num v"
  by (cases v) (auto simp: is_number_def)

text \<open>A value held in a \<^verbatim>\<open>float\<close> variable is a double, so rounding it again changes nothing.\<close>

definition is_double :: "pyval \<Rightarrow> bool" where
  "is_double v \<longleftrightarrow> (\<forall>r. v = PFloat r \<longrightarrow> fl r = r)"

lemma to_float_mono:
  assumes "is_number a" "is_number b" "is_double a" "is_double b" "num a \<le> num b"
  shows "to_float a \<le> to_float b"
  using assms fl_mono[of "num a" "num b"]
  by (cases a; cases b) (auto simp: is_number_def is_double_def)

text \<open>Subtracting an amount that the balance covers leaves a balance that is not negative,
  whatever rounding does.\<close>

lemma py_add_neg_nonneg:
  assumes num: "is_number a" "is_number b" and dbl: "is_double a" "is_double b"
    and le: "num b \<le> num a"
  obtains n c where "py_neg b = Inr n" "is_number n" "py_add a n = Inr c" "is_number c" "0 \<le> num c"
proof -
  let ?n = "if is_int b then PInt (- int_of b) else PFloat (- num b)"
  have n: "py_neg b = Inr ?n" using num by (auto simp: py_defs)
  have tn: "to_float ?n = - to_float b"
    using num by (cases b) (auto simp: is_number_def fl_minus)
  have "\<exists>c. py_add a ?n = Inr c \<and> is_number c \<and> 0 \<le> num c"
  proof (cases "is_int a \<and> is_int b")
    case True
    with le show ?thesis by (auto simp: py_defs num_int_of)
  next
    case False
    with num have "py_add a ?n = Inr (PFloat (fl (to_float a + to_float ?n)))"
      by (auto simp: py_defs)
    with to_float_mono[OF num(2,1) dbl(2,1) le] show ?thesis by (auto simp: tn is_number_def)
  qed
  then show thesis using n that[of ?n] num by (auto simp: is_number_def)
qed

end
