(* ===== verification/Py_Text.thy ===== *)
theory Py_Text
  imports Py_Values
begin

text \<open>
  Prelude, part 3: the operations on text that the code uses.  A text is the list of its code
  points, all below 256; case mapping is given for the ASCII letters, which is what identifiers,
  status names and message ids are made of.  \<open>radix_str\<close> prints a number in a base between 2 and 16
  and \<open>py_int\<close> reads one the way \<^verbatim>\<open>int(s, base)\<close> does; reading back what was printed gives the
  number.
\<close>

section \<open>Characters\<close>

definition cval :: "char \<Rightarrow> nat" where
  "cval c = of_char c"

definition is_space :: "char \<Rightarrow> bool" where
  "is_space c \<longleftrightarrow> cval c \<in> {9, 10, 11, 12, 13, 28, 29, 30, 31, 32, 133, 160}"

definition is_digit :: "char \<Rightarrow> bool" where
  "is_digit c \<longleftrightarrow> 48 \<le> cval c \<and> cval c \<le> 57"

definition is_upper :: "char \<Rightarrow> bool" where
  "is_upper c \<longleftrightarrow> 65 \<le> cval c \<and> cval c \<le> 90"

definition is_lower :: "char \<Rightarrow> bool" where
  "is_lower c \<longleftrightarrow> 97 \<le> cval c \<and> cval c \<le> 122"

definition is_alnum :: "char \<Rightarrow> bool" where
  "is_alnum c \<longleftrightarrow> is_digit c \<or> is_upper c \<or> is_lower c"

definition to_lower :: "char \<Rightarrow> char" where
  "to_lower c = (if is_upper c then char_of (cval c + 32) else c)"

definition to_upper :: "char \<Rightarrow> char" where
  "to_upper c = (if is_lower c then char_of (cval c - 32) else c)"

abbreviation lower :: "string \<Rightarrow> string" where
  "lower s \<equiv> map to_lower s"

abbreviation upper :: "string \<Rightarrow> string" where
  "upper s \<equiv> map to_upper s"

lemma cval_char_of: "n < 256 \<Longrightarrow> cval (char_of n) = n"
  by (simp add: cval_def)

lemma cval_inj: "cval a = cval b \<Longrightarrow> a = b"
  by (simp add: cval_def)

lemma is_lower_to_upper [simp]: "\<not> is_lower (to_upper c)"
  by (auto simp: to_upper_def is_lower_def cval_char_of)

lemma to_upper_idem [simp]: "to_upper (to_upper c) = to_upper c"
  by (simp add: to_upper_def[of "to_upper c"])

section \<open>Texts\<close>

definition lstrip :: "string \<Rightarrow> string" where
  "lstrip = dropWhile is_space"

definition strip :: "string \<Rightarrow> string" where
  "strip s = rev (dropWhile is_space (rev (lstrip s)))"

text \<open>\<^verbatim>\<open>s.lstrip('0')\<close>\<close>

definition lstrip0 :: "string \<Rightarrow> string" where
  "lstrip0 = dropWhile (\<lambda>c. c = CHR ''0'')"

definition startswith :: "string \<Rightarrow> string \<Rightarrow> bool" where
  "startswith s p \<longleftrightarrow> take (length p) s = p"

text \<open>\<^verbatim>\<open>s.split(sep)\<close> for a separator of one character.\<close>

fun split_on :: "char \<Rightarrow> string \<Rightarrow> string list" where
  "split_on d [] = [[]]"
| "split_on d (c # cs) =
     (if c = d then [] # split_on d cs
      else (case split_on d cs of [] \<Rightarrow> [[c]] | w # ws \<Rightarrow> (c # w) # ws))"

text \<open>\<^verbatim>\<open>s.split(sep, 1)\<close> of a text that contains the separator.\<close>

definition split_once :: "char \<Rightarrow> string \<Rightarrow> string \<times> string" where
  "split_once d s = (takeWhile (\<lambda>c. c \<noteq> d) s, tl (dropWhile (\<lambda>c. c \<noteq> d) s))"

text \<open>\<^verbatim>\<open>sep.join(ws)\<close> for a separator of one character.\<close>

fun join_with :: "char \<Rightarrow> string list \<Rightarrow> string" where
  "join_with d [] = []"
| "join_with d [w] = w"
| "join_with d (w # v # ws) = w @ d # join_with d (v # ws)"

text \<open>A pattern that ends in \<^verbatim>\<open>$\<close> also matches before a newline at the end of the text.\<close>

definition dollar :: "(string \<Rightarrow> bool) \<Rightarrow> string \<Rightarrow> bool" where
  "dollar P s \<longleftrightarrow> P s \<or> (s \<noteq> [] \<and> last s = CHR 0x0A \<and> P (butlast s))"

lemma lstrip0_idem [simp]: "lstrip0 (lstrip0 s) = lstrip0 s"
  by (simp add: lstrip0_def)

lemma split_on_nonempty [simp]: "split_on d s \<noteq> []"
  by (induction s) (auto split: list.splits)

lemma split_on_no_sep: "w \<in> set (split_on d s) \<Longrightarrow> d \<notin> set w"
proof (induction s arbitrary: w)
  case (Cons c cs)
  then show ?case
    by (cases "split_on d cs") (auto split: if_splits)
qed simp

lemma split_on_single: "d \<notin> set s \<Longrightarrow> split_on d s = [s]"
  by (induction s) auto

lemma split_on_append: "d \<notin> set w \<Longrightarrow> split_on d (w @ d # s) = w # split_on d s"
  by (induction w) auto

lemma split_join: "ws \<noteq> [] \<Longrightarrow> \<forall>w \<in> set ws. d \<notin> set w \<Longrightarrow> split_on d (join_with d ws) = ws"
  by (induction d ws rule: join_with.induct) (simp_all add: split_on_single split_on_append)

lemma lstrip_id: "s = [] \<or> \<not> is_space (hd s) \<Longrightarrow> lstrip s = s"
  by (cases s) (auto simp: lstrip_def)

lemma strip_id: "s = [] \<or> (\<not> is_space (hd s) \<and> \<not> is_space (last s)) \<Longrightarrow> strip s = s"
  by (cases s rule: rev_cases) (auto simp: strip_def lstrip_id)

section \<open>UTF-8\<close>

text \<open>\<^verbatim>\<open>s.encode('utf-8')\<close>; the characters of a text are the code points below 256.\<close>

definition utf8_char :: "char \<Rightarrow> string" where
  "utf8_char c =
     (if cval c < 128 then [c] else [char_of (192 + cval c div 64), char_of (128 + cval c mod 64)])"

definition utf8_encode :: "string \<Rightarrow> string" where
  "utf8_encode s = concat (map utf8_char s)"

lemma utf8_encode_ascii: "\<forall>c \<in> set s. cval c < 128 \<Longrightarrow> utf8_encode s = s"
  by (induction s) (simp_all add: utf8_encode_def utf8_char_def)

section \<open>Anchored patterns\<close>

text \<open>A pattern maps a text to the rests that may remain after a match at its start.  Matching of
  an anchored pattern asks for a rest that is empty (or the newline \<^verbatim>\<open>$\<close> admits), so the order of
  the alternatives does not matter.\<close>

type_synonym pat = "string \<Rightarrow> string list"

fun p_set :: "(char \<Rightarrow> bool) \<Rightarrow> pat" where
  "p_set P [] = []"
| "p_set P (c # cs) = (if P c then [cs] else [])"

definition p_lit :: "string \<Rightarrow> pat" where
  "p_lit l s = (if startswith s l then [drop (length l) s] else [])"

definition p_seq :: "pat \<Rightarrow> pat \<Rightarrow> pat" where
  "p_seq p q s = concat (map q (p s))"

definition p_alt :: "pat \<Rightarrow> pat \<Rightarrow> pat" where
  "p_alt p q s = p s @ q s"

definition p_opt :: "pat \<Rightarrow> pat" where
  "p_opt p s = s # p s"

text \<open>\<^verbatim>\<open>{0,n}\<close>, and \<^verbatim>\<open>*\<close> for a pattern that consumes at least one character.\<close>

fun p_upto :: "nat \<Rightarrow> pat \<Rightarrow> pat" where
  "p_upto 0 p s = [s]"
| "p_upto (Suc n) p s = remdups (s # concat (map (p_upto n p) (p s)))"

definition p_star :: "pat \<Rightarrow> pat" where
  "p_star p s = p_upto (length s) p s"

definition p_plus :: "pat \<Rightarrow> pat" where
  "p_plus p = p_seq p (p_star p)"

fun p_times :: "nat \<Rightarrow> pat \<Rightarrow> pat" where
  "p_times 0 p = (\<lambda>s. [s])"
| "p_times (Suc n) p = p_seq p (p_times n p)"

fun p_all :: "pat list \<Rightarrow> pat" where
  "p_all [] = (\<lambda>s. [s])"
| "p_all (p # ps) = p_seq p (p_all ps)"

definition match_dollar :: "pat \<Rightarrow> string \<Rightarrow> bool" where
  "match_dollar p s \<longleftrightarrow> [] \<in> set (p s) \<or> [CHR 0x0A] \<in> set (p s)"

section \<open>Printing and reading integers\<close>

definition digit_char :: "nat \<Rightarrow> char" where
  "digit_char d = char_of (if d < 10 then 48 + d else 87 + d)"

definition digit_val :: "char \<Rightarrow> nat option" where
  "digit_val c =
     (if is_digit c then Some (cval c - 48)
      else if is_lower c then Some (cval c - 87)
      else if is_upper c then Some (cval c - 55)
      else None)"

function radix_str :: "nat \<Rightarrow> nat \<Rightarrow> string" where
  "radix_str b n =
     (if n < b \<or> b < 2 then [digit_char n] else radix_str b (n div b) @ [digit_char (n mod b)])"
  by pat_completeness auto
termination
  by (relation "measure snd") (auto simp: not_less)

declare radix_str.simps [simp del]

text \<open>\<^verbatim>\<open>str(i)\<close> and \<^verbatim>\<open>'%x' % i\<close>.\<close>

definition str_int :: "int \<Rightarrow> string" where
  "str_int i = (if i < 0 then CHR ''-'' # radix_str 10 (nat (- i)) else radix_str 10 (nat i))"

definition hex_int :: "int \<Rightarrow> string" where
  "hex_int i = (if i < 0 then CHR ''-'' # radix_str 16 (nat (- i)) else radix_str 16 (nat i))"

text \<open>Digits with single underscores between them; \<open>prev\<close> says that the last character read
  was a digit.\<close>

fun digits_val :: "nat \<Rightarrow> nat \<Rightarrow> bool \<Rightarrow> string \<Rightarrow> nat option" where
  "digits_val b acc prev [] = (if prev then Some acc else None)"
| "digits_val b acc prev (c # cs) =
     (if c = CHR ''_'' then (if prev then digits_val b acc False cs else None)
      else case digit_val c of
             None \<Rightarrow> None
           | Some d \<Rightarrow> if d < b then digits_val b (acc * b + d) True cs else None)"

definition drop_underscore :: "string \<Rightarrow> string" where
  "drop_underscore s = (case s of c # cs \<Rightarrow> if c = CHR ''_'' then cs else s | [] \<Rightarrow> s)"

definition int_body :: "nat \<Rightarrow> string \<Rightarrow> nat option" where
  "int_body b s =
     (if b = 16 \<and> startswith (lower s) ''0x'' then digits_val b 0 False (drop_underscore (drop 2 s))
      else digits_val b 0 False s)"

definition py_int :: "nat \<Rightarrow> string \<Rightarrow> int res" where
  "py_int b s =
     (let t = strip s;
          neg = startswith t ''-'';
          body = (if neg \<or> startswith t ''+'' then tl t else t)
      in case int_body b body of
           None \<Rightarrow> Inl ValueError
         | Some n \<Rightarrow> Inr (if neg then - int n else int n))"

lemma digit_char_cval: "d < 16 \<Longrightarrow> cval (digit_char d) = (if d < 10 then 48 + d else 87 + d)"
  by (simp add: digit_char_def cval_char_of)

lemma digit_val_digit_char [simp]: "d < 16 \<Longrightarrow> digit_val (digit_char d) = Some d"
  by (auto simp: digit_val_def is_digit_def is_lower_def is_upper_def digit_char_cval)

lemma digit_char_not:
  assumes "d < 16"
  shows "digit_char d \<noteq> CHR ''_''" "digit_char d \<noteq> CHR ''-''" "digit_char d \<noteq> CHR ''+''"
    "\<not> is_space (digit_char d)" "digit_char d \<noteq> CHR '':''"
  using digit_char_cval[OF assms] assms by (auto simp: cval_def is_space_def split: if_splits)

lemma cval_to_upper: "is_lower c \<Longrightarrow> cval (to_upper c) = cval c - 32"
proof -
  assume "is_lower c"
  moreover from this have "cval c - 32 < 256" unfolding is_lower_def by linarith
  ultimately show ?thesis by (simp add: to_upper_def cval_char_of)
qed

lemma digit_val_upper: "digit_val (to_upper c) = digit_val c"
proof (cases "is_lower c")
  case True
  then have "cval (to_upper c) = cval c - 32" by (rule cval_to_upper)
  with True show ?thesis by (auto simp: digit_val_def is_digit_def is_lower_def is_upper_def)
qed (simp add: to_upper_def)

lemma to_upper_underscore: "to_upper c = CHR ''_'' \<longleftrightarrow> c = CHR ''_''"
proof (cases "is_lower c")
  case True
  then have "cval (to_upper c) \<le> 90" "97 \<le> cval c" using cval_to_upper[OF True] unfolding is_lower_def by linarith+
  moreover have "cval (CHR ''_'') = 95" by (simp add: cval_def)
  ultimately have "to_upper c \<noteq> CHR ''_''" "c \<noteq> CHR ''_''" by force+
  then show ?thesis by simp
qed (simp add: to_upper_def)

lemma digits_val_upper: "digits_val b acc prev (upper s) = digits_val b acc prev s"
  by (induction s arbitrary: acc prev) (auto simp: digit_val_upper to_upper_underscore split: option.splits)

lemma digits_val_snoc:
  "digits_val b acc prev s = Some n \<Longrightarrow> d < b \<Longrightarrow> d < 16 \<Longrightarrow>
   digits_val b acc prev (s @ [digit_char d]) = Some (n * b + d)"
  by (induction b acc prev s rule: digits_val.induct)
    (auto simp: digit_char_not split: option.splits if_splits)

lemma radix_str_set: "2 \<le> b \<Longrightarrow> c \<in> set (radix_str b n) \<Longrightarrow> \<exists>d < b. c = digit_char d"
proof (induction b n rule: radix_str.induct)
  case (1 b n)
  show ?case
  proof (cases "n < b")
    case True
    with 1 show ?thesis by (auto simp: radix_str.simps[of b n])
  next
    case False
    with "1.prems" have "c \<in> set (radix_str b (n div b)) \<or> c = digit_char (n mod b)"
      by (auto simp: radix_str.simps[of b n])
    with "1.IH" "1.prems" False show ?thesis by (auto intro: exI[of _ "n mod b"])
  qed
qed

lemma radix_str_nonempty [simp]: "radix_str b n \<noteq> []"
  by (subst radix_str.simps) simp

lemma digits_val_radix_str:
  "2 \<le> b \<Longrightarrow> b \<le> 16 \<Longrightarrow> digits_val b 0 False (radix_str b n) = Some n"
proof (induction b n rule: radix_str.induct)
  case (1 b n)
  show ?case
  proof (cases "n < b")
    case True
    with "1.prems" show ?thesis
      by (simp add: radix_str.simps[of b n] digit_char_not)
  next
    case False
    with 1 have "digits_val b 0 False (radix_str b (n div b)) = Some (n div b)" by simp
    moreover have "n mod b < b" "n mod b < 16"
      using "1.prems" mod_less_divisor[of b n] by linarith+
    ultimately show ?thesis
      using "1.prems" False digits_val_snoc by (simp add: radix_str.simps[of b n] div_mult_mod_eq)
  qed
qed

lemma radix_str_clean:
  assumes "2 \<le> b" "b \<le> 16" "c \<in> set (radix_str b n)"
  shows "c \<noteq> CHR ''-''" "c \<noteq> CHR ''+''" "\<not> is_space c" "c \<noteq> CHR '':''" "to_lower c \<noteq> CHR ''x''"
proof -
  obtain d where d: "d < b" "c = digit_char d" using radix_str_set assms by blast
  then have "d < 16" using assms by simp
  then show "c \<noteq> CHR ''-''" "c \<noteq> CHR ''+''" "\<not> is_space c" "c \<noteq> CHR '':''" "to_lower c \<noteq> CHR ''x''"
    using d digit_char_not digit_char_cval[of d]
    by (auto simp: to_lower_def is_upper_def cval_def split: if_splits)
qed

lemma hd_last_in: "s \<noteq> [] \<Longrightarrow> hd s \<in> set s \<and> last s \<in> set s"
  by simp

lemma startswith_single: "s \<noteq> [] \<Longrightarrow> startswith s [c] \<longleftrightarrow> hd s = c"
  by (cases s) (auto simp: startswith_def)

lemma radix_str_no_0x:
  assumes "2 \<le> b" "b \<le> 16" shows "\<not> startswith (lower (radix_str b n)) ''0x''"
proof
  let ?s = "radix_str b n"
  assume "startswith (lower ?s) ''0x''"
  then have "CHR ''x'' \<in> set (take (length ''0x'') (lower ?s))"
    unfolding startswith_def by (simp only:) simp
  then have "CHR ''x'' \<in> set (lower ?s)" by (rule in_set_takeD)
  then obtain c where "c \<in> set ?s" "to_lower c = CHR ''x''" by auto
  then show False using radix_str_clean(5)[OF assms] by blast
qed

text \<open>Reading back a printed integer gives the integer.\<close>

lemma py_int_str_nat:
  assumes "2 \<le> b" "b \<le> 16" shows "py_int b (radix_str b n) = Inr (int n)"
proof -
  let ?s = "radix_str b n"
  have ne: "?s \<noteq> []" by simp
  have hl: "hd ?s \<in> set ?s" "last ?s \<in> set ?s" using hd_last_in[OF ne] by auto
  note h = radix_str_clean[OF assms hl(1)] and l = radix_str_clean[OF assms hl(2)]
  have st: "strip ?s = ?s" using h(3) l(3) by (intro strip_id) simp
  have x: "\<not> startswith (lower ?s) ''0x''" by (rule radix_str_no_0x[OF assms])
  show ?thesis
    using h ne x by (simp add: py_int_def st startswith_single int_body_def
        digits_val_radix_str[OF assms])
qed

lemma py_int_str_int: "py_int 10 (str_int i) = Inr i"
proof (cases "i < 0")
  case True
  let ?s = "radix_str 10 (nat (- i))"
  have ne: "?s \<noteq> []" by simp
  have l: "last ?s \<in> set ?s" using hd_last_in[OF ne] by auto
  have sp: "\<not> is_space (CHR ''-'')" by (simp add: is_space_def cval_def)
  have "strip (CHR ''-'' # ?s) = CHR ''-'' # ?s"
    using radix_str_clean(3)[OF _ _ l] sp by (intro strip_id) simp
  with True show ?thesis
    by (simp add: str_int_def py_int_def startswith_def int_body_def digits_val_radix_str)
qed (simp add: str_int_def py_int_str_nat)

lemma str_int_inj: "str_int i = str_int j \<Longrightarrow> i = j"
  using py_int_str_int by (metis sum.inject(2))

end
