(* ===== verification/Ip_Match.thy ===== *)
theory Ip_Match
  imports Py_Text
begin

text \<open>
  The IP whitelist of SMPP server users (\<^verbatim>\<open>jasmin/tools/ipmatch.py\<close>).  The parsing of addresses and
  networks follows \<^verbatim>\<open>ipaddress.ip_address\<close> and \<^verbatim>\<open>ipaddress.ip_network(..., strict=False)\<close> of the
  standard library: dotted quads without leading zeros, prefix lengths, netmasks and hostmasks for
  IPv4; eight hextets with at most one \<^verbatim>\<open>::\<close>, an embedded IPv4 tail and a scope id for IPv6.  A
  parser returns \<^const>\<open>None\<close> where the library raises a \<^verbatim>\<open>ValueError\<close>, which is the exception
  the code catches.
\<close>

section \<open>Addresses and networks of the standard library\<close>

datatype ipver = V4 | V6

fun width :: "ipver \<Rightarrow> nat" where
  "width V4 = 32"
| "width V6 = 128"

type_synonym address = "ipver \<times> nat"
type_synonym network = "ipver \<times> nat \<times> nat"

definition parse_octet :: "string \<Rightarrow> nat option" where
  "parse_octet s =
     (if s = [] \<or> \<not> list_all is_digit s \<or> 3 < length s then None
      else if s \<noteq> ''0'' \<and> hd s = CHR ''0'' then None
      else case digits_val 10 0 False s of
             Some n \<Rightarrow> if n \<le> 255 then Some n else None
           | None \<Rightarrow> None)"

fun fold_parts :: "(string \<Rightarrow> nat option) \<Rightarrow> nat \<Rightarrow> nat \<Rightarrow> string list \<Rightarrow> nat option" where
  "fold_parts f b acc [] = Some acc"
| "fold_parts f b acc (s # ss) =
     (case f s of None \<Rightarrow> None | Some n \<Rightarrow> fold_parts f b (acc * b + n) ss)"

definition ipv4_int :: "string \<Rightarrow> nat option" where
  "ipv4_int s =
     (let os = split_on (CHR ''.'') s
      in if length os = 4 then fold_parts parse_octet 256 0 os else None)"

definition parse_hextet :: "string \<Rightarrow> nat option" where
  "parse_hextet s =
     (if CHR ''_'' \<in> set s \<or> 4 < length s then None else digits_val 16 0 False s)"

text \<open>The dotted tail of an IPv6 address is replaced by the two hextets it stands for.\<close>

definition ipv6_parts :: "string \<Rightarrow> string list option" where
  "ipv6_parts s =
     (let ps = split_on (CHR '':'') s
      in if length ps < 3 then None
         else if CHR ''.'' \<in> set (last ps) then
           (case ipv4_int (last ps) of
              None \<Rightarrow> None
            | Some n \<Rightarrow> Some (butlast ps @ [radix_str 16 (n div 65536), radix_str 16 (n mod 65536)]))
         else Some ps)"

definition ipv6_int :: "string \<Rightarrow> nat option" where
  "ipv6_int s =
     (case ipv6_parts s of
        None \<Rightarrow> None
      | Some ps \<Rightarrow>
          (let n = length ps;
               gaps = filter (\<lambda>i. ps ! i = []) [1..<n - 1]
           in if 9 < n then None
              else case gaps of
                [] \<Rightarrow> if n = 8 \<and> hd ps \<noteq> [] \<and> last ps \<noteq> []
                      then fold_parts parse_hextet 65536 0 ps else None
              | [k] \<Rightarrow>
                  (let hi = (if hd ps = [] then k - 1 else k);
                       lo = (if last ps = [] then n - k - 2 else n - k - 1)
                   in if hd ps = [] \<and> hi \<noteq> 0 \<or> last ps = [] \<and> lo \<noteq> 0 \<or> 7 < hi + lo then None
                      else case fold_parts parse_hextet 65536 0 (take hi ps) of
                             None \<Rightarrow> None
                           | Some a \<Rightarrow>
                               fold_parts parse_hextet 65536 (a * 65536 ^ (8 - (hi + lo)))
                                 (drop (n - lo) ps))
              | _ \<Rightarrow> None))"

text \<open>\<^verbatim>\<open>addr%scope\<close>: the scope id is dropped, an empty one is an error.\<close>

definition split_scope :: "string \<Rightarrow> string option" where
  "split_scope s =
     (case split_on (CHR ''%'') s of
        [a] \<Rightarrow> Some a
      | [a, z] \<Rightarrow> if z = [] then None else Some a
      | _ \<Rightarrow> None)"

definition ipv6_scoped :: "string \<Rightarrow> nat option" where
  "ipv6_scoped s = Option.bind (split_scope s) ipv6_int"

definition ip_address :: "string \<Rightarrow> address option" where
  "ip_address s =
     (if CHR ''/'' \<in> set s then None
      else case ipv4_int s of
             Some n \<Rightarrow> Some (V4, n)
           | None \<Rightarrow> map_option (Pair V6) (ipv6_scoped s))"

definition prefix_string :: "ipver \<Rightarrow> string \<Rightarrow> nat option" where
  "prefix_string v s =
     (if s \<noteq> [] \<and> list_all is_digit s then
        (case digits_val 10 0 False s of
           Some p \<Rightarrow> if p \<le> width v then Some p else None
         | None \<Rightarrow> None)
      else None)"

definition mask_prefix :: "nat \<Rightarrow> nat option" where
  "mask_prefix n = find (\<lambda>p. n = 2 ^ 32 - 2 ^ (32 - p)) [0..<33]"

definition ipv4_prefix :: "string \<Rightarrow> nat option" where
  "ipv4_prefix s =
     (case prefix_string V4 s of
        Some p \<Rightarrow> Some p
      | None \<Rightarrow>
          (case ipv4_int s of
             None \<Rightarrow> None
           | Some n \<Rightarrow>
               (case mask_prefix n of
                  Some p \<Rightarrow> Some p
                | None \<Rightarrow> mask_prefix (2 ^ 32 - 1 - n))))"

definition mk_network :: "ipver \<Rightarrow> nat \<Rightarrow> nat \<Rightarrow> network" where
  "mk_network v a p = (v, a div 2 ^ (width v - p) * 2 ^ (width v - p), p)"

definition net_of :: "ipver \<Rightarrow> (string \<Rightarrow> nat option) \<Rightarrow> (string \<Rightarrow> nat option) \<Rightarrow> string \<Rightarrow> network option" where
  "net_of v addr pref s =
     (case split_on (CHR ''/'') s of
        [a] \<Rightarrow> map_option (\<lambda>n. mk_network v n (width v)) (addr a)
      | [a, p] \<Rightarrow>
          (case addr a of
             None \<Rightarrow> None
           | Some n \<Rightarrow> map_option (mk_network v n) (pref p))
      | _ \<Rightarrow> None)"

definition ip_network :: "string \<Rightarrow> network option" where
  "ip_network s =
     (case net_of V4 ipv4_int ipv4_prefix s of
        Some n \<Rightarrow> Some n
      | None \<Rightarrow> net_of V6 ipv6_scoped (prefix_string V6) s)"

text \<open>\<^verbatim>\<open>addr in net\<close>, for an address of the network's version.\<close>

definition in_network :: "nat \<Rightarrow> network \<Rightarrow> bool" where
  "in_network a net =
     (case net of (v, n, p) \<Rightarrow> a div 2 ^ (width v - p) * 2 ^ (width v - p) = n)"

section \<open>The whitelist\<close>

text \<open>\<^verbatim>\<open>None\<close> and the empty string are both no whitelist.\<close>

definition wl_split :: "string option \<Rightarrow> string list" where
  "wl_split w =
     (case w of
        None \<Rightarrow> []
      | Some s \<Rightarrow> if s = [] then [] else filter (\<lambda>p. p \<noteq> []) (map strip (split_on (CHR '','') s)))"

definition parse_networks :: "string option \<Rightarrow> network list" where
  "parse_networks w = List.map_filter ip_network (wl_split w)"

definition validate_whitelist :: "string option \<Rightarrow> bool" where
  "validate_whitelist w =
     (let parts = wl_split w
      in parts \<noteq> [] \<and> list_all (\<lambda>e. ip_network e \<noteq> None) parts)"

fun any_network :: "address \<Rightarrow> network list \<Rightarrow> bool" where
  "any_network a [] = False"
| "any_network a (n # ns) =
     (if fst a \<noteq> fst n then any_network a ns
      else if in_network (snd a) n then True
      else any_network a ns)"

definition is_ip_allowed :: "string option \<Rightarrow> string option \<Rightarrow> bool" where
  "is_ip_allowed ip w =
     (case (ip, w) of
        (Some i, Some s) \<Rightarrow>
          (if i = [] \<or> s = [] then False
           else case ip_address i of
                  None \<Rightarrow> False
                | Some a \<Rightarrow> any_network a (parse_networks w))
      | _ \<Rightarrow> False)"

section \<open>Lemmas\<close>

lemma any_network_iff:
  "any_network a ns \<longleftrightarrow> (\<exists>n \<in> set ns. fst n = fst a \<and> in_network (snd a) n)"
  by (induction ns) auto

lemma set_parse_networks: "set (parse_networks w) = {n. \<exists>e \<in> set (wl_split w). ip_network e = Some n}"
  by (force simp: parse_networks_def List.map_filter_def)

lemma fold_parts_bound:
  assumes "\<And>s n. f s = Some n \<Longrightarrow> n < b"
  shows "fold_parts f b acc ss = Some m \<Longrightarrow> acc < b ^ k \<Longrightarrow> m < b ^ (k + length ss)"
proof (induction ss arbitrary: acc k)
  case (Cons s ss)
  from Cons.prems obtain n where n: "f s = Some n" "fold_parts f b (acc * b + n) ss = Some m"
    by (auto split: option.splits)
  have "acc * b + n < acc * b + b" using assms[OF n(1)] by simp
  also have "\<dots> = Suc acc * b" by simp
  also have "\<dots> \<le> b ^ k * b" using Cons.prems(2) by (intro mult_le_mono1) simp
  finally have "acc * b + n < b ^ Suc k" by (simp add: mult.commute)
  from Cons.IH[OF n(2) this] show ?case by simp
qed simp

lemma ipv4_int_bound:
  assumes "ipv4_int s = Some n" shows "n < 2 ^ 32"
proof -
  have o: "parse_octet t = Some k \<Longrightarrow> k < 256" for t k
    by (auto simp: parse_octet_def split: if_splits option.splits)
  have f: "fold_parts parse_octet 256 0 (split_on (CHR ''.'') s) = Some n"
    and l: "length (split_on (CHR ''.'') s) = 4"
    using assms by (auto simp: ipv4_int_def Let_def split: if_splits)
  have "n < 256 ^ (0 + length (split_on (CHR ''.'') s))"
    by (rule fold_parts_bound[OF o f]) simp_all
  then show ?thesis using l by simp
qed

lemma in_network_mk: "in_network a (mk_network v n p) \<longleftrightarrow>
   a div 2 ^ (width v - p) = n div 2 ^ (width v - p)"
  by (simp add: in_network_def mk_network_def)

lemma wl_split_nonempty_entries: "e \<in> set (wl_split w) \<Longrightarrow> e \<noteq> []"
  by (auto simp: wl_split_def split: option.splits if_splits)

lemma map_filter_total:
  "\<forall>e \<in> set es. f e \<noteq> None \<Longrightarrow> map Some (List.map_filter f es) = map f es"
  by (induction es) (auto simp: List.map_filter_simps split: option.splits)

lemma parse_networks_validated:
  "validate_whitelist w \<Longrightarrow> map Some (parse_networks w) = map ip_network (wl_split w)"
  unfolding parse_networks_def
  by (rule map_filter_total) (simp add: validate_whitelist_def Let_def list_all_iff)

text \<open>
  Claim C9.  A peer is let in exactly when its address parses and some entry of the whitelist, split at
  commas and stripped, is a network of the same IP version that contains it; a malformed entry
  neither admits anyone nor hides the other entries.
\<close>

theorem is_ip_allowed_correct:
  "is_ip_allowed (Some ip) (Some w) \<longleftrightarrow>
     (\<exists>v a e n p. ip_address ip = Some (v, a) \<and> e \<in> set (wl_split (Some w)) \<and>
        ip_network e = Some (v, n, p) \<and> in_network a (v, n, p))"
proof (cases "ip = [] \<or> w = []")
  case True
  have "ip_address [] = None" by code_simp
  with True show ?thesis by (auto simp: is_ip_allowed_def wl_split_def)
next
  case False
  then show ?thesis
    by (auto simp: is_ip_allowed_def any_network_iff set_parse_networks split: option.splits)
qed

end
