(* ===== verification/Credentials.thy ===== *)
theory Credentials
  imports Py_Float Ip_Match
begin

text \<open>
  Users, groups, credentials and connectors (\<^verbatim>\<open>jasmin/routing/jasminApi.py\<close>).  A credential is
  four dictionaries and the dirty flag the persistence timer reads; \<open>MtMessagingCredential\<close> and
  \<open>SmppsCredential\<close> build the two kinds the code has.  The invariants \<open>mt_ok\<close> and \<open>smpps_ok\<close> say
  what the setters let through.  A compiled value filter is represented by the pattern it was
  compiled from; \<open>re_ok\<close> says which patterns \<^verbatim>\<open>re.compile\<close> accepts and \<open>md5\<close> is the digest
  function of passwords.
\<close>

section \<open>Credentials\<close>

record credential =
  authorizations :: "(string, pyval) dict"
  value_filters :: "(string, pyval) dict"
  defaults :: "(string, pyval) dict"
  quotas :: "(string, pyval) dict"
  quotas_updated :: bool

definition setAuthorization :: "string \<Rightarrow> pyval \<Rightarrow> credential \<Rightarrow> credential res" where
  "setAuthorization key v c =
     raise_if (\<not> has_key (authorizations c) key) JasminApiCredentialError
      (raise_if (\<not> is_bool v) JasminApiCredentialError
        (Inr (c\<lparr>authorizations := dset (authorizations c) key v\<rparr>)))"

definition cred_get :: "(string, pyval) dict \<Rightarrow> string \<Rightarrow> pyval res" where
  "cred_get d key = (case map_of d key of None \<Rightarrow> Inl JasminApiCredentialError | Some v \<Rightarrow> Inr v)"

definition getAuthorization :: "string \<Rightarrow> credential \<Rightarrow> pyval res" where
  "getAuthorization key c = cred_get (authorizations c) key"

definition setValueFilter :: "(string \<Rightarrow> bool) \<Rightarrow> string \<Rightarrow> pyval \<Rightarrow> credential \<Rightarrow> credential res" where
  "setValueFilter re_ok key v c =
     raise_if (\<not> has_key (value_filters c) key) JasminApiCredentialError
      (case v of
         PStr p \<Rightarrow> raise_if (\<not> re_ok p) ReError
                    (Inr (c\<lparr>value_filters := dset (value_filters c) key v\<rparr>))
       | PBytes p \<Rightarrow> raise_if (\<not> re_ok p) ReError
                    (Inr (c\<lparr>value_filters := dset (value_filters c) key v\<rparr>))
       | _ \<Rightarrow> Inl JasminApiCredentialError)"

definition getValueFilter :: "string \<Rightarrow> credential \<Rightarrow> pyval res" where
  "getValueFilter key c = cred_get (value_filters c) key"

definition setDefaultValue :: "string \<Rightarrow> pyval \<Rightarrow> credential \<Rightarrow> credential res" where
  "setDefaultValue key v c =
     raise_if (\<not> has_key (defaults c) key) JasminApiCredentialError
      (Inr (c\<lparr>defaults := dset (defaults c) key v\<rparr>))"

definition getDefaultValue :: "string \<Rightarrow> credential \<Rightarrow> pyval res" where
  "getDefaultValue key c = cred_get (defaults c) key"

definition setQuota :: "string \<Rightarrow> pyval \<Rightarrow> credential \<Rightarrow> credential res" where
  "setQuota key v c =
     raise_if (\<not> has_key (quotas c) key) JasminApiCredentialError
      (Inr (c\<lparr>quotas := dset (quotas c) key v\<rparr>))"

text \<open>An unlimited quota (\<^verbatim>\<open>None\<close>) starts at zero when it is first updated.\<close>

definition updateQuota :: "string \<Rightarrow> pyval \<Rightarrow> credential \<Rightarrow> credential res" where
  "updateQuota key diff c =
     (case map_of (quotas c) key of
        None \<Rightarrow> Inl JasminApiCredentialError
      | Some old \<Rightarrow>
          raise_if (\<not> is_float diff \<and> \<not> is_int diff) JasminApiCredentialError
           (raise_if (is_int old \<and> is_float diff) JasminApiCredentialError
             (res_bind (py_add (if old = PNone then PInt 0 else old) diff) (\<lambda>new.
                Inr (c\<lparr>quotas := dset (quotas c) key new, quotas_updated := True\<rparr>)))))"

definition getQuota :: "string \<Rightarrow> credential \<Rightarrow> pyval res" where
  "getQuota key c = cred_get (quotas c) key"

subsection \<open>MT messaging credentials\<close>

definition MtMessagingCredential :: "pyval \<Rightarrow> credential" where
  "MtMessagingCredential default_authorizations =
     (let d = (if is_bool default_authorizations then default_authorizations else PBool False)
      in \<lparr>authorizations =
            [(''http_send'', d), (''http_bulk'', PBool False), (''http_balance'', d),
             (''http_rate'', d), (''smpps_send'', d), (''http_long_content'', d),
             (''set_dlr_level'', d), (''http_set_dlr_method'', d), (''set_source_address'', d),
             (''set_priority'', d), (''set_validity_period'', d), (''set_hex_content'', d),
             (''set_schedule_delivery_time'', d)],
          value_filters =
            [(''destination_address'', PBytes ''.*''), (''source_address'', PBytes ''.*''),
             (''priority'', PBytes ''^[0-3]$''), (''validity_period'', PBytes (''^'' @ CHR 0x5C # ''d+$'')),
             (''content'', PBytes ''.*'')],
          defaults = [(''source_address'', PNone)],
          quotas =
            [(''balance'', PNone), (''early_decrement_balance_percent'', PNone),
             (''submit_sm_count'', PNone), (''http_throughput'', PNone),
             (''smpps_throughput'', PNone)],
          quotas_updated = False\<rparr>)"

definition mt_quota_check :: "string \<Rightarrow> pyval \<Rightarrow> bool res" where
  "mt_quota_check key v =
     (if v = PNone then Inr False
      else if key = ''balance'' then py_lt v (PInt 0)
      else if key = ''early_decrement_balance_percent'' then
        res_bind (py_lt v (PInt 1)) (\<lambda>b. if b then Inr True else py_lt (PInt 100) v)
      else if key = ''submit_sm_count'' then
        res_bind (py_lt v (PInt 0)) (\<lambda>b. Inr (b \<or> \<not> is_int v))
      else if key \<in> {''http_throughput'', ''smpps_throughput''} then py_lt v (PInt 0)
      else Inr False)"

definition mt_setQuota :: "string \<Rightarrow> pyval \<Rightarrow> credential \<Rightarrow> credential res" where
  "mt_setQuota key v c =
     res_bind (mt_quota_check key v) (\<lambda>bad.
       raise_if bad JasminApiCredentialError (setQuota key v c))"

subsection \<open>SMPP server credentials\<close>

definition DEFAULT_IP_WHITELIST :: string where
  "DEFAULT_IP_WHITELIST = ''0.0.0.0/0''"

definition SmppsCredential :: "pyval \<Rightarrow> credential" where
  "SmppsCredential default_authorizations =
     (let d = (if is_bool default_authorizations then default_authorizations else PBool False)
      in \<lparr>authorizations = [(''bind'', d), (''ip'', PStr DEFAULT_IP_WHITELIST)],
          value_filters = [], defaults = [], quotas = [(''max_bindings'', PNone)],
          quotas_updated = False\<rparr>)"

text \<open>A value that is not a text never validates: \<^verbatim>\<open>None\<close>, \<^verbatim>\<open>0\<close> and the empty containers are an empty
  whitelist, and the printed form of any other object does not start with an address.\<close>

definition whitelist_ok :: "pyval \<Rightarrow> bool" where
  "whitelist_ok v = (case v of PStr s \<Rightarrow> validate_whitelist (Some s) | _ \<Rightarrow> False)"

definition smpps_setAuthorization :: "string \<Rightarrow> pyval \<Rightarrow> credential \<Rightarrow> credential res" where
  "smpps_setAuthorization key v c =
     (if key = ''ip'' then
        raise_if (\<not> whitelist_ok v) JasminApiCredentialError
         (Inr (c\<lparr>authorizations := dset (authorizations c) key v\<rparr>))
      else
        raise_if (\<not> has_key (authorizations c) key) JasminApiCredentialError
         (setAuthorization key v c))"

definition smpps_getAuthorization :: "string \<Rightarrow> credential \<Rightarrow> pyval res" where
  "smpps_getAuthorization key c =
     (if key = ''ip'' \<and> \<not> has_key (authorizations c) ''ip''
      then Inr (PStr DEFAULT_IP_WHITELIST)
      else getAuthorization key c)"

definition smpps_setQuota :: "string \<Rightarrow> pyval \<Rightarrow> credential \<Rightarrow> credential res" where
  "smpps_setQuota key v c =
     (if key = ''max_bindings'' \<and> v \<noteq> PNone then
        res_bind (py_lt v (PInt 0)) (\<lambda>b.
          raise_if (b \<or> \<not> is_int v) JasminApiCredentialError (setQuota key v c))
      else setQuota key v c)"

section \<open>Groups, users and their statistics\<close>

text \<open>The identifier patterns \<^verbatim>\<open>^[A-Za-z0-9_-]{lo,hi}$\<close>.\<close>

definition is_id_char :: "char \<Rightarrow> bool" where
  "is_id_char c \<longleftrightarrow> is_alnum c \<or> c = CHR ''_'' \<or> c = CHR ''-''"

definition id_match :: "nat \<Rightarrow> nat \<Rightarrow> string \<Rightarrow> bool" where
  "id_match lo hi = dollar (\<lambda>s. lo \<le> length s \<and> length s \<le> hi \<and> list_all is_id_char s)"

record group =
  g_gid :: string
  g_enabled :: bool

definition mk_Group :: "string \<Rightarrow> group res" where
  "mk_Group gid =
     raise_if (\<not> id_match 1 16 gid) JasminApiInvalidParamError
      (Inr \<lparr>g_gid = gid, g_enabled = True\<rparr>)"

definition group_disable :: "group \<Rightarrow> group" where
  "group_disable g = g\<lparr>g_enabled := False\<rparr>"

definition group_enable :: "group \<Rightarrow> group" where
  "group_enable g = g\<lparr>g_enabled := True\<rparr>"

record bound_peer =
  bp_session_id :: string
  bp_peer :: "string option"
  bp_bind_type :: string
  bp_bound_at :: int

record smpps_status =
  bind_count :: int
  unbind_count :: int
  bound_connections_count :: "(string, int) dict"
  bound_peer_ips :: "bound_peer list"
  submit_sm_request_count :: int
  last_activity_at :: int
  qos_last_submit_sm_at :: int
  submit_sm_count :: int
  deliver_sm_count :: int
  data_sm_count :: int
  elink_count :: int
  throttling_error_count :: int
  other_submit_error_count :: int

record httpapi_status =
  ha_connects_count :: int
  ha_last_activity_at :: int
  ha_submit_sm_request_count :: int
  ha_balance_request_count :: int
  ha_rate_request_count :: int
  ha_qos_last_submit_sm_at :: int

record cnx_status =
  cx_smpps :: smpps_status
  cx_httpapi :: httpapi_status

definition CnxStatus :: cnx_status where
  "CnxStatus =
     \<lparr>cx_smpps =
        \<lparr>bind_count = 0, unbind_count = 0,
         bound_connections_count =
           [(''bind_receiver'', 0), (''bind_transceiver'', 0), (''bind_transmitter'', 0)],
         bound_peer_ips = [], submit_sm_request_count = 0, last_activity_at = 0,
         qos_last_submit_sm_at = 0, submit_sm_count = 0, deliver_sm_count = 0,
         data_sm_count = 0, elink_count = 0, throttling_error_count = 0,
         other_submit_error_count = 0\<rparr>,
      cx_httpapi =
        \<lparr>ha_connects_count = 0, ha_last_activity_at = 0, ha_submit_sm_request_count = 0,
         ha_balance_request_count = 0, ha_rate_request_count = 0,
         ha_qos_last_submit_sm_at = 0\<rparr>\<rparr>"

text \<open>The \<^verbatim>\<open>UserStats\<close> singleton: connection statistics by uid, created on first use and never
  persisted.\<close>

type_synonym user_stats = "(string, cnx_status) dict"

definition stats_get :: "string \<Rightarrow> user_stats \<Rightarrow> cnx_status \<times> user_stats" where
  "stats_get uid st =
     (case map_of st uid of
        Some c \<Rightarrow> (c, st)
      | None \<Rightarrow> (CnxStatus, dset st uid CnxStatus))"

definition stats_set :: "string \<Rightarrow> cnx_status \<Rightarrow> user_stats \<Rightarrow> user_stats" where
  "stats_set uid c st = dset st uid c"

record user =
  u_uid :: string
  u_group :: group
  u_username :: "string option"
  u_password :: "string option"
  u_enabled :: bool
  u_mt :: credential
  u_smpps :: credential

definition encode_ascii :: "string \<Rightarrow> string res" where
  "encode_ascii s = raise_if (\<not> list_all (\<lambda>c. cval c < 128) s) UnicodeEncodeError (Inr s)"

definition user_password ::
  "(string \<Rightarrow> string) \<Rightarrow> string option \<Rightarrow> bool \<Rightarrow> string option res" where
  "user_password md5 password crypted =
     (case password of
        Some p \<Rightarrow>
          if crypted then Inr (Some p)
          else raise_if (length p = 0 \<or> length p > 16) JasminApiInvalidParamError
                (res_bind (encode_ascii p) (\<lambda>b. Inr (Some (md5 b))))
      | None \<Rightarrow> Inr None)"

definition mk_User ::
  "(string \<Rightarrow> string) \<Rightarrow> string \<Rightarrow> group \<Rightarrow> string option \<Rightarrow> string option \<Rightarrow>
   credential option \<Rightarrow> credential option \<Rightarrow> bool \<Rightarrow> user res" where
  "mk_User md5 uid grp username password mt smpps crypted =
     raise_if (\<not> id_match 1 16 uid) JasminApiInvalidParamError
      (raise_if (\<exists>n \<in> set_option username. \<not> id_match 1 15 n) JasminApiInvalidParamError
        (res_bind (user_password md5 password crypted) (\<lambda>pw.
           Inr \<lparr>u_uid = uid, u_group = grp, u_username = username, u_password = pw,
                u_enabled = True,
                u_mt = (case mt of Some c \<Rightarrow> c | None \<Rightarrow> MtMessagingCredential (PBool True)),
                u_smpps = (case smpps of Some c \<Rightarrow> c | None \<Rightarrow> SmppsCredential (PBool True))\<rparr>)))"

definition user_disable :: "user \<Rightarrow> user" where
  "user_disable u = u\<lparr>u_enabled := False\<rparr>"

definition user_enable :: "user \<Rightarrow> user" where
  "user_enable u = u\<lparr>u_enabled := True\<rparr>"

definition getCnxStatus :: "user \<Rightarrow> user_stats \<Rightarrow> cnx_status \<times> user_stats" where
  "getCnxStatus u = stats_get (u_uid u)"

definition setCnxStatus :: "user \<Rightarrow> cnx_status \<Rightarrow> user_stats \<Rightarrow> user_stats" where
  "setCnxStatus u c = stats_set (u_uid u) c"

section \<open>Connectors and interceptor scripts\<close>

datatype connector =
    HttpConnector (conn_cid: string) (conn_baseurl: string) (conn_method: string)
  | SmppClientConnector (conn_cid: string)
  | SmppServerSystemIdConnector (conn_cid: string)

fun conn_type :: "connector \<Rightarrow> string" where
  "conn_type (HttpConnector _ _ _) = ''http''"
| "conn_type (SmppClientConnector _) = ''smppc''"
| "conn_type (SmppServerSystemIdConnector _) = ''smpps''"

text \<open>The url pattern of an HTTP connector, matched without regard to case: a domain name,
  \<^verbatim>\<open>localhost\<close>, four groups of digits or something with a colon, an optional port and a path.\<close>

definition url_alnum :: "char \<Rightarrow> bool" where
  "url_alnum c \<longleftrightarrow> is_upper c \<or> is_digit c"

definition url_host :: pat where
  "url_host =
     (let an = p_set url_alnum;
          anh = p_set (\<lambda>c. url_alnum c \<or> c = CHR ''-'');
          dot = p_lit ''.'';
          d3 = p_seq (p_set is_digit) (p_upto 2 (p_set is_digit));
          hex = p_set (\<lambda>c. is_digit c \<or> c \<in> set ''ABCDEF'');
          label_dot = p_all [an, p_opt (p_all [p_upto 61 anh, an]), dot];
          tld = p_alt (p_all [p_times 2 (p_set is_upper), p_upto 4 (p_set is_upper), p_opt dot])
                      (p_all [p_times 2 anh, p_star anh, p_opt dot])
      in p_alt (p_all [p_plus label_dot, tld])
         (p_alt (p_lit ''LOCALHOST'')
         (p_alt (p_all [d3, dot, d3, dot, d3, dot, d3])
                (p_all [p_opt (p_lit ''[''), p_star hex, p_lit '':'',
                        p_plus (p_alt hex (p_lit '':'')), p_opt (p_lit '']'')]))))"

definition url_match :: "string \<Rightarrow> bool" where
  "url_match s =
     match_dollar
       (p_all [p_lit ''HTTP'', p_opt (p_lit ''S''), p_lit ''://'', url_host,
               p_opt (p_all [p_lit '':'', p_plus (p_set is_digit)]),
               p_alt (p_opt (p_lit ''/''))
                     (p_all [p_set (\<lambda>c. c = CHR ''/'' \<or> c = CHR ''?''),
                             p_plus (p_set (\<lambda>c. \<not> is_space c))])])
       (upper s)"

definition mk_HttpConnector :: "string \<Rightarrow> string \<Rightarrow> string \<Rightarrow> connector res" where
  "mk_HttpConnector cid baseurl method =
     raise_if (\<not> id_match 3 25 cid) JasminApiInvalidParamError
      (raise_if (lower method \<notin> {''get'', ''post''}) JasminApiInvalidParamError
        (raise_if (\<not> url_match baseurl) JasminApiInvalidParamError
          (Inr (HttpConnector cid baseurl method))))"

datatype script =
    MOInterceptorScript (script_code: string)
  | MTInterceptorScript (script_code: string)

fun script_type :: "script \<Rightarrow> string" where
  "script_type (MOInterceptorScript _) = ''moi''"
| "script_type (MTInterceptorScript _) = ''mti''"

section \<open>What the setters let through\<close>

text \<open>A quota is unlimited (\<^verbatim>\<open>None\<close>) or satisfies its range check.\<close>

definition quota_sat :: "(pyval \<Rightarrow> bool) \<Rightarrow> credential \<Rightarrow> string \<Rightarrow> bool" where
  "quota_sat P c key = (case map_of (quotas c) key of None \<Rightarrow> False | Some v \<Rightarrow> v = PNone \<or> P v)"

definition amount_ok :: "pyval \<Rightarrow> bool" where
  "amount_ok v \<longleftrightarrow> is_number v \<and> 0 \<le> num v \<and> is_double v"

definition percent_ok :: "pyval \<Rightarrow> bool" where
  "percent_ok v \<longleftrightarrow> is_number v \<and> 1 \<le> num v \<and> num v \<le> 100 \<and> is_double v"

definition count_ok :: "pyval \<Rightarrow> bool" where
  "count_ok v \<longleftrightarrow> is_int v \<and> 0 \<le> num v"

definition mt_ok :: "credential \<Rightarrow> bool" where
  "mt_ok c \<longleftrightarrow>
     quota_sat amount_ok c ''balance'' \<and>
     quota_sat percent_ok c ''early_decrement_balance_percent'' \<and>
     quota_sat count_ok c ''submit_sm_count'' \<and>
     quota_sat amount_ok c ''http_throughput'' \<and>
     quota_sat amount_ok c ''smpps_throughput'' \<and>
     list_all (\<lambda>(k, v). is_bool v) (authorizations c)"

fun smpps_auth_ok :: "string \<times> pyval \<Rightarrow> bool" where
  "smpps_auth_ok (k, v) = (if k = ''ip'' then whitelist_ok v else is_bool v)"

definition smpps_ok :: "credential \<Rightarrow> bool" where
  "smpps_ok c \<longleftrightarrow>
     quota_sat count_ok c ''max_bindings'' \<and>
     list_all smpps_auth_ok (authorizations c)"

lemmas quota_ok_defs = quota_sat_def amount_ok_def percent_ok_def count_ok_def

lemma cred_get_eq: "cred_get d k = Inr v \<longleftrightarrow> map_of d k = Some v"
  by (simp add: cred_get_def split: option.splits)

lemma is_double_int [simp]: "is_double (PInt i)" "is_double (PBool b)" "is_double PNone"
  by (simp_all add: is_double_def)

lemma list_all_dset:
  "list_all P d \<Longrightarrow> P (k, v) \<Longrightarrow> list_all P (dset d k v)"
  by (induction d) auto

lemma quota_sat_dset:
  "quota_sat P (c\<lparr>quotas := dset (quotas c) k v\<rparr>) j \<longleftrightarrow>
     (if j = k then v = PNone \<or> P v else quota_sat P c j)"
  by (simp add: quota_sat_def)

lemma quota_sat_other [simp]:
  "quota_sat P (c\<lparr>authorizations := a\<rparr>) j = quota_sat P c j"
  "quota_sat P (c\<lparr>value_filters := a\<rparr>) j = quota_sat P c j"
  "quota_sat P (c\<lparr>defaults := a\<rparr>) j = quota_sat P c j"
  "quota_sat P (c\<lparr>quotas_updated := b\<rparr>) j = quota_sat P c j"
  by (simp_all add: quota_sat_def)

lemma MtMessagingCredential_ok: "mt_ok (MtMessagingCredential d)"
  by (cases d) (simp_all add: mt_ok_def MtMessagingCredential_def quota_sat_def Let_def)

lemma mt_quota_check_sound:
  assumes "mt_quota_check k v = Inr False" "is_double v" "v \<noteq> PNone"
  shows "k = ''balance'' \<longrightarrow> amount_ok v" "k = ''early_decrement_balance_percent'' \<longrightarrow> percent_ok v"
    "k = ''submit_sm_count'' \<longrightarrow> count_ok v" "k = ''http_throughput'' \<longrightarrow> amount_ok v"
    "k = ''smpps_throughput'' \<longrightarrow> amount_ok v"
  using assms by (auto simp: mt_quota_check_def quota_ok_defs py_defs split: if_splits)

lemma mt_setQuota_Inr:
  "mt_setQuota k v c = Inr c' \<longleftrightarrow>
     mt_quota_check k v = Inr False \<and> has_key (quotas c) k \<and> c' = c\<lparr>quotas := dset (quotas c) k v\<rparr>"
  by (auto simp: mt_setQuota_def setQuota_def)

lemma mt_setQuota_ok:
  assumes "mt_ok c" "is_double v" "mt_setQuota k v c = Inr c'"
  shows "mt_ok c'"
  using assms mt_quota_check_sound[of k v] unfolding mt_setQuota_Inr
  by (cases "v = PNone") (simp_all add: mt_ok_def quota_sat_dset)

lemma setAuthorization_mt_ok:
  "mt_ok c \<Longrightarrow> setAuthorization k v c = Inr c' \<Longrightarrow> mt_ok c'"
  by (auto simp: setAuthorization_def mt_ok_def intro: list_all_dset)

lemma SmppsCredential_ok: "smpps_ok (SmppsCredential d)"
proof -
  have "whitelist_ok (PStr DEFAULT_IP_WHITELIST)" by code_simp
  then show ?thesis
    by (cases d) (simp_all add: smpps_ok_def SmppsCredential_def quota_sat_def Let_def)
qed

lemma smpps_setAuthorization_ok:
  "smpps_ok c \<Longrightarrow> smpps_setAuthorization k v c = Inr c' \<Longrightarrow> smpps_ok c'"
  by (auto simp: smpps_setAuthorization_def setAuthorization_def smpps_ok_def
      intro!: list_all_dset split: if_splits)

lemma smpps_setQuota_ok:
  "smpps_ok c \<Longrightarrow> smpps_setQuota k v c = Inr c' \<Longrightarrow> smpps_ok c'"
  by (auto simp: smpps_setQuota_def setQuota_def smpps_ok_def quota_sat_dset count_ok_def py_defs
      split: if_splits)

text \<open>
  Every value that the MT quota setter accepts is in its documented range: a successful
  \<^verbatim>\<open>setQuota\<close> keeps the credential well formed (balance and throughputs not negative, early decrement
  between 1 and 100 percent, message count a non-negative integer, every authorization a boolean),
  reads back as the value that was set, and leaves every other quota alone.
\<close>

theorem mt_setQuota_correct:
  assumes "mt_ok c" "is_double v" "mt_setQuota k v c = Inr c'"
  shows "mt_ok c' \<and> getQuota k c' = Inr v \<and> (\<forall>j. j \<noteq> k \<longrightarrow> getQuota j c' = getQuota j c)"
  using assms mt_setQuota_ok[OF assms]
  by (auto simp: mt_setQuota_Inr getQuota_def cred_get_def)

theorem mt_setQuota_correct_witness:
  "\<exists>c'. mt_setQuota ''balance'' (PInt 100) (MtMessagingCredential (PBool True)) = Inr c' \<and>
     mt_ok c' \<and> getQuota ''balance'' c' = Inr (PInt 100) \<and>
     (\<forall>j. j \<noteq> ''balance'' \<longrightarrow> getQuota j c' = getQuota j (MtMessagingCredential (PBool True)))"
proof -
  obtain c' where c': "mt_setQuota ''balance'' (PInt 100) (MtMessagingCredential (PBool True)) = Inr c'"
    by (simp add: mt_setQuota_def mt_quota_check_def setQuota_def py_defs has_key_def
        MtMessagingCredential_def Let_def)
  then show ?thesis
    using mt_setQuota_correct[OF MtMessagingCredential_ok _ c'] by simp
qed

text \<open>
  The IP whitelist of an SMPP server user is never empty and never malformed: on a well-formed
  credential \<^verbatim>\<open>getAuthorization('ip')\<close> returns a text that validates, also for credentials
  stored before the key existed, and every entry of it is a network that takes part in matching.
\<close>

theorem smpps_whitelist_valid:
  assumes "smpps_ok c"
  shows "\<exists>w. smpps_getAuthorization ''ip'' c = Inr (PStr w) \<and> validate_whitelist (Some w) \<and>
    map Some (parse_networks (Some w)) = map ip_network (wl_split (Some w)) \<and>
    parse_networks (Some w) \<noteq> []"
proof -
  have "\<exists>w. smpps_getAuthorization ''ip'' c = Inr (PStr w) \<and> validate_whitelist (Some w)"
  proof (cases "map_of (authorizations c) ''ip''")
    case None
    have "validate_whitelist (Some DEFAULT_IP_WHITELIST)" by code_simp
    with None show ?thesis by (simp add: smpps_getAuthorization_def has_key_def)
  next
    case (Some v)
    with assms have "whitelist_ok v"
      by (fastforce simp: smpps_ok_def list_all_iff dest: map_of_SomeD)
    with Some show ?thesis
      by (auto simp: smpps_getAuthorization_def has_key_def getAuthorization_def cred_get_def
          whitelist_ok_def split: pyval.splits)
  qed
  then obtain w where w: "smpps_getAuthorization ''ip'' c = Inr (PStr w)"
    "validate_whitelist (Some w)" by blast
  moreover from w(2) have "wl_split (Some w) \<noteq> []" by (simp add: validate_whitelist_def Let_def)
  ultimately show ?thesis using parse_networks_validated[OF w(2)] by fastforce
qed

theorem smpps_whitelist_valid_witness:
  "smpps_ok (SmppsCredential (PBool True)) \<and>
   (\<exists>w. smpps_getAuthorization ''ip'' (SmppsCredential (PBool True)) = Inr (PStr w) \<and>
      validate_whitelist (Some w) \<and>
      map Some (parse_networks (Some w)) = map ip_network (wl_split (Some w)) \<and>
      parse_networks (Some w) \<noteq> [])"
  using smpps_whitelist_valid[OF SmppsCredential_ok] SmppsCredential_ok by blast

text \<open>
  The default whitelist lets in exactly the peers with an IPv4 address: an IPv6 peer is
  refused by it, although the comment on the constant says that it matches everything.
\<close>

theorem default_whitelist_ipv4_only:
  "is_ip_allowed (Some ip) (Some DEFAULT_IP_WHITELIST) \<longleftrightarrow> (\<exists>n. ip_address ip = Some (V4, n))"
proof -
  have nets: "parse_networks (Some DEFAULT_IP_WHITELIST) = [(V4, 0, 0)]" by code_simp
  have bound: "n < 2 ^ 32" if "ip_address ip = Some (V4, n)" for n
    using that ipv4_int_bound[of ip] by (auto simp: ip_address_def split: if_splits option.splits)
  show ?thesis
  proof (cases "ip_address ip")
    case None
    then show ?thesis by (simp add: is_ip_allowed_def)
  next
    case (Some a)
    moreover have "ip \<noteq> []" using Some by (auto simp: ip_address_def ipv4_int_def ipv6_scoped_def
          split_scope_def ipv6_int_def ipv6_parts_def Let_def)
    moreover have "DEFAULT_IP_WHITELIST \<noteq> []" by (simp add: DEFAULT_IP_WHITELIST_def)
    ultimately show ?thesis using bound
      by (cases a; cases "fst a") (auto simp: is_ip_allowed_def nets in_network_def)
  qed
qed

end
