(* ===== verification/Billing.thy ===== *)
theory Billing
  imports Credentials
begin

text \<open>
  Bills (\<^verbatim>\<open>jasmin/routing/Bills.py\<close>) and the computation of the bill of a routed message
  (\<^verbatim>\<open>Route.getBillFor\<close> of \<^verbatim>\<open>jasmin/routing/Routes.py\<close>).  The unique bill id is an argument of the
  constructors.  Amounts are Python floats: the split of a rate into the part charged on submission
  and the part charged on the response goes through two roundings, and the lemmas bound what these
  roundings can do.
\<close>

section \<open>Bills\<close>

record bill =
  b_bid :: string
  b_user :: user
  b_amounts :: "(string, pyval) dict"
  b_actions :: "(string, pyval) dict"

definition Bill :: "string \<Rightarrow> user \<Rightarrow> bill" where
  "Bill bid u = \<lparr>b_bid = bid, b_user = u, b_amounts = [], b_actions = []\<rparr>"

definition getAmount :: "string \<Rightarrow> bill \<Rightarrow> pyval res" where
  "getAmount key b = (case map_of (b_amounts b) key of None \<Rightarrow> Inl InvalidBillKeyError | Some v \<Rightarrow> Inr v)"

fun sum_amounts :: "pyval \<Rightarrow> (string, pyval) dict \<Rightarrow> pyval res" where
  "sum_amounts acc [] = Inr acc"
| "sum_amounts acc ((k, v) # d) = res_bind (py_add acc v) (\<lambda>t. sum_amounts t d)"

definition getTotalAmounts :: "bill \<Rightarrow> pyval res" where
  "getTotalAmounts b = sum_amounts (PFloat 0) (b_amounts b)"

definition setAmount :: "string \<Rightarrow> pyval \<Rightarrow> bill \<Rightarrow> bill res" where
  "setAmount key amount b =
     raise_if (\<not> has_key (b_amounts b) key) InvalidBillKeyError
      (raise_if (\<not> is_int amount \<and> \<not> is_float amount) InvalidBillValueError
        (Inr (b\<lparr>b_amounts := dset (b_amounts b) key amount\<rparr>)))"

definition getAction :: "string \<Rightarrow> bill \<Rightarrow> pyval res" where
  "getAction key b = (case map_of (b_actions b) key of None \<Rightarrow> Inl InvalidBillKeyError | Some v \<Rightarrow> Inr v)"

definition setAction :: "string \<Rightarrow> pyval \<Rightarrow> bill \<Rightarrow> bill res" where
  "setAction key v b =
     raise_if (\<not> has_key (b_actions b) key) InvalidBillKeyError
      (raise_if (\<not> is_int v) InvalidBillValueError
        (Inr (b\<lparr>b_actions := dset (b_actions b) key v\<rparr>)))"

definition SubmitSmBill :: "string \<Rightarrow> user \<Rightarrow> bill" where
  "SubmitSmBill bid u =
     (Bill bid u)\<lparr>b_amounts := [(''submit_sm'', PFloat 0), (''submit_sm_resp'', PFloat 0)],
                  b_actions := [(''decrement_submit_sm_count'', PInt 0)]\<rparr>"

definition SubmitSmRespBill :: "string \<Rightarrow> user \<Rightarrow> bill" where
  "SubmitSmRespBill bid u = (Bill bid u)\<lparr>b_amounts := [(''submit_sm_resp'', PFloat 0)]\<rparr>"

definition getSubmitSmRespBill :: "string \<Rightarrow> bill \<Rightarrow> bill res" where
  "getSubmitSmRespBill bid b =
     res_bind (getAmount ''submit_sm_resp'' b) (\<lambda>a.
       setAmount ''submit_sm_resp'' a (SubmitSmRespBill bid (b_user b)))"

section \<open>The bill of a rate\<close>

definition bill_rate :: "pyval \<Rightarrow> user \<Rightarrow> bill \<Rightarrow> bill res" where
  "bill_rate rate u b =
     res_bind (py_lt (PInt 0) rate) (\<lambda>rated.
       if \<not> rated then Inr b
       else res_bind (getQuota ''balance'' (u_mt u)) (\<lambda>bal.
         if bal = PNone then Inr b
         else res_bind (getQuota ''early_decrement_balance_percent'' (u_mt u)) (\<lambda>early.
           if early \<noteq> PNone then
             res_bind (py_mul rate early) (\<lambda>p.
             res_bind (py_truediv p (PInt 100)) (\<lambda>a.
             res_bind (setAmount ''submit_sm'' a b) (\<lambda>b1.
             res_bind (getAmount ''submit_sm'' b1) (\<lambda>a1.
             res_bind (py_sub rate a1) (\<lambda>r.
             setAmount ''submit_sm_resp'' r b1)))))
           else
             res_bind (setAmount ''submit_sm'' rate b) (\<lambda>b1.
             setAmount ''submit_sm_resp'' (PInt 0) b1))))"

definition bill_count :: "user \<Rightarrow> bill \<Rightarrow> bill res" where
  "bill_count u b =
     res_bind (getQuota ''submit_sm_count'' (u_mt u)) (\<lambda>n.
       if n = PNone then Inr b else setAction ''decrement_submit_sm_count'' (PInt 1) b)"

definition bill_for_rate :: "string \<Rightarrow> pyval \<Rightarrow> user \<Rightarrow> bill res" where
  "bill_for_rate bid rate u =
     res_bind (bill_rate rate u (SubmitSmBill bid u)) (bill_count u)"

section \<open>Lemmas\<close>

lemma round_half_even_error: "\<bar>of_int (round_half_even x) - x\<bar> \<le> 1 / 2" for x :: rat
proof -
  have "of_int \<lfloor>x\<rfloor> \<le> x" "x < of_int \<lfloor>x\<rfloor> + 1" by linarith+
  then show ?thesis by (auto simp: round_half_even_def Let_def abs_le_iff)
qed

lemma fl_rel_error:
  assumes "0 \<le> x" shows "\<bar>fl x - x\<bar> \<le> x / 2 ^ 53"
proof (cases "x = 0")
  case False
  with assms have pos: "0 < x" by simp
  let ?u = "pow2 (ilog2 x - 52)"
  have "\<bar>of_int (round_half_even (x / ?u)) - x / ?u\<bar> \<le> 1 / 2"
    by (rule round_half_even_error)
  then have "\<bar>of_int (round_half_even (x / ?u)) - x / ?u\<bar> * \<bar>?u\<bar> \<le> ?u / 2"
    using mult_right_mono[of _ "1 / 2" "\<bar>?u\<bar>"] abs_of_pos[OF pow2_pos[of "ilog2 x - 52"]] by simp
  moreover have "fl x - x = (of_int (round_half_even (x / ?u)) - x / ?u) * ?u"
    using pos by (simp add: fl_def fl_pos_def Let_def algebra_simps)
  ultimately have "\<bar>fl x - x\<bar> \<le> ?u / 2" by (simp only: abs_mult)
  also have "?u = pow2 (ilog2 x) / 2 ^ 52"
    using pow2_add[of "ilog2 x - 52" 52] pow2_nat[of 52] by (simp add: field_simps)
  also have "pow2 (ilog2 x) / 2 ^ 52 / 2 \<le> x / 2 ^ 53"
    using ilog2_bounds[OF pos] by simp
  finally show ?thesis .
qed simp

lemma fl_le: "0 \<le> x \<Longrightarrow> fl x \<le> x * (1 + 1 / 2 ^ 53)"
  using fl_rel_error[of x] unfolding abs_le_iff by (simp add: algebra_simps)

lemma fl_percent [simp]: "fl 99 = 99" "fl 100 = 100"
  by code_simp+

text \<open>The part of the rate charged on submission, as the code computes it.\<close>

definition early_part :: "rat \<Rightarrow> rat \<Rightarrow> rat" where
  "early_part r e = fl (fl (r * e) / 100)"

lemma early_part_pos: "0 < r \<Longrightarrow> 0 < e \<Longrightarrow> 0 < early_part r e"
  by (simp add: early_part_def)

lemma early_part_less:
  assumes r: "0 < r" and e: "0 < e" "e \<le> 99"
  shows "early_part r e < r"
proof -
  let ?k = "1 + 1 / 2 ^ 53 :: rat"
  have "early_part r e \<le> fl (r * e) / 100 * ?k"
    unfolding early_part_def using r e by (intro fl_le) simp
  also have "\<dots> \<le> (r * e * ?k) / 100 * ?k"
    using r e by (intro mult_right_mono divide_right_mono fl_le) simp_all
  also have "\<dots> \<le> (r * 99 * ?k) / 100 * ?k"
    using r e by (intro mult_right_mono divide_right_mono mult_left_mono) simp_all
  also have "\<dots> < r" using r by (simp add: field_simps)
  finally show ?thesis .
qed

lemma getAmount_SubmitSmBill:
  "getAmount ''submit_sm'' (SubmitSmBill bid u) = Inr (PFloat 0)"
  "getAmount ''submit_sm_resp'' (SubmitSmBill bid u) = Inr (PFloat 0)"
  "getAction ''decrement_submit_sm_count'' (SubmitSmBill bid u) = Inr (PInt 0)"
  by (simp_all add: getAmount_def getAction_def SubmitSmBill_def Bill_def)

text \<open>The amounts and the action of a submission bill, in one triple.\<close>

definition bill_view :: "bill \<Rightarrow> pyval \<times> pyval \<times> pyval" where
  "bill_view b =
     (case (getAmount ''submit_sm'' b, getAmount ''submit_sm_resp'' b,
            getAction ''decrement_submit_sm_count'' b) of
        (Inr a, Inr r, Inr n) \<Rightarrow> (a, r, n)
      | _ \<Rightarrow> (PNone, PNone, PNone))"

lemmas bill_defs = bill_for_rate_def bill_rate_def bill_count_def SubmitSmBill_def Bill_def
  setAmount_def getAmount_def setAction_def getAction_def bill_view_def getQuota_def cred_get_def
  has_key_def

lemma mt_ok_quota:
  assumes "mt_ok c"
  shows "\<exists>b. map_of (quotas c) ''balance'' = Some b \<and> (b = PNone \<or> amount_ok b)"
    "\<exists>e. map_of (quotas c) ''early_decrement_balance_percent'' = Some e \<and> (e = PNone \<or> percent_ok e)"
    "\<exists>n. map_of (quotas c) ''submit_sm_count'' = Some n \<and> (n = PNone \<or> count_ok n)"
    "\<exists>t. map_of (quotas c) ''http_throughput'' = Some t \<and> (t = PNone \<or> amount_ok t)"
    "\<exists>t. map_of (quotas c) ''smpps_throughput'' = Some t \<and> (t = PNone \<or> amount_ok t)"
  using assms by (auto simp: mt_ok_def quota_sat_def split: option.splits)

text \<open>The bill a user gets, by the quotas that are limited.\<close>

definition expected_bill :: "rat \<Rightarrow> credential \<Rightarrow> pyval \<times> pyval \<times> pyval" where
  "expected_bill r c =
     (let (a, b) =
        (if r = 0 \<or> map_of (quotas c) ''balance'' = Some PNone then (PFloat 0, PFloat 0)
         else case map_of (quotas c) ''early_decrement_balance_percent'' of
                Some PNone \<Rightarrow> (PFloat r, PInt 0)
              | Some e \<Rightarrow> (PFloat (early_part r (to_float e)),
                          PFloat (fl (r - early_part r (to_float e))))
              | None \<Rightarrow> (PNone, PNone))
      in (a, b, if map_of (quotas c) ''submit_sm_count'' = Some PNone then PInt 0 else PInt 1))"

lemma bill_for_rate_expected:
  assumes "mt_ok (u_mt u)" "0 \<le> r"
  shows "\<exists>b. bill_for_rate bid (PFloat r) u = Inr b \<and> bill_view b = expected_bill r (u_mt u) \<and>
    b_user b = u \<and> b_bid b = bid"
proof -
  from mt_ok_quota[OF assms(1)] obtain bal e n where
    q: "map_of (quotas (u_mt u)) ''balance'' = Some bal"
    "map_of (quotas (u_mt u)) ''early_decrement_balance_percent'' = Some e" "e = PNone \<or> percent_ok e"
    "map_of (quotas (u_mt u)) ''submit_sm_count'' = Some n" by blast
  show ?thesis
  proof (cases "r = 0 \<or> bal = PNone \<or> e = PNone")
    case True
    with q assms(2) show ?thesis
      by (auto simp: bill_defs py_defs expected_bill_def Let_def)
  next
    case False
    with q(3) have "is_number e" "e \<noteq> PNone" by (auto simp: percent_ok_def)
    with False q assms(2) show ?thesis
      by (cases e) (auto simp: bill_defs py_defs expected_bill_def early_part_def Let_def)
  qed
qed

lemma percent_to_float:
  assumes "percent_ok e" "num e \<le> 99"
  shows "0 < to_float e" "to_float e \<le> 99"
proof -
  from assms(1) have e: "is_number e" "1 \<le> num e" by (simp_all add: percent_ok_def)
  then show "0 < to_float e" by simp
  show "to_float e \<le> 99"
    using fl_mono[OF assms(2)] e(1) assms(2) by (cases e) (simp_all add: is_number_def)
qed

text \<open>
  Claim C29.  The bill of a rated route for a user with a limited balance and an early decrement of at most
  99 percent splits the rate: both parts are not negative, the part charged on submission is positive
  and below the rate, the other part is the rest of the rate up to one rounding (relative error
  below two to the minus 53), and exactly one message is counted when the message count is limited.
\<close>

theorem bill_split:
  assumes "mt_ok (u_mt u)" "0 < r"
    "getQuota ''balance'' (u_mt u) \<noteq> Inr PNone"
    "getQuota ''early_decrement_balance_percent'' (u_mt u) = Inr e" "e \<noteq> PNone" "num e \<le> 99"
  shows "\<exists>b a p n. bill_for_rate bid (PFloat r) u = Inr b \<and> getAmount ''submit_sm'' b = Inr (PFloat a) \<and>
    getAmount ''submit_sm_resp'' b = Inr (PFloat p) \<and> 0 < a \<and> a < r \<and> 0 < p \<and>
    \<bar>a + p - r\<bar> \<le> (r - a) / 2 ^ 53 \<and>
    getAction ''decrement_submit_sm_count'' b = Inr n \<and>
    n = (if getQuota ''submit_sm_count'' (u_mt u) = Inr PNone then PInt 0 else PInt 1)"
proof -
  let ?a = "early_part r (to_float e)"
  have e: "map_of (quotas (u_mt u)) ''early_decrement_balance_percent'' = Some e"
    using assms(4) by (simp add: getQuota_def cred_get_eq)
  with mt_ok_quota(2)[OF assms(1)] assms(5) have "percent_ok e" by auto
  note te = percent_to_float[OF this assms(6)]
  from bill_for_rate_expected[OF assms(1), of r bid] assms(2) obtain b where
    b: "bill_for_rate bid (PFloat r) u = Inr b" "bill_view b = expected_bill r (u_mt u)" by auto
  have "bill_view b = (PFloat ?a, PFloat (fl (r - ?a)),
      if getQuota ''submit_sm_count'' (u_mt u) = Inr PNone then PInt 0 else PInt 1)"
    using b(2) e assms(2,3,5)
    by (auto simp: expected_bill_def getQuota_def cred_get_eq Let_def split: pyval.splits)
  moreover have "?a < r" "0 < ?a" using early_part_less early_part_pos assms(2) te by auto
  moreover have "\<bar>?a + fl (r - ?a) - r\<bar> \<le> (r - ?a) / 2 ^ 53"
    using fl_rel_error[of "r - ?a"] \<open>?a < r\<close> by (simp add: algebra_simps)
  ultimately show ?thesis using b(1)
    by (auto simp: bill_view_def split: sum.splits)
qed

definition sample_user :: "pyval \<Rightarrow> pyval \<Rightarrow> pyval \<Rightarrow> user" where
  "sample_user balance early count =
     \<lparr>u_uid = ''u1'', u_group = \<lparr>g_gid = ''g1'', g_enabled = True\<rparr>, u_username = Some ''u1'',
      u_password = Some ''pw'', u_enabled = True,
      u_mt = (MtMessagingCredential (PBool True))\<lparr>quotas :=
        [(''balance'', balance), (''early_decrement_balance_percent'', early),
         (''submit_sm_count'', count), (''http_throughput'', PNone),
         (''smpps_throughput'', PNone)]\<rparr>,
      u_smpps = SmppsCredential (PBool True)\<rparr>"

lemma sample_user_ok:
  "balance = PNone \<or> amount_ok balance \<Longrightarrow> early = PNone \<or> percent_ok early \<Longrightarrow>
   count = PNone \<or> count_ok count \<Longrightarrow> mt_ok (u_mt (sample_user balance early count))"
  by (auto simp: sample_user_def mt_ok_def quota_sat_def MtMessagingCredential_def Let_def)

theorem bill_split_witness:
  "\<exists>b a p n. bill_for_rate ''b'' (PFloat 2) (sample_user (PInt 10) (PInt 25) (PInt 5)) = Inr b \<and>
    getAmount ''submit_sm'' b = Inr (PFloat a) \<and>
    getAmount ''submit_sm_resp'' b = Inr (PFloat p) \<and> 0 < a \<and> a < 2 \<and> 0 < p \<and>
    \<bar>a + p - 2\<bar> \<le> (2 - a) / 2 ^ 53 \<and>
    getAction ''decrement_submit_sm_count'' b = Inr n \<and> n = PInt 1"
  using bill_split[of "sample_user (PInt 10) (PInt 25) (PInt 5)" 2 "PInt 25" "''b''"]
    sample_user_ok[of "PInt 10" "PInt 25" "PInt 5"]
  by (auto simp: quota_ok_defs is_number_def sample_user_def getQuota_def cred_get_def)

text \<open>
  Without an early decrement the whole rate is charged on submission and nothing on the
  response; a user whose balance is unlimited, or a route that is not rated, is billed nothing.
\<close>

theorem bill_whole:
  assumes "mt_ok (u_mt u)" "0 \<le> r"
    "getQuota ''early_decrement_balance_percent'' (u_mt u) = Inr PNone \<or>
     getQuota ''balance'' (u_mt u) = Inr PNone \<or> r = 0"
  shows "\<exists>b a p. bill_for_rate bid (PFloat r) u = Inr b \<and>
    getAmount ''submit_sm'' b = Inr a \<and> getAmount ''submit_sm_resp'' b = Inr p \<and>
    num a = (if getQuota ''balance'' (u_mt u) = Inr PNone then 0 else r) \<and> num p = 0"
proof -
  from bill_for_rate_expected[OF assms(1,2)] obtain b where
    b: "bill_for_rate bid (PFloat r) u = Inr b" "bill_view b = expected_bill r (u_mt u)" by blast
  from mt_ok_quota[OF assms(1)] obtain bal e n where
    q: "map_of (quotas (u_mt u)) ''balance'' = Some bal"
    "map_of (quotas (u_mt u)) ''early_decrement_balance_percent'' = Some e" by blast
  have "\<exists>a p. bill_view b = (a, p, snd (snd (bill_view b))) \<and> a \<noteq> PNone \<and>
      num a = (if bal = PNone then 0 else r) \<and> num p = 0"
    using q assms(3) unfolding b(2)
    by (auto simp: expected_bill_def getQuota_def cred_get_eq Let_def)
  then show ?thesis using b(1) q
    by (auto simp: bill_view_def getQuota_def cred_get_eq split: sum.splits)
qed

theorem bill_whole_witness:
  "\<exists>b a p. bill_for_rate ''b'' (PFloat 2) (sample_user (PInt 10) PNone PNone) = Inr b \<and>
    getAmount ''submit_sm'' b = Inr a \<and> getAmount ''submit_sm_resp'' b = Inr p \<and>
    num a = 2 \<and> num p = 0"
  using bill_whole[of "sample_user (PInt 10) PNone PNone" 2 "''b''"]
    sample_user_ok[of "PInt 10" PNone PNone]
  by (auto simp: quota_ok_defs is_number_def sample_user_def getQuota_def cred_get_def)

text \<open>
  With an early decrement of 100 percent, which the quota check allows, rounding can charge more
  than the rate: at a rate of 0.007 the part charged on submission exceeds the rate and the part left
  for the response is negative.
\<close>

theorem bill_hundred_percent_exceeds_rate:
  "\<exists>b a p. bill_for_rate ''b'' (PFloat (fl (7 / 1000))) (sample_user (PInt 10) (PInt 100) PNone) = Inr b \<and>
    getAmount ''submit_sm'' b = Inr (PFloat a) \<and> fl (7 / 1000) < a \<and>
    getAmount ''submit_sm_resp'' b = Inr (PFloat p) \<and> p < 0"
proof -
  let ?r = "fl (7 / 1000)"
  have u: "mt_ok (u_mt (sample_user (PInt 10) (PInt 100) PNone))"
    by (rule sample_user_ok) (simp_all add: quota_ok_defs is_number_def)
  have r: "0 \<le> ?r" "?r \<noteq> 0" by simp_all
  from bill_for_rate_expected[OF u r(1)] obtain b where
    b: "bill_for_rate ''b'' (PFloat ?r) (sample_user (PInt 10) (PInt 100) PNone) = Inr b"
    "bill_view b = expected_bill ?r (u_mt (sample_user (PInt 10) (PInt 100) PNone))" by blast
  have gt: "?r < early_part ?r 100" by code_simp
  then have "fl (?r - early_part ?r 100) < 0"
    using fl_nonneg_iff[of "?r - early_part ?r 100"] by linarith
  moreover have "bill_view b = (PFloat (early_part ?r 100), PFloat (fl (?r - early_part ?r 100)), PInt 0)"
    unfolding b(2) by (simp add: expected_bill_def sample_user_def)
  ultimately show ?thesis using b(1) gt by (auto simp: bill_view_def split: sum.splits)
qed

end
