(* ===== verification/Routing_Filters.thy ===== *)
theory Routing_Filters
  imports Billing
begin

text \<open>
  Routables (\<^verbatim>\<open>jasmin/routing/Routables.py\<close>) and filters (\<^verbatim>\<open>jasmin/routing/Filters.py\<close>).  A PDU is the
  dictionary of its parameters with the custom TLVs that may be attached to it.  A routable for a
  message to send has a user and no source connector, one for a received message has a connector and
  no user: reading the absent attribute raises \<^verbatim>\<open>AttributeError\<close>.  Operator-supplied regular
  expressions and filter scripts are run by the two functions of a \<open>filter_env\<close>; a script computes a
  value from the routable and does not modify it.
\<close>

section \<open>PDUs and routables\<close>

text \<open>A custom TLV is the tuple (tag, length, type, value) the code stores.\<close>

type_synonym custom_tlv = "pyval \<times> pyval \<times> pyval \<times> pyval"

record pdu =
  p_command :: string
  p_seqNum :: "int option"
  p_status :: string
  p_params :: "(string, pyval) dict"
  p_custom_tlvs :: "custom_tlv list option"

record routable =
  r_pdu :: pdu
  r_connector :: "connector option"
  r_user :: "user option"
  r_date :: date
  r_time :: time
  r_tags :: "string list"
  r_locks :: "string list option"

definition RoutableSubmitSm :: "pdu \<Rightarrow> user \<Rightarrow> date \<Rightarrow> time \<Rightarrow> routable" where
  "RoutableSubmitSm p u d t =
     \<lparr>r_pdu = p, r_connector = None, r_user = Some u, r_date = d, r_time = t, r_tags = [],
      r_locks = Some []\<rparr>"

definition RoutableDeliverSm :: "pdu \<Rightarrow> connector \<Rightarrow> date \<Rightarrow> time \<Rightarrow> routable" where
  "RoutableDeliverSm p c d t =
     \<lparr>r_pdu = p, r_connector = Some c, r_user = None, r_date = d, r_time = t, r_tags = [],
      r_locks = None\<rparr>"

definition SimpleRoutablePDU :: "connector \<Rightarrow> pdu \<Rightarrow> user \<Rightarrow> date \<Rightarrow> time \<Rightarrow> routable" where
  "SimpleRoutablePDU c p u d t =
     \<lparr>r_pdu = p, r_connector = Some c, r_user = Some u, r_date = d, r_time = t, r_tags = [],
      r_locks = None\<rparr>"

text \<open>\<^verbatim>\<open>str(tag)\<close> of an \<^verbatim>\<open>int\<close> or a \<^verbatim>\<open>str\<close>; other types are refused.\<close>

fun tag_str :: "pyval \<Rightarrow> string res" where
  "tag_str (PInt i) = Inr (str_int i)"
| "tag_str (PBool b) = Inr (if b then ''True'' else ''False'')"
| "tag_str (PStr s) = Inr s"
| "tag_str _ = Inl InvalidTagError"

definition addTag :: "pyval \<Rightarrow> routable \<Rightarrow> routable res" where
  "addTag tag r = res_bind (tag_str tag) (\<lambda>s. Inr (r\<lparr>r_tags := r_tags r @ [s]\<rparr>))"

definition hasTag :: "pyval \<Rightarrow> routable \<Rightarrow> bool res" where
  "hasTag tag r = res_bind (tag_str tag) (\<lambda>s. Inr (s \<in> set (r_tags r)))"

definition removeTag :: "pyval \<Rightarrow> routable \<Rightarrow> routable res" where
  "removeTag tag r =
     res_bind (tag_str tag) (\<lambda>s.
       raise_if (s \<notin> set (r_tags r)) TagNotFoundError (Inr (r\<lparr>r_tags := remove1 s (r_tags r)\<rparr>)))"

definition flushTags :: "routable \<Rightarrow> routable" where
  "flushTags r = r\<lparr>r_tags := []\<rparr>"

definition getTlvParam :: "string \<Rightarrow> pyval \<Rightarrow> routable \<Rightarrow> pyval" where
  "getTlvParam name dflt r =
     (case map_of (p_params (r_pdu r)) name of Some v \<Rightarrow> v | None \<Rightarrow> dflt)"

definition setTlvParam :: "string \<Rightarrow> pyval \<Rightarrow> routable \<Rightarrow> routable" where
  "setTlvParam name v r = r\<lparr>r_pdu := (r_pdu r)\<lparr>p_params := dset (p_params (r_pdu r)) name v\<rparr>\<rparr>"

definition getCustomTlvs :: "routable \<Rightarrow> custom_tlv list" where
  "getCustomTlvs r = (case p_custom_tlvs (r_pdu r) of Some ts \<Rightarrow> ts | None \<Rightarrow> [])"

definition addCustomTlv :: "pyval \<Rightarrow> pyval \<Rightarrow> pyval \<Rightarrow> pyval \<Rightarrow> routable \<Rightarrow> routable" where
  "addCustomTlv tag value_type v len r =
     r\<lparr>r_pdu := (r_pdu r)\<lparr>p_custom_tlvs := Some (getCustomTlvs r @ [(tag, len, value_type, v)])\<rparr>\<rparr>"

definition lockPduParam :: "string \<Rightarrow> routable \<Rightarrow> routable res" where
  "lockPduParam p r =
     (case r_locks r of
        None \<Rightarrow> Inl AttributeError
      | Some ls \<Rightarrow>
          raise_if (\<not> has_key (p_params (r_pdu r)) p) InvalidLockError
           (Inr (r\<lparr>r_locks := Some (ls @ [p])\<rparr>)))"

definition pduParamIsLocked :: "string \<Rightarrow> routable \<Rightarrow> bool res" where
  "pduParamIsLocked p r =
     (case r_locks r of
        None \<Rightarrow> Inl AttributeError
      | Some ls \<Rightarrow>
          raise_if (\<not> has_key (p_params (r_pdu r)) p) InvalidLockError (Inr (p \<in> set ls)))"

definition flushPduLocks :: "routable \<Rightarrow> routable" where
  "flushPduLocks r = r\<lparr>r_locks := Some []\<rparr>"

section \<open>Filters\<close>

text \<open>The tag of a tag filter is a text; filters stored by old releases may hold an integer.\<close>

datatype tag_val = TagInt int | TagStr string

fun tag_pyval :: "tag_val \<Rightarrow> pyval" where
  "tag_pyval (TagInt i) = PInt i"
| "tag_pyval (TagStr s) = PStr s"

datatype filter_kind =
    TransparentFilter
  | ConnectorFilter connector
  | UserFilter user
  | GroupFilter group
  | SourceAddrFilter string
  | DestinationAddrFilter string
  | ShortMessageFilter string
  | DateIntervalFilter date date
  | TimeIntervalFilter time time
  | EvalPyFilter string
  | TagFilter tag_val

fun usedFor :: "filter_kind \<Rightarrow> string list" where
  "usedFor (ConnectorFilter _) = [''mo'']"
| "usedFor (UserFilter _) = [''mt'']"
| "usedFor (GroupFilter _) = [''mt'']"
| "usedFor _ = [''mt'', ''mo'']"

text \<open>The constructors that check their arguments.\<close>

definition mk_regex_filter :: "(string \<Rightarrow> bool) \<Rightarrow> (string \<Rightarrow> filter_kind) \<Rightarrow> string \<Rightarrow> filter_kind res" where
  "mk_regex_filter re_ok F p = raise_if (\<not> re_ok p) ReError (Inr (F p))"

definition mk_DateIntervalFilter :: "pyval \<Rightarrow> filter_kind res" where
  "mk_DateIntervalFilter v =
     (case v of
        PList [PDate a, PDate b] \<Rightarrow> Inr (DateIntervalFilter a b)
      | _ \<Rightarrow> Inl InvalidFilterParameterError)"

definition mk_TimeIntervalFilter :: "pyval \<Rightarrow> filter_kind res" where
  "mk_TimeIntervalFilter v =
     (case v of
        PList [PTime a, PTime b] \<Rightarrow> Inr (TimeIntervalFilter a b)
      | _ \<Rightarrow> Inl InvalidFilterParameterError)"

definition mk_TagFilter :: "pyval \<Rightarrow> filter_kind res" where
  "mk_TagFilter v =
     (case tag_str v of Inr s \<Rightarrow> Inr (TagFilter (TagStr s)) | Inl _ \<Rightarrow> Inl InvalidFilterParameterError)"

text \<open>\<open>fe_match p b\<close>: the compiled pattern \<open>p\<close> matches at the start of \<^verbatim>\<open>b.decode('utf-8', 'replace')\<close>.
  \<open>fe_eval c r\<close>: the value of \<^verbatim>\<open>result\<close> after running the script \<open>c\<close> on the routable \<open>r\<close>.\<close>

record filter_env =
  fe_match :: "string \<Rightarrow> string \<Rightarrow> bool"
  fe_eval :: "string \<Rightarrow> routable \<Rightarrow> pyval res"

fun decode_match :: "filter_env \<Rightarrow> string \<Rightarrow> pyval \<Rightarrow> bool res" where
  "decode_match E p (PBytes b) = Inr (fe_match E p b)"
| "decode_match E p _ = Inl AttributeError"

fun filter_match :: "filter_env \<Rightarrow> filter_kind \<Rightarrow> routable \<Rightarrow> bool res" where
  "filter_match E TransparentFilter r = Inr True"
| "filter_match E (ConnectorFilter c) r =
     (case r_connector r of
        None \<Rightarrow> Inl AttributeError
      | Some rc \<Rightarrow> Inr (conn_cid rc = conn_cid c))"
| "filter_match E (UserFilter u) r =
     (case r_user r of None \<Rightarrow> Inl AttributeError | Some ru \<Rightarrow> Inr (u_uid ru = u_uid u))"
| "filter_match E (GroupFilter g) r =
     (case r_user r of None \<Rightarrow> Inl AttributeError | Some ru \<Rightarrow> Inr (g_gid (u_group ru) = g_gid g))"
| "filter_match E (SourceAddrFilter p) r =
     res_bind (dget (p_params (r_pdu r)) ''source_addr'') (decode_match E p)"
| "filter_match E (DestinationAddrFilter p) r =
     res_bind (dget (p_params (r_pdu r)) ''destination_addr'') (decode_match E p)"
| "filter_match E (ShortMessageFilter p) r =
     (case map_of (p_params (r_pdu r)) ''short_message'' of
        Some v \<Rightarrow> decode_match E p v
      | None \<Rightarrow>
          (case map_of (p_params (r_pdu r)) ''message_payload'' of
             Some v \<Rightarrow> decode_match E p v
           | None \<Rightarrow> Inr False))"
| "filter_match E (DateIntervalFilter a b) r = Inr (a \<le> r_date r \<and> r_date r \<le> b)"
| "filter_match E (TimeIntervalFilter a b) r = Inr (a \<le> r_time r \<and> r_time r \<le> b)"
| "filter_match E (EvalPyFilter c) r =
     res_bind (fe_eval E c r) (\<lambda>v. Inr (case v of PBool b \<Rightarrow> b | _ \<Rightarrow> False))"
| "filter_match E (TagFilter t) r = hasTag (tag_pyval t) r"

section \<open>Lemmas\<close>

text \<open>What the front ends hand to the routing tables: addresses and content are byte strings, and
  the side that identifies the message is present.\<close>

definition bytes_param :: "pdu \<Rightarrow> string \<Rightarrow> bool" where
  "bytes_param p k = (case map_of (p_params p) k of Some v \<Rightarrow> is_bytes v | None \<Rightarrow> False)"

definition pdu_ok :: "pdu \<Rightarrow> bool" where
  "pdu_ok p \<longleftrightarrow> bytes_param p ''source_addr'' \<and> bytes_param p ''destination_addr'' \<and>
     (has_key (p_params p) ''short_message'' \<longrightarrow> bytes_param p ''short_message'') \<and>
     (has_key (p_params p) ''message_payload'' \<longrightarrow> bytes_param p ''message_payload'')"

definition routable_ok :: "string \<Rightarrow> routable \<Rightarrow> bool" where
  "routable_ok kind r \<longleftrightarrow> pdu_ok (r_pdu r) \<and> (kind = ''mt'' \<longrightarrow> r_user r \<noteq> None) \<and>
     (kind = ''mo'' \<longrightarrow> r_connector r \<noteq> None)"

definition eval_total :: "filter_env \<Rightarrow> bool" where
  "eval_total E \<longleftrightarrow> (\<forall>c r. \<exists>v. fe_eval E c r = Inr v)"

lemma decode_match_bytes: "is_bytes v \<Longrightarrow> \<exists>b. decode_match E p v = Inr b"
  by (cases v) auto

lemma filter_match_total:
  assumes "routable_ok kind r" "kind \<in> set (usedFor f)" "eval_total E"
  shows "\<exists>b. filter_match E f r = Inr b"
proof (cases f)
  case (EvalPyFilter c)
  with assms(3) show ?thesis unfolding eval_total_def by (metis filter_match.simps(10) res_bind_simps(2))
next
  case (TagFilter t)
  then show ?thesis by (cases t) (simp_all add: hasTag_def)
qed (use assms in \<open>auto simp: routable_ok_def pdu_ok_def bytes_param_def has_key_def dget_def hasTag_def
      decode_match_bytes split: option.splits\<close>)

lemma addTag_hasTag: "addTag t r = Inr r' \<Longrightarrow> hasTag t r' = Inr True"
  by (auto simp: addTag_def hasTag_def)

lemma mk_TagFilter_match:
  "mk_TagFilter t = Inr f \<Longrightarrow> addTag t r = Inr r' \<Longrightarrow> filter_match E f r' = Inr True"
  by (auto simp: mk_TagFilter_def addTag_def hasTag_def split: sum.splits)

text \<open>Concrete inputs for the witnesses: a message to send, a received message, and an environment in
  which a pattern matches the texts it is a prefix of.\<close>

definition sample_pdu :: pdu where
  "sample_pdu =
     \<lparr>p_command = ''submit_sm'', p_seqNum = None, p_status = ''ESME_ROK'',
      p_params = [(''source_addr'', PBytes ''1111''), (''destination_addr'', PBytes ''2222''),
                  (''short_message'', PBytes ''hello'')],
      p_custom_tlvs = None\<rparr>"

definition sample_mt :: routable where
  "sample_mt = RoutableSubmitSm sample_pdu (sample_user (PInt 10) PNone PNone) (2026, 1, 15) (12, 0, 0, 0)"

definition sample_mo :: routable where
  "sample_mo = RoutableDeliverSm sample_pdu (SmppClientConnector ''smppc1'') (2026, 1, 15) (12, 0, 0, 0)"

definition sample_env :: filter_env where
  "sample_env = \<lparr>fe_match = \<lambda>p b. startswith b p, fe_eval = \<lambda>c r. Inr PNone\<rparr>"

lemma sample_ok: "routable_ok ''mt'' sample_mt" "routable_ok ''mo'' sample_mo" "eval_total sample_env"
  by (simp_all add: routable_ok_def sample_mt_def sample_mo_def sample_pdu_def sample_env_def
      RoutableSubmitSm_def RoutableDeliverSm_def pdu_ok_def bytes_param_def has_key_def eval_total_def)

end
