(* ===== verification/Routes.thy ===== *)
theory Routes
  imports Routing_Filters
begin

text \<open>
  Routes (\<^verbatim>\<open>jasmin/routing/Routes.py\<close>) and interceptors (\<^verbatim>\<open>jasmin/routing/Interceptors.py\<close>).  A route is
  a record with its class, filters, connector or connector pool, rate and, for failover routes, the
  position \<^verbatim>\<open>seq\<close> of the connector handed out last.  Matching a failover route resets that position,
  so matching returns the route it leaves behind.  \<^verbatim>\<open>random.choice\<close> picks the index that the argument
  \<open>randbelow\<close> returns for the length of the pool.
\<close>

section \<open>Routes\<close>

datatype route_class =
    DefaultRoute | StaticMORoute | StaticMTRoute
  | RandomRoundrobinMORoute | RandomRoundrobinMTRoute
  | FailoverMORoute | FailoverMTRoute

datatype conns = Single connector | Pool "connector list"

record route =
  rt_class :: route_class
  rt_filters :: "filter_kind list"
  rt_connector :: conns
  rt_rate :: pyval
  rt_seq :: int

fun route_type :: "route_class \<Rightarrow> string" where
  "route_type DefaultRoute = ''default''"
| "route_type StaticMORoute = ''mo''"
| "route_type StaticMTRoute = ''mt''"
| "route_type RandomRoundrobinMORoute = ''mo''"
| "route_type RandomRoundrobinMTRoute = ''mt''"
| "route_type FailoverMORoute = ''mo''"
| "route_type FailoverMTRoute = ''mt''"

definition is_failover :: "route_class \<Rightarrow> bool" where
  "is_failover c \<longleftrightarrow> c = FailoverMORoute \<or> c = FailoverMTRoute"

definition check_rate :: "pyval \<Rightarrow> 'a res \<Rightarrow> 'a res" where
  "check_rate rate k =
     raise_if (\<not> is_float rate) InvalidRouteParameterError
      (raise_if (num rate < 0) InvalidRouteParameterError k)"

definition check_route_filters :: "string \<Rightarrow> filter_kind list \<Rightarrow> unit res" where
  "check_route_filters kind fs =
     for_check (\<lambda>f. raise_if (kind \<notin> set (usedFor f)) InvalidRouteFilterError (Inr ())) fs"

definition mk_Route :: "route_class \<Rightarrow> filter_kind list \<Rightarrow> connector \<Rightarrow> pyval \<Rightarrow> route res" where
  "mk_Route cls fs c rate =
     check_rate rate
      (res_bind (check_route_filters (route_type cls) fs) (\<lambda>_.
        Inr \<lparr>rt_class = cls, rt_filters = fs, rt_connector = Single c, rt_rate = rate, rt_seq = -1\<rparr>))"

definition mk_DefaultRoute :: "connector \<Rightarrow> pyval \<Rightarrow> route res" where
  "mk_DefaultRoute c rate =
     check_rate rate
      (Inr \<lparr>rt_class = DefaultRoute, rt_filters = [], rt_connector = Single c, rt_rate = rate,
            rt_seq = -1\<rparr>)"

definition mk_StaticMTRoute :: "filter_kind list \<Rightarrow> connector \<Rightarrow> pyval \<Rightarrow> route res" where
  "mk_StaticMTRoute = mk_Route StaticMTRoute"

text \<open>Routes for received messages are never rated.\<close>

definition mk_StaticMORoute :: "filter_kind list \<Rightarrow> connector \<Rightarrow> route res" where
  "mk_StaticMORoute fs c = mk_Route StaticMORoute fs c (PFloat 0)"

definition mk_pool_route :: "route_class \<Rightarrow> filter_kind list \<Rightarrow> connector list \<Rightarrow> pyval \<Rightarrow> route res" where
  "mk_pool_route cls fs cs rate =
     raise_if (length cs = 0) InvalidRouteParameterError
      (res_bind (check_route_filters (route_type cls) fs) (\<lambda>_.
        Inr \<lparr>rt_class = cls, rt_filters = fs, rt_connector = Pool cs, rt_rate = rate, rt_seq = -1\<rparr>))"

definition mk_RandomRoundrobinMORoute :: "filter_kind list \<Rightarrow> connector list \<Rightarrow> route res" where
  "mk_RandomRoundrobinMORoute fs cs = mk_pool_route RandomRoundrobinMORoute fs cs (PFloat 0)"

definition mk_RandomRoundrobinMTRoute ::
  "filter_kind list \<Rightarrow> connector list \<Rightarrow> pyval \<Rightarrow> route res" where
  "mk_RandomRoundrobinMTRoute fs cs rate =
     check_rate rate (mk_pool_route RandomRoundrobinMTRoute fs cs rate)"

fun mixed_types :: "string option \<Rightarrow> connector list \<Rightarrow> bool" where
  "mixed_types t [] = False"
| "mixed_types t (c # cs) =
     (if t \<noteq> None \<and> t \<noteq> Some (conn_type c) then True else mixed_types (Some (conn_type c)) cs)"

definition mk_FailoverMORoute :: "filter_kind list \<Rightarrow> connector list \<Rightarrow> route res" where
  "mk_FailoverMORoute fs cs =
     res_bind (mk_pool_route FailoverMORoute fs cs (PFloat 0)) (\<lambda>rt.
       raise_if (mixed_types None cs) InvalidRouteParameterError (Inr rt))"

definition mk_FailoverMTRoute :: "filter_kind list \<Rightarrow> connector list \<Rightarrow> pyval \<Rightarrow> route res" where
  "mk_FailoverMTRoute fs cs rate =
     check_rate rate (mk_pool_route FailoverMTRoute fs cs rate)"

definition getRate :: "route \<Rightarrow> pyval" where
  "getRate rt = rt_rate rt"

definition getBillFor :: "string \<Rightarrow> route \<Rightarrow> user \<Rightarrow> bill res" where
  "getBillFor bid rt u = bill_for_rate bid (getRate rt) u"

text \<open>\<^verbatim>\<open>xs[i]\<close> with Python's negative indices; \<^const>\<open>None\<close> where it raises \<^verbatim>\<open>IndexError\<close>.\<close>

definition py_index :: "'a list \<Rightarrow> int \<Rightarrow> 'a option" where
  "py_index xs i =
     (let n = int (length xs); j = (if i < 0 then i + n else i)
      in if 0 \<le> j \<and> j < n then Some (xs ! nat j) else None)"

definition getConnectors :: "route \<Rightarrow> connector list" where
  "getConnectors rt = (case rt_connector rt of Single c \<Rightarrow> [c] | Pool cs \<Rightarrow> cs)"

definition getConnector :: "(nat \<Rightarrow> nat) \<Rightarrow> route \<Rightarrow> connector option \<times> route" where
  "getConnector randbelow rt =
     (case rt_connector rt of
        Single c \<Rightarrow> (Some c, rt)
      | Pool cs \<Rightarrow>
          if is_failover (rt_class rt)
          then (py_index cs (rt_seq rt + 1), rt\<lparr>rt_seq := rt_seq rt + 1\<rparr>)
          else (Some (cs ! randbelow (length cs)), rt))"

definition matchFilters :: "filter_env \<Rightarrow> routable \<Rightarrow> route \<Rightarrow> bool res \<times> route" where
  "matchFilters E r rt =
     (if rt_class rt = DefaultRoute then (Inr True, rt)
      else (for_all (\<lambda>f. filter_match E f r) (rt_filters rt),
            if is_failover (rt_class rt) then rt\<lparr>rt_seq := -1\<rparr> else rt))"

section \<open>Interceptors\<close>

datatype interceptor_class = DefaultInterceptor | StaticMOInterceptor | StaticMTInterceptor

record interceptor =
  ic_class :: interceptor_class
  ic_filters :: "filter_kind list"
  ic_script :: script

fun interceptor_type :: "interceptor_class \<Rightarrow> string" where
  "interceptor_type DefaultInterceptor = ''default''"
| "interceptor_type StaticMOInterceptor = ''mo''"
| "interceptor_type StaticMTInterceptor = ''mt''"

definition mk_DefaultInterceptor :: "script \<Rightarrow> interceptor" where
  "mk_DefaultInterceptor sc = \<lparr>ic_class = DefaultInterceptor, ic_filters = [], ic_script = sc\<rparr>"

definition mk_Interceptor :: "interceptor_class \<Rightarrow> filter_kind list \<Rightarrow> script \<Rightarrow> interceptor res" where
  "mk_Interceptor cls fs sc =
     res_bind (for_check (\<lambda>f. raise_if (interceptor_type cls \<notin> set (usedFor f))
                                InvalidInterceptorFilterError (Inr ())) fs)
       (\<lambda>_. Inr \<lparr>ic_class = cls, ic_filters = fs, ic_script = sc\<rparr>)"

definition ic_matchFilters :: "filter_env \<Rightarrow> routable \<Rightarrow> interceptor \<Rightarrow> script option res" where
  "ic_matchFilters E r i =
     (if ic_class i = DefaultInterceptor then Inr (Some (ic_script i))
      else res_bind (for_all (\<lambda>f. filter_match E f r) (ic_filters i)) (\<lambda>b.
             Inr (if b then Some (ic_script i) else None)))"

section \<open>Lemmas\<close>

definition route_ok :: "route \<Rightarrow> bool" where
  "route_ok rt \<longleftrightarrow>
     (rt_class rt \<noteq> DefaultRoute \<longrightarrow>
        list_all (\<lambda>f. route_type (rt_class rt) \<in> set (usedFor f)) (rt_filters rt)) \<and>
     is_float (rt_rate rt) \<and> 0 \<le> num (rt_rate rt) \<and>
     (route_type (rt_class rt) = ''mo'' \<longrightarrow> num (rt_rate rt) = 0) \<and>
     (case rt_connector rt of
        Single c \<Rightarrow> rt_class rt \<in> {DefaultRoute, StaticMORoute, StaticMTRoute}
      | Pool cs \<Rightarrow> rt_class rt \<notin> {DefaultRoute, StaticMORoute, StaticMTRoute} \<and> cs \<noteq> []) \<and>
     -1 \<le> rt_seq rt"

lemmas route_ctor_defs = mk_Route_def mk_DefaultRoute_def mk_StaticMTRoute_def mk_StaticMORoute_def
  mk_pool_route_def mk_RandomRoundrobinMORoute_def mk_RandomRoundrobinMTRoute_def
  mk_FailoverMORoute_def mk_FailoverMTRoute_def check_rate_def check_route_filters_def

lemma route_ctors_ok:
  "mk_DefaultRoute c rate = Inr rt \<Longrightarrow> route_ok rt"
  "mk_StaticMTRoute fs c rate = Inr rt \<Longrightarrow> route_ok rt"
  "mk_StaticMORoute fs c = Inr rt \<Longrightarrow> route_ok rt"
  "mk_RandomRoundrobinMORoute fs cs = Inr rt \<Longrightarrow> route_ok rt"
  "mk_RandomRoundrobinMTRoute fs cs rate = Inr rt \<Longrightarrow> route_ok rt"
  "mk_FailoverMORoute fs cs = Inr rt \<Longrightarrow> route_ok rt"
  "mk_FailoverMTRoute fs cs rate = Inr rt \<Longrightarrow> route_ok rt"
  by (auto simp: route_ctor_defs route_ok_def list_all_iff)

lemma mixed_types_iff:
  "\<not> mixed_types (Some t) cs \<longleftrightarrow> (\<forall>c \<in> set cs. conn_type c = t)"
  by (induction cs arbitrary: t) auto

lemma failover_mo_same_type:
  "mk_FailoverMORoute fs cs = Inr rt \<Longrightarrow> c \<in> set cs \<Longrightarrow> d \<in> set cs \<Longrightarrow> conn_type c = conn_type d"
  using mixed_types_iff by (cases cs) (auto simp: mk_FailoverMORoute_def)

lemma matchFilters_total:
  assumes "route_ok rt" "routable_ok kind r" "eval_total E"
    "rt_class rt = DefaultRoute \<or> route_type (rt_class rt) = kind"
  shows "\<exists>b. fst (matchFilters E r rt) = Inr b"
proof (cases "rt_class rt = DefaultRoute")
  case False
  with assms have "\<And>f. f \<in> set (rt_filters rt) \<Longrightarrow> \<exists>b. filter_match E f r = Inr b"
    by (auto simp: route_ok_def list_all_iff intro: filter_match_total)
  with False show ?thesis by (auto simp: matchFilters_def intro: for_all_total)
qed (auto simp: matchFilters_def)

lemma matchFilters_static: "(snd (matchFilters E r rt))\<lparr>rt_seq := s\<rparr> = rt\<lparr>rt_seq := s\<rparr>"
  by (simp add: matchFilters_def)

lemma matchFilters_seq_indep:
  "fst (matchFilters E r (rt\<lparr>rt_seq := s\<rparr>)) = fst (matchFilters E r rt)"
  by (simp add: matchFilters_def)

lemma matchFilters_ok: "route_ok rt \<Longrightarrow> route_ok (snd (matchFilters E r rt))"
  by (cases "rt_connector rt") (auto simp: matchFilters_def route_ok_def)

text \<open>Asking a route for a connector \<open>n\<close> times.\<close>

fun connector_sequence :: "(nat \<Rightarrow> nat) \<Rightarrow> nat \<Rightarrow> route \<Rightarrow> connector option list" where
  "connector_sequence rnd 0 rt = []"
| "connector_sequence rnd (Suc n) rt =
     (let (c, rt') = getConnector rnd rt in c # connector_sequence rnd n rt')"

lemma connector_sequence_from:
  "rt_connector rt = Pool cs \<Longrightarrow> is_failover (rt_class rt) \<Longrightarrow> -1 \<le> rt_seq rt \<Longrightarrow>
   connector_sequence rnd n rt =
     map (\<lambda>i. if i < length cs then Some (cs ! i) else None)
       [nat (rt_seq rt + 1)..<nat (rt_seq rt + 1) + n]"
proof (induction n arbitrary: rt)
  case (Suc n)
  have "nat (rt_seq rt + 1 + 1) = Suc (nat (rt_seq rt + 1))" using Suc.prems(3) by simp
  with Suc show ?case
    by (auto simp: getConnector_def py_index_def Let_def upt_conv_Cons nat_less_iff simp del: upt_Suc)
qed simp

text \<open>
  A failover route hands out its connectors in configuration order: after the route has been
  matched, the i-th call of \<^verbatim>\<open>getConnector\<close> returns the i-th connector, and every further call returns
  \<^verbatim>\<open>None\<close>, whatever had been handed out for earlier messages.
\<close>

theorem failover_order:
  assumes "rt_connector rt = Pool cs" "is_failover (rt_class rt)"
  shows "connector_sequence rnd (length cs + k) (snd (matchFilters E r rt)) =
    map Some cs @ replicate k None"
proof -
  let ?rt = "snd (matchFilters E r rt)"
  have rt: "rt_connector ?rt = Pool cs" "is_failover (rt_class ?rt)" "rt_seq ?rt = -1"
    using assms by (auto simp: matchFilters_def is_failover_def)
  have upt: "[0..<length cs + k] = [0..<length cs] @ [length cs..<length cs + k]"
    by (rule upt_add_eq_append) simp
  have "map (\<lambda>i. if i < length cs then Some (cs ! i) else None) [0..<length cs] = map Some cs"
    by (rule nth_equalityI) simp_all
  moreover have "map (\<lambda>i. if i < length cs then Some (cs ! i) else None) [length cs..<length cs + k]
      = replicate k None"
    by (rule nth_equalityI) simp_all
  ultimately show ?thesis
    using connector_sequence_from[OF rt(1,2), of rnd "length cs + k"] rt(3) by (simp add: upt)
qed

theorem failover_order_witness:
  "\<exists>rt. mk_FailoverMTRoute [] [SmppClientConnector ''a'', SmppClientConnector ''b''] (PFloat 1) = Inr rt \<and>
     connector_sequence (\<lambda>n. 0) 3 (snd (matchFilters sample_env sample_mt (rt\<lparr>rt_seq := 1\<rparr>))) =
     [Some (SmppClientConnector ''a''), Some (SmppClientConnector ''b''), None]"
  using failover_order[of
      "\<lparr>rt_class = FailoverMTRoute, rt_filters = [],
        rt_connector = Pool [SmppClientConnector ''a'', SmppClientConnector ''b''],
        rt_rate = PFloat 1, rt_seq = 1\<rparr>" "[SmppClientConnector ''a'', SmppClientConnector ''b'']"
      "\<lambda>n. 0" 1 sample_env sample_mt]
  by (simp add: route_ctor_defs is_failover_def numeral_3_eq_3 del: connector_sequence.simps)

end
