(* ===== verification/Routing_Tables.thy ===== *)
theory Routing_Tables
  imports Routes
begin

text \<open>
  Routing tables (\<^verbatim>\<open>jasmin/routing/RoutingTables.py\<close>) and interception tables
  (\<^verbatim>\<open>jasmin/routing/InterceptionTables.py\<close>).  A table is the list of its (order, entry) pairs, the
  dictionaries with one key that the code keeps.  Both classes follow the same discipline, which the
  locale \<open>order_table\<close> states as a contract: an entry is accepted when it is admissible at its order,
  and then replaces the entry of that order.  The locale shows that every table reachable through its
  operations is strictly descending in its orders and behaves as a finite map; it is interpreted on
  the four tables of the router.
\<close>

section \<open>Tables\<close>

text \<open>\<^verbatim>\<open>sorted(table, key=..., reverse=True)\<close>: a stable sort in descending order.\<close>

definition sort_desc :: "(int \<times> 'i) list \<Rightarrow> (int \<times> 'i) list" where
  "sort_desc t = rev (sort_key fst (rev t))"

definition tbl_remove :: "int \<Rightarrow> (int \<times> 'i) list \<Rightarrow> bool \<times> (int \<times> 'i) list" where
  "tbl_remove k t = (list_ex (\<lambda>e. fst e = k) t, remove_first (\<lambda>e. fst e = k) t)"

definition tbl_insert :: "int \<Rightarrow> 'i \<Rightarrow> (int \<times> 'i) list \<Rightarrow> (int \<times> 'i) list" where
  "tbl_insert k x t = sort_desc (snd (tbl_remove k t) @ [(k, x)])"

text \<open>The first entry that matches, where testing an entry may raise and may change it.\<close>

fun first_match ::
  "('i \<Rightarrow> bool res \<times> 'i) \<Rightarrow> (int \<times> 'i) list \<Rightarrow> (int \<times> 'i) option res \<times> (int \<times> 'i) list" where
  "first_match f [] = (Inr None, [])"
| "first_match f ((k, x) # t) =
     (case f x of
        (Inl e, x') \<Rightarrow> (Inl e, (k, x') # t)
      | (Inr True, x') \<Rightarrow> (Inr (Some (k, x')), (k, x') # t)
      | (Inr False, x') \<Rightarrow> (let (res, t') = first_match f t in (res, (k, x') # t')))"

subsection \<open>Routing tables\<close>

type_synonym route_table = "(int \<times> route) list"

definition table_conn_types :: "string \<Rightarrow> string list" where
  "table_conn_types kind = (if kind = ''mo'' then [''http'', ''smpps''] else [''smppc''])"

definition route_table_add :: "string \<Rightarrow> route \<Rightarrow> pyval \<Rightarrow> route_table \<Rightarrow> route_table res" where
  "route_table_add kind rt order t =
     raise_if (\<not> is_int order) InvalidRoutingTableParameterError
      (raise_if (\<not> list_all (\<lambda>c. conn_type c \<in> set (table_conn_types kind)) (getConnectors rt))
         InvalidRoutingTableParameterError
        (raise_if (int_of order < 0) InvalidRoutingTableParameterError
          (raise_if (int_of order \<noteq> 0 \<and> route_type (rt_class rt) \<noteq> kind)
             InvalidRoutingTableParameterError
            (raise_if (int_of order = 0 \<and> route_type (rt_class rt) \<noteq> ''default'')
               InvalidRoutingTableParameterError
              (Inr (tbl_insert (int_of order) rt t))))))"

definition route_table_remove :: "int \<Rightarrow> route_table \<Rightarrow> bool \<times> route_table" where
  "route_table_remove = tbl_remove"

definition route_table_flush :: "route_table \<Rightarrow> route_table" where
  "route_table_flush t = []"

definition getRouteFor ::
  "filter_env \<Rightarrow> routable \<Rightarrow> route_table \<Rightarrow> (int \<times> route) option res \<times> route_table" where
  "getRouteFor E r t = first_match (matchFilters E r) t"

subsection \<open>Interception tables\<close>

type_synonym interceptor_table = "(int \<times> interceptor) list"

definition interceptor_table_add ::
  "string \<Rightarrow> interceptor \<Rightarrow> pyval \<Rightarrow> interceptor_table \<Rightarrow> interceptor_table res" where
  "interceptor_table_add kind i order t =
     raise_if (\<not> is_int order) InvalidInterceptionTableParameterError
      (raise_if (kind = ''mo'' \<and> script_type (ic_script i) \<noteq> ''moi'' \<or>
                 kind = ''mt'' \<and> script_type (ic_script i) \<noteq> ''mti'')
         InvalidInterceptionTableParameterError
        (raise_if (int_of order < 0) InvalidInterceptionTableParameterError
          (raise_if (int_of order \<noteq> 0 \<and> interceptor_type (ic_class i) \<noteq> kind)
             InvalidInterceptionTableParameterError
            (raise_if (int_of order = 0 \<and> interceptor_type (ic_class i) \<noteq> ''default'')
               InvalidInterceptionTableParameterError
              (Inr (tbl_insert (int_of order) i t))))))"

definition interceptor_table_remove :: "int \<Rightarrow> interceptor_table \<Rightarrow> bool \<times> interceptor_table" where
  "interceptor_table_remove = tbl_remove"

definition interceptor_table_flush :: "interceptor_table \<Rightarrow> interceptor_table" where
  "interceptor_table_flush t = []"

definition interceptor_test :: "filter_env \<Rightarrow> routable \<Rightarrow> interceptor \<Rightarrow> bool res \<times> interceptor" where
  "interceptor_test E r i = (res_bind (ic_matchFilters E r i) (\<lambda>s. Inr (s \<noteq> None)), i)"

definition getInterceptorFor ::
  "filter_env \<Rightarrow> routable \<Rightarrow> interceptor_table \<Rightarrow> interceptor option res" where
  "getInterceptorFor E r t =
     res_bind (fst (first_match (interceptor_test E r) t)) (\<lambda>m. Inr (map_option snd m))"

section \<open>Generic lemmas on tables\<close>

definition tbl_ok :: "('i \<Rightarrow> int \<Rightarrow> bool) \<Rightarrow> (int \<times> 'i) list \<Rightarrow> bool" where
  "tbl_ok adm t \<longleftrightarrow> sorted_wrt (>) (map fst t) \<and> list_all (\<lambda>(k, x). adm x k) t"

lemma desc_distinct: "sorted_wrt (>) (map fst t) \<Longrightarrow> distinct (map fst t)" for t :: "(int \<times> 'i) list"
  by (induction t) auto

lemma set_sort_desc [simp]: "set (sort_desc t) = set t"
  by (simp add: sort_desc_def)

lemma sort_desc_sorted:
  assumes "distinct (map fst t)" shows "sorted_wrt (>) (map fst (sort_desc t))"
proof -
  have "distinct (map fst (sort_key fst (rev t)))"
    using assms by (simp add: distinct_map)
  moreover have "sorted (map fst (sort_key fst (rev t)))" by simp
  ultimately have "sorted_wrt (<) (map fst (sort_key fst (rev t)))"
    by (simp add: strict_sorted_iff)
  then show ?thesis by (simp add: sort_desc_def rev_map[symmetric] sorted_wrt_rev)
qed

lemma tbl_remove_snd:
  "distinct (map fst t) \<Longrightarrow> snd (tbl_remove k t) = filter (\<lambda>e. fst e \<noteq> k) t"
  by (simp add: tbl_remove_def remove_first_unique)

lemma map_of_filter_key: "map_of (filter (\<lambda>e. fst e \<noteq> k) t) = (map_of t)(k := None)"
  by (rule ext, induction t) auto

lemma distinct_remove_append:
  "distinct (map fst t) \<Longrightarrow> distinct (map fst (filter (\<lambda>e. fst e \<noteq> k) t @ [(k, x)]))"
  by (auto simp: distinct_map inj_on_def)

lemma map_of_set_eq:
  "distinct (map fst t) \<Longrightarrow> distinct (map fst s) \<Longrightarrow> set t = set s \<Longrightarrow> map_of t = map_of s"
  by (rule map_of_inject_set[THEN iffD2])

lemma map_of_tbl_insert:
  assumes "distinct (map fst t)"
  shows "map_of (tbl_insert k x t) = (map_of t)(k \<mapsto> x)"
proof -
  let ?l = "filter (\<lambda>e. fst e \<noteq> k) t @ [(k, x)]"
  have d: "distinct (map fst ?l)" by (rule distinct_remove_append[OF assms])
  have "map_of (sort_desc ?l) = map_of ?l"
    using desc_distinct[OF sort_desc_sorted[OF d]] d by (intro map_of_set_eq) simp_all
  also have "\<dots> = (map_of t)(k \<mapsto> x)"
    by (rule ext) (simp add: map_of_filter_key map_add_def split: option.splits)
  finally show ?thesis by (simp add: tbl_insert_def tbl_remove_snd[OF assms])
qed

lemma set_tbl_insert: "set (tbl_insert k x t) \<subseteq> insert (k, x) (set t)"
  using set_remove_first_subset[of "\<lambda>e. fst e = k" t] by (auto simp: tbl_insert_def tbl_remove_def)

lemma tbl_insert_ok:
  assumes "tbl_ok adm t" "adm x k" shows "tbl_ok adm (tbl_insert k x t)"
proof -
  have d: "distinct (map fst t)" using assms(1) by (auto simp: tbl_ok_def desc_distinct)
  from assms sort_desc_sorted[OF distinct_remove_append[OF d]] show ?thesis
    by (auto simp: tbl_ok_def tbl_insert_def tbl_remove_snd[OF d] list_all_iff)
qed

lemma tbl_remove_ok: "tbl_ok adm t \<Longrightarrow> tbl_ok adm (snd (tbl_remove k t))"
  using set_remove_first_subset[of "\<lambda>e. fst e = k" t]
  by (simp add: tbl_ok_def tbl_remove_def list_all_iff sorted_wrt_map sorted_wrt_remove_first subset_eq)

lemma map_of_tbl_remove:
  "tbl_ok adm t \<Longrightarrow> map_of (snd (tbl_remove k t)) = (map_of t)(k := None)"
  by (simp add: tbl_ok_def tbl_remove_snd desc_distinct map_of_filter_key)

lemma first_match_None:
  "fst (first_match f t) = Inr None \<longleftrightarrow> (\<forall>(k, x) \<in> set t. fst (f x) = Inr False)"
  by (induction t) (auto split: prod.splits sum.splits bool.splits)

lemma first_match_Some:
  "first_match f t = (Inr (Some (k, x')), t') \<Longrightarrow>
   \<exists>x t1 t2. t = t1 @ (k, x) # t2 \<and> f x = (Inr True, x') \<and>
     (\<forall>(j, y) \<in> set t1. fst (f y) = Inr False) \<and> t' = map (apsnd (snd \<circ> f)) t1 @ (k, x') # t2"
proof (induction f t arbitrary: t' rule: first_match.induct)
  case (2 f j y t)
  show ?case
  proof (cases "f y")
    case (Pair b y')
    show ?thesis
    proof (cases b)
      case (Inr m)
      show ?thesis
      proof (cases m)
        case True
        with 2 Pair Inr show ?thesis by (intro exI[of _ y] exI[of _ "[]"] exI[of _ t]) auto
      next
        case False
        from 2(2) Pair Inr False obtain t'' where "first_match f t = (Inr (Some (k, x')), t'')"
          "t' = (j, y') # t''" by (auto split: prod.splits)
        with 2(1)[OF Pair[symmetric] Inr, of t''] False obtain x t1 t2 where
          "t = t1 @ (k, x) # t2" "f x = (Inr True, x')" "\<forall>(j, y) \<in> set t1. fst (f y) = Inr False"
          "t' = (j, y') # map (apsnd (snd \<circ> f)) t1 @ (k, x') # t2" by auto
        then show ?thesis using Pair Inr False
          by (intro exI[of _ x] exI[of _ "(j, y) # t1"] exI[of _ t2]) auto
      qed
    qed (use 2 Pair in auto)
  qed
qed simp

lemma first_match_total:
  "(\<And>k x. (k, x) \<in> set t \<Longrightarrow> \<exists>b. fst (f x) = Inr b) \<Longrightarrow> \<exists>m t'. first_match f t = (Inr m, t')"
proof (induction t)
  case (Cons e t)
  obtain k x where e: "e = (k, x)" by force
  from Cons obtain m t' where "first_match f t = (Inr m, t')" by fastforce
  moreover from Cons.prems[of k x] e obtain b where "fst (f x) = Inr b" by auto
  ultimately show ?case unfolding e by (cases "f x"; cases b) auto
qed simp

lemma first_match_keys: "map fst (snd (first_match f t)) = map fst t"
  by (induction f t rule: first_match.induct) (auto split: prod.splits sum.splits bool.splits)

text \<open>On a descending table the first match is the one with the highest order.\<close>

lemma first_match_highest:
  assumes "sorted_wrt (>) (map fst t)" "first_match f t = (Inr (Some (k, x')), t')"
  shows "\<exists>x. map_of t k = Some x \<and> f x = (Inr True, x') \<and>
    (\<forall>j y. k < j \<longrightarrow> map_of t j = Some y \<longrightarrow> fst (f y) = Inr False)"
proof -
  from first_match_Some[OF assms(2)] obtain x t1 t2 where
    t: "t = t1 @ (k, x) # t2" "f x = (Inr True, x')" "\<forall>(j, y) \<in> set t1. fst (f y) = Inr False"
    by blast
  have "map_of t k = Some x"
    using desc_distinct[OF assms(1)] t(1) by (intro map_of_is_SomeI) auto
  moreover have "fst (f y) = Inr False" if "k < j" "map_of t j = Some y" for j y
  proof -
    from that(2) have "(j, y) \<in> set t" by (rule map_of_SomeD)
    with that(1) assms(1) t(1) have "(j, y) \<in> set t1" by (auto simp: sorted_wrt_append)
    with t(3) show ?thesis by auto
  qed
  ultimately show ?thesis using t(2) by blast
qed

section \<open>The contract of a table\<close>

datatype 'i tbl_op = TAdd 'i pyval | TRemove int | TFlush

text \<open>A sequence of operations; an addition that raises leaves the table as it was.\<close>

fun tbl_run ::
  "('i \<Rightarrow> pyval \<Rightarrow> (int \<times> 'i) list \<Rightarrow> (int \<times> 'i) list res) \<Rightarrow>
   (int \<Rightarrow> (int \<times> 'i) list \<Rightarrow> bool \<times> (int \<times> 'i) list) \<Rightarrow>
   ((int \<times> 'i) list \<Rightarrow> (int \<times> 'i) list) \<Rightarrow> 'i tbl_op list \<Rightarrow> (int \<times> 'i) list \<Rightarrow> (int \<times> 'i) list" where
  "tbl_run add remove flush [] t = t"
| "tbl_run add remove flush (TAdd x k # ops) t =
     tbl_run add remove flush ops (case add x k t of Inr t' \<Rightarrow> t' | Inl _ \<Rightarrow> t)"
| "tbl_run add remove flush (TRemove k # ops) t = tbl_run add remove flush ops (snd (remove k t))"
| "tbl_run add remove flush (TFlush # ops) t = tbl_run add remove flush ops (flush t)"

text \<open>The finite map that a table implements.\<close>

fun tbl_spec :: "('i \<Rightarrow> int \<Rightarrow> bool) \<Rightarrow> 'i tbl_op \<Rightarrow> (int \<rightharpoonup> 'i) \<Rightarrow> (int \<rightharpoonup> 'i)" where
  "tbl_spec adm (TAdd x k) m = (if is_int k \<and> adm x (int_of k) then m(int_of k \<mapsto> x) else m)"
| "tbl_spec adm (TRemove k) m = m(k := None)"
| "tbl_spec adm TFlush m = Map.empty"

locale order_table =
  fixes add :: "'i \<Rightarrow> pyval \<Rightarrow> (int \<times> 'i) list \<Rightarrow> (int \<times> 'i) list res"
    and remove :: "int \<Rightarrow> (int \<times> 'i) list \<Rightarrow> bool \<times> (int \<times> 'i) list"
    and flush :: "(int \<times> 'i) list \<Rightarrow> (int \<times> 'i) list"
    and adm :: "'i \<Rightarrow> int \<Rightarrow> bool"
  assumes add_Inr: "add x order t = Inr t' \<longleftrightarrow>
      is_int order \<and> adm x (int_of order) \<and> t' = tbl_insert (int_of order) x t"
    and remove_eq: "remove k t = tbl_remove k t"
    and flush_eq: "flush t = []"
begin

lemma add_ok: "tbl_ok adm t \<Longrightarrow> add x k t = Inr t' \<Longrightarrow> tbl_ok adm t'"
  by (auto simp: add_Inr intro: tbl_insert_ok)

lemma run_ok: "tbl_ok adm t \<Longrightarrow> tbl_ok adm (tbl_run add remove flush ops t)"
proof (induction ops arbitrary: t)
  case (Cons op ops)
  then show ?case
    by (cases op) (auto simp: remove_eq flush_eq tbl_ok_def[of _ "[]"] intro: tbl_remove_ok add_ok
        split: sum.splits)
qed simp

lemma add_refines:
  assumes "tbl_ok adm t"
  shows "map_of (case add x k t of Inr t' \<Rightarrow> t' | Inl _ \<Rightarrow> t) = tbl_spec adm (TAdd x k) (map_of t)"
proof (cases "add x k t")
  case (Inl e)
  then have "\<not> (is_int k \<and> adm x (int_of k))"
    using add_Inr[of x k t "tbl_insert (int_of k) x t"] by simp
  with Inl show ?thesis by auto
next
  case (Inr t')
  with assms add_Inr[THEN iffD1, OF Inr] show ?thesis
    by (simp add: map_of_tbl_insert tbl_ok_def desc_distinct)
qed

lemma run_refines:
  "tbl_ok adm t \<Longrightarrow>
   map_of (tbl_run add remove flush ops t) = fold (tbl_spec adm) ops (map_of t)"
proof (induction ops arbitrary: t)
  case (Cons op ops)
  from run_ok[OF Cons.prems, of "[op]"] Cons show ?case
    by (cases op) (simp_all add: remove_eq flush_eq map_of_tbl_remove[of adm] add_refines
        del: tbl_spec.simps(1) fun_upd_apply)
qed simp

text \<open>Whatever is in the table was added by one of the operations.\<close>

lemma run_source:
  "(k, x) \<in> set (tbl_run add remove flush ops t) \<Longrightarrow>
   (k, x) \<in> set t \<or> (\<exists>j. TAdd x j \<in> set ops)"
proof (induction ops arbitrary: t)
  case (Cons op ops)
  then show ?case
  proof (cases op)
    case (TAdd y j)
    with Cons set_tbl_insert[of "int_of j" y t] show ?thesis
      by (cases "add y j t") (fastforce simp: add_Inr)+
  next
    case (TRemove j)
    with Cons.IH[of "remove_first (\<lambda>e. fst e = j) t"] Cons.prems
      set_remove_first_subset[of "\<lambda>e. fst e = j" t]
    show ?thesis by (auto simp: remove_eq tbl_remove_def)
  qed (use Cons flush_eq in fastforce)
qed simp

end

subsection \<open>The four tables\<close>

definition route_adm :: "string \<Rightarrow> route \<Rightarrow> int \<Rightarrow> bool" where
  "route_adm kind rt k \<longleftrightarrow> 0 \<le> k \<and>
     list_all (\<lambda>c. conn_type c \<in> set (table_conn_types kind)) (getConnectors rt) \<and>
     route_type (rt_class rt) = (if k = 0 then ''default'' else kind)"

definition interceptor_adm :: "string \<Rightarrow> interceptor \<Rightarrow> int \<Rightarrow> bool" where
  "interceptor_adm kind i k \<longleftrightarrow> 0 \<le> k \<and>
     \<not> (kind = ''mo'' \<and> script_type (ic_script i) \<noteq> ''moi'' \<or>
        kind = ''mt'' \<and> script_type (ic_script i) \<noteq> ''mti'') \<and>
     interceptor_type (ic_class i) = (if k = 0 then ''default'' else kind)"

interpretation mt_routes: order_table "route_table_add ''mt''" route_table_remove route_table_flush
  "route_adm ''mt''"
  by unfold_locales (auto simp: route_table_add_def route_table_remove_def route_table_flush_def
      route_adm_def)

interpretation mo_routes: order_table "route_table_add ''mo''" route_table_remove route_table_flush
  "route_adm ''mo''"
  by unfold_locales (auto simp: route_table_add_def route_table_remove_def route_table_flush_def
      route_adm_def)

interpretation mt_interceptors: order_table "interceptor_table_add ''mt''" interceptor_table_remove
  interceptor_table_flush "interceptor_adm ''mt''"
  by unfold_locales (auto simp: interceptor_table_add_def interceptor_table_remove_def
      interceptor_table_flush_def interceptor_adm_def)

interpretation mo_interceptors: order_table "interceptor_table_add ''mo''" interceptor_table_remove
  interceptor_table_flush "interceptor_adm ''mo''"
  by unfold_locales (auto simp: interceptor_table_add_def interceptor_table_remove_def
      interceptor_table_flush_def interceptor_adm_def)

abbreviation run_routes :: "string \<Rightarrow> route tbl_op list \<Rightarrow> route_table" where
  "run_routes kind ops \<equiv>
     tbl_run (route_table_add kind) route_table_remove route_table_flush ops []"

abbreviation run_interceptors :: "string \<Rightarrow> interceptor tbl_op list \<Rightarrow> interceptor_table" where
  "run_interceptors kind ops \<equiv>
     tbl_run (interceptor_table_add kind) interceptor_table_remove interceptor_table_flush ops []"

lemma tbl_ok_Nil [simp]: "tbl_ok adm []"
  by (simp add: tbl_ok_def)

lemma run_routes_ok:
  "kind \<in> {''mo'', ''mt''} \<Longrightarrow> tbl_ok (route_adm kind) (run_routes kind ops)"
  using mt_routes.run_ok[OF tbl_ok_Nil] mo_routes.run_ok[OF tbl_ok_Nil] by blast

lemma run_interceptors_ok:
  "kind \<in> {''mo'', ''mt''} \<Longrightarrow> tbl_ok (interceptor_adm kind) (run_interceptors kind ops)"
  using mt_interceptors.run_ok[OF tbl_ok_Nil] mo_interceptors.run_ok[OF tbl_ok_Nil] by blast

lemma run_routes_source:
  assumes "kind \<in> {''mo'', ''mt''}" "(k, rt) \<in> set (run_routes kind ops)"
  shows "\<exists>j. TAdd rt j \<in> set ops"
  using assms mt_routes.run_source[of k rt ops "[]"] mo_routes.run_source[of k rt ops "[]"] by auto

text \<open>A routable on a reachable table of its kind, whose routes came out of the constructors.\<close>

definition routes_ok :: "route tbl_op list \<Rightarrow> bool" where
  "routes_ok ops \<longleftrightarrow> (\<forall>rt j. TAdd rt j \<in> set ops \<longrightarrow> route_ok rt)"

lemma run_routes_match_total:
  assumes "kind \<in> {''mo'', ''mt''}" "routes_ok ops" "routable_ok kind r" "eval_total E"
    "(k, rt) \<in> set (run_routes kind ops)"
  shows "\<exists>b. fst (matchFilters E r rt) = Inr b"
proof -
  from run_routes_source[OF assms(1,5)] assms(2) have "route_ok rt" by (auto simp: routes_ok_def)
  moreover from run_routes_ok[OF assms(1), of ops] assms(5)
  have "route_adm kind rt k" by (auto simp: tbl_ok_def list_all_iff)
  then have "rt_class rt = DefaultRoute \<or> route_type (rt_class rt) = kind"
    by (cases "rt_class rt") (auto simp: route_adm_def split: if_splits)
  ultimately show ?thesis using assms(3,4) by (intro matchFilters_total)
qed

text \<open>
  Claim C28.  However a routing table has been edited, its orders are distinct, not negative and strictly
  descending, order 0 holds a default route, every other order holds a route of the table's own type,
  and every connector of every route is of a type that the table can deliver to.
\<close>

theorem routing_table_invariant:
  assumes "kind = ''mo'' \<or> kind = ''mt''"
  shows "sorted_wrt (>) (map fst (run_routes kind ops)) \<and>
    (\<forall>(k, rt) \<in> set (run_routes kind ops). 0 \<le> k \<and>
       route_type (rt_class rt) = (if k = 0 then ''default'' else kind) \<and>
       (\<forall>c \<in> set (getConnectors rt). conn_type c \<in> set (table_conn_types kind)))"
  using run_routes_ok[of kind ops] assms
  by (auto simp: tbl_ok_def route_adm_def list_all_iff split: prod.splits)

definition sample_ops :: "route tbl_op list" where
  "sample_ops =
     [TAdd \<lparr>rt_class = DefaultRoute, rt_filters = [], rt_connector = Single (SmppClientConnector ''d''),
            rt_rate = PFloat 0, rt_seq = -1\<rparr> (PInt 0),
      TAdd \<lparr>rt_class = StaticMTRoute, rt_filters = [DestinationAddrFilter ''22''],
            rt_connector = Single (SmppClientConnector ''a''), rt_rate = PFloat 2, rt_seq = -1\<rparr> (PInt 10),
      TAdd \<lparr>rt_class = StaticMTRoute, rt_filters = [SourceAddrFilter ''9''],
            rt_connector = Single (SmppClientConnector ''b''), rt_rate = PFloat 3, rt_seq = -1\<rparr> (PInt 20),
      TAdd \<lparr>rt_class = StaticMTRoute, rt_filters = [], rt_connector = Single (HttpConnector ''hhh'' ''http://h'' ''GET''),
            rt_rate = PFloat 3, rt_seq = -1\<rparr> (PInt 30)]"

theorem routing_table_invariant_witness:
  "\<exists>t. run_routes ''mt'' sample_ops = t \<and> map fst t = [20, 10, 0] \<and> sorted_wrt (>) (map fst t) \<and>
   (\<forall>(k, rt) \<in> set t. 0 \<le> k \<and>
       route_type (rt_class rt) = (if k = 0 then ''default'' else ''mt'') \<and>
       (\<forall>c \<in> set (getConnectors rt). conn_type c \<in> set (table_conn_types ''mt'')))"
proof -
  have "map fst (run_routes ''mt'' sample_ops) = [20, 10, 0]" by code_simp
  then show ?thesis using routing_table_invariant[of "''mt''" sample_ops] by simp
qed

text \<open>
  Claim C19.  A routing table implements a finite map from orders to routes: after any sequence of
  additions, removals and flushes, looking up an order finds the route of the last accepted addition
  at that order that no later operation removed, and rejected additions change nothing.
\<close>

theorem routing_table_refines_map:
  assumes "kind = ''mo'' \<or> kind = ''mt''"
  shows "map_of (run_routes kind ops) = fold (tbl_spec (route_adm kind)) ops Map.empty"
  using assms mo_routes.run_refines[OF tbl_ok_Nil, of ops] mt_routes.run_refines[OF tbl_ok_Nil, of ops]
  by auto

theorem routing_table_refines_map_witness:
  "map_of (run_routes ''mt'' sample_ops) = fold (tbl_spec (route_adm ''mt'')) sample_ops Map.empty"
  by (rule routing_table_refines_map) simp


lemma sample_routes_ok: "routes_ok sample_ops"
  by (auto simp: routes_ok_def sample_ops_def route_ok_def)


lemma run_interceptors_source:
  assumes "kind \<in> {''mo'', ''mt''}" "(k, i) \<in> set (run_interceptors kind ops)"
  shows "\<exists>j. TAdd i j \<in> set ops"
  using assms mt_interceptors.run_source[of k i ops "[]"] mo_interceptors.run_source[of k i ops "[]"]
  by auto

definition interceptors_ok :: "interceptor tbl_op list \<Rightarrow> bool" where
  "interceptors_ok ops \<longleftrightarrow> (\<forall>i j. TAdd i j \<in> set ops \<longrightarrow> ic_class i \<noteq> DefaultInterceptor \<longrightarrow>
     (\<forall>f \<in> set (ic_filters i). interceptor_type (ic_class i) \<in> set (usedFor f)))"

lemma mk_Interceptor_ok:
  "mk_Interceptor cls fs sc = Inr i \<Longrightarrow> f \<in> set (ic_filters i) \<Longrightarrow>
   interceptor_type (ic_class i) \<in> set (usedFor f)"
  by (auto simp: mk_Interceptor_def)

lemma interceptor_test_total:
  assumes "kind \<in> {''mo'', ''mt''}" "interceptors_ok ops" "routable_ok kind r" "eval_total E"
    "(k, i) \<in> set (run_interceptors kind ops)"
  shows "\<exists>b. fst (interceptor_test E r i) = Inr b"
proof (cases "ic_class i = DefaultInterceptor")
  case False
  from run_interceptors_source[OF assms(1,5)] assms(2) False
  have f: "f \<in> set (ic_filters i) \<Longrightarrow> interceptor_type (ic_class i) \<in> set (usedFor f)" for f
    unfolding interceptors_ok_def by blast
  from run_interceptors_ok[OF assms(1), of ops] assms(5) have "interceptor_adm kind i k"
    by (auto simp: tbl_ok_def list_all_iff)
  with False have "interceptor_type (ic_class i) = kind"
    by (cases "ic_class i") (auto simp: interceptor_adm_def split: if_splits)
  with f filter_match_total[OF assms(3) _ assms(4)] obtain b where
    "for_all (\<lambda>f. filter_match E f r) (ic_filters i) = Inr b"
    using for_all_total[of "ic_filters i" "\<lambda>f. filter_match E f r"] by blast
  then show ?thesis by (auto simp: interceptor_test_def ic_matchFilters_def)
qed (auto simp: interceptor_test_def ic_matchFilters_def)

text \<open>
  The interception table returns, without an exception, the interceptor of the highest order
  whose filters all match the message, and none exactly when no interceptor matches.
\<close>

theorem getInterceptorFor_highest_order:
  assumes "kind = ''mo'' \<or> kind = ''mt''" "interceptors_ok ops" "routable_ok kind r" "eval_total E"
    "t = run_interceptors kind ops"
  shows "\<exists>m. getInterceptorFor E r t = Inr m \<and>
    (m = None \<longleftrightarrow> (\<forall>(k, i) \<in> set t. ic_matchFilters E r i = Inr None)) \<and>
    (\<forall>i. m = Some i \<longrightarrow> (\<exists>k. map_of t k = Some i \<and> ic_matchFilters E r i = Inr (Some (ic_script i)) \<and>
       (\<forall>j i2. k < j \<longrightarrow> map_of t j = Some i2 \<longrightarrow> ic_matchFilters E r i2 = Inr None)))"
proof -
  have k: "kind \<in> {''mo'', ''mt''}" using assms(1) by auto
  have srt: "sorted_wrt (>) (map fst t)"
    using run_interceptors_ok[OF k, of ops] assms(5) by (simp add: tbl_ok_def)
  have no: "fst (interceptor_test E r i) = Inr False \<longleftrightarrow> ic_matchFilters E r i = Inr None" for i
    by (auto simp: interceptor_test_def)
  have yes: "interceptor_test E r i = (Inr True, i') \<Longrightarrow>
      i' = i \<and> ic_matchFilters E r i = Inr (Some (ic_script i))" for i i'
    by (auto simp: interceptor_test_def ic_matchFilters_def split: if_splits)
  obtain m t' where m: "first_match (interceptor_test E r) t = (Inr m, t')"
    using first_match_total[of t "interceptor_test E r"] interceptor_test_total[OF k assms(2-4)] assms(5)
    by blast
  have "m = None \<longleftrightarrow> (\<forall>(k, i) \<in> set t. ic_matchFilters E r i = Inr None)"
    using first_match_None[of "interceptor_test E r" t] m no by simp
  moreover have "\<exists>x. map_of t k = Some x \<and> interceptor_test E r x = (Inr True, i) \<and>
      (\<forall>j y. k < j \<longrightarrow> map_of t j = Some y \<longrightarrow> ic_matchFilters E r y = Inr None)"
    if "m = Some (k, i)" for k i
    using first_match_highest[OF srt, of "interceptor_test E r" k i t'] m that by (simp add: no)
  ultimately show ?thesis
    using m yes unfolding getInterceptorFor_def by (cases m) (fastforce, force)
qed

definition sample_int_ops :: "interceptor tbl_op list" where
  "sample_int_ops =
     [TAdd \<lparr>ic_class = DefaultInterceptor, ic_filters = [], ic_script = MTInterceptorScript ''a''\<rparr> (PInt 0),
      TAdd \<lparr>ic_class = StaticMTInterceptor, ic_filters = [SourceAddrFilter ''1''],
            ic_script = MTInterceptorScript ''b''\<rparr> (PInt 5)]"

theorem getInterceptorFor_highest_order_witness:
  "map_option (script_code \<circ> ic_script)
     (case getInterceptorFor sample_env sample_mt (run_interceptors ''mt'' sample_int_ops) of
        Inr m \<Rightarrow> m | Inl _ \<Rightarrow> None) = Some ''b'' \<and>
   (\<exists>m. getInterceptorFor sample_env sample_mt (run_interceptors ''mt'' sample_int_ops) = Inr m)"
proof -
  have "interceptors_ok sample_int_ops" by (auto simp: interceptors_ok_def sample_int_ops_def)
  from getInterceptorFor_highest_order[OF _ this sample_ok(1,3) refl]
  have "\<exists>m. getInterceptorFor sample_env sample_mt (run_interceptors ''mt'' sample_int_ops) = Inr m"
    by blast
  moreover have "map_option (script_code \<circ> ic_script)
     (case getInterceptorFor sample_env sample_mt (run_interceptors ''mt'' sample_int_ops) of
        Inr m \<Rightarrow> m | Inl _ \<Rightarrow> None) = Some ''b''" by code_simp
  ultimately show ?thesis by blast
qed

end
