(* ===== verification/Migration.thy ===== *)
theory Migration
  imports Routing_Tables
begin

text \<open>
  Migration of persisted configuration (\<^verbatim>\<open>jasmin/tools/migrations/configuration.py\<close> and
  \<^verbatim>\<open>migration.py\<close>).  A persisted file is its header line and the unpickled data; the date of the header
  is read by a library function, \<open>date_ok\<close> says which dates it accepts.  The version of a release is
  compared as the float \<^verbatim>\<open>major.minorPATCH\<close>, which the lemmas evaluate for the current release.
\<close>

section \<open>Versions\<close>

fun take_digits :: "string \<Rightarrow> string \<times> string" where
  "take_digits [] = ([], [])"
| "take_digits (c # cs) =
     (if is_digit c then (let (ds, r) = take_digits cs in (c # ds, r)) else ([], c # cs))"

definition ver_sep :: "char \<Rightarrow> bool" where
  "ver_sep c \<longleftrightarrow> is_lower c \<or> c = CHR ''.''"

definition at_end :: "string \<Rightarrow> bool" where
  "at_end s \<longleftrightarrow> s = [] \<or> s = [CHR 0x0A]"

text \<open>\<^verbatim>\<open>^(\d+)\.(\d+)([a-z.]*)(\d+)$\<close>: without a separator the minor number gives up its last digit.\<close>

definition regex_ver :: "string \<Rightarrow> (string \<times> string \<times> string) option" where
  "regex_ver s =
     (let (major, r1) = take_digits s
      in if major = [] \<or> r1 = [] \<or> hd r1 \<noteq> CHR ''.'' then None
         else let (minor, r2) = take_digits (tl r1);
                  (patch, r3) = take_digits (dropWhile ver_sep r2)
              in if minor = [] then None
                 else if at_end r2 then
                   (if 2 \<le> length minor then Some (major, butlast minor, [last minor]) else None)
                 else if dropWhile ver_sep r2 \<noteq> r2 \<and> patch \<noteq> [] \<and> at_end r3 then
                   Some (major, minor, patch)
                 else None)"

definition zfill3 :: "string \<Rightarrow> string" where
  "zfill3 s = replicate (3 - length s) (CHR ''0'') @ s"

text \<open>\<^verbatim>\<open>float(s)\<close> of a decimal \<^verbatim>\<open>digits.digits\<close>, the form that versions and conditions have.\<close>

definition dec_float :: "string \<Rightarrow> rat res" where
  "dec_float s =
     (case split_on (CHR ''.'') s of
        [a, b] \<Rightarrow>
          (case digits_val 10 0 False (a @ b) of
             Some n \<Rightarrow>
               if list_all is_digit (a @ b) then Inr (fl (of_nat n / 10 ^ length b)) else Inl ValueError
           | None \<Rightarrow> Inl ValueError)
      | _ \<Rightarrow> Inl ValueError)"

definition version_parse :: "string \<Rightarrow> rat res" where
  "version_parse version =
     (case regex_ver version of
        None \<Rightarrow> Inl ValueError
      | Some (major, minor, patch) \<Rightarrow> dec_float (major @ ''.'' @ minor @ zfill3 patch))"

definition version_is_valid :: "string \<Rightarrow> string \<Rightarrow> bool res" where
  "version_is_valid version cond =
     res_bind (version_parse version) (\<lambda>v.
       if take 2 cond \<in> {''>='', ''<='', ''==''} then
         res_bind (dec_float (drop 2 cond)) (\<lambda>c.
           Inr (if take 2 cond = ''>='' then v \<ge> c
                else if take 2 cond = ''<='' then v \<le> c else v = c))
       else if take 1 cond \<in> {''>'', ''<''} then
         res_bind (dec_float (drop 1 cond)) (\<lambda>c.
           Inr (if take 1 cond = ''>'' then v > c else v < c))
       else Inl ValueError)"

section \<open>Persisted files\<close>

datatype pdata =
    DGroups "group list"
  | DUsers "user list"
  | DRoutes route_table
  | DInterceptors interceptor_table
  | DFilters "(string \<times> filter_kind) list"
  | DSmppccs "(string \<times> (string, pyval) dict \<times> bool) list"

record pfile =
  pf_header :: string
  pf_data :: pdata

text \<open>\<^verbatim>\<open>^Persisted on (.*) \[Jasmin (.*)\]\<close> on the header line: both groups are greedy, so the last
  marker that is followed by a bracket counts, and the last bracket after it.\<close>

fun last_split :: "string \<Rightarrow> (string \<times> string) option" where
  "last_split [] = None"
| "last_split (c # cs) =
     (case last_split cs of
        Some (d, v) \<Rightarrow> Some (c # d, v)
      | None \<Rightarrow>
          if startswith (c # cs) '' [Jasmin '' \<and> CHR '']'' \<in> set (drop 9 (c # cs))
          then Some ([], rev (tl (dropWhile (\<lambda>x. x \<noteq> CHR '']'') (rev (drop 9 (c # cs))))))
          else None)"

definition regex_header :: "string \<Rightarrow> (string \<times> string) option" where
  "regex_header h =
     (let line = takeWhile (\<lambda>c. c \<noteq> CHR 0x0A) h
      in if startswith line ''Persisted on '' then last_split (drop 13 line) else None)"

definition mk_header :: "string \<Rightarrow> string \<Rightarrow> string" where
  "mk_header date release = ''Persisted on '' @ date @ '' [Jasmin '' @ release @ '']'' @ [CHR 0x0A]"

section \<open>Migration steps\<close>

text \<open>A step called for a context it has no branch for returns \<^verbatim>\<open>None\<close>, which the next use of the data
  refuses; the map never does that.\<close>

text \<open>A user rebuilt from an old one: the constructor sets \<^verbatim>\<open>enabled\<close>.\<close>

definition rebuild_user :: "user \<Rightarrow> user res" where
  "rebuild_user u =
     res_bind (mk_Group (g_gid (u_group u))) (\<lambda>g.
       mk_User (\<lambda>p. p) (u_uid u) g (u_username u) (u_password u) (Some (u_mt u)) (Some (u_smpps u)) True)"

definition grant :: "string \<Rightarrow> user \<Rightarrow> user" where
  "grant key u = u\<lparr>u_mt := (u_mt u)\<lparr>authorizations := dset (authorizations (u_mt u)) key (PBool True)\<rparr>\<rparr>"

definition user_status :: "string \<Rightarrow> pdata \<Rightarrow> pdata res" where
  "user_status context data =
     (case data of
        DUsers us \<Rightarrow> res_bind (map_res rebuild_user us) (\<lambda>us'. Inr (DUsers us'))
      | _ \<Rightarrow> Inl AttributeError)"

definition group_status :: "string \<Rightarrow> pdata \<Rightarrow> pdata res" where
  "group_status context data =
     (case data of
        DGroups gs \<Rightarrow> res_bind (map_res (\<lambda>g. mk_Group (g_gid g)) gs) (\<lambda>gs'. Inr (DGroups gs'))
      | _ \<Rightarrow> Inl AttributeError)"

fun cast_tag :: "filter_kind \<Rightarrow> filter_kind" where
  "cast_tag (TagFilter (TagInt i)) = TagFilter (TagStr (str_int i))"
| "cast_tag f = f"

definition tagfilters_casting :: "string \<Rightarrow> pdata \<Rightarrow> pdata res" where
  "tagfilters_casting context data =
     (if context = ''filters'' then
        (case data of DFilters fs \<Rightarrow> Inr (DFilters (map (apsnd cast_tag) fs)) | _ \<Rightarrow> Inl AttributeError)
      else if context = ''mtroutes'' then
        (case data of
           DRoutes t \<Rightarrow>
             Inr (DRoutes (map (apsnd (\<lambda>rt. rt\<lparr>rt_filters := map cast_tag (rt_filters rt)\<rparr>)) t))
         | _ \<Rightarrow> Inl AttributeError)
      else Inr data)"

definition fix_protocol_id :: "(string, pyval) dict \<Rightarrow> (string, pyval) dict" where
  "fix_protocol_id cfg =
     (case map_of cfg ''protocol_id'' of
        Some (PStr s) \<Rightarrow> if lower s = ''none'' then dset cfg ''protocol_id'' PNone else cfg
      | _ \<Rightarrow> cfg)"

definition fix_users_and_smppccs_09rc23 :: "string \<Rightarrow> pdata \<Rightarrow> pdata res" where
  "fix_users_and_smppccs_09rc23 context data =
     (if context = ''users'' then
        (case data of
           DUsers us \<Rightarrow>
             res_bind (map_res rebuild_user us) (\<lambda>us'.
               Inr (DUsers (map (\<lambda>u. grant ''set_schedule_delivery_time'' (grant ''set_hex_content'' u)) us')))
         | _ \<Rightarrow> Inl AttributeError)
      else if context = ''smppccs'' then
        (case data of
           DSmppccs cs \<Rightarrow> Inr (DSmppccs (map (apsnd (apfst fix_protocol_id)) cs))
         | _ \<Rightarrow> Inl AttributeError)
      else Inl TypeError)"

definition fix_users_09rc24 :: "string \<Rightarrow> pdata \<Rightarrow> pdata res" where
  "fix_users_09rc24 context data =
     (if context = ''users'' then
        (case data of
           DUsers us \<Rightarrow>
             res_bind (map_res rebuild_user us) (\<lambda>us'.
               Inr (DUsers (map (grant ''set_schedule_delivery_time'') us')))
         | _ \<Rightarrow> Inl AttributeError)
      else Inl TypeError)"

fun bytes_pattern :: "pyval \<Rightarrow> pyval" where
  "bytes_pattern (PStr s) = PBytes s"
| "bytes_pattern v = v"

definition fix_user_filters_0109 :: "string \<Rightarrow> pdata \<Rightarrow> pdata res" where
  "fix_user_filters_0109 context data =
     (if context = ''users'' then
        (case data of
           DUsers us \<Rightarrow>
             Inr (DUsers (map (\<lambda>u. u\<lparr>u_mt := (u_mt u)\<lparr>value_filters :=
                    map (apsnd bytes_pattern) (value_filters (u_mt u))\<rparr>\<rparr>) us))
         | _ \<Rightarrow> Inl AttributeError)
      else Inl TypeError)"

type_synonym migration = "string list \<times> string list \<times> (string \<Rightarrow> pdata \<Rightarrow> pdata res) list"

definition MAP :: "migration list" where
  "MAP =
     [([''<0.8008''], [''groups''], [group_status]),
      ([''<0.8008''], [''users''], [user_status]),
      ([''<=0.9015''], [''filters'', ''mtroutes''], [tagfilters_casting]),
      ([''<=0.9022''], [''users'', ''smppccs''], [fix_users_and_smppccs_09rc23]),
      ([''<=0.9023''], [''users''], [fix_users_09rc24]),
      ([''<=0.10008''], [''users''], [fix_user_filters_0109])]"

section \<open>The migrator\<close>

record migrator =
  cm_context :: string
  cm_data :: pdata
  cm_version :: string

definition ConfigurationMigrator :: "(string \<Rightarrow> bool) \<Rightarrow> string \<Rightarrow> pfile \<Rightarrow> migrator res" where
  "ConfigurationMigrator date_ok context f =
     (case regex_header (pf_header f) of
        None \<Rightarrow> Inl TypeError
      | Some (date, version) \<Rightarrow>
          raise_if (\<not> date_ok date) ValueError
           (Inr \<lparr>cm_context = context, cm_data = pf_data f, cm_version = version\<rparr>))"

fun run_operations :: "string \<Rightarrow> (string \<Rightarrow> pdata \<Rightarrow> pdata res) list \<Rightarrow> pdata \<Rightarrow> pdata res" where
  "run_operations context [] data = Inr data"
| "run_operations context (f # fs) data = res_bind (f context data) (run_operations context fs)"

fun run_map :: "string \<Rightarrow> string \<Rightarrow> migration list \<Rightarrow> pdata \<Rightarrow> pdata res" where
  "run_map context version [] data = Inr data"
| "run_map context version ((conds, ctxs, ops) # ms) data =
     (if context \<notin> set ctxs then run_map context version ms data
      else res_bind (for_all (version_is_valid version) conds) (\<lambda>valid.
        if valid then res_bind (run_operations context ops data) (run_map context version ms)
        else run_map context version ms data))"

definition getMigratedData :: "migrator \<Rightarrow> pdata res" where
  "getMigratedData m = run_map (cm_context m) (cm_version m) MAP (cm_data m)"

text \<open>\<^verbatim>\<open>jasmin.get_release()\<close> of this source tree.\<close>

definition get_release :: string where
  "get_release = ''0.11.1''"

section \<open>Lemmas\<close>

lemma last_split_release: "last_split (date @ '' [Jasmin '' @ get_release @ '']'') = Some (date, get_release)"
proof (induction date)
  case Nil
  show ?case by code_simp
qed simp

lemma regex_header_mk:
  assumes "CHR 0x0A \<notin> set date"
  shows "regex_header (mk_header date get_release) = Some (date, get_release)"
proof -
  let ?l = "''Persisted on '' @ date @ '' [Jasmin '' @ get_release @ '']''"
  have "CHR 0x0A \<notin> set ?l" using assms by (simp add: get_release_def)
  then have "takeWhile (\<lambda>c. c \<noteq> CHR 0x0A) (?l @ [CHR 0x0A]) = ?l"
    by (subst takeWhile_append2) auto
  then have "takeWhile (\<lambda>c. c \<noteq> CHR 0x0A) (mk_header date get_release) = ?l"
    by (simp add: mk_header_def)
  then show ?thesis
    using last_split_release[of date] by (simp add: regex_header_def startswith_def Let_def)
qed

text \<open>The conditions of the map, evaluated for the current release.\<close>

lemma release_conditions [simp]:
  "version_is_valid get_release ''<0.8008'' = Inr True"
  "version_is_valid get_release ''<=0.9015'' = Inr True"
  "version_is_valid get_release ''<=0.9022'' = Inr True"
  "version_is_valid get_release ''<=0.9023'' = Inr True"
  "version_is_valid get_release ''<=0.10008'' = Inr False"
  by code_simp+

text \<open>Identifiers that the constructors accept.\<close>

definition group_id_ok :: "group \<Rightarrow> bool" where
  "group_id_ok g \<longleftrightarrow> id_match 1 16 (g_gid g)"

definition user_ids_ok :: "user \<Rightarrow> bool" where
  "user_ids_ok u \<longleftrightarrow> id_match 1 16 (u_uid u) \<and> (\<forall>n \<in> set_option (u_username u). id_match 1 15 n) \<and>
     group_id_ok (u_group u)"

definition enable_all :: "user \<Rightarrow> user" where
  "enable_all u = u\<lparr>u_enabled := True, u_group := group_enable (u_group u)\<rparr>"

lemma rebuild_group: "group_id_ok g \<Longrightarrow> mk_Group (g_gid g) = Inr (group_enable g)"
  by (simp add: mk_Group_def group_id_ok_def group_enable_def)

lemma rebuild_user_eq: "user_ids_ok u \<Longrightarrow> rebuild_user u = Inr (enable_all u)"
  unfolding rebuild_user_def
  by (subst rebuild_group) (auto simp: user_ids_ok_def mk_User_def user_password_def enable_all_def
      split: option.splits)

lemma user_ids_ok_grant [simp]: "user_ids_ok (grant k u) = user_ids_ok u" "user_ids_ok (enable_all u) = user_ids_ok u"
  by (simp_all add: user_ids_ok_def grant_def enable_all_def group_id_ok_def group_enable_def)

lemma cast_tag_id: "(\<And>i. f \<noteq> TagFilter (TagInt i)) \<Longrightarrow> cast_tag f = f"
  by (cases f rule: cast_tag.cases) auto

lemma rebuild_users:
  "\<forall>u \<in> set us. user_ids_ok u \<Longrightarrow> map_res rebuild_user us = Inr (map enable_all us)"
  by (intro map_res_Inr_map) (simp add: rebuild_user_eq)

text \<open>What loading a file written by the current release makes of a user.\<close>

definition migrated_user :: "user \<Rightarrow> user" where
  "migrated_user u =
     grant ''set_schedule_delivery_time''
      (grant ''set_schedule_delivery_time'' (grant ''set_hex_content'' (enable_all u)))"

lemma enable_all_grant [simp]: "enable_all (grant k u) = grant k (enable_all u)"
  "enable_all (enable_all u) = enable_all u"
  by (simp_all add: enable_all_def grant_def group_enable_def)

lemma migrate_users:
  assumes "\<forall>u \<in> set us. user_ids_ok u"
  shows "run_map ''users'' get_release MAP (DUsers us) = Inr (DUsers (map migrated_user us))"
proof -
  let ?g = "\<lambda>u. grant ''set_schedule_delivery_time'' (grant ''set_hex_content'' u)"
  have 1: "map_res rebuild_user us = Inr (map enable_all us)"
    using assms by (rule rebuild_users)
  have 2: "map_res rebuild_user (map enable_all us) = Inr (map enable_all us)"
    using assms rebuild_users[of "map enable_all us"] by (simp add: comp_def)
  have 3: "map_res rebuild_user (map (\<lambda>u. ?g (enable_all u)) us) = Inr (map (\<lambda>u. ?g (enable_all u)) us)"
    using assms rebuild_users[of "map (\<lambda>u. ?g (enable_all u)) us"] by (simp add: comp_def)
  show ?thesis
    by (simp add: MAP_def user_status_def fix_users_and_smppccs_09rc23_def fix_users_09rc24_def
        1 2 3 comp_def migrated_user_def)
qed

lemma migrate_groups:
  assumes "\<forall>g \<in> set gs. group_id_ok g"
  shows "run_map ''groups'' get_release MAP (DGroups gs) = Inr (DGroups (map group_enable gs))"
  using assms map_res_Inr_map[of gs "\<lambda>g. mk_Group (g_gid g)" group_enable]
  by (simp add: MAP_def group_status_def rebuild_group)

lemma migrate_other:
  "run_map ''moroutes'' get_release MAP d = Inr d"
  "run_map ''mointerceptors'' get_release MAP d = Inr d"
  "run_map ''mtinterceptors'' get_release MAP d = Inr d"
  by (simp_all add: MAP_def)

lemma migrate_mtroutes:
  assumes "\<forall>(k, rt) \<in> set t. \<forall>f \<in> set (rt_filters rt). \<forall>i. f \<noteq> TagFilter (TagInt i)"
  shows "run_map ''mtroutes'' get_release MAP (DRoutes t) = Inr (DRoutes t)"
proof -
  have "map (apsnd (\<lambda>rt. rt\<lparr>rt_filters := map cast_tag (rt_filters rt)\<rparr>)) t = t"
  proof (rule map_idI, clarify)
    fix k rt assume "(k, rt) \<in> set t"
    with assms have "map cast_tag (rt_filters rt) = rt_filters rt"
      by (intro map_idI cast_tag_id) fastforce
    then show "apsnd (\<lambda>rt. rt\<lparr>rt_filters := map cast_tag (rt_filters rt)\<rparr>) (k, rt) = (k, rt)" by simp
  qed
  then show ?thesis by (simp add: MAP_def tagfilters_casting_def)
qed

text \<open>
  The migration steps written for releases before 0.8.8 run on files of the current release:
  its version is parsed to 0.11001, which is below 0.8008.  Loading the groups that the current release
  has just persisted enables every group that was disabled.
\<close>

theorem migration_enables_groups:
  assumes "CHR 0x0A \<notin> set date" "date_ok date" "\<forall>g \<in> set gs. id_match 1 16 (g_gid g)"
  shows "res_bind (ConfigurationMigrator date_ok ''groups''
            \<lparr>pf_header = mk_header date get_release, pf_data = DGroups gs\<rparr>) getMigratedData =
    Inr (DGroups (map group_enable gs))"
  using assms migrate_groups[of gs]
  by (simp add: ConfigurationMigrator_def regex_header_mk getMigratedData_def group_id_ok_def)

theorem migration_enables_groups_witness:
  "res_bind (ConfigurationMigrator (\<lambda>d. True) ''groups''
      \<lparr>pf_header = mk_header ''Sun Nov 15 10:00:00 2026'' get_release,
       pf_data = DGroups [\<lparr>g_gid = ''g1'', g_enabled = False\<rparr>]\<rparr>) getMigratedData =
   Inr (DGroups [\<lparr>g_gid = ''g1'', g_enabled = True\<rparr>])"
proof -
  have "id_match 1 16 ''g1''" by code_simp
  then show ?thesis
    using migration_enables_groups[of "''Sun Nov 15 10:00:00 2026''" "\<lambda>d. True"
        "[\<lparr>g_gid = ''g1'', g_enabled = False\<rparr>]"]
    by (simp add: group_enable_def)
qed

end
