(* ===== verification/Router.thy ===== *)
theory Router
  imports Migration
begin

text \<open>
  The router (\<^verbatim>\<open>jasmin/routing/router.py\<close>): users and groups, the four tables, charging, the routing
  of received messages, the billing requests that follow a response, and persistence.  The state is
  the record \<open>router\<close>; it includes the \<^verbatim>\<open>UserStats\<close> singleton and the files of the store directory.
  What lies outside is the environment \<open>router_env\<close>: the digest function, the paths that can be opened
  for writing, the printed current date and the dates that the header parser accepts, and the random index.
  A handler of a queue message returns how the message was settled towards the broker.
\<close>

section \<open>State\<close>

record router =
  ro_users :: "user list"
  ro_groups :: "group list"
  ro_mo_routes :: route_table
  ro_mt_routes :: route_table
  ro_mo_icpts :: interceptor_table
  ro_mt_icpts :: interceptor_table
  ro_state :: "(string, bool) dict"
  ro_stats :: user_stats
  ro_files :: "(string, pfile) dict"

record router_env =
  re_md5 :: "string \<Rightarrow> string"
  re_writable :: "string \<Rightarrow> bool"
  re_date :: string
  re_date_ok :: "string \<Rightarrow> bool"
  re_store :: string
  re_filter :: filter_env
  re_randbelow :: "nat \<Rightarrow> nat"

definition RouterPB :: "user_stats \<Rightarrow> (string, pfile) dict \<Rightarrow> router" where
  "RouterPB stats files =
     \<lparr>ro_users = [], ro_groups = [], ro_mo_routes = [], ro_mt_routes = [], ro_mo_icpts = [],
      ro_mt_icpts = [],
      ro_state = [(''users'', True), (''groups'', True), (''moroutes'', True), (''mtroutes'', True)],
      ro_stats = stats, ro_files = files\<rparr>"

definition set_flag :: "string \<Rightarrow> bool \<Rightarrow> router \<Rightarrow> router" where
  "set_flag k b st = st\<lparr>ro_state := dset (ro_state st) k b\<rparr>"

section \<open>Lookups and authentication\<close>

definition getUser :: "string \<Rightarrow> router \<Rightarrow> user option" where
  "getUser uid st = find (\<lambda>u. u_uid u = uid) (ro_users st)"

definition getGroup :: "string \<Rightarrow> router \<Rightarrow> group option" where
  "getGroup gid st = find (\<lambda>g. g_gid g = gid) (ro_groups st)"

fun table_get :: "int \<Rightarrow> (int \<times> 'i) list \<Rightarrow> 'i option" where
  "table_get order [] = None"
| "table_get order ((k, x) # t) = (if order = k then Some x else table_get order t)"

definition getMOInterceptor :: "int \<Rightarrow> router \<Rightarrow> interceptor option" where
  "getMOInterceptor order st = table_get order (ro_mo_icpts st)"

definition getMTInterceptor :: "int \<Rightarrow> router \<Rightarrow> interceptor option" where
  "getMTInterceptor order st = table_get order (ro_mt_icpts st)"

definition getMORoute :: "int \<Rightarrow> router \<Rightarrow> route option" where
  "getMORoute order st = table_get order (ro_mo_routes st)"

definition getMTRoute :: "int \<Rightarrow> router \<Rightarrow> route option" where
  "getMTRoute order st = table_get order (ro_mt_routes st)"

fun auth_loop ::
  "(string \<Rightarrow> string) \<Rightarrow> (string \<Rightarrow> group option) \<Rightarrow> string \<Rightarrow> string \<Rightarrow> user list \<Rightarrow> user option res" where
  "auth_loop md5 grp username password [] = Inr None"
| "auth_loop md5 grp username password (u # us) =
     (if u_username u = Some username then
        res_bind (encode_ascii password) (\<lambda>b.
          if u_password u = Some (md5 b) then
            (if (\<exists>g \<in> set_option (grp (g_gid (u_group u))). \<not> g_enabled g) then Inr None
             else if \<not> u_enabled u then Inr None
             else Inr (Some u))
          else auth_loop md5 grp username password us)
      else auth_loop md5 grp username password us)"

definition authenticateUser :: "router_env \<Rightarrow> string \<Rightarrow> string \<Rightarrow> router \<Rightarrow> user option res" where
  "authenticateUser env username password st =
     auth_loop (re_md5 env) (\<lambda>gid. getGroup gid st) username password (ro_users st)"

definition perspective_user_authenticate :: "router_env \<Rightarrow> string \<Rightarrow> string \<Rightarrow> router \<Rightarrow> user option res" where
  "perspective_user_authenticate env username password st = authenticateUser env username password st"

section \<open>Charging\<close>

text \<open>The credential of a router user is updated in place: the first user with the uid.\<close>

definition set_mt :: "string \<Rightarrow> credential \<Rightarrow> router \<Rightarrow> router" where
  "set_mt uid c st =
     st\<lparr>ro_users := update_first (\<lambda>u. u_uid u = uid) (\<lambda>u. u\<lparr>u_mt := c\<rparr>) (ro_users st)\<rparr>"

text \<open>One of the two charging steps: deduct \<open>due\<close> from the quota \<open>key\<close> when there is something to
  deduct and the quota is limited.  \<^verbatim>\<open>Inr False\<close> is the early \<^verbatim>\<open>return None\<close>.\<close>

definition charge_step :: "string \<Rightarrow> string \<Rightarrow> pyval \<Rightarrow> router \<Rightarrow> bool res \<times> router" where
  "charge_step uid key due st =
     (case py_lt (PInt 0) due of
        Inl e \<Rightarrow> (Inl e, st)
      | Inr False \<Rightarrow> (Inr True, st)
      | Inr True \<Rightarrow>
          (case getUser uid st of
             None \<Rightarrow> (Inl AttributeError, st)
           | Some u \<Rightarrow>
               (case getQuota key (u_mt u) of
                  Inl e \<Rightarrow> (Inl e, st)
                | Inr q \<Rightarrow>
                    if q = PNone then (Inr True, st)
                    else
                      (case py_lt q due of
                         Inl e \<Rightarrow> (Inl e, st)
                       | Inr True \<Rightarrow> (Inr False, st)
                       | Inr False \<Rightarrow>
                           (case res_bind (py_neg due) (\<lambda>d. updateQuota key d (u_mt u)) of
                              Inl e \<Rightarrow> (Inl e, st)
                            | Inr c \<Rightarrow> (Inr True, set_mt uid c st))))))"

definition chargeUserForSubmitSms ::
  "string \<Rightarrow> bill \<Rightarrow> int \<Rightarrow> bool list \<Rightarrow> router \<Rightarrow> bool res \<times> router" where
  "chargeUserForSubmitSms uid b n requirements st =
     (if \<not> list_all (\<lambda>c. c) requirements then (Inr False, st)
      else
        case res_bind (getAmount ''submit_sm'' b) (\<lambda>a. py_mul a (PInt n)) of
          Inl e \<Rightarrow> (Inl e, st)
        | Inr due \<Rightarrow>
            (case charge_step uid ''balance'' due st of
               (Inr True, st1) \<Rightarrow>
                 (case res_bind (getAction ''decrement_submit_sm_count'' b) (\<lambda>a. py_mul a (PInt n)) of
                    Inl e \<Rightarrow> (Inl e, st1)
                  | Inr cnt \<Rightarrow> charge_step uid ''submit_sm_count'' cnt st1)
             | r \<Rightarrow> r))"

datatype settled = Acked | Rejected | Unsettled

text \<open>A billing request carries the amount as printed text, which \<^verbatim>\<open>float()\<close> reads back exactly.\<close>

definition bill_request_submit_sm_resp_callback ::
  "string \<Rightarrow> pyval \<Rightarrow> router \<Rightarrow> settled res \<times> router" where
  "bill_request_submit_sm_resp_callback uid amount0 st =
     (let amount = PFloat (to_float amount0)
      in case getUser uid st of
           None \<Rightarrow> (Inr Rejected, st)
         | Some u \<Rightarrow>
             (case getQuota ''balance'' (u_mt u) of
                Inl e \<Rightarrow> (Inl e, st)
              | Inr q \<Rightarrow>
                  if q = PNone then (Inr Unsettled, st)
                  else
                    (case py_lt q amount of
                       Inl e \<Rightarrow> (Inl e, st)
                     | Inr True \<Rightarrow> (Inr Rejected, st)
                     | Inr False \<Rightarrow>
                         (case res_bind (py_neg amount) (\<lambda>d. updateQuota ''balance'' d (u_mt u)) of
                            Inl e \<Rightarrow> (Inl e, st)
                          | Inr c \<Rightarrow> (Inr Acked, set_mt uid c st)))))"

section \<open>Routing of received messages\<close>

text \<open>\<open>Routed type content\<close> stands for the acknowledgement followed by the publication of a
  \<^verbatim>\<open>RoutedDeliverSmContent\<close> with these connectors to \<^verbatim>\<open>deliver_sm_thrower.<type>\<close>.\<close>

datatype mo_outcome = MoRejected | Routed string "connector list" string

definition deliver_sm_route ::
  "bool \<Rightarrow> bool \<Rightarrow> connector list \<Rightarrow> string \<Rightarrow> mo_outcome res" where
  "deliver_sm_route concatenated will_be_concatenated dcs route_kind =
     (case dcs of
        [] \<Rightarrow> Inl IndexError
      | c # _ \<Rightarrow>
          if concatenated \<and> conn_type c \<noteq> ''http'' then Inr MoRejected
          else if will_be_concatenated \<and> conn_type c = ''http'' then Inr MoRejected
          else Inr (Routed (conn_type c) dcs route_kind))"

definition deliver_sm_callback ::
  "router_env \<Rightarrow> routable \<Rightarrow> bool \<Rightarrow> bool \<Rightarrow> router \<Rightarrow> mo_outcome res \<times> router" where
  "deliver_sm_callback env r concatenated will_be_concatenated st =
     (case getRouteFor (re_filter env) r (ro_mo_routes st) of
        (Inl e, t) \<Rightarrow> (Inl e, st\<lparr>ro_mo_routes := t\<rparr>)
      | (Inr None, t) \<Rightarrow> (Inr MoRejected, st\<lparr>ro_mo_routes := t\<rparr>)
      | (Inr (Some (k, rt)), t) \<Rightarrow>
          if rt_class rt = FailoverMORoute then
            (deliver_sm_route concatenated will_be_concatenated (getConnectors rt) ''failover'',
             st\<lparr>ro_mo_routes := t\<rparr>)
          else
            (case getConnector (re_randbelow env) rt of
               (Some c, rt') \<Rightarrow>
                 (deliver_sm_route concatenated will_be_concatenated [c] ''simple'',
                  st\<lparr>ro_mo_routes := t\<rparr>)
             | (None, rt') \<Rightarrow> (Inl AttributeError, st\<lparr>ro_mo_routes := t\<rparr>)))"

section \<open>Managing users\<close>

definition user_clash :: "user \<Rightarrow> user \<Rightarrow> bool" where
  "user_clash u v \<longleftrightarrow> u_uid u = u_uid v \<or> u_username u = u_username v"

definition perspective_user_add :: "user \<Rightarrow> router \<Rightarrow> bool \<times> router" where
  "perspective_user_add u st =
     (if \<not> list_ex (\<lambda>g. g_gid g = g_gid (u_group u)) (ro_groups st) then (False, st)
      else
        let stats =
              (case find (user_clash u) (ro_users st) of
                 None \<Rightarrow> ro_stats st
               | Some old \<Rightarrow>
                   (let (cnx, stats1) = getCnxStatus old (ro_stats st) in setCnxStatus u cnx stats1))
        in (True,
            set_flag ''users'' False
              (st\<lparr>ro_users := remove_first (user_clash u) (ro_users st) @ [u], ro_stats := stats\<rparr>)))"

text \<open>\<^verbatim>\<open>for _user in self.users: if uid == _user.uid: ...; return True\<close>, else \<^verbatim>\<open>return False\<close>.\<close>

definition on_user :: "string \<Rightarrow> (user \<Rightarrow> user) \<Rightarrow> router \<Rightarrow> bool \<times> router" where
  "on_user uid f st =
     (if list_ex (\<lambda>u. u_uid u = uid) (ro_users st)
      then (True, set_flag ''users'' False
                    (st\<lparr>ro_users := update_first (\<lambda>u. u_uid u = uid) f (ro_users st)\<rparr>))
      else (False, st))"

definition perspective_user_enable :: "string \<Rightarrow> router \<Rightarrow> bool \<times> router" where
  "perspective_user_enable uid st = on_user uid user_enable st"

definition perspective_user_disable :: "string \<Rightarrow> router \<Rightarrow> bool \<times> router" where
  "perspective_user_disable uid st = on_user uid user_disable st"

definition perspective_user_remove :: "string \<Rightarrow> router \<Rightarrow> bool \<times> router" where
  "perspective_user_remove uid st =
     (if list_ex (\<lambda>u. u_uid u = uid) (ro_users st)
      then (True, set_flag ''users'' False
                    (st\<lparr>ro_users := remove_first (\<lambda>u. u_uid u = uid) (ro_users st)\<rparr>))
      else (False, st))"

definition perspective_user_remove_all :: "router \<Rightarrow> bool \<times> router" where
  "perspective_user_remove_all st = (True, set_flag ''users'' False (st\<lparr>ro_users := []\<rparr>))"

definition perspective_user_get_all :: "string option \<Rightarrow> router \<Rightarrow> user list" where
  "perspective_user_get_all gid st =
     (case gid of
        None \<Rightarrow> ro_users st
      | Some g \<Rightarrow> filter (\<lambda>u. g_gid (u_group u) = g) (ro_users st))"

text \<open>\<^verbatim>\<open>getattr(_user, cred)\<close> followed by an operation on its quotas.  Any other attribute has no
  quotas, and every exception is caught.\<close>

definition on_credential ::
  "string \<Rightarrow> string \<Rightarrow> string \<Rightarrow> (credential \<Rightarrow> credential res) \<Rightarrow> (credential \<Rightarrow> credential res) \<Rightarrow>
   router \<Rightarrow> bool \<times> router" where
  "on_credential uid cred quota mt_op smpps_op st =
     (case getUser uid st of
        None \<Rightarrow> (False, st)
      | Some u \<Rightarrow>
          if cred = ''mt_credential'' then
            (if \<not> has_key (quotas (u_mt u)) quota then (False, st)
             else case mt_op (u_mt u) of
                    Inl _ \<Rightarrow> (False, st)
                  | Inr c \<Rightarrow> on_user uid (\<lambda>v. v\<lparr>u_mt := c\<rparr>) st)
          else if cred = ''smpps_credential'' then
            (if \<not> has_key (quotas (u_smpps u)) quota then (False, st)
             else case smpps_op (u_smpps u) of
                    Inl _ \<Rightarrow> (False, st)
                  | Inr c \<Rightarrow> on_user uid (\<lambda>v. v\<lparr>u_smpps := c\<rparr>) st)
          else (False, st))"

definition perspective_user_set_quota ::
  "string \<Rightarrow> string \<Rightarrow> string \<Rightarrow> pyval \<Rightarrow> router \<Rightarrow> bool \<times> router" where
  "perspective_user_set_quota uid cred quota v st =
     on_credential uid cred quota (mt_setQuota quota v) (smpps_setQuota quota v) st"

definition perspective_user_update_quota ::
  "string \<Rightarrow> string \<Rightarrow> string \<Rightarrow> pyval \<Rightarrow> router \<Rightarrow> bool \<times> router" where
  "perspective_user_update_quota uid cred quota v st =
     on_credential uid cred quota (updateQuota quota v) (updateQuota quota v) st"

section \<open>Managing groups\<close>

definition perspective_group_add :: "group \<Rightarrow> router \<Rightarrow> bool \<times> router" where
  "perspective_group_add g st =
     (True, set_flag ''groups'' False
        (st\<lparr>ro_groups := remove_first (\<lambda>h. g_gid g = g_gid h) (ro_groups st) @ [g]\<rparr>))"

definition on_group :: "string \<Rightarrow> (group \<Rightarrow> group) \<Rightarrow> router \<Rightarrow> bool \<times> router" where
  "on_group gid f st =
     (if list_ex (\<lambda>g. g_gid g = gid) (ro_groups st)
      then (True, set_flag ''groups'' False
                    (st\<lparr>ro_groups := update_first (\<lambda>g. g_gid g = gid) f (ro_groups st)\<rparr>))
      else (False, st))"

definition perspective_group_enable :: "string \<Rightarrow> router \<Rightarrow> bool \<times> router" where
  "perspective_group_enable gid st = on_group gid group_enable st"

definition perspective_group_disable :: "string \<Rightarrow> router \<Rightarrow> bool \<times> router" where
  "perspective_group_disable gid st = on_group gid group_disable st"

definition remove_members :: "string \<Rightarrow> user list \<Rightarrow> user list" where
  "remove_members gid us = filter (\<lambda>u. g_gid (u_group u) \<noteq> gid) us"

text \<open>A successful removal leaves the persistence flags alone; only the failed one resets a flag.\<close>

definition perspective_group_remove :: "string \<Rightarrow> router \<Rightarrow> bool \<times> router" where
  "perspective_group_remove gid st =
     (if list_ex (\<lambda>g. g_gid g = gid) (ro_groups st)
      then (True, st\<lparr>ro_users := remove_members gid (ro_users st),
                     ro_groups := remove_first (\<lambda>g. g_gid g = gid) (ro_groups st)\<rparr>)
      else (False, set_flag ''groups'' False st))"

definition perspective_group_remove_all :: "router \<Rightarrow> bool \<times> router" where
  "perspective_group_remove_all st =
     (True, set_flag ''groups'' False
        (st\<lparr>ro_users := foldl (\<lambda>us g. remove_members (g_gid g) us) (ro_users st) (ro_groups st),
            ro_groups := []\<rparr>))"

definition perspective_group_get_all :: "router \<Rightarrow> group list" where
  "perspective_group_get_all st = ro_groups st"

section \<open>Managing routes and interceptors\<close>

definition perspective_mtinterceptor_add :: "interceptor \<Rightarrow> pyval \<Rightarrow> router \<Rightarrow> bool \<times> router" where
  "perspective_mtinterceptor_add i order st =
     (case interceptor_table_add ''mt'' i order (ro_mt_icpts st) of
        Inl _ \<Rightarrow> (False, st)
      | Inr t \<Rightarrow> (True, set_flag ''mtinterceptors'' False (st\<lparr>ro_mt_icpts := t\<rparr>)))"

definition perspective_mointerceptor_add :: "interceptor \<Rightarrow> pyval \<Rightarrow> router \<Rightarrow> bool \<times> router" where
  "perspective_mointerceptor_add i order st =
     (case interceptor_table_add ''mo'' i order (ro_mo_icpts st) of
        Inl _ \<Rightarrow> (False, st)
      | Inr t \<Rightarrow> (True, set_flag ''mointerceptors'' False (st\<lparr>ro_mo_icpts := t\<rparr>)))"

definition perspective_mointerceptor_remove :: "int \<Rightarrow> router \<Rightarrow> bool \<times> router" where
  "perspective_mointerceptor_remove order st =
     (let (b, t) = interceptor_table_remove order (ro_mo_icpts st)
      in (b, set_flag ''mointerceptors'' False (st\<lparr>ro_mo_icpts := t\<rparr>)))"

definition perspective_mtinterceptor_remove :: "int \<Rightarrow> router \<Rightarrow> bool \<times> router" where
  "perspective_mtinterceptor_remove order st =
     (let (b, t) = interceptor_table_remove order (ro_mt_icpts st)
      in (b, set_flag ''mtinterceptors'' False (st\<lparr>ro_mt_icpts := t\<rparr>)))"

definition perspective_mtinterceptor_flush :: "router \<Rightarrow> router" where
  "perspective_mtinterceptor_flush st =
     set_flag ''mtinterceptors'' False (st\<lparr>ro_mt_icpts := interceptor_table_flush (ro_mt_icpts st)\<rparr>)"

definition perspective_mointerceptor_flush :: "router \<Rightarrow> router" where
  "perspective_mointerceptor_flush st =
     set_flag ''mointerceptors'' False (st\<lparr>ro_mo_icpts := interceptor_table_flush (ro_mo_icpts st)\<rparr>)"

definition perspective_mtroute_add :: "route \<Rightarrow> pyval \<Rightarrow> router \<Rightarrow> bool \<times> router" where
  "perspective_mtroute_add rt order st =
     (case route_table_add ''mt'' rt order (ro_mt_routes st) of
        Inl _ \<Rightarrow> (False, st)
      | Inr t \<Rightarrow> (True, set_flag ''mtroutes'' False (st\<lparr>ro_mt_routes := t\<rparr>)))"

definition perspective_moroute_add :: "route \<Rightarrow> pyval \<Rightarrow> router \<Rightarrow> bool \<times> router" where
  "perspective_moroute_add rt order st =
     (case route_table_add ''mo'' rt order (ro_mo_routes st) of
        Inl _ \<Rightarrow> (False, st)
      | Inr t \<Rightarrow> (True, set_flag ''moroutes'' False (st\<lparr>ro_mo_routes := t\<rparr>)))"

definition perspective_moroute_remove :: "int \<Rightarrow> router \<Rightarrow> bool \<times> router" where
  "perspective_moroute_remove order st =
     (let (b, t) = route_table_remove order (ro_mo_routes st)
      in (b, set_flag ''moroutes'' False (st\<lparr>ro_mo_routes := t\<rparr>)))"

definition perspective_mtroute_remove :: "int \<Rightarrow> router \<Rightarrow> bool \<times> router" where
  "perspective_mtroute_remove order st =
     (let (b, t) = route_table_remove order (ro_mt_routes st)
      in (b, set_flag ''mtroutes'' False (st\<lparr>ro_mt_routes := t\<rparr>)))"

definition perspective_mtroute_flush :: "router \<Rightarrow> router" where
  "perspective_mtroute_flush st =
     set_flag ''mtroutes'' False (st\<lparr>ro_mt_routes := route_table_flush (ro_mt_routes st)\<rparr>)"

definition perspective_moroute_flush :: "router \<Rightarrow> router" where
  "perspective_moroute_flush st =
     set_flag ''moroutes'' False (st\<lparr>ro_mo_routes := route_table_flush (ro_mo_routes st)\<rparr>)"

section \<open>Persistence\<close>

definition store_path :: "router_env \<Rightarrow> string \<Rightarrow> string \<Rightarrow> string" where
  "store_path env profile scope = re_store env @ ''/'' @ profile @ ''.router-'' @ scope"

definition scope_data :: "string \<Rightarrow> router \<Rightarrow> pdata" where
  "scope_data scope st =
     (if scope = ''groups'' then DGroups (ro_groups st)
      else if scope = ''users'' then DUsers (ro_users st)
      else if scope = ''moroutes'' then DRoutes (ro_mo_routes st)
      else if scope = ''mtroutes'' then DRoutes (ro_mt_routes st)
      else if scope = ''mointerceptors'' then DInterceptors (ro_mo_icpts st)
      else DInterceptors (ro_mt_icpts st))"

definition clear_updated :: "user \<Rightarrow> user" where
  "clear_updated u = u\<lparr>u_mt := (u_mt u)\<lparr>quotas_updated := False\<rparr>\<rparr>"

definition persist_scope :: "router_env \<Rightarrow> string \<Rightarrow> string \<Rightarrow> router \<Rightarrow> bool \<times> router" where
  "persist_scope env profile scope st =
     (let path = store_path env profile scope
      in if \<not> re_writable env path then (False, st)
         else
           let st1 = set_flag scope True
                 (st\<lparr>ro_files := dset (ro_files st) path
                       \<lparr>pf_header = mk_header (re_date env) get_release, pf_data = scope_data scope st\<rparr>\<rparr>)
           in (True,
               if scope = ''users'' then st1\<lparr>ro_users := map clear_updated (ro_users st1)\<rparr> else st1))"

fun each_scope :: "(string \<Rightarrow> router \<Rightarrow> bool \<times> router) \<Rightarrow> string list \<Rightarrow> router \<Rightarrow> bool \<times> router" where
  "each_scope f [] st = (True, st)"
| "each_scope f (s # ss) st =
     (case f s st of (True, st') \<Rightarrow> each_scope f ss st' | (False, st') \<Rightarrow> (False, st'))"

definition in_scope :: "string \<Rightarrow> string list \<Rightarrow> string list" where
  "in_scope scope ss = filter (\<lambda>s. scope = ''all'' \<or> scope = s) ss"

definition perspective_persist :: "router_env \<Rightarrow> string \<Rightarrow> string \<Rightarrow> router \<Rightarrow> bool \<times> router" where
  "perspective_persist env profile scope st =
     each_scope (persist_scope env profile)
       (in_scope scope [''groups'', ''users'', ''moroutes'', ''mtroutes'', ''mointerceptors'', ''mtinterceptors''])
       st"

definition install_data :: "string \<Rightarrow> pdata \<Rightarrow> router \<Rightarrow> router option" where
  "install_data scope d st =
     (case d of
        DGroups gs \<Rightarrow> if scope = ''groups'' then Some (st\<lparr>ro_groups := gs\<rparr>) else None
      | DUsers us \<Rightarrow> if scope = ''users'' then Some (st\<lparr>ro_users := us\<rparr>) else None
      | DRoutes t \<Rightarrow>
          if scope = ''moroutes'' then Some (st\<lparr>ro_mo_routes := t\<rparr>)
          else if scope = ''mtroutes'' then Some (st\<lparr>ro_mt_routes := t\<rparr>) else None
      | DInterceptors t \<Rightarrow>
          if scope = ''mointerceptors'' then Some (st\<lparr>ro_mo_icpts := t\<rparr>)
          else if scope = ''mtinterceptors'' then Some (st\<lparr>ro_mt_icpts := t\<rparr>) else None
      | _ \<Rightarrow> None)"

definition load_scope :: "router_env \<Rightarrow> string \<Rightarrow> string \<Rightarrow> router \<Rightarrow> bool \<times> router" where
  "load_scope env profile scope st =
     (case map_of (ro_files st) (store_path env profile scope) of
        None \<Rightarrow> (False, st)
      | Some f \<Rightarrow>
          (case ConfigurationMigrator (re_date_ok env) scope f of
             Inl _ \<Rightarrow> (False, st)
           | Inr m \<Rightarrow>
               (let st1 = (if scope = ''groups'' then snd (perspective_group_remove_all st)
                           else if scope = ''users'' then snd (perspective_user_remove_all st)
                           else st)
                in case getMigratedData m of
                     Inl _ \<Rightarrow> (False, st1)
                   | Inr d \<Rightarrow>
                       (case install_data scope d st1 of
                          None \<Rightarrow> (False, st1)
                        | Some st2 \<Rightarrow>
                            (True, set_flag scope True
                               (if scope = ''users''
                                then st2\<lparr>ro_users := map clear_updated (ro_users st2)\<rparr> else st2))))))"

definition perspective_load :: "router_env \<Rightarrow> string \<Rightarrow> string \<Rightarrow> router \<Rightarrow> bool \<times> router" where
  "perspective_load env profile scope st =
     each_scope (load_scope env profile)
       (in_scope scope [''groups'', ''users'', ''mointerceptors'', ''mtinterceptors'', ''moroutes'', ''mtroutes''])
       st"

definition perspective_is_persisted :: "router \<Rightarrow> bool" where
  "perspective_is_persisted st \<longleftrightarrow> list_all snd (ro_state st)"

definition persistenceTimerExpired :: "router_env \<Rightarrow> router \<Rightarrow> router" where
  "persistenceTimerExpired env st =
     (case find (\<lambda>u. quotas_updated (u_mt u)) (ro_users st) of
        None \<Rightarrow> st
      | Some u \<Rightarrow>
          (let st1 = snd (perspective_persist env ''jcli-prod'' ''groups'' st);
               st2 = snd (perspective_persist env ''jcli-prod'' ''users'' st1)
           in st2\<lparr>ro_users := update_first (\<lambda>v. quotas_updated (u_mt v)) clear_updated (ro_users st2)\<rparr>))"

end
