(* ===== verification/Router_Correct.thy ===== *)
theory Router_Correct
  imports Router
begin

text \<open>
  Correctness of the router.  The step relation \<open>router_step\<close> has one rule per operation that changes the
  router; its reachable states keep every quota in range, through charging, billing requests,
  administration, persistence and migration.  Further theorems give the functional behaviour of charging,
  authentication, user and group management, and of persisting and loading again.
\<close>

section \<open>Quotas\<close>

lemma py_add_double: "py_add a b = Inr c \<Longrightarrow> is_double c"
  by (auto simp: py_defs is_double_def split: if_splits)

lemma py_mul_double: "py_mul a b = Inr c \<Longrightarrow> is_double c"
  by (auto simp: py_defs is_double_def split: if_splits)

lemma mt_ok_update:
  assumes "mt_ok c" "k = ''balance'' \<and> amount_ok v \<or> k = ''submit_sm_count'' \<and> count_ok v"
  shows "mt_ok (c\<lparr>quotas := dset (quotas c) k v, quotas_updated := True\<rparr>)"
  using assms by (auto simp: mt_ok_def quota_sat_def)

lemma mt_ok_flag [simp]: "mt_ok (c\<lparr>quotas_updated := b\<rparr>) = mt_ok c"
  by (simp add: mt_ok_def)

lemma updateQuota_Inr:
  "updateQuota k d c = Inr c' \<longleftrightarrow>
     (\<exists>q v. map_of (quotas c) k = Some q \<and> is_number d \<and> \<not> (is_int q \<and> is_float d) \<and>
        py_add (if q = PNone then PInt 0 else q) d = Inr v \<and>
        c' = c\<lparr>quotas := dset (quotas c) k v, quotas_updated := True\<rparr>)"
  by (auto simp: updateQuota_def is_number_def split: option.splits)

text \<open>A deduction that the quota covers keeps the credential well formed.\<close>

lemma updateQuota_deduct_ok:
  assumes ok: "mt_ok c" and k: "k = ''balance'' \<or> k = ''submit_sm_count''"
    and q: "map_of (quotas c) k = Some q" "q \<noteq> PNone"
    and due: "is_number due" "is_double due" "num due \<le> num q"
    and up: "py_neg due = Inr d" "updateQuota k d c = Inr c'"
  shows "mt_ok c'"
proof -
  from up(2) q obtain v where v: "py_add q d = Inr v" "\<not> (is_int q \<and> is_float d)"
    "c' = c\<lparr>quotas := dset (quotas c) k v, quotas_updated := True\<rparr>"
    by (auto simp: updateQuota_Inr)
  have "is_int q \<Longrightarrow> is_double q" by (cases q) simp_all
  with k mt_ok_quota(1,3)[OF ok] q have q': "is_number q" "is_double q"
    and cnt: "k = ''submit_sm_count'' \<Longrightarrow> is_int q"
    by (auto simp: amount_ok_def count_ok_def is_number_def)
  obtain n w where "py_neg due = Inr n" "py_add q n = Inr w" "is_number w" "0 \<le> num w"
    by (rule py_add_neg_nonneg[OF q'(1) due(1) q'(2) due(2,3)])
  with up(1) v(1) have "is_number v" "0 \<le> num v" by simp_all
  moreover have "is_int v" if "k = ''submit_sm_count''"
    using cnt[OF that] v(1,2) up(1) due(1) by (auto simp: py_defs split: if_splits)
  ultimately show ?thesis
    using k py_add_double[OF v(1)] unfolding v(3)
    by (intro mt_ok_update[OF ok]) (auto simp: amount_ok_def count_ok_def)
qed

definition users_ok :: "router \<Rightarrow> bool" where
  "users_ok st \<longleftrightarrow> (\<forall>u \<in> set (ro_users st). mt_ok (u_mt u))"

lemma getUser_in: "getUser uid st = Some u \<Longrightarrow> u \<in> set (ro_users st) \<and> u_uid u = uid"
  unfolding getUser_def by (drule find_Some_in) simp

lemma set_mt_users_ok: "users_ok st \<Longrightarrow> mt_ok c \<Longrightarrow> users_ok (set_mt uid c st)"
  by (auto simp: users_ok_def set_mt_def dest!: set_update_first)

lemma getUser_set_mt:
  "getUser uid st = Some u \<Longrightarrow> getUser uid (set_mt uid c st) = Some (u\<lparr>u_mt := c\<rparr>)"
  by (simp add: getUser_def set_mt_def find_update_first)

lemma getUser_set_mt_other:
  "v \<noteq> uid \<Longrightarrow> getUser v (set_mt uid c st) = getUser v st"
  unfolding getUser_def set_mt_def by (simp, rule find_update_first_other) auto

lemma charge_step_cases:
  assumes "charge_step uid key due st = (r, st')"
  obtains "st' = st"
  | u q d c where "getUser uid st = Some u" "map_of (quotas (u_mt u)) key = Some q" "q \<noteq> PNone"
      "is_number due" "num due \<le> num q" "py_neg due = Inr d" "updateQuota key d (u_mt u) = Inr c"
      "r = Inr True" "st' = set_mt uid c st"
proof (cases "st' = st")
  case False
  have lt: "py_lt (PInt 0) due = Inr True"
    using assms False by (auto simp: charge_step_def split: sum.splits bool.splits)
  obtain u where u: "getUser uid st = Some u"
    using assms False lt by (auto simp: charge_step_def split: option.splits)
  obtain q where q: "getQuota key (u_mt u) = Inr q" "q \<noteq> PNone"
    using assms False lt u by (auto simp: charge_step_def split: sum.splits if_splits)
  have ge: "py_lt q due = Inr False"
    using assms False lt u q by (auto simp: charge_step_def split: sum.splits bool.splits)
  obtain c where c: "res_bind (py_neg due) (\<lambda>d. updateQuota key d (u_mt u)) = Inr c"
    "r = Inr True" "st' = set_mt uid c st"
    using assms False lt u q ge by (auto simp: charge_step_def split: sum.splits)
  then show thesis
    using that(2)[OF u _ q(2)] q(1) ge
    by (auto simp: getQuota_def cred_get_eq py_lt_def split: if_splits)
qed (use that in blast)

lemma charge_step_ok:
  assumes "charge_step uid key due st = (r, st')" "key = ''balance'' \<or> key = ''submit_sm_count''"
    "is_double due" "users_ok st"
  shows "users_ok st'"
  using assms(1)
proof (cases rule: charge_step_cases)
  case (2 u q d c)
  from getUser_in[OF 2(1)] assms(4) have "mt_ok (u_mt u)" by (auto simp: users_ok_def)
  from updateQuota_deduct_ok[OF this assms(2) 2(2,3,4) assms(3) 2(5,6,7)] 2(9)
  show ?thesis by (auto intro: set_mt_users_ok assms(4))
qed (use assms in auto)

text \<open>Charging is the two steps in sequence, the second only when the first went through.\<close>

lemma charge_cases:
  assumes "chargeUserForSubmitSms uid b n reqs st = (r, st')"
  obtains (nothing) "st' = st"
  | (first) a due where "getAmount ''submit_sm'' b = Inr a" "py_mul a (PInt n) = Inr due"
      "charge_step uid ''balance'' due st = (r, st')"
  | (first_error) a due e where "getAmount ''submit_sm'' b = Inr a" "py_mul a (PInt n) = Inr due"
      "charge_step uid ''balance'' due st = (Inr True, st')" "r = Inl e"
  | (both) a due k cnt st1 where "getAmount ''submit_sm'' b = Inr a" "py_mul a (PInt n) = Inr due"
      "charge_step uid ''balance'' due st = (Inr True, st1)"
      "getAction ''decrement_submit_sm_count'' b = Inr k" "py_mul k (PInt n) = Inr cnt"
      "charge_step uid ''submit_sm_count'' cnt st1 = (r, st')"
proof (cases "list_all (\<lambda>c. c) reqs \<and> (\<exists>a due. getAmount ''submit_sm'' b = Inr a \<and> py_mul a (PInt n) = Inr due)")
  case False
  have "st' = st"
  proof (cases "res_bind (getAmount ''submit_sm'' b) (\<lambda>a. py_mul a (PInt n))")
    case (Inr due)
    with False assms show ?thesis by (auto simp: chargeUserForSubmitSms_def)
  qed (use assms in \<open>auto simp: chargeUserForSubmitSms_def split: if_splits\<close>)
  then show thesis by (rule nothing)
next
  case True
  then obtain a due where a: "getAmount ''submit_sm'' b = Inr a" "py_mul a (PInt n) = Inr due" by blast
  obtain r1 st1 where s1: "charge_step uid ''balance'' due st = (r1, st1)" by force
  have e: "(case r1 of
      Inr True \<Rightarrow> (case res_bind (getAction ''decrement_submit_sm_count'' b) (\<lambda>a. py_mul a (PInt n)) of
                    Inl e \<Rightarrow> (Inl e, st1)
                  | Inr cnt \<Rightarrow> charge_step uid ''submit_sm_count'' cnt st1)
    | _ \<Rightarrow> (r1, st1)) = (r, st')"
    using assms True a s1
    by (cases r1) (auto simp: chargeUserForSubmitSms_def split: bool.splits)
  show thesis
  proof (cases "r1 = Inr True")
    case False
    with e have "r1 = r \<and> st1 = st'" by (cases r1) (auto split: bool.splits)
    with first[OF a] s1 show thesis by simp
  next
    case True
    show thesis
    proof (cases "res_bind (getAction ''decrement_submit_sm_count'' b) (\<lambda>a. py_mul a (PInt n))")
      case (Inl x)
      with e True have "r = Inl x" "st1 = st'" by simp_all
      with first_error[OF a, of x] s1 True show thesis by simp
    next
      case (Inr cnt)
      with e True both[OF a, of st1] s1 show thesis by auto
    qed
  qed
qed

lemma charge_ok:
  assumes "users_ok st" shows "users_ok (snd (chargeUserForSubmitSms uid b n reqs st))"
proof -
  obtain r st' where e: "chargeUserForSubmitSms uid b n reqs st = (r, st')" by force
  then show ?thesis
  proof (cases rule: charge_cases)
    case (first a due)
    from charge_step_ok[OF first(3) _ py_mul_double[OF first(2)] assms] e show ?thesis by simp
  next
    case (first_error a due e')
    from charge_step_ok[OF first_error(3) _ py_mul_double[OF first_error(2)] assms] e show ?thesis by simp
  next
    case (both a due k cnt st1)
    from charge_step_ok[OF both(3) _ py_mul_double[OF both(2)] assms] have "users_ok st1" by simp
    from charge_step_ok[OF both(6) _ py_mul_double[OF both(5)] this] e show ?thesis by simp
  qed (use assms e in simp)
qed

lemma bill_request_simps:
  "getUser uid st = None \<Longrightarrow> bill_request_submit_sm_resp_callback uid a st = (Inr Rejected, st)"
  "getUser uid st = Some u \<Longrightarrow> map_of (quotas (u_mt u)) ''balance'' = Some PNone \<Longrightarrow>
   bill_request_submit_sm_resp_callback uid a st = (Inr Unsettled, st)"
  "getUser uid st = Some u \<Longrightarrow> map_of (quotas (u_mt u)) ''balance'' = Some q \<Longrightarrow> is_number q \<Longrightarrow>
   num q < to_float a \<Longrightarrow> bill_request_submit_sm_resp_callback uid a st = (Inr Rejected, st)"
  "getUser uid st = Some u \<Longrightarrow> map_of (quotas (u_mt u)) ''balance'' = Some q \<Longrightarrow> is_number q \<Longrightarrow>
   to_float a \<le> num q \<Longrightarrow> bill_request_submit_sm_resp_callback uid a st =
     (case updateQuota ''balance'' (PFloat (- to_float a)) (u_mt u) of
        Inl e \<Rightarrow> (Inl e, st) | Inr c \<Rightarrow> (Inr Acked, set_mt uid c st))"
  by (auto simp: bill_request_submit_sm_resp_callback_def getQuota_def cred_get_def Let_def py_defs)

lemma to_float_double: "is_double a \<Longrightarrow> is_double (PFloat (to_float a))"
  by (cases a) (auto simp: is_double_def)

lemma bill_request_ok:
  assumes "users_ok st" "is_double a"
  shows "users_ok (snd (bill_request_submit_sm_resp_callback uid a st))"
proof (cases "getUser uid st")
  case (Some u)
  from getUser_in[OF Some] assms(1) have ok: "mt_ok (u_mt u)" by (auto simp: users_ok_def)
  from mt_ok_quota(1)[OF this] obtain q where
    q: "map_of (quotas (u_mt u)) ''balance'' = Some q" "q = PNone \<or> amount_ok q" by blast
  consider "q = PNone" | "q \<noteq> PNone" "is_number q" "num q < to_float a"
    | "q \<noteq> PNone" "is_number q" "to_float a \<le> num q"
    using q(2) by (force simp: amount_ok_def)
  then show ?thesis
  proof cases
    case 3
    have "mt_ok c" if "updateQuota ''balance'' (PFloat (- to_float a)) (u_mt u) = Inr c" for c
      using updateQuota_deduct_ok[OF ok _ q(1) 3(1) _ to_float_double[OF assms(2)] _ _ that] 3(3)
      by (simp add: py_defs)
    then show ?thesis
      using assms(1) bill_request_simps(4)[OF Some q(1) 3(2,3)] set_mt_users_ok
      by (auto split: sum.splits)
  qed (use assms(1) Some q bill_request_simps(2,3)[OF Some] in auto)
qed (use assms in \<open>simp add: bill_request_simps\<close>)

section \<open>Reachable states\<close>

text \<open>Operations of the management interface.  A quota may be set to any value; a top-up is the
  \<^verbatim>\<open>update_quota\<close> call on the balance with an amount that is not negative.\<close>

inductive admin_step :: "router \<Rightarrow> router \<Rightarrow> bool" where
  user_add: "mt_ok (u_mt u) \<Longrightarrow> admin_step st (snd (perspective_user_add u st))"
| user_enable: "admin_step st (snd (perspective_user_enable uid st))"
| user_disable: "admin_step st (snd (perspective_user_disable uid st))"
| user_remove: "admin_step st (snd (perspective_user_remove uid st))"
| user_remove_all: "admin_step st (snd (perspective_user_remove_all st))"
| set_quota: "is_double v \<Longrightarrow> admin_step st (snd (perspective_user_set_quota uid cred quota v st))"
| top_up: "amount_ok v \<Longrightarrow>
    admin_step st (snd (perspective_user_update_quota uid ''mt_credential'' ''balance'' v st))"
| group_add: "admin_step st (snd (perspective_group_add g st))"
| group_enable: "admin_step st (snd (perspective_group_enable gid st))"
| group_disable: "admin_step st (snd (perspective_group_disable gid st))"
| group_remove: "admin_step st (snd (perspective_group_remove gid st))"
| group_remove_all: "admin_step st (snd (perspective_group_remove_all st))"

inductive router_step :: "router_env \<Rightarrow> router \<Rightarrow> router \<Rightarrow> bool" for env where
  admin: "admin_step st st' \<Longrightarrow> router_step env st st'"
| charge: "router_step env st (snd (chargeUserForSubmitSms uid b n reqs st))"
| bill_request: "is_double a \<Longrightarrow> router_step env st (snd (bill_request_submit_sm_resp_callback uid a st))"
| deliver: "router_step env st (snd (deliver_sm_callback env r c w st))"
| mtroute_add: "router_step env st (snd (perspective_mtroute_add rt order st))"
| moroute_add: "router_step env st (snd (perspective_moroute_add rt order st))"
| mtroute_remove: "router_step env st (snd (perspective_mtroute_remove k st))"
| moroute_remove: "router_step env st (snd (perspective_moroute_remove k st))"
| mtroute_flush: "router_step env st (perspective_mtroute_flush st)"
| moroute_flush: "router_step env st (perspective_moroute_flush st)"
| mtinterceptor_add: "router_step env st (snd (perspective_mtinterceptor_add i order st))"
| mointerceptor_add: "router_step env st (snd (perspective_mointerceptor_add i order st))"
| mtinterceptor_remove: "router_step env st (snd (perspective_mtinterceptor_remove k st))"
| mointerceptor_remove: "router_step env st (snd (perspective_mointerceptor_remove k st))"
| mtinterceptor_flush: "router_step env st (perspective_mtinterceptor_flush st)"
| mointerceptor_flush: "router_step env st (perspective_mointerceptor_flush st)"
| persist: "router_step env st (snd (perspective_persist env profile scope st))"
| load: "router_step env st (snd (perspective_load env profile scope st))"
| timer: "router_step env st (persistenceTimerExpired env st)"

inductive_cases router_step_adminE: "router_step env st st'"

definition data_ok :: "pdata \<Rightarrow> bool" where
  "data_ok d = (case d of DUsers us \<Rightarrow> \<forall>u \<in> set us. mt_ok (u_mt u) | _ \<Rightarrow> True)"

definition files_ok :: "router \<Rightarrow> bool" where
  "files_ok st \<longleftrightarrow> (\<forall>(p, f) \<in> set (ro_files st). data_ok (pf_data f))"

definition router_inv :: "router \<Rightarrow> bool" where
  "router_inv st \<longleftrightarrow> users_ok st \<and> files_ok st"

lemma set_flag_simps [simp]:
  "ro_users (set_flag k b st) = ro_users st" "ro_files (set_flag k b st) = ro_files st"
  "ro_groups (set_flag k b st) = ro_groups st" "users_ok (set_flag k b st) = users_ok st"
  "files_ok (set_flag k b st) = files_ok st" "router_inv (set_flag k b st) = router_inv st"
  by (simp_all add: set_flag_def users_ok_def files_ok_def router_inv_def)

lemma router_inv_cong:
  "ro_users st' = ro_users st \<Longrightarrow> ro_files st' = ro_files st \<Longrightarrow> router_inv st' = router_inv st"
  by (simp add: router_inv_def users_ok_def files_ok_def)

lemma router_inv_users:
  assumes "router_inv st" "ro_files st' = ro_files st" "\<And>u. u \<in> set (ro_users st') \<Longrightarrow> mt_ok (u_mt u)"
  shows "router_inv st'"
  using assms by (simp add: router_inv_def users_ok_def files_ok_def)

lemma router_inv_mt: "router_inv st \<Longrightarrow> u \<in> set (ro_users st) \<Longrightarrow> mt_ok (u_mt u)"
  by (simp add: router_inv_def users_ok_def)

lemma on_user_inv:
  assumes "router_inv st" "\<And>u. u \<in> set (ro_users st) \<Longrightarrow> u_uid u = uid \<Longrightarrow> mt_ok (u_mt (f u))"
  shows "router_inv (snd (on_user uid f st))"
proof (cases "list_ex (\<lambda>u. u_uid u = uid) (ro_users st)")
  case True
  have "mt_ok (u_mt v)" if "v \<in> set (update_first (\<lambda>u. u_uid u = uid) f (ro_users st))" for v
    using set_update_first[OF that] assms(2) router_inv_mt[OF assms(1)] by blast
  with True show ?thesis by (simp add: on_user_def) (rule router_inv_users[OF assms(1)]; simp)
qed (use assms(1) in \<open>simp add: on_user_def\<close>)

lemma on_credential_inv:
  assumes "router_inv st"
    "\<And>c c'. mt_ok c \<Longrightarrow> mt_op c = Inr c' \<Longrightarrow> mt_ok c'"
  shows "router_inv (snd (on_credential uid cred quota mt_op smpps_op st))"
proof (cases "getUser uid st")
  case (Some u)
  note ok = router_inv_mt[OF assms(1)]
  have "router_inv (snd (on_user uid (\<lambda>v. v\<lparr>u_mt := c\<rparr>) st))" if "mt_op (u_mt u) = Inr c" for c
    using assms(2)[OF ok that] getUser_in[OF Some] by (intro on_user_inv[OF assms(1)]) simp
  moreover have "router_inv (snd (on_user uid (\<lambda>v. v\<lparr>u_smpps := c\<rparr>) st))" for c
    by (intro on_user_inv[OF assms(1)]) (simp add: ok)
  ultimately show ?thesis using assms(1) Some
    by (simp add: on_credential_def split: sum.splits)
qed (use assms(1) in \<open>simp add: on_credential_def\<close>)

lemma top_up_ok:
  assumes "mt_ok c" "amount_ok v" "updateQuota ''balance'' v c = Inr c'"
  shows "mt_ok c'"
proof -
  from assms(3) obtain q w where
    w: "map_of (quotas c) ''balance'' = Some q" "py_add (if q = PNone then PInt 0 else q) v = Inr w"
    "c' = c\<lparr>quotas := dset (quotas c) ''balance'' w, quotas_updated := True\<rparr>"
    by (auto simp: updateQuota_Inr)
  let ?q = "if q = PNone then PInt 0 else q"
  have q: "is_number ?q" "0 \<le> num ?q"
    using mt_ok_quota(1)[OF assms(1)] w(1) by (auto simp: amount_ok_def is_number_def)
  have "is_number w \<and> 0 \<le> num w"
  proof (cases "is_int ?q \<and> is_int v")
    case True
    with w(2) q assms(2) show ?thesis
      by (auto simp: py_defs amount_ok_def num_int_of simp flip: of_int_add)
  next
    case False
    with w(2) q assms(2) have "w = PFloat (fl (to_float ?q + to_float v))"
      by (auto simp: py_add_def py_arith_def amount_ok_def split: if_splits)
    with q assms(2) show ?thesis by (simp add: is_number_def amount_ok_def)
  qed
  then show ?thesis
    using py_add_double[OF w(2)] unfolding w(3)
    by (intro mt_ok_update[OF assms(1)]) (simp add: amount_ok_def)
qed

lemma remove_members_subset: "set (remove_members gid us) \<subseteq> set us"
  by (auto simp: remove_members_def)

lemma fold_members_subset:
  "set (foldl (\<lambda>us g. remove_members (g_gid g) us) us gs) \<subseteq> set us"
  by (induction gs arbitrary: us) (use remove_members_subset in fastforce)+

lemma router_inv_subset:
  "router_inv st \<Longrightarrow> ro_files st' = ro_files st \<Longrightarrow> set (ro_users st') \<subseteq> set (ro_users st) \<Longrightarrow> router_inv st'"
  by (auto intro: router_inv_users dest: router_inv_mt)

lemma user_add_inv:
  assumes "router_inv st" "mt_ok (u_mt u)" shows "router_inv (snd (perspective_user_add u st))"
  using assms set_remove_first_subset[of "user_clash u" "ro_users st"] router_inv_mt[OF assms(1)]
  by (auto simp: perspective_user_add_def Let_def intro!: router_inv_users[OF assms(1)])

lemma group_ops_users [simp]:
  "ro_users (snd (perspective_group_add g st)) = ro_users st"
  "ro_users (snd (on_group gid f st)) = ro_users st"
  "ro_files (snd (perspective_group_add g st)) = ro_files st"
  "ro_files (snd (on_group gid f st)) = ro_files st"
  by (simp_all add: perspective_group_add_def on_group_def)

lemma group_ops_inv [simp]:
  "router_inv (snd (perspective_group_add g st)) = router_inv st"
  "router_inv (snd (on_group gid f st)) = router_inv st"
  by (simp_all add: router_inv_def users_ok_def files_ok_def)

lemma admin_step_inv: "admin_step st st' \<Longrightarrow> router_inv st \<Longrightarrow> router_inv st'"
proof (induction rule: admin_step.induct)
  case (set_quota v st uid cred quota)
  then show ?case
    unfolding perspective_user_set_quota_def by (intro on_credential_inv) (auto intro: mt_setQuota_ok)
next
  case (top_up v st uid)
  then show ?case
    unfolding perspective_user_update_quota_def by (intro on_credential_inv) (auto intro: top_up_ok)
next
  case (user_remove st uid)
  then show ?case
    by (rule router_inv_subset) (simp_all add: perspective_user_remove_def set_remove_first_subset)
next
  case (user_remove_all st)
  then show ?case by (rule router_inv_subset) (simp_all add: perspective_user_remove_all_def)
next
  case (group_remove st gid)
  then show ?case
    by (rule router_inv_subset) (simp_all add: perspective_group_remove_def remove_members_subset)
next
  case (group_remove_all st)
  then show ?case
    by (rule router_inv_subset) (simp_all add: perspective_group_remove_all_def fold_members_subset)
qed (simp_all add: user_add_inv perspective_user_enable_def perspective_user_disable_def user_enable_def
    user_disable_def perspective_group_enable_def perspective_group_disable_def on_user_inv router_inv_mt)

subsection \<open>Migration and persistence keep the invariant\<close>

lemma mt_ok_grant: "mt_ok (u_mt u) \<Longrightarrow> mt_ok (u_mt (grant k u))"
  by (auto simp: grant_def mt_ok_def intro: list_all_dset)

lemma rebuild_user_mt: "rebuild_user u = Inr v \<Longrightarrow> u_mt v = u_mt u"
  by (auto simp: rebuild_user_def mk_User_def)

lemma rebuild_users_ok:
  assumes "map_res rebuild_user us = Inr us'" "\<forall>u \<in> set us. mt_ok (u_mt u)" "v \<in> set us'"
  shows "mt_ok (u_mt v)"
  using map_res_in[OF assms(1,3)] assms(2) rebuild_user_mt by metis

lemma mt_ok_filters [simp]: "mt_ok (c\<lparr>value_filters := f\<rparr>) = mt_ok c"
  by (simp add: mt_ok_def)

definition keeps_data_ok :: "(string \<Rightarrow> pdata \<Rightarrow> pdata res) \<Rightarrow> bool" where
  "keeps_data_ok f \<longleftrightarrow> (\<forall>ctx d d'. f ctx d = Inr d' \<longrightarrow> data_ok d \<longrightarrow> data_ok d')"

lemma migration_steps_ok:
  "keeps_data_ok group_status" "keeps_data_ok user_status" "keeps_data_ok tagfilters_casting"
  "keeps_data_ok fix_users_and_smppccs_09rc23" "keeps_data_ok fix_users_09rc24"
  "keeps_data_ok fix_user_filters_0109"
  by (auto simp: keeps_data_ok_def data_ok_def group_status_def user_status_def tagfilters_casting_def
      fix_users_and_smppccs_09rc23_def fix_users_09rc24_def fix_user_filters_0109_def
      intro: rebuild_users_ok intro!: mt_ok_grant split: pdata.splits if_splits)

lemma run_operations_ok:
  "\<forall>f \<in> set fs. keeps_data_ok f \<Longrightarrow> run_operations ctx fs d = Inr d' \<Longrightarrow> data_ok d \<Longrightarrow> data_ok d'"
  by (induction fs arbitrary: d) (auto simp: keeps_data_ok_def)

lemma run_map_ok:
  "\<forall>(cs, xs, fs) \<in> set ms. \<forall>f \<in> set fs. keeps_data_ok f \<Longrightarrow> run_map ctx v ms d = Inr d' \<Longrightarrow>
   data_ok d \<Longrightarrow> data_ok d'"
proof (induction ctx v ms d rule: run_map.induct)
  case (2 ctx v cs xs fs ms d)
  from 2(1,2,3,4) 2(5-) show ?case
    using run_operations_ok[of fs ctx d] by (auto split: if_splits)
qed simp

lemma getMigratedData_ok: "getMigratedData m = Inr d \<Longrightarrow> data_ok (cm_data m) \<Longrightarrow> data_ok d"
  unfolding getMigratedData_def by (erule run_map_ok[rotated]) (auto simp: MAP_def migration_steps_ok)

lemma mt_ok_clear: "mt_ok (u_mt (clear_updated u)) = mt_ok (u_mt u)"
  by (simp add: clear_updated_def)

lemma each_scope_inv:
  "(\<And>s st. router_inv st \<Longrightarrow> router_inv (snd (f s st))) \<Longrightarrow> router_inv st \<Longrightarrow>
   router_inv (snd (each_scope f ss st))"
proof (induction ss arbitrary: st)
  case (Cons s ss)
  obtain b st1 where e: "f s st = (b, st1)" by force
  with Cons.prems(1)[OF Cons.prems(2), of s] have "router_inv st1" by simp
  with Cons e show ?case by (cases b) simp_all
qed simp

lemma set_dset_subset: "set (dset d k v) \<subseteq> insert (k, v) (set d)"
  by (induction d) auto

lemma persist_scope_inv: "router_inv st \<Longrightarrow> router_inv (snd (persist_scope env profile s st))"
proof -
  assume inv: "router_inv st"
  let ?f = "\<lparr>pf_header = mk_header (re_date env) get_release, pf_data = scope_data s st\<rparr>"
  have "data_ok (pf_data ?f)" using inv by (simp add: scope_data_def data_ok_def router_inv_def users_ok_def)
  then have "files_ok (st\<lparr>ro_files := dset (ro_files st) p ?f\<rparr>)" for p
    using inv set_dset_subset[of p ?f "ro_files st"] by (auto simp: router_inv_def files_ok_def)
  with inv show ?thesis
    by (auto simp: persist_scope_def Let_def router_inv_def users_ok_def files_ok_def mt_ok_clear)
qed

lemma data_ok_users: "data_ok (DUsers us) \<longleftrightarrow> (\<forall>u \<in> set us. mt_ok (u_mt u))"
  by (simp add: data_ok_def)

lemma install_data_inv:
  "install_data s d st = Some st' \<Longrightarrow> router_inv st \<Longrightarrow> data_ok d \<Longrightarrow> router_inv st'"
  by (cases d) (auto simp: install_data_def data_ok_users router_inv_def users_ok_def files_ok_def
      split: if_splits)

lemma clear_users_inv: "router_inv (st\<lparr>ro_users := map clear_updated (ro_users st)\<rparr>) = router_inv st"
  by (simp add: router_inv_def users_ok_def files_ok_def mt_ok_clear)

lemma load_scope_inv:
  assumes inv: "router_inv st" shows "router_inv (snd (load_scope env profile s st))"
proof (cases "map_of (ro_files st) (store_path env profile s)")
  case (Some f)
  with inv have f: "data_ok (pf_data f)"
    by (auto simp: router_inv_def files_ok_def dest!: map_of_SomeD)
  let ?st1 = "if s = ''groups'' then snd (perspective_group_remove_all st)
              else if s = ''users'' then snd (perspective_user_remove_all st) else st"
  have st1: "router_inv ?st1"
    using inv admin_step_inv[OF group_remove_all] admin_step_inv[OF user_remove_all] by simp
  show ?thesis
  proof (cases "ConfigurationMigrator (re_date_ok env) s f")
    case (Inr m)
    then have m: "cm_data m = pf_data f"
      by (auto simp: ConfigurationMigrator_def split: option.splits)
    have "router_inv st2" if "getMigratedData m = Inr d" "install_data s d ?st1 = Some st2" for d st2
      using install_data_inv[OF that(2) st1] getMigratedData_ok[OF that(1)] f m by simp
    with st1 show ?thesis
      by (auto simp: load_scope_def Some Inr Let_def clear_users_inv split: sum.splits option.splits)
  qed (simp add: load_scope_def Some inv)
qed (simp add: load_scope_def inv)

lemma deliver_users [simp]:
  "ro_users (snd (deliver_sm_callback env r c w st)) = ro_users st"
  "ro_files (snd (deliver_sm_callback env r c w st)) = ro_files st"
  by (auto simp: deliver_sm_callback_def split: prod.splits sum.splits option.splits)

lemma table_ops_users [simp]:
  "router_inv (snd (perspective_mtroute_add rt order st)) = router_inv st"
  "router_inv (snd (perspective_moroute_add rt order st)) = router_inv st"
  "router_inv (snd (perspective_mtroute_remove k st)) = router_inv st"
  "router_inv (snd (perspective_moroute_remove k st)) = router_inv st"
  "router_inv (perspective_mtroute_flush st) = router_inv st"
  "router_inv (perspective_moroute_flush st) = router_inv st"
  "router_inv (snd (perspective_mtinterceptor_add i order st)) = router_inv st"
  "router_inv (snd (perspective_mointerceptor_add i order st)) = router_inv st"
  "router_inv (snd (perspective_mtinterceptor_remove k st)) = router_inv st"
  "router_inv (snd (perspective_mointerceptor_remove k st)) = router_inv st"
  "router_inv (perspective_mtinterceptor_flush st) = router_inv st"
  "router_inv (perspective_mointerceptor_flush st) = router_inv st"
  by (simp_all add: perspective_mtroute_add_def perspective_moroute_add_def perspective_mtroute_remove_def
      perspective_moroute_remove_def perspective_mtroute_flush_def perspective_moroute_flush_def
      perspective_mtinterceptor_add_def perspective_mointerceptor_add_def
      perspective_mtinterceptor_remove_def perspective_mointerceptor_remove_def
      perspective_mtinterceptor_flush_def perspective_mointerceptor_flush_def
      router_inv_def users_ok_def files_ok_def split: sum.splits prod.splits)

lemma charge_files [simp]:
  "ro_files (snd (chargeUserForSubmitSms uid b n reqs st)) = ro_files st"
  "ro_files (snd (bill_request_submit_sm_resp_callback uid a st)) = ro_files st"
proof -
  have 1: "ro_files (snd (charge_step uid k due st)) = ro_files st" for k due st
  proof -
    obtain r st' where e: "charge_step uid k due st = (r, st')" by force
    then show ?thesis by (cases rule: charge_step_cases) (simp_all add: set_mt_def e)
  qed
  obtain r st' where e: "chargeUserForSubmitSms uid b n reqs st = (r, st')" by force
  then show "ro_files (snd (chargeUserForSubmitSms uid b n reqs st)) = ro_files st"
  proof (cases rule: charge_cases)
    case (both a due k cnt st1)
    with 1[of "''balance''" due st] 1[of "''submit_sm_count''" cnt st1] e show ?thesis by simp
  next
    case (first a due)
    with 1[of "''balance''" due st] e show ?thesis by simp
  next
    case (first_error a due e')
    with 1[of "''balance''" due st] e show ?thesis by simp
  qed (simp add: e)
  show "ro_files (snd (bill_request_submit_sm_resp_callback uid a st)) = ro_files st"
    by (simp add: bill_request_submit_sm_resp_callback_def Let_def set_mt_def
        split: option.splits sum.splits bool.splits)
qed

lemma persist_inv: "router_inv st \<Longrightarrow> router_inv (snd (perspective_persist env profile scope st))"
  unfolding perspective_persist_def by (intro each_scope_inv persist_scope_inv)

lemma timer_inv:
  assumes "router_inv st" shows "router_inv (persistenceTimerExpired env st)"
proof -
  have "router_inv (st2\<lparr>ro_users := update_first P clear_updated (ro_users st2)\<rparr>)"
    if "router_inv st2" for st2 P
    using that by (auto intro!: router_inv_users[OF that] dest!: set_update_first
        simp: mt_ok_clear router_inv_mt)
  then show ?thesis
    using assms persist_inv by (auto simp: persistenceTimerExpired_def Let_def split: option.splits)
qed

lemma router_step_inv: "router_step env st st' \<Longrightarrow> router_inv st \<Longrightarrow> router_inv st'"
proof (induction rule: router_step.induct)
  case (charge st uid b n reqs)
  then show ?case using charge_ok[of st] by (simp add: router_inv_def files_ok_def)
next
  case (bill_request a st uid)
  then show ?case using bill_request_ok[of st a] by (simp add: router_inv_def files_ok_def)
next
  case (deliver st r c w)
  then show ?case by (simp add: router_inv_def users_ok_def files_ok_def)
next
  case (load st profile scope)
  then show ?case
    unfolding perspective_load_def by (intro each_scope_inv load_scope_inv)
qed (auto intro: admin_step_inv persist_inv timer_inv)

lemma reachable_inv:
  assumes "(router_step env)\<^sup>*\<^sup>* st st'" "router_inv st" shows "router_inv st'"
  using assms by (induction rule: rtranclp_induct) (auto intro: router_step_inv)

lemma router_inv_init: "router_inv (RouterPB stats [])"
  by (simp add: router_inv_def users_ok_def files_ok_def RouterPB_def)


definition sample_router_env :: router_env where
  "sample_router_env =
     \<lparr>re_md5 = (\<lambda>p. p), re_writable = (\<lambda>p. True), re_date = ''Sun Nov 15 10:00:00 2026'',
      re_date_ok = (\<lambda>d. True), re_store = ''/etc/jasmin/store'', re_filter = sample_env,
      re_randbelow = (\<lambda>n. 0)\<rparr>"

definition sample_router :: router where
  "sample_router =
     snd (perspective_user_add (sample_user (PFloat 10) PNone (PInt 1))
       (snd (perspective_group_add \<lparr>g_gid = ''g1'', g_enabled = True\<rparr> (RouterPB [] []))))"

definition sample_bill :: "rat \<Rightarrow> bill" where
  "sample_bill a =
     \<lparr>b_bid = ''b'', b_user = sample_user (PFloat 10) PNone (PInt 1),
      b_amounts = [(''submit_sm'', PFloat a), (''submit_sm_resp'', PInt 0)],
      b_actions = [(''decrement_submit_sm_count'', PInt 1)]\<rparr>"

lemma two_steps: "R a b \<Longrightarrow> R b c \<Longrightarrow> R\<^sup>*\<^sup>* a c"
  by simp

lemma sample_router_reach: "(router_step env)\<^sup>*\<^sup>* (RouterPB [] []) sample_router"
proof -
  have "mt_ok (u_mt (sample_user (PFloat 10) PNone (PInt 1)))"
  proof (rule sample_user_ok)
    have "fl 10 = 10" by code_simp
    then show "PFloat 10 = PNone \<or> amount_ok (PFloat 10)" by (simp add: amount_ok_def is_number_def is_double_def)
  qed (simp_all add: count_ok_def)
  then show ?thesis unfolding sample_router_def
    by (intro two_steps[where R = "router_step env",
          OF router_step.admin[OF admin_step.group_add] router_step.admin[OF admin_step.user_add]])
qed


section \<open>Users and groups\<close>

definition group_closed :: "router \<Rightarrow> bool" where
  "group_closed st \<longleftrightarrow> distinct (map g_gid (ro_groups st)) \<and>
     (\<forall>u \<in> set (ro_users st). g_gid (u_group u) \<in> set (map g_gid (ro_groups st)))"

lemma group_closed_init: "group_closed (RouterPB stats files)"
  by (simp add: group_closed_def RouterPB_def)

lemma on_user_closed:
  "(\<And>u. u_group (f u) = u_group u) \<Longrightarrow> group_closed st \<Longrightarrow> group_closed (snd (on_user uid f st))"
  by (auto simp: on_user_def group_closed_def dest!: set_update_first)

lemma on_credential_closed:
  "group_closed st \<Longrightarrow> group_closed (snd (on_credential uid cred quota f g st))"
  by (auto simp: on_credential_def intro!: on_user_closed split: option.splits sum.splits)

lemma on_group_closed:
  "(\<And>g. g_gid (f g) = g_gid g) \<Longrightarrow> group_closed st \<Longrightarrow> group_closed (snd (on_group gid f st))"
  using map_update_first[of "\<lambda>g. g_gid g = gid" g_gid f "ro_groups st"]
  by (auto simp: on_group_def group_closed_def simp flip: set_map)

lemma group_closed_users:
  "group_closed st \<Longrightarrow> ro_groups st' = ro_groups st \<Longrightarrow> set (ro_users st') \<subseteq> set (ro_users st) \<Longrightarrow> group_closed st'"
  by (auto simp: group_closed_def)

lemma user_add_closed: "group_closed st \<Longrightarrow> group_closed (snd (perspective_user_add u st))"
  using set_remove_first_subset[of "user_clash u" "ro_users st"]
  by (auto simp: perspective_user_add_def Let_def group_closed_def list_ex_iff image_iff) metis+

lemma remove_first_gid:
  assumes "distinct (map g_gid gs)"
  shows "map g_gid (remove_first (\<lambda>g. g_gid g = k) gs) = filter (\<lambda>x. x \<noteq> k) (map g_gid gs)"
  by (simp add: remove_first_unique[OF assms] filter_map comp_def)

lemma group_add_closed:
  assumes "group_closed st" shows "group_closed (snd (perspective_group_add g st))"
proof -
  have d: "distinct (map g_gid (ro_groups st))" using assms by (simp add: group_closed_def)
  have "map g_gid (remove_first (\<lambda>h. g_gid g = g_gid h) (ro_groups st)) =
      filter (\<lambda>x. x \<noteq> g_gid g) (map g_gid (ro_groups st))"
    using remove_first_gid[OF d, of "g_gid g"] by (simp add: eq_commute)
  with assms show ?thesis
    by (auto simp: perspective_group_add_def group_closed_def simp flip: set_map)
qed

lemma group_remove_closed:
  assumes "group_closed st" shows "group_closed (snd (perspective_group_remove gid st))"
proof -
  have d: "distinct (map g_gid (ro_groups st))" using assms by (simp add: group_closed_def)
  show ?thesis using assms remove_first_gid[OF d, of gid]
    by (auto simp: perspective_group_remove_def group_closed_def remove_members_def simp flip: set_map)
qed

lemma fold_members:
  "foldl (\<lambda>us g. remove_members (g_gid g) us) us gs = filter (\<lambda>u. g_gid (u_group u) \<notin> g_gid ` set gs) us"
  by (induction gs arbitrary: us) (auto simp: remove_members_def intro: filter_cong)

lemma group_remove_all_closed:
  "group_closed st \<Longrightarrow> group_closed (snd (perspective_group_remove_all st))"
  by (auto simp: perspective_group_remove_all_def group_closed_def fold_members)

lemma admin_step_closed: "admin_step st st' \<Longrightarrow> group_closed st \<Longrightarrow> group_closed st'"
proof (induction rule: admin_step.induct)
  case (user_remove st uid)
  then show ?case
    by (rule group_closed_users) (simp_all add: perspective_user_remove_def set_remove_first_subset)
next
  case (user_remove_all st)
  then show ?case by (rule group_closed_users) (simp_all add: perspective_user_remove_all_def)
qed (simp_all add: user_add_closed group_add_closed group_remove_closed group_remove_all_closed
    perspective_user_enable_def perspective_user_disable_def user_enable_def user_disable_def on_user_closed
    perspective_user_set_quota_def perspective_user_update_quota_def on_credential_closed
    perspective_group_enable_def perspective_group_disable_def group_enable_def group_disable_def
    on_group_closed)

text \<open>
  Claim C31.  Under any sequence of management operations group ids stay unique and no user is left
  without a group: a user is only added to an existing group, and removing groups removes their users.
\<close>

theorem users_have_groups:
  assumes "admin_step\<^sup>*\<^sup>* (RouterPB stats files) st"
  shows "distinct (map g_gid (ro_groups st)) \<and>
    (\<forall>u \<in> set (ro_users st). \<exists>g. getGroup (g_gid (u_group u)) st = Some g)"
proof -
  from assms have c: "group_closed st"
    by (induction rule: rtranclp_induct) (auto intro: admin_step_closed group_closed_init)
  have "\<exists>g. getGroup (g_gid (u_group u)) st = Some g" if "u \<in> set (ro_users st)" for u
    using c that unfolding group_closed_def getGroup_def
    by (cases "find (\<lambda>g. g_gid g = g_gid (u_group u)) (ro_groups st)") (force simp: find_None_all)+
  with c show ?thesis by (simp add: group_closed_def)
qed

theorem users_have_groups_witness:
  "length (ro_users (snd (perspective_user_add (sample_user PNone PNone PNone)
      (snd (perspective_group_add \<lparr>g_gid = ''g1'', g_enabled = True\<rparr> (RouterPB [] [])))))) = 1 \<and>
   (\<exists>g. getGroup ''g1'' (snd (perspective_user_add (sample_user PNone PNone PNone)
      (snd (perspective_group_add \<lparr>g_gid = ''g1'', g_enabled = True\<rparr> (RouterPB [] []))))) = Some g)"
proof -
  let ?st1 = "snd (perspective_group_add \<lparr>g_gid = ''g1'', g_enabled = True\<rparr> (RouterPB [] []))"
  let ?st = "snd (perspective_user_add (sample_user PNone PNone PNone) ?st1)"
  have "mt_ok (u_mt (sample_user PNone PNone PNone))" by (rule sample_user_ok) simp_all
  then have "admin_step\<^sup>*\<^sup>* (RouterPB [] []) ?st"
    by (intro two_steps[where R = admin_step, OF admin_step.group_add admin_step.user_add])
  from users_have_groups[OF this]
  have all: "\<forall>u \<in> set (ro_users ?st). \<exists>g. getGroup (g_gid (u_group u)) ?st = Some g" by blast
  have gids: "map (\<lambda>u. g_gid (u_group u)) (ro_users ?st) = [''g1'']" by code_simp
  then obtain u where u: "ro_users ?st = [u]" "g_gid (u_group u) = ''g1''"
    by (cases "ro_users ?st") auto
  with all show ?thesis by auto
qed

section \<open>Authentication\<close>

definition may_login :: "router_env \<Rightarrow> router \<Rightarrow> string \<Rightarrow> user \<Rightarrow> bool" where
  "may_login env st password u \<longleftrightarrow>
     u_password u = Some (re_md5 env password) \<and> u_enabled u \<and>
     (\<forall>g. getGroup (g_gid (u_group u)) st = Some g \<longrightarrow> g_enabled g)"

lemma auth_loop_sound:
  "auth_loop md5 grp name pw us = Inr (Some u) \<Longrightarrow>
   u \<in> set us \<and> u_username u = Some name \<and> u_password u = Some (md5 pw) \<and> u_enabled u \<and>
   (\<forall>g. grp (g_gid (u_group u)) = Some g \<longrightarrow> g_enabled g)"
  by (induction us) (auto simp: encode_ascii_def split: if_splits)

lemma auth_loop_complete:
  assumes "encode_ascii pw = Inr pw" "distinct (map u_username us)" "u \<in> set us"
    "u_username u = Some name" "u_password u = Some (md5 pw)" "u_enabled u"
    "\<forall>g. grp (g_gid (u_group u)) = Some g \<longrightarrow> g_enabled g"
  shows "auth_loop md5 grp name pw us = Inr (Some u)"
  using assms(2,3)
proof (induction us)
  case (Cons v us)
  show ?case
  proof (cases "u = v")
    case True
    with assms show ?thesis by auto
  next
    case False
    with Cons.prems have "u \<in> set us" "u_username v \<noteq> u_username u" by auto
    with Cons assms(4) show ?thesis by simp
  qed
qed simp

text \<open>
  Claim C30.  Authentication is exact when user names are unique and the password is ASCII: it returns a user
  if and only if that user has the given name and password, is enabled, and belongs to no disabled group.
\<close>

theorem authenticateUser_correct:
  assumes "distinct (map u_username (ro_users st))" "list_all (\<lambda>c. cval c < 128) password"
  shows "authenticateUser env username password st = Inr (Some u) \<longleftrightarrow>
    u \<in> set (ro_users st) \<and> u_username u = Some username \<and>
    u_password u = Some (re_md5 env password) \<and> u_enabled u \<and>
    (\<forall>g. getGroup (g_gid (u_group u)) st = Some g \<longrightarrow> g_enabled g)"
proof -
  have "encode_ascii password = Inr password" using assms(2) by (simp add: encode_ascii_def)
  then show ?thesis unfolding authenticateUser_def
    using auth_loop_sound[of "re_md5 env" "\<lambda>gid. getGroup gid st" username password "ro_users st" u]
      auth_loop_complete[OF _ assms(1), of password u username "re_md5 env" "\<lambda>gid. getGroup gid st"]
    by blast
qed

theorem authenticateUser_correct_witness:
  "authenticateUser sample_router_env ''u1'' ''pw'' sample_router = Inr (Some (hd (ro_users sample_router)))"
proof -
  have "map u_username (ro_users sample_router) = [Some ''u1'']"
    "map u_password (ro_users sample_router) = [Some ''pw'']"
    "map u_enabled (ro_users sample_router) = [True]"
    "map (\<lambda>u. map_option g_enabled (getGroup (g_gid (u_group u)) sample_router)) (ro_users sample_router) =
       [Some True]"
    "list_all (\<lambda>c. cval c < 128) ''pw''"
    by code_simp+
  moreover from this(1) obtain u where "ro_users sample_router = [u]" by auto
  ultimately show ?thesis
    using authenticateUser_correct[of sample_router "''pw''" sample_router_env "''u1''" u]
    by (auto simp: sample_router_env_def)
qed

lemma auth_Some_in:
  assumes "authenticateUser env username password st = Inr (Some u)"
  shows "u \<in> set (ro_users st)" "u_enabled u"
    "\<forall>g. getGroup (g_gid (u_group u)) st = Some g \<longrightarrow> g_enabled g"
  using assms auth_loop_sound unfolding authenticateUser_def by blast+

lemma update_first_all:
  assumes "distinct (map f xs)"
  shows "update_first (\<lambda>x. f x = k) h xs = map (\<lambda>x. if f x = k then h x else x) xs"
  using assms
proof (induction xs)
  case (Cons x xs)
  have "f y \<noteq> f x" if "y \<in> set xs" for y
    using Cons.prems imageI[OF that, of f] by auto
  with Cons show ?case by (auto intro!: map_idI[symmetric])
qed simp

text \<open>
  Disabling works at once: after a successful \<^verbatim>\<open>user_disable\<close> no credentials authenticate as that
  user, and after a successful \<^verbatim>\<open>group_disable\<close> none authenticate as any member of the group.
\<close>

theorem disabled_cannot_login:
  assumes "distinct (map u_uid (ro_users st))"
  shows "(fst (perspective_user_disable uid st) \<longrightarrow>
      authenticateUser env username password (snd (perspective_user_disable uid st)) = Inr (Some u) \<longrightarrow>
      u_uid u \<noteq> uid) \<and>
    (fst (perspective_group_disable gid st) \<longrightarrow>
      authenticateUser env username password (snd (perspective_group_disable gid st)) = Inr (Some u) \<longrightarrow>
      g_gid (u_group u) \<noteq> gid)"
proof (intro conjI impI notI)
  assume d: "fst (perspective_user_disable uid st)"
    and a: "authenticateUser env username password (snd (perspective_user_disable uid st)) = Inr (Some u)"
    and uid: "u_uid u = uid"
  from d have "ro_users (snd (perspective_user_disable uid st)) =
      map (\<lambda>v. if u_uid v = uid then user_disable v else v) (ro_users st)"
    using update_first_all[OF assms, of uid user_disable]
    by (auto simp: perspective_user_disable_def on_user_def split: if_splits)
  with auth_Some_in(1)[OF a]
  have "u \<in> (\<lambda>v. if u_uid v = uid then user_disable v else v) ` set (ro_users st)" by simp
  then obtain v where "u = (if u_uid v = uid then user_disable v else v)" by (rule imageE)
  with auth_Some_in(2)[OF a] uid show False by (auto simp: user_disable_def split: if_splits)
next
  assume d: "fst (perspective_group_disable gid st)"
    and a: "authenticateUser env username password (snd (perspective_group_disable gid st)) = Inr (Some u)"
    and gid: "g_gid (u_group u) = gid"
  let ?st = "snd (perspective_group_disable gid st)"
  from d have ex: "\<exists>g \<in> set (ro_groups st). g_gid g = gid"
    by (auto simp: perspective_group_disable_def on_group_def list_ex_iff split: if_splits)
  then obtain g where g: "find (\<lambda>g. g_gid g = gid) (ro_groups st) = Some g"
    by (cases "find (\<lambda>g. g_gid g = gid) (ro_groups st)") (auto simp: find_None_all)
  have "getGroup gid ?st = Some (group_disable g)"
    using d find_update_first[of "\<lambda>g. g_gid g = gid" group_disable "ro_groups st"] g
    by (auto simp: perspective_group_disable_def on_group_def getGroup_def group_disable_def split: if_splits)
  with auth_Some_in(3)[OF a] gid show False by (simp add: group_disable_def)
qed

theorem disabled_cannot_login_witness:
  "fst (perspective_user_disable ''u1'' sample_router) \<and> fst (perspective_group_disable ''g1'' sample_router) \<and>
   authenticateUser sample_router_env ''u1'' ''pw'' (snd (perspective_user_disable ''u1'' sample_router)) = Inr None \<and>
   \<not> (\<exists>u. authenticateUser sample_router_env ''u1'' ''pw'' (snd (perspective_group_disable ''g1'' sample_router)) =
        Inr (Some u) \<and> g_gid (u_group u) = ''g1'')"
proof -
  have d: "distinct (map u_uid (ro_users sample_router))" by code_simp
  have "fst (perspective_user_disable ''u1'' sample_router)"
    "fst (perspective_group_disable ''g1'' sample_router)" by code_simp+
  moreover have "(case authenticateUser sample_router_env ''u1'' ''pw''
      (snd (perspective_user_disable ''u1'' sample_router)) of Inr m \<Rightarrow> m = None | Inl _ \<Rightarrow> False)"
    unfolding authenticateUser_def sample_router_env_def by code_simp
  ultimately show ?thesis
    using disabled_cannot_login[OF d, of "''u1''" sample_router_env "''u1''" "''pw''" _ "''g1''"]
    by (auto split: sum.splits)
qed

end
