(* ===== verification/Router_Behaviour.thy ===== *)
theory Router_Behaviour
  imports Router_Correct
begin

text \<open>
  What the router's operations do, case by case: charging with the requirements the two front ends compute
  (\<^verbatim>\<open>Send.route_routable\<close> of \<^verbatim>\<open>protocols/http/endpoints/send.py\<close> and \<^verbatim>\<open>submit_sm_event\<close> of
  \<^verbatim>\<open>protocols/smpp/factory.py\<close>), billing requests, adding users, removing groups, and persisting followed by
  loading.
\<close>

section \<open>Requirements of the front ends\<close>

definition http_charging_requirements :: "user \<Rightarrow> bill \<Rightarrow> int \<Rightarrow> bool list res" where
  "http_charging_requirements u b n =
     res_bind (getQuota ''balance'' (u_mt u)) (\<lambda>bal.
     res_bind (getQuota ''submit_sm_count'' (u_mt u)) (\<lambda>cnt.
     res_bind
       (if bal = PNone then Inr []
        else res_bind (getTotalAmounts b) (\<lambda>t.
             res_bind (py_lt (PInt 0) t) (\<lambda>pos.
               if \<not> pos then Inr []
               else res_bind (py_mul t (PInt n)) (\<lambda>m. res_bind (py_le m bal) (\<lambda>c. Inr [c])))))
       (\<lambda>r1.
     res_bind
       (if cnt = PNone then Inr []
        else res_bind (getAction ''decrement_submit_sm_count'' b) (\<lambda>a.
             res_bind (py_mul a (PInt n)) (\<lambda>m. res_bind (py_le m cnt) (\<lambda>c. Inr [c]))))
       (\<lambda>r2. Inr (r1 @ r2)))))"

definition smpps_charging_requirements :: "user \<Rightarrow> bill \<Rightarrow> bool list res" where
  "smpps_charging_requirements u b =
     res_bind (getQuota ''balance'' (u_mt u)) (\<lambda>bal.
     res_bind (getQuota ''submit_sm_count'' (u_mt u)) (\<lambda>cnt.
     res_bind
       (if bal = PNone then Inr []
        else res_bind (getTotalAmounts b) (\<lambda>t.
             res_bind (py_lt (PInt 0) t) (\<lambda>pos.
               if \<not> pos then Inr [] else res_bind (py_le t bal) (\<lambda>c. Inr [c]))))
       (\<lambda>r1.
     res_bind
       (if cnt = PNone then Inr []
        else res_bind (getAction ''decrement_submit_sm_count'' b) (\<lambda>a.
             res_bind (py_le a cnt) (\<lambda>c. Inr [c])))
       (\<lambda>r2. Inr (r1 @ r2)))))"

section \<open>Charging\<close>

lemma charge_step_refuse:
  assumes "charge_step uid key due st = (Inr False, st')"
  shows "st' = st \<and> (\<exists>u q. getUser uid st = Some u \<and> map_of (quotas (u_mt u)) key = Some q \<and>
    q \<noteq> PNone \<and> is_number q \<and> is_number due \<and> num q < num due)"
proof -
  have lt: "py_lt (PInt 0) due = Inr True"
    using assms by (auto simp: charge_step_def split: sum.splits bool.splits)
  obtain u where u: "getUser uid st = Some u"
    using assms lt by (auto simp: charge_step_def split: option.splits)
  obtain q where q: "getQuota key (u_mt u) = Inr q" "q \<noteq> PNone"
    using assms lt u by (auto simp: charge_step_def split: sum.splits if_splits)
  have "py_lt q due = Inr True \<and> st' = st"
    using assms lt u q by (auto simp: charge_step_def split: sum.splits bool.splits)
  with u q show ?thesis by (auto simp: py_lt_def getQuota_def cred_get_eq split: if_splits)
qed

lemma charge_step_other_quota:
  assumes "charge_step uid key due st = (r, st')" "getUser uid st = Some u" "j \<noteq> key"
  shows "\<exists>u'. getUser uid st' = Some u' \<and> map_of (quotas (u_mt u')) j = map_of (quotas (u_mt u)) j"
  using assms(1)
proof (cases rule: charge_step_cases)
  case (2 v q d c)
  then show ?thesis
    using assms(2,3) getUser_set_mt[OF assms(2), of c] by (auto simp: updateQuota_Inr)
qed (use assms in auto)

text \<open>What a front end's requirement on the message count gives.\<close>

lemma count_requirement:
  assumes "http_charging_requirements u b n = Inr reqs" "list_all (\<lambda>c. c) reqs"
    "map_of (quotas (u_mt u)) ''submit_sm_count'' = Some q" "q \<noteq> PNone"
    "getAction ''decrement_submit_sm_count'' b = Inr k" "py_mul k (PInt n) = Inr m"
  shows "num m \<le> num q"
  using assms
  by (auto simp: http_charging_requirements_def getQuota_def cred_get_eq py_le_def split: if_splits)

text \<open>
  Claim C17.  With the requirements that the HTTP front end computes from the user's quotas, charging is
  atomic: when it refuses (for an unmet requirement, a short balance or a short message count), no
  quota of any user has changed.
\<close>

theorem charge_atomic:
  assumes "getUser uid st = Some u" "http_charging_requirements u b n = Inr reqs"
    "chargeUserForSubmitSms uid b n reqs st = (Inr False, st')"
  shows "st' = st"
proof (cases "list_all (\<lambda>c. c) reqs")
  case reqs: True
  from assms(3) show ?thesis
  proof (cases rule: charge_cases)
    case (first a due)
    then show ?thesis using charge_step_refuse by blast
  next
    case (first_error a due e)
    then show ?thesis by simp
  next
    case (both a due k cnt st1)
    from charge_step_refuse[OF both(6)] obtain v q where
      v: "getUser uid st1 = Some v" "map_of (quotas (u_mt v)) ''submit_sm_count'' = Some q" "q \<noteq> PNone"
      "num q < num cnt" by blast
    from charge_step_other_quota[OF both(3) assms(1), of "''submit_sm_count''"] v
    have "map_of (quotas (u_mt u)) ''submit_sm_count'' = Some q" by auto
    from count_requirement[OF assms(2) reqs this v(3) both(4,5)] v(4) show ?thesis by simp
  qed
qed (use assms(3) in \<open>simp add: chargeUserForSubmitSms_def\<close>)

theorem charge_atomic_witness:
  "http_charging_requirements (sample_user (PFloat 10) PNone (PInt 1)) (sample_bill 4) 2 = Inr [True, False] \<and>
   (\<exists>st'. chargeUserForSubmitSms ''u1'' (sample_bill 4) 2 [True, False] sample_router = (Inr False, st') \<and>
      st' = sample_router)"
proof -
  have u: "getUser ''u1'' sample_router = Some (sample_user (PFloat 10) PNone (PInt 1))"
    by (simp add: sample_router_def perspective_user_add_def perspective_group_add_def RouterPB_def getUser_def
        set_flag_def sample_user_def Let_def)
  have r: "http_charging_requirements (sample_user (PFloat 10) PNone (PInt 1)) (sample_bill 4) 2 = Inr [True, False]"
    by code_simp
  have "fst (chargeUserForSubmitSms ''u1'' (sample_bill 4) 2 [True, False] sample_router) = Inr False"
    by (simp add: chargeUserForSubmitSms_def)
  then show ?thesis
    using charge_atomic[OF u r] r by (metis prod.collapse)
qed


lemma sample_user_in: "getUser ''u1'' sample_router = Some (sample_user (PFloat 10) PNone (PInt 1))"
  by (simp add: sample_router_def perspective_user_add_def perspective_group_add_def RouterPB_def getUser_def
      set_flag_def sample_user_def Let_def)


text \<open>
  Called without requirements, charging is not atomic: when the balance covers the bill but the
  message count does not, the call reports a refusal although the balance has already been reduced.
\<close>

theorem charge_without_requirements_not_atomic:
  "\<exists>st' u'. chargeUserForSubmitSms ''u1'' (sample_bill 4) 2 [] sample_router = (Inr False, st') \<and>
    getUser ''u1'' sample_router = Some (sample_user (PFloat 10) PNone (PInt 1)) \<and>
    getUser ''u1'' st' = Some u' \<and> getQuota ''balance'' (u_mt u') = Inr (PFloat 2)"
proof -
  let ?r = "chargeUserForSubmitSms ''u1'' (sample_bill 4) 2 [] sample_router"
  have "(case fst ?r of Inr b \<Rightarrow> \<not> b | Inl _ \<Rightarrow> False)" by code_simp
  moreover have "(case getUser ''u1'' (snd ?r) of
      Some u \<Rightarrow> getQuota ''balance'' (u_mt u) = Inr (PFloat 2) | None \<Rightarrow> False)" by code_simp
  ultimately show ?thesis using sample_user_in
    by (cases ?r) (auto split: sum.splits option.splits)
qed

section \<open>Billing requests\<close>

text \<open>
  A billing request for a user with a limited float balance is acknowledged exactly when the
  balance covers the amount, and then the balance falls by the amount once; otherwise it is rejected and
  nothing changes.  A request for an unknown user is rejected.
\<close>

theorem bill_request_exact:
  assumes "getUser uid st = Some u" "map_of (quotas (u_mt u)) ''balance'' = Some (PFloat q)"
  shows "(q < to_float a \<longrightarrow> bill_request_submit_sm_resp_callback uid a st = (Inr Rejected, st)) \<and>
    (to_float a \<le> q \<longrightarrow> (\<exists>st' u'. bill_request_submit_sm_resp_callback uid a st = (Inr Acked, st') \<and>
       getUser uid st' = Some u' \<and> getQuota ''balance'' (u_mt u') = Inr (PFloat (fl (q - to_float a))) \<and>
       (\<forall>v. v \<noteq> uid \<longrightarrow> getUser v st' = getUser v st))) \<and>
    (getUser w st = None \<longrightarrow> bill_request_submit_sm_resp_callback w a st = (Inr Rejected, st))"
proof (intro conjI impI)
  assume le: "to_float a \<le> q"
  let ?c = "(u_mt u)\<lparr>quotas := dset (quotas (u_mt u)) ''balance'' (PFloat (fl (q - to_float a))), quotas_updated := True\<rparr>"
  have "updateQuota ''balance'' (PFloat (- to_float a)) (u_mt u) = Inr ?c"
    using assms(2) by (simp add: updateQuota_def py_defs)
  then have "bill_request_submit_sm_resp_callback uid a st = (Inr Acked, set_mt uid ?c st)"
    using bill_request_simps(4)[OF assms, of a] le by (simp add: is_number_def)
  then show "\<exists>st' u'. bill_request_submit_sm_resp_callback uid a st = (Inr Acked, st') \<and>
       getUser uid st' = Some u' \<and> getQuota ''balance'' (u_mt u') = Inr (PFloat (fl (q - to_float a))) \<and>
       (\<forall>v. v \<noteq> uid \<longrightarrow> getUser v st' = getUser v st)"
    using getUser_set_mt[OF assms(1), of ?c] getUser_set_mt_other by (simp add: getQuota_def cred_get_def)
qed (use bill_request_simps(1) bill_request_simps(3)[OF assms] in \<open>simp_all add: is_number_def\<close>)

theorem bill_request_exact_witness:
  "bill_request_submit_sm_resp_callback ''u1'' (PFloat 11) sample_router = (Inr Rejected, sample_router) \<and>
   (\<exists>st' u'. bill_request_submit_sm_resp_callback ''u1'' (PFloat 4) sample_router = (Inr Acked, st') \<and>
      getUser ''u1'' st' = Some u' \<and> getQuota ''balance'' (u_mt u') = Inr (PFloat 6))"
proof -
  have q: "map_of (quotas (u_mt (sample_user (PFloat 10) PNone (PInt 1)))) ''balance'' = Some (PFloat 10)"
    by (simp add: sample_user_def)
  have f: "fl (10 - 4) = 6" by code_simp
  show ?thesis
    using bill_request_exact[OF sample_user_in q, of "PFloat 11" "''x''"]
      bill_request_exact[OF sample_user_in q, of "PFloat 4" "''x''"] f by auto
qed

text \<open>
  A billing request for a user whose balance is unlimited is neither acknowledged nor rejected:
  the message stays unsettled at the broker.
\<close>

theorem bill_request_unlimited_unsettled:
  assumes "getUser uid st = Some u" "getQuota ''balance'' (u_mt u) = Inr PNone"
  shows "bill_request_submit_sm_resp_callback uid a st = (Inr Unsettled, st)"
  using bill_request_simps(2)[OF assms(1)] assms(2) by (simp add: getQuota_def cred_get_eq)

theorem bill_request_unlimited_unsettled_witness:
  "bill_request_submit_sm_resp_callback ''u1'' (PFloat 1)
     ((RouterPB [] [])\<lparr>ro_users := [sample_user PNone PNone PNone]\<rparr>) =
   (Inr Unsettled, (RouterPB [] [])\<lparr>ro_users := [sample_user PNone PNone PNone]\<rparr>)"
  by (rule bill_request_unlimited_unsettled[where u = "sample_user PNone PNone PNone"])
    (simp_all add: getUser_def getQuota_def cred_get_def sample_user_def)

section \<open>Adding users and removing groups\<close>

lemma remove_first_split:
  assumes "\<exists>x \<in> set xs. P x"
  shows "\<exists>as y bs. xs = as @ y # bs \<and> P y \<and> (\<forall>x \<in> set as. \<not> P x) \<and> remove_first P xs = as @ bs"
  using assms
proof (induction xs)
  case (Cons x xs)
  show ?case
  proof (cases "P x")
    case False
    with Cons obtain as y bs where "xs = as @ y # bs" "P y" "\<forall>x \<in> set as. \<not> P x" "remove_first P xs = as @ bs"
      by auto
    with False show ?thesis by (intro exI[of _ "x # as"] exI[of _ y] exI[of _ bs]) auto
  qed (intro exI[of _ "[]"] exI[of _ x] exI[of _ xs], simp)
qed simp

text \<open>
  Adding a user keeps uids and user names unique provided that at most one stored user has the
  new uid or the new user name; the new user is then found under both, and the user it replaced is gone.
\<close>

theorem user_add_keeps_unique:
  assumes "distinct (map u_uid (ro_users st))" "distinct (map u_username (ro_users st))"
    "\<forall>v \<in> set (ro_users st). \<forall>w \<in> set (ro_users st). user_clash u v \<longrightarrow> user_clash u w \<longrightarrow> v = w"
    "perspective_user_add u st = (True, st')"
  shows "distinct (map u_uid (ro_users st')) \<and> distinct (map u_username (ro_users st')) \<and>
    getUser (u_uid u) st' = Some u \<and>
    set (ro_users st') = insert u {v \<in> set (ro_users st). \<not> user_clash u v}"
proof -
  let ?us = "remove_first (user_clash u) (ro_users st)"
  have st': "ro_users st' = ?us @ [u]"
    using assms(4) by (auto simp: perspective_user_add_def Let_def split: if_splits)
  have d: "distinct (ro_users st)" using assms(1) by (simp add: distinct_map)
  have us: "set ?us = {v \<in> set (ro_users st). \<not> user_clash u v}"
  proof (cases "\<exists>v \<in> set (ro_users st). user_clash u v")
    case True
    from remove_first_split[OF this] obtain as y bs where
      s: "ro_users st = as @ y # bs" "user_clash u y" "?us = as @ bs" by blast
    have "\<not> user_clash u v" if "v \<in> set (as @ bs)" for v
      using that d s assms(3) by auto
    with s show ?thesis by auto
  next
    case False
    then show ?thesis using remove_first_id[of "ro_users st" "user_clash u"] by auto
  qed
  have "\<forall>v \<in> set ?us. u_uid v \<noteq> u_uid u \<and> u_username v \<noteq> u_username u"
    unfolding us by (auto simp: user_clash_def)
  moreover have "find (\<lambda>v. u_uid v = u_uid u) (xs @ [u]) = Some u" if "\<forall>v \<in> set xs. u_uid v \<noteq> u_uid u" for xs
    using that by (induction xs) auto
  ultimately show ?thesis
    using distinct_map_remove_first[OF assms(1), of "user_clash u"]
      distinct_map_remove_first[OF assms(2), of "user_clash u"] us by (auto simp: st' getUser_def)
qed

definition named_user :: "string \<Rightarrow> string \<Rightarrow> user" where
  "named_user uid name = (sample_user PNone PNone PNone)\<lparr>u_uid := uid, u_username := Some name\<rparr>"

definition two_users :: router where
  "two_users = (RouterPB [] [])\<lparr>ro_groups := [\<lparr>g_gid = ''g1'', g_enabled = True\<rparr>],
     ro_users := [named_user ''1'' ''a'', named_user ''2'' ''b'']\<rparr>"

theorem user_add_keeps_unique_witness:
  "\<exists>st'. perspective_user_add (named_user ''1'' ''c'') two_users = (True, st') \<and>
     getUser ''1'' st' = Some (named_user ''1'' ''c'') \<and> distinct (map u_username (ro_users st'))"
proof -
  have "fst (perspective_user_add (named_user ''1'' ''c'') two_users)"
    by (simp add: perspective_user_add_def two_users_def named_user_def sample_user_def Let_def)
  then obtain st' where st': "perspective_user_add (named_user ''1'' ''c'') two_users = (True, st')"
    by (cases "perspective_user_add (named_user ''1'' ''c'') two_users") auto
  from user_add_keeps_unique[OF _ _ _ st'] st' show ?thesis
    by (simp add: two_users_def named_user_def user_clash_def)
qed

text \<open>
  A new user that clashes with one stored user by uid and with another by user name replaces
  only the first of them: afterwards two users have the same user name, and the old password still
  authenticates.
\<close>

theorem user_add_leaves_duplicate:
  "map u_username (ro_users (snd (perspective_user_add (named_user ''1'' ''b'') two_users))) =
     [Some ''b'', Some ''b''] \<and>
   map u_uid (ro_users (snd (perspective_user_add (named_user ''1'' ''b'') two_users))) = [''2'', ''1'']"
  by (simp add: perspective_user_add_def two_users_def named_user_def sample_user_def user_clash_def Let_def)

text \<open>
  Removing a group that exists, together with its users, is not noticed by the persistence
  flags: a router that reported everything as persisted still does so afterwards.
\<close>

theorem group_remove_not_flagged:
  assumes "perspective_is_persisted st" "getGroup gid st \<noteq> None"
  shows "fst (perspective_group_remove gid st) \<and>
    perspective_is_persisted (snd (perspective_group_remove gid st)) \<and>
    (\<forall>u \<in> set (ro_users (snd (perspective_group_remove gid st))). g_gid (u_group u) \<noteq> gid)"
proof -
  have "list_ex (\<lambda>g. g_gid g = gid) (ro_groups st)"
    using assms(2) by (auto simp: getGroup_def list_ex_iff dest!: find_Some_in)
  with assms(1) show ?thesis
    by (auto simp: perspective_group_remove_def perspective_is_persisted_def remove_members_def)
qed

theorem group_remove_not_flagged_witness:
  "perspective_is_persisted two_users \<and>
   perspective_is_persisted (snd (perspective_group_remove ''g1'' two_users)) \<and>
   ro_users (snd (perspective_group_remove ''g1'' two_users)) = []"
proof -
  have "perspective_is_persisted two_users" "getGroup ''g1'' two_users \<noteq> None"
    by (simp_all add: perspective_is_persisted_def two_users_def RouterPB_def getGroup_def)
  moreover have "ro_users (snd (perspective_group_remove ''g1'' two_users)) = []"
    by (simp add: perspective_group_remove_def two_users_def remove_members_def named_user_def sample_user_def)
  ultimately show ?thesis using group_remove_not_flagged[of two_users "''g1''"] by simp
qed

section \<open>Persisting and loading\<close>

lemma store_path_inj [simp]: "store_path env p s = store_path env p s' \<longleftrightarrow> s = s'"
  by (simp add: store_path_def)

definition scope_file :: "router_env \<Rightarrow> pdata \<Rightarrow> pfile" where
  "scope_file env d = \<lparr>pf_header = mk_header (re_date env) get_release, pf_data = d\<rparr>"

lemma persist_scope_writable:
  "re_writable env (store_path env p s) \<Longrightarrow> s \<noteq> ''users'' \<Longrightarrow>
   persist_scope env p s st =
     (True, set_flag s True (st\<lparr>ro_files := dset (ro_files st) (store_path env p s) (scope_file env (scope_data s st))\<rparr>))"
  "re_writable env (store_path env p ''users'') \<Longrightarrow>
   persist_scope env p ''users'' st =
     (True, (set_flag ''users'' True
       (st\<lparr>ro_files := dset (ro_files st) (store_path env p ''users'') (scope_file env (scope_data ''users'' st))\<rparr>))
          \<lparr>ro_users := map clear_updated (ro_users st)\<rparr>)"
  by (simp_all add: persist_scope_def scope_file_def Let_def)

definition all_writable :: "router_env \<Rightarrow> string \<Rightarrow> bool" where
  "all_writable env p \<longleftrightarrow>
     (\<forall>s \<in> {''groups'', ''users'', ''moroutes'', ''mtroutes'', ''mointerceptors'', ''mtinterceptors''}.
        re_writable env (store_path env p s))"

lemma persist_all_files:
  assumes "all_writable env p" "perspective_persist env p ''all'' st = (b, st1)"
  shows "b"
    "map_of (ro_files st1) (store_path env p ''groups'') = Some (scope_file env (DGroups (ro_groups st)))"
    "map_of (ro_files st1) (store_path env p ''users'') = Some (scope_file env (DUsers (ro_users st)))"
    "map_of (ro_files st1) (store_path env p ''moroutes'') = Some (scope_file env (DRoutes (ro_mo_routes st)))"
    "map_of (ro_files st1) (store_path env p ''mtroutes'') = Some (scope_file env (DRoutes (ro_mt_routes st)))"
    "map_of (ro_files st1) (store_path env p ''mointerceptors'') = Some (scope_file env (DInterceptors (ro_mo_icpts st)))"
    "map_of (ro_files st1) (store_path env p ''mtinterceptors'') = Some (scope_file env (DInterceptors (ro_mt_icpts st)))"
proof -
  have w: "re_writable env (store_path env p s)" if
    "s \<in> {''groups'', ''users'', ''moroutes'', ''mtroutes'', ''mointerceptors'', ''mtinterceptors''}" for s
    by (rule bspec[OF assms(1)[unfolded all_writable_def] that])
  define w1 where "w1 = snd (persist_scope env p ''groups'' st)"
  define w2 where "w2 = snd (persist_scope env p ''users'' w1)"
  define w3 where "w3 = snd (persist_scope env p ''moroutes'' w2)"
  define w4 where "w4 = snd (persist_scope env p ''mtroutes'' w3)"
  define w5 where "w5 = snd (persist_scope env p ''mointerceptors'' w4)"
  define w6 where "w6 = snd (persist_scope env p ''mtinterceptors'' w5)"
  note wd = w1_def w2_def w3_def w4_def w5_def w6_def
  have "fst (persist_scope env p s x)" if
    "s \<in> {''groups'', ''users'', ''moroutes'', ''mtroutes'', ''mointerceptors'', ''mtinterceptors''}" for s x
    using w[OF that] by (simp add: persist_scope_def Let_def)
  then have ps: "persist_scope env p ''groups'' st = (True, w1)" "persist_scope env p ''users'' w1 = (True, w2)"
    "persist_scope env p ''moroutes'' w2 = (True, w3)" "persist_scope env p ''mtroutes'' w3 = (True, w4)"
    "persist_scope env p ''mointerceptors'' w4 = (True, w5)" "persist_scope env p ''mtinterceptors'' w5 = (True, w6)"
    by (simp_all add: wd prod_eq_iff)
  have e: "b" "st1 = w6"
    using assms(2) by (simp_all add: perspective_persist_def in_scope_def ps)
  show "b" by fact
  have fs: "map_of (ro_files w1) = (map_of (ro_files st))(store_path env p ''groups'' \<mapsto> scope_file env (scope_data ''groups'' st))"
    "map_of (ro_files w2) = (map_of (ro_files w1))(store_path env p ''users'' \<mapsto> scope_file env (scope_data ''users'' w1))"
    "map_of (ro_files w3) = (map_of (ro_files w2))(store_path env p ''moroutes'' \<mapsto> scope_file env (scope_data ''moroutes'' w2))"
    "map_of (ro_files w4) = (map_of (ro_files w3))(store_path env p ''mtroutes'' \<mapsto> scope_file env (scope_data ''mtroutes'' w3))"
    "map_of (ro_files w5) = (map_of (ro_files w4))(store_path env p ''mointerceptors'' \<mapsto> scope_file env (scope_data ''mointerceptors'' w4))"
    "map_of (ro_files w6) = (map_of (ro_files w5))(store_path env p ''mtinterceptors'' \<mapsto> scope_file env (scope_data ''mtinterceptors'' w5))"
    by (simp_all add: wd persist_scope_writable w)
  have same: "ro_users w1 = ro_users st" "ro_mo_routes w2 = ro_mo_routes st" "ro_mt_routes w3 = ro_mt_routes st"
    "ro_mo_icpts w4 = ro_mo_icpts st" "ro_mt_icpts w5 = ro_mt_icpts st"
    by (simp_all add: wd persist_scope_writable w set_flag_def)
  show
    "map_of (ro_files st1) (store_path env p ''groups'') = Some (scope_file env (DGroups (ro_groups st)))"
    "map_of (ro_files st1) (store_path env p ''users'') = Some (scope_file env (DUsers (ro_users st)))"
    "map_of (ro_files st1) (store_path env p ''moroutes'') = Some (scope_file env (DRoutes (ro_mo_routes st)))"
    "map_of (ro_files st1) (store_path env p ''mtroutes'') = Some (scope_file env (DRoutes (ro_mt_routes st)))"
    "map_of (ro_files st1) (store_path env p ''mointerceptors'') = Some (scope_file env (DInterceptors (ro_mo_icpts st)))"
    "map_of (ro_files st1) (store_path env p ''mtinterceptors'') = Some (scope_file env (DInterceptors (ro_mt_icpts st)))"
    by (simp_all add: e(2) fs same scope_data_def)
qed

lemma load_scope_file:
  assumes "map_of (ro_files st) (store_path env p s) = Some (scope_file env0 d)"
    "CHR 0x0A \<notin> set (re_date env0)" "re_date_ok env (re_date env0)" "run_map s get_release MAP d = Inr d'"
    "st1 = (if s = ''groups'' then snd (perspective_group_remove_all st)
            else if s = ''users'' then snd (perspective_user_remove_all st) else st)"
    "install_data s d' st1 = Some st2"
  shows "load_scope env p s st = (True, set_flag s True
      (if s = ''users'' then st2\<lparr>ro_users := map clear_updated (ro_users st2)\<rparr> else st2))"
  using assms
  by (simp add: load_scope_def scope_file_def ConfigurationMigrator_def regex_header_mk getMigratedData_def)

definition loaded_user :: "user \<Rightarrow> user" where
  "loaded_user u = clear_updated (migrated_user u)"

text \<open>
  Claim C18.  What one process persists the next one loads: after persisting everything, a freshly started
  router that loads the profile has exactly the routes and interceptors of the old one, and its groups
  and users are the old ones after the migration steps, which set every group and user to enabled and
  grant the two newer authorizations.
\<close>

theorem persist_load_roundtrip:
  assumes "all_writable env p" "CHR 0x0A \<notin> set (re_date env)" "re_date_ok env' (re_date env)"
    "re_store env' = re_store env"
    "\<forall>g \<in> set (ro_groups st). group_id_ok g" "\<forall>u \<in> set (ro_users st). user_ids_ok u"
    "\<forall>(k, rt) \<in> set (ro_mt_routes st). \<forall>f \<in> set (rt_filters rt). \<forall>i. f \<noteq> TagFilter (TagInt i)"
    "perspective_persist env p ''all'' st = (b, st1)"
  shows "b \<and> (\<exists>st2. perspective_load env' p ''all'' (RouterPB stats (ro_files st1)) = (True, st2) \<and>
    ro_groups st2 = map group_enable (ro_groups st) \<and> ro_users st2 = map loaded_user (ro_users st) \<and>
    ro_mo_routes st2 = ro_mo_routes st \<and> ro_mt_routes st2 = ro_mt_routes st \<and>
    ro_mo_icpts st2 = ro_mo_icpts st \<and> ro_mt_icpts st2 = ro_mt_icpts st)"
proof -
  have path: "store_path env' p s = store_path env p s" for s by (simp add: store_path_def assms(4))
  note files = persist_all_files[OF assms(1,8)]
  note ld = load_scope_file[of _ env' p _ env, unfolded path, OF _ assms(2,3)]
  define r0 where "r0 = RouterPB stats (ro_files st1)"
  define r1 where "r1 = set_flag ''groups'' True ((snd (perspective_group_remove_all r0))\<lparr>ro_groups := map group_enable (ro_groups st)\<rparr>)"
  define r2 where "r2 = set_flag ''users'' True ((snd (perspective_user_remove_all r1))\<lparr>ro_users := map loaded_user (ro_users st)\<rparr>)"
  define r3 where "r3 = set_flag ''mointerceptors'' True (r2\<lparr>ro_mo_icpts := ro_mo_icpts st\<rparr>)"
  define r4 where "r4 = set_flag ''mtinterceptors'' True (r3\<lparr>ro_mt_icpts := ro_mt_icpts st\<rparr>)"
  define r5 where "r5 = set_flag ''moroutes'' True (r4\<lparr>ro_mo_routes := ro_mo_routes st\<rparr>)"
  define r6 where "r6 = set_flag ''mtroutes'' True (r5\<lparr>ro_mt_routes := ro_mt_routes st\<rparr>)"
  have f: "ro_files r0 = ro_files st1" "ro_files r1 = ro_files st1" "ro_files r2 = ro_files st1"
    "ro_files r3 = ro_files st1" "ro_files r4 = ro_files st1" "ro_files r5 = ro_files st1"
    by (simp_all add: r0_def r1_def r2_def r3_def r4_def r5_def RouterPB_def
        perspective_group_remove_all_def perspective_user_remove_all_def)
  have 1: "load_scope env' p ''groups'' r0 = (True, r1)"
    by (rule trans[OF ld[OF _ migrate_groups[OF assms(5)] refl]])
      (simp_all add: f files(2) install_data_def r1_def)
  define x2 where "x2 = snd (perspective_user_remove_all r1)"
  have 2: "load_scope env' p ''users'' r1 = (True, r2)"
    by (rule trans[OF ld[OF _ migrate_users[OF assms(6)], of _ x2 "x2\<lparr>ro_users := map migrated_user (ro_users st)\<rparr>"]])
      (simp_all add: f files(3) install_data_def r2_def x2_def[symmetric] loaded_user_def[abs_def] comp_def)
  have 3: "load_scope env' p ''mointerceptors'' r2 = (True, r3)"
    by (rule trans[OF ld[OF _ migrate_other(2), of _ "DInterceptors (ro_mo_icpts st)" r2 "r2\<lparr>ro_mo_icpts := ro_mo_icpts st\<rparr>"]]) (simp_all add: f files(6) install_data_def r3_def)
  have 4: "load_scope env' p ''mtinterceptors'' r3 = (True, r4)"
    by (rule trans[OF ld[OF _ migrate_other(3), of _ "DInterceptors (ro_mt_icpts st)" r3 "r3\<lparr>ro_mt_icpts := ro_mt_icpts st\<rparr>"]]) (simp_all add: f files(7) install_data_def r4_def)
  have 5: "load_scope env' p ''moroutes'' r4 = (True, r5)"
    by (rule trans[OF ld[OF _ migrate_other(1), of _ "DRoutes (ro_mo_routes st)" r4 "r4\<lparr>ro_mo_routes := ro_mo_routes st\<rparr>"]]) (simp_all add: f files(4) install_data_def r5_def)
  have 6: "load_scope env' p ''mtroutes'' r5 = (True, r6)"
    by (rule trans[OF ld[OF _ migrate_mtroutes[OF assms(7)], of _ r5 "r5\<lparr>ro_mt_routes := ro_mt_routes st\<rparr>"]])
      (simp_all add: f files(5) install_data_def r6_def)
  have "perspective_load env' p ''all'' r0 = (True, r6)"
    by (simp add: perspective_load_def in_scope_def 1 2 3 4 5 6)
  moreover have "ro_groups r6 = map group_enable (ro_groups st)" "ro_users r6 = map loaded_user (ro_users st)"
    "ro_mo_routes r6 = ro_mo_routes st" "ro_mt_routes r6 = ro_mt_routes st"
    "ro_mo_icpts r6 = ro_mo_icpts st" "ro_mt_icpts r6 = ro_mt_icpts st"
    by (simp_all add: r6_def r5_def r4_def r3_def r2_def r1_def set_flag_def perspective_user_remove_all_def)
  ultimately show ?thesis using files(1) unfolding r0_def by blast
qed

theorem persist_load_roundtrip_witness:
  "\<exists>st1 st2. perspective_persist sample_router_env ''jcli-prod'' ''all''
      (snd (perspective_user_disable ''1'' two_users)) = (True, st1) \<and>
     perspective_load sample_router_env ''jcli-prod'' ''all'' (RouterPB [] (ro_files st1)) = (True, st2) \<and>
     map u_enabled (ro_users (snd (perspective_user_disable ''1'' two_users))) = [False, True] \<and>
     map u_enabled (ro_users st2) = [True, True]"
proof -
  let ?st = "snd (perspective_user_disable ''1'' two_users)"
  obtain b st1 where p: "perspective_persist sample_router_env ''jcli-prod'' ''all'' ?st = (b, st1)" by force
  have us: "ro_users ?st = [(named_user ''1'' ''a'')\<lparr>u_enabled := False\<rparr>, named_user ''2'' ''b'']"
    "ro_groups ?st = [\<lparr>g_gid = ''g1'', g_enabled = True\<rparr>]" "ro_mt_routes ?st = []"
    by (simp_all add: perspective_user_disable_def on_user_def two_users_def named_user_def user_disable_def
        set_flag_def RouterPB_def)
  have ids: "id_match 1 16 ''g1''" "id_match 1 16 ''1''" "id_match 1 16 ''2''" "id_match 1 15 ''a''" "id_match 1 15 ''b''"
    by code_simp+
  have "all_writable sample_router_env ''jcli-prod''" "CHR 0x0A \<notin> set (re_date sample_router_env)"
    "re_date_ok sample_router_env (re_date sample_router_env)"
    by (simp_all add: all_writable_def sample_router_env_def)
  from persist_load_roundtrip[OF this refl _ _ _ p, of "[]"] us ids obtain st2 where
    "b" "perspective_load sample_router_env ''jcli-prod'' ''all'' (RouterPB [] (ro_files st1)) = (True, st2)"
    "ro_users st2 = map loaded_user (ro_users ?st)"
    by (auto simp: group_id_ok_def user_ids_ok_def named_user_def sample_user_def)
  moreover have "u_enabled (loaded_user u)" for u
    by (simp add: loaded_user_def clear_updated_def migrated_user_def grant_def enable_all_def)
  ultimately show ?thesis using p us(1)
    by (intro exI[of _ st1] exI[of _ st2]) (simp add: named_user_def sample_user_def)
qed

end
