(* ===== verification/Tlv.thy ===== *)
theory Tlv
  imports Routing_Filters
begin

text \<open>
  Vendor-range TLVs (\<^verbatim>\<open>jasmin/tools/tlv_encoder.py\<close>, \<^verbatim>\<open>jasmin/tools/tlv.py\<close>) and the connector rules
  they are checked against (\<^verbatim>\<open>jasmin/protocols/smpp/configs.py\<close>, \<^verbatim>\<open>jasmin/protocols/cli/smppccm.py\<close>).

  A TLV is a Python sequence, usually (tag, length, type, value).  The functions of a \<open>tlv_env\<close> are
  \<^verbatim>\<open>json.loads\<close> (\<^verbatim>\<open>None\<close> when it raises), \<^verbatim>\<open>bytes.decode('utf-8', 'replace')\<close> and \<^verbatim>\<open>str\<close> of floats and
  containers.  The encoder and decoder of the \<^verbatim>\<open>smpp.pdu\<close> package that the patches wrap are arguments.
\<close>

section \<open>Conversions\<close>

record tlv_env =
  te_json :: "string \<Rightarrow> pyval option"
  te_decode :: "string \<Rightarrow> string"
  te_str :: "pyval \<Rightarrow> string"

fun py_str :: "tlv_env \<Rightarrow> pyval \<Rightarrow> string" where
  "py_str env PNone = ''None''"
| "py_str env (PBool b) = (if b then ''True'' else ''False'')"
| "py_str env (PInt i) = str_int i"
| "py_str env (PStr s) = s"
| "py_str env v = te_str env v"

text \<open>\<^verbatim>\<open>int(v)\<close>\<close>

fun int_val :: "pyval \<Rightarrow> int res" where
  "int_val (PInt i) = Inr i"
| "int_val (PBool b) = Inr (if b then 1 else 0)"
| "int_val (PFloat r) = Inr (if 0 \<le> r then \<lfloor>r\<rfloor> else \<lceil>r\<rceil>)"
| "int_val (PStr s) = py_int 10 s"
| "int_val (PBytes s) = py_int 10 s"
| "int_val _ = Inl TypeError"

text \<open>\<^verbatim>\<open>int(s, 16) if s.lower().startswith('0x') else int(s)\<close>\<close>

definition int_literal :: "string \<Rightarrow> int res" where
  "int_literal s = (if startswith (lower s) ''0x'' then py_int 16 s else py_int 10 s)"

text \<open>\<^verbatim>\<open>struct.pack\<close> of an unsigned number in \<open>n\<close> bytes, most significant byte first.\<close>

fun be_bytes :: "nat \<Rightarrow> nat \<Rightarrow> string" where
  "be_bytes 0 v = []"
| "be_bytes (Suc n) v = be_bytes n (v div 256) @ [char_of (v mod 256)]"

definition from_be :: "string \<Rightarrow> nat" where
  "from_be s = foldl (\<lambda>a c. a * 256 + cval c) 0 s"

definition pack_uint :: "nat \<Rightarrow> int \<Rightarrow> string res" where
  "pack_uint n i = (if 0 \<le> i \<and> i < 256 ^ n then Inr (be_bytes n (nat i)) else Inl StructError)"

text \<open>\<^verbatim>\<open>'%04X' % i\<close>\<close>

definition hex4 :: "int \<Rightarrow> string" where
  "hex4 i =
     (let s = upper (radix_str 16 (nat \<bar>i\<bar>)); w = (if i < 0 then 3 else 4)
      in (if i < 0 then ''-'' else []) @ replicate (w - length s) CHR ''0'' @ s)"

text \<open>\<^verbatim>\<open>i & 0xFFFF\<close> of a Python integer\<close>

definition tag16 :: "int \<Rightarrow> int" where
  "tag16 i = i mod 65536"

section \<open>Normalising the TLVs of a request\<close>

definition VALID_TLV_TYPES :: "string list" where
  "VALID_TLV_TYPES = [''Int1'', ''Int2'', ''Int4'', ''Int8'', ''OctetString'', ''COctetString'']"

definition parse_tag_key :: "string \<Rightarrow> (int \<times> pyval) res" where
  "parse_tag_key key =
     (let k = strip key;
          (a, b) = split_once CHR '':'' k;
          typed = (CHR '':'' \<in> set k \<and> strip b \<in> set VALID_TLV_TYPES)
      in if typed then res_bind (int_literal (strip a)) (\<lambda>i. Inr (i, PStr (strip b)))
         else res_bind (int_literal k) (\<lambda>i. Inr (i, PNone)))"

text \<open>One item of a dictionary, and one entry of a list; malformed entries are skipped.\<close>

fun normalize_item :: "pyval \<times> pyval \<Rightarrow> pyval list res" where
  "normalize_item (PStr key, v) = res_bind (parse_tag_key key) (\<lambda>(i, t). Inr [PInt i, PNone, t, v])"
| "normalize_item (key, v) = res_bind (int_val key) (\<lambda>i. Inr [PInt i, PNone, PNone, v])"

definition py_get :: "(pyval, pyval) dict \<Rightarrow> string \<Rightarrow> pyval \<Rightarrow> pyval" where
  "py_get d k dflt = (case map_of d (PStr k) of Some v \<Rightarrow> v | None \<Rightarrow> dflt)"

fun normalize_entry :: "pyval \<Rightarrow> pyval list list res" where
  "normalize_entry (PDict d) =
     res_bind (case py_get d ''tag'' (py_get d ''0'' (PInt 0)) of
                 PStr s \<Rightarrow> int_literal (strip s)
               | v \<Rightarrow> int_val v)
       (\<lambda>i. Inr [[PInt i, PNone, PNone, py_get d ''value'' PNone]])"
| "normalize_entry (PList xs) =
     (if 4 \<le> length xs then Inr [take 4 xs]
      else if 2 \<le> length xs
      then res_bind (int_val (hd xs)) (\<lambda>i. Inr [[PInt i, PNone, PNone, last xs]])
      else Inr [])"
| "normalize_entry _ = Inr []"

text \<open>A JSON text may itself hold a JSON text, so the function calls itself on what it parsed; the
  fuel bounds these calls and running out of it is the value \<^verbatim>\<open>None\<close>.\<close>

fun normalize_custom_tlvs :: "tlv_env \<Rightarrow> nat \<Rightarrow> pyval \<Rightarrow> pyval list list res option" where
  "normalize_custom_tlvs env 0 raw = None"
| "normalize_custom_tlvs env (Suc n) raw =
     (let text = (\<lambda>s. if strip s = [] then Some (Inr [])
                      else case te_json env (strip s) of
                             None \<Rightarrow> Some (Inr [])
                           | Some v \<Rightarrow> normalize_custom_tlvs env n v)
      in if \<not> truthy raw then Some (Inr [])
         else case raw of
                PDict d \<Rightarrow> Some (map_res normalize_item d)
              | PList xs \<Rightarrow> Some (res_bind (map_res normalize_entry xs) (\<lambda>ts. Inr (concat ts)))
              | PBytes b \<Rightarrow> text (te_decode env b)
              | PStr s \<Rightarrow> text s
              | _ \<Rightarrow> Some (Inr []))"

section \<open>Connector rules\<close>

record tlv_rule =
  tr_tag :: int
  tr_type :: string
  tr_length :: "int option"
  tr_required :: bool

text \<open>The checks of a connector configuration on one rule, which is a dictionary.\<close>

definition check_tlv_rule :: "pyval \<Rightarrow> tlv_rule res" where
  "check_tlv_rule v =
     (case v of
        PDict d \<Rightarrow>
          (let tag = py_get d ''tag'' PNone; len = py_get d ''length'' PNone;
               req = py_get d ''required'' (PBool False)
           in raise_if (\<not> is_int tag) TypeMismatch
             (case py_get d ''type'' PNone of
                PStr ty \<Rightarrow>
                  raise_if (ty \<notin> set VALID_TLV_TYPES) UnknownValue
                   (raise_if (len \<noteq> PNone \<and> (\<not> is_int len \<or> int_of len \<le> 0)) TypeMismatch
                     (raise_if (\<not> is_bool req) TypeMismatch
                       (Inr \<lparr>tr_tag = int_of tag, tr_type = ty,
                             tr_length = (if len = PNone then None else Some (int_of len)),
                             tr_required = truthy req\<rparr>)))
              | _ \<Rightarrow> Inl UnknownValue))
      | _ \<Rightarrow> Inl TypeMismatch)"

definition check_tlv_rules :: "pyval \<Rightarrow> tlv_rule list res" where
  "check_tlv_rules v = (case v of PList xs \<Rightarrow> map_res check_tlv_rule xs | _ \<Rightarrow> Inl TypeMismatch)"

text \<open>The rule that applies to a tag: of two rules for one tag the later one counts.\<close>

definition rule_map :: "tlv_rule list \<Rightarrow> (int, tlv_rule) dict" where
  "rule_map rs = foldl (\<lambda>d r. dset d (tag16 (tr_tag r)) r) [] rs"

definition int_size :: "string \<Rightarrow> nat option" where
  "int_size t = map_of [(''Int1'', 1), (''Int2'', 2), (''Int4'', 4), (''Int8'', 8)] t"

definition resolve_tlv :: "(int, tlv_rule) dict \<Rightarrow> pyval list \<Rightarrow> pyval list res" where
  "resolve_tlv rm t =
     (if length t < 4 \<or> t ! 2 \<noteq> PNone then Inr t
      else res_bind (int_val (t ! 0)) (\<lambda>i.
        let ty = (case map_of rm (tag16 i) of Some r \<Rightarrow> tr_type r | None \<Rightarrow> ''OctetString'')
        in case t ! 3 of
             PStr s \<Rightarrow>
               if int_size ty \<noteq> None
               then res_bind (int_literal s) (\<lambda>n. Inr [t ! 0, t ! 1, PStr ty, PInt n])
               else Inr [t ! 0, t ! 1, PStr ty, PStr s]
           | v \<Rightarrow> Inr [t ! 0, t ! 1, PStr ty, v]))"

definition resolve_tlv_types :: "pyval list list \<Rightarrow> tlv_rule list \<Rightarrow> pyval list list res" where
  "resolve_tlv_types ts rules = (if ts = [] then Inr ts else map_res (resolve_tlv (rule_map rules)) ts)"

section \<open>Encoding\<close>

text \<open>\<^verbatim>\<open>(tlv_type or '').strip()\<close>; a type that is not a text has no \<^verbatim>\<open>strip\<close>, and one given in
  bytes equals none of the names.\<close>

fun type_name :: "pyval \<Rightarrow> string res" where
  "type_name (PStr s) = Inr (strip s)"
| "type_name (PBytes s) = Inr []"
| "type_name v = (if truthy v then Inl AttributeError else Inr [])"

definition encode_tlv_value :: "tlv_env \<Rightarrow> pyval \<Rightarrow> pyval \<Rightarrow> string res" where
  "encode_tlv_value env v ty =
     (case v of
        PBytes b \<Rightarrow> Inr b
      | _ \<Rightarrow>
          res_bind (type_name ty) (\<lambda>t.
            case int_size t of
              Some n \<Rightarrow> res_bind (int_val v) (pack_uint n)
            | None \<Rightarrow>
                if t = ''COctetString'' then Inr (utf8_encode (py_str env v) @ [CHR 0x00])
                else Inr (utf8_encode (py_str env v))))"

definition encoded_value_length :: "tlv_env \<Rightarrow> pyval \<Rightarrow> pyval \<Rightarrow> int res" where
  "encoded_value_length env v ty = res_bind (encode_tlv_value env v ty) (\<lambda>b. Inr (int (length b)))"

text \<open>Tag, type and value of a TLV of two, three or at least four fields.\<close>

definition tlv_fields :: "pyval list \<Rightarrow> (pyval \<times> pyval \<times> pyval) option" where
  "tlv_fields t =
     (if 4 \<le> length t then Some (t ! 0, t ! 2, t ! 3)
      else if length t = 3 then Some (t ! 0, t ! 1, t ! 2)
      else if length t = 2 then Some (t ! 0, PNone, t ! 1)
      else None)"

definition encode_tlv :: "tlv_env \<Rightarrow> pyval list \<Rightarrow> string res" where
  "encode_tlv env t =
     (case tlv_fields t of
        None \<Rightarrow> Inr []
      | Some (tag, ty, v) \<Rightarrow>
          res_bind (encode_tlv_value env v ty) (\<lambda>body.
          res_bind (int_val tag) (\<lambda>i.
          res_bind (pack_uint 2 (tag16 i)) (\<lambda>h.
          res_bind (pack_uint 2 (int (length body))) (\<lambda>l. Inr (h @ l @ body))))))"

definition encode_custom_tlvs :: "tlv_env \<Rightarrow> pyval list list \<Rightarrow> string res" where
  "encode_custom_tlvs env ts = res_bind (map_res (encode_tlv env) ts) (\<lambda>bs. Inr (concat bs))"

section \<open>Validation against the rules of a connector\<close>

definition tlvs_by_tag :: "pyval list list \<Rightarrow> (int, pyval list) dict res" where
  "tlvs_by_tag ts =
     res_bind (map_res (\<lambda>t. res_bind (int_val (hd t)) (\<lambda>i. Inr (tag16 i, t))) (filter (\<lambda>t. t \<noteq> []) ts))
       (\<lambda>kvs. Inr (foldl (\<lambda>d (k, t). dset d k t) [] kvs))"

text \<open>The value of a present TLV and the type its length is computed with.\<close>

definition present_value :: "tlv_rule \<Rightarrow> pyval list \<Rightarrow> (pyval \<times> pyval) option" where
  "present_value r t =
     (if 4 \<le> length t then Some (t ! 3, if truthy (t ! 2) then t ! 2 else PStr (tr_type r))
      else if length t = 3 then Some (t ! 2, PStr (tr_type r))
      else if length t = 2 then Some (t ! 1, PStr (tr_type r))
      else None)"

definition check_rule :: "tlv_env \<Rightarrow> (int, pyval list) dict \<Rightarrow> tlv_rule \<Rightarrow> string option res" where
  "check_rule env by_tag r =
     (let tag = tag16 (tr_tag r)
      in case map_of by_tag tag of
           None \<Rightarrow> Inr (if tr_required r then Some (''missing required TLV 0x'' @ hex4 tag) else None)
         | Some t \<Rightarrow>
             (case (tr_length r, present_value r t) of
                (Some max_len, Some (v, ty)) \<Rightarrow>
                  res_bind (encoded_value_length env v ty) (\<lambda>actual.
                    Inr (if actual > max_len
                         then Some (''TLV 0x'' @ hex4 tag @ '' value length '' @ str_int actual @
                                    '' exceeds configured max '' @ str_int max_len)
                         else None))
              | _ \<Rightarrow> Inr None))"

fun first_failure :: "('a \<Rightarrow> string option res) \<Rightarrow> 'a list \<Rightarrow> (bool \<times> string option) res" where
  "first_failure f [] = Inr (True, None)"
| "first_failure f (x # xs) =
     res_bind (f x) (\<lambda>e. case e of Some msg \<Rightarrow> Inr (False, Some msg) | None \<Rightarrow> first_failure f xs)"

definition validate_custom_tlvs :: "tlv_env \<Rightarrow> pyval list list \<Rightarrow> tlv_rule list \<Rightarrow> (bool \<times> string option) res" where
  "validate_custom_tlvs env ts rules =
     (if rules = [] then Inr (True, None)
      else res_bind (tlvs_by_tag ts) (\<lambda>bt. first_failure (check_rule env bt) rules))"

section \<open>The patches of the PDU encoder and decoder\<close>

text \<open>\<open>orig\<close> is \<^verbatim>\<open>PDUEncoder.encodeRawParams\<close> and \<open>int2\<close> is \<^verbatim>\<open>Int2Encoder().encode\<close> of \<^verbatim>\<open>smpp.pdu\<close>.\<close>

definition is_int8 :: "pyval list \<Rightarrow> bool" where
  "is_int8 t \<longleftrightarrow> length t = 4 \<and> t ! 2 = PStr ''Int8''"

definition encode_int8 :: "(pyval \<Rightarrow> string res) \<Rightarrow> pyval list \<Rightarrow> string res" where
  "encode_int8 int2 t =
     res_bind (int_val (t ! 3)) (\<lambda>i.
     res_bind (pack_uint 8 i) (\<lambda>body.
     res_bind (int2 (t ! 0)) (\<lambda>h.
     res_bind (int2 (if t ! 1 \<noteq> PNone then t ! 1 else PInt 8)) (\<lambda>l. Inr (h @ l @ body)))))"

definition encode_raw_with_int8 ::
  "(pyval list list \<Rightarrow> string res) \<Rightarrow> (pyval \<Rightarrow> string res) \<Rightarrow> pyval list list \<Rightarrow> string res" where
  "encode_raw_with_int8 orig int2 ts =
     (if ts = [] then orig ts
      else res_bind (orig (filter (\<lambda>t. \<not> is_int8 t) ts)) (\<lambda>r.
           res_bind (map_res (encode_int8 int2) (filter is_int8 ts)) (\<lambda>bs. Inr (r @ concat bs))))"

text \<open>An option of the decoder is the name of its tag and its value; the bucket is the thread-local
  list of captured TLVs.  The file is what is left to read.\<close>

type_synonym bucket = "custom_tlv list option"
type_synonym option_decoder = "string \<Rightarrow> ((string \<times> pyval) \<times> string) res"
type_synonym option_tap = "string \<Rightarrow> bucket \<Rightarrow> ((string \<times> pyval) \<times> string) res \<times> bucket"

definition option_decode_tap :: "option_decoder \<Rightarrow> option_tap" where
  "option_decode_tap orig file b =
     (let head = take 4 file
      in case orig file of
           Inl e \<Rightarrow> (Inl e, b)
         | Inr ((tag, v), rest) \<Rightarrow>
             if length head = 4 \<and> tag = ''vendor_specific_bypass''
             then (Inr ((tag, v), rest),
                   Some ((case b of None \<Rightarrow> [] | Some ts \<Rightarrow> ts) @
                         [(PInt (from_be (take 2 head)), PInt (from_be (drop 2 head)), PStr ''OctetString'', v)]))
             else (Inr ((tag, v), rest), b))"

definition pdu_decode_tap ::
  "(option_tap \<Rightarrow> string \<Rightarrow> bucket \<Rightarrow> pdu res \<times> bucket) \<Rightarrow> option_decoder \<Rightarrow> string \<Rightarrow> pdu res" where
  "pdu_decode_tap orig_pdu orig file =
     (case orig_pdu (option_decode_tap orig) file (Some []) of
        (Inl e, _) \<Rightarrow> Inl e
      | (Inr p, Some (t # ts)) \<Rightarrow> Inr (p\<lparr>p_custom_tlvs := Some (t # ts)\<rparr>)
      | (Inr p, _) \<Rightarrow> Inr p)"

section \<open>Rules on the command line\<close>

definition show_rule :: "tlv_rule \<Rightarrow> string" where
  "show_rule r =
     ''0x'' @ hex4 (tr_tag r) @ '','' @ tr_type r @ '','' @
     (case tr_length r of None \<Rightarrow> ''-'' | Some n \<Rightarrow> str_int n) @ '','' @
     (if tr_required r then ''required'' else ''optional'')"

definition show_rules :: "tlv_rule list \<Rightarrow> string" where
  "show_rules rs = (if rs = [] then ''none'' else join_with CHR '';'' (map show_rule rs))"

text \<open>An entry of the printed form; blank entries are skipped.\<close>

definition parse_max_length :: "string \<Rightarrow> int option res" where
  "parse_max_length s =
     (if s = [] \<or> s = ''-'' then Inr None
      else case int_literal s of
             Inl _ \<Rightarrow> Inl KeyError
           | Inr n \<Rightarrow> raise_if (n \<le> 0) KeyError (Inr (Some n)))"

definition parse_required :: "string list \<Rightarrow> bool res" where
  "parse_required parts =
     (if length parts < 4 then Inr False
      else let s = lower (strip (parts ! 3))
           in if s = ''required'' then Inr True
              else raise_if (s \<noteq> ''optional'' \<and> s \<noteq> []) KeyError (Inr False))"

definition parse_rule :: "string \<Rightarrow> tlv_rule res" where
  "parse_rule entry =
     (let parts = split_on CHR '','' entry
      in raise_if (length parts < 3) KeyError
        (let tag_s = strip (parts ! 0); ty = strip (parts ! 1); len_s = strip (parts ! 2)
         in case int_literal tag_s of
              Inl _ \<Rightarrow> Inl KeyError
            | Inr tag \<Rightarrow>
                raise_if (ty \<notin> set VALID_TLV_TYPES) KeyError
                 (res_bind (parse_max_length len_s) (\<lambda>len.
                  res_bind (parse_required parts) (\<lambda>req.
                    Inr \<lparr>tr_tag = tag, tr_type = ty, tr_length = len, tr_required = req\<rparr>)))))"

definition parseTlvString :: "string \<Rightarrow> tlv_rule list res" where
  "parseTlvString s =
     (if lower s = ''none'' then Inr []
      else map_res parse_rule (filter (\<lambda>e. e \<noteq> []) (map strip (split_on CHR '';'' s))))"

section \<open>Log output\<close>

definition format_tlvs_for_log :: "tlv_env \<Rightarrow> string list \<Rightarrow> bool \<Rightarrow> pdu \<Rightarrow> string res" where
  "format_tlvs_for_log env mandatory privacy p =
     (let std = map (\<lambda>(k, v). if privacy then k else k @ '':'' @ py_str env v)
                  (filter (\<lambda>(k, v). k \<notin> set mandatory \<and> v \<noteq> PNone) (p_params p))
      in res_bind (map_res (\<lambda>(tag, _, _, v).
             if is_int tag
             then Inr (''0x'' @ hex4 (int_of tag) @ (if privacy then [] else '':'' @ py_str env v))
             else Inl TypeError)
           (case p_custom_tlvs p of None \<Rightarrow> [] | Some ts \<Rightarrow> ts))
         (\<lambda>cs. Inr (if std @ cs = [] then ''none'' else join_with CHR '','' (std @ cs))))"
section \<open>Big-endian numbers\<close>

lemma length_be_bytes [simp]: "length (be_bytes n v) = n"
  by (induction n arbitrary: v) simp_all

lemma from_be_snoc [simp]: "from_be (s @ [c]) = from_be s * 256 + cval c"
  by (simp add: from_be_def)

lemma from_be_be_bytes: "v < 256 ^ n \<Longrightarrow> from_be (be_bytes n v) = v"
proof (induction n arbitrary: v)
  case 0
  then show ?case by (simp add: from_be_def)
next
  case (Suc n)
  then have "v div 256 < 256 ^ n" by (simp add: less_mult_imp_div_less mult.commute)
  with Suc.IH have "from_be (be_bytes n (v div 256)) = v div 256" .
  moreover have "cval (char_of (v mod 256)) = v mod 256" by (rule cval_char_of) simp
  ultimately show ?case by (simp add: div_mult_mod_eq)
qed

lemma pack_uint_Inr:
  "pack_uint n i = Inr b \<Longrightarrow> length b = n \<and> int (from_be b) = i"
  by (auto simp: pack_uint_def from_be_be_bytes nat_less_iff split: if_splits)

lemma tag16_bounds: "0 \<le> tag16 i" "tag16 i < 65536"
  by (simp_all add: tag16_def)

section \<open>The wire format\<close>

text \<open>A reader of the wire format: a tag and a length of two bytes each, then the body.\<close>

function parse_tlvs :: "string \<Rightarrow> (int \<times> string) list option" where
  "parse_tlvs bs =
     (if bs = [] then Some []
      else if length bs < 4 then None
      else let n = from_be (take 2 (drop 2 bs))
           in if length bs < 4 + n then None
              else map_option ((#) (int (from_be (take 2 bs)), take n (drop 4 bs)))
                     (parse_tlvs (drop (4 + n) bs)))"
  by pat_completeness auto
termination
  by (relation "measure length") auto

declare parse_tlvs.simps [simp del]

lemma parse_tlvs_Nil [simp]: "parse_tlvs [] = Some []"
  by (simp add: parse_tlvs.simps)

lemma parse_tlvs_Cons:
  assumes "length h = 2" "length l = 2" "from_be l = length body"
  shows "parse_tlvs (h @ l @ body @ rest) = map_option ((#) (int (from_be h), body)) (parse_tlvs rest)"
  using assms by (subst parse_tlvs.simps) (auto simp: Let_def)

lemma encode_tlv_skip: "tlv_fields t = None \<Longrightarrow> encode_tlv env t = Inr []"
  by (simp add: encode_tlv_def)

definition wire_of :: "tlv_env \<Rightarrow> pyval list \<Rightarrow> int \<times> string \<Rightarrow> bool" where
  "wire_of env t w \<longleftrightarrow>
     (\<exists>tag ty v i. tlv_fields t = Some (tag, ty, v) \<and> int_val tag = Inr i \<and> fst w = i mod 65536 \<and>
        encode_tlv_value env v ty = Inr (snd w))"

lemma encode_tlv_wire:
  assumes "encode_tlv env t = Inr b" "tlv_fields t \<noteq> None"
  shows "\<exists>w. wire_of env t w \<and>
    (\<forall>rest. parse_tlvs (b @ rest) = map_option ((#) w) (parse_tlvs rest))"
proof -
  obtain tag ty v where f: "tlv_fields t = Some (tag, ty, v)" using assms(2) by auto
  with assms(1) obtain body i h l where
    e: "encode_tlv_value env v ty = Inr body" "int_val tag = Inr i" "b = h @ l @ body"
    and p: "pack_uint 2 (tag16 i) = Inr h" "pack_uint 2 (int (length body)) = Inr l"
    by (auto simp: encode_tlv_def)
  note h = pack_uint_Inr[OF p(1)] and l = pack_uint_Inr[OF p(2)]
  have "wire_of env t (tag16 i, body)" using f e by (simp add: wire_of_def tag16_def)
  moreover have "parse_tlvs (b @ rest) = map_option ((#) (tag16 i, body)) (parse_tlvs rest)" for rest
    using h l parse_tlvs_Cons[of h l body rest] by (simp add: e(3))
  ultimately show ?thesis by blast
qed

text \<open>
  Claim C8.  What the TLV encoder puts on the wire can be read back: the bytes consist of exactly one
  TLV for each given entry that has at least two fields, in the given order, each with the tag modulo
  \<open>2 ^ 16\<close> and the encoded value as its body.  No body is cut or overlaps the next TLV.
\<close>

theorem tlv_wire_roundtrip:
  assumes "encode_custom_tlvs env ts = Inr bs"
  shows "\<exists>ws. parse_tlvs bs = Some ws \<and> list_all2 (wire_of env) (filter (\<lambda>t. tlv_fields t \<noteq> None) ts) ws"
proof -
  obtain bss where "list_all2 (\<lambda>t b. encode_tlv env t = Inr b) ts bss" "bs = concat bss"
    using assms by (auto simp: encode_custom_tlvs_def map_res_Inr_iff)
  then show ?thesis
  proof (induction ts bss arbitrary: bs rule: list_all2_induct)
    case (Cons t ts b bss)
    obtain ws where ws: "parse_tlvs (concat bss) = Some ws"
      "list_all2 (wire_of env) (filter (\<lambda>t. tlv_fields t \<noteq> None) ts) ws"
      using Cons.IH by blast
    show ?case
    proof (cases "tlv_fields t")
      case None
      with Cons.hyps Cons.prems ws encode_tlv_skip[OF None, of env] show ?thesis by auto
    next
      case (Some f)
      then have "tlv_fields t \<noteq> None" by simp
      from encode_tlv_wire[OF Cons.hyps(1) this] obtain w where
        w: "wire_of env t w" "\<forall>rest. parse_tlvs (b @ rest) = map_option ((#) w) (parse_tlvs rest)" by blast
      show ?thesis using w ws Cons.prems Some by (intro exI[of _ "w # ws"], cases f) simp
    qed
  qed simp
qed

definition sample_tlv_env :: tlv_env where
  "sample_tlv_env = \<lparr>te_json = (\<lambda>s. None), te_decode = (\<lambda>s. s), te_str = (\<lambda>v. [])\<rparr>"

definition sample_tlvs :: "pyval list list" where
  "sample_tlvs =
     [[PInt 5121, PNone, PStr ''Int2'', PInt 258], [PInt 1], [PInt 70000, PStr ''COctetString'', PStr ''ab'']]"

theorem tlv_wire_roundtrip_witness:
  "\<exists>bs ws. encode_custom_tlvs sample_tlv_env sample_tlvs = Inr bs \<and> parse_tlvs bs = Some ws \<and>
     list_all2 (wire_of sample_tlv_env) (filter (\<lambda>t. tlv_fields t \<noteq> None) sample_tlvs) ws \<and>
     ws = [(5121, [CHR 0x01, CHR 0x02]), (4464, [CHR ''a'', CHR ''b'', CHR 0x00])]"
proof -
  obtain bs where bs: "encode_custom_tlvs sample_tlv_env sample_tlvs = Inr bs"
    and p: "parse_tlvs bs = Some [(5121, [CHR 0x01, CHR 0x02]), (4464, [CHR ''a'', CHR ''b'', CHR 0x00])]"
  proof
    show "encode_custom_tlvs sample_tlv_env sample_tlvs =
      Inr (map char_of [20, 1, 0, 2, 1, 2, 17, 112, 0, 3, 97, 98, 0 :: nat])" by code_simp
    show "parse_tlvs (map char_of [20, 1, 0, 2, 1, 2, 17, 112, 0, 3, 97, 98, 0 :: nat]) =
      Some [(5121, [CHR 0x01, CHR 0x02]), (4464, [CHR ''a'', CHR ''b'', CHR 0x00])]" by code_simp
  qed
  with tlv_wire_roundtrip[OF bs] show ?thesis by auto
qed

text \<open>
  The integer types hold exactly the unsigned numbers of their width: such a number is encoded
  in that many bytes, most significant first, and every other number is refused with
  \<^verbatim>\<open>struct.error\<close> instead of being cut.
\<close>

lemma tlv_int_exact:
  assumes "int_size t = Some n"
  shows "(\<exists>b. encode_tlv_value env (PInt i) (PStr t) = Inr b \<and> length b = n \<and> int (from_be b) = i) =
           (0 \<le> i \<and> i < 256 ^ n) \<and>
         (encode_tlv_value env (PInt i) (PStr t) = Inl StructError) = (i < 0 \<or> 256 ^ n \<le> i)"
proof -
  have "strip t = t" using assms by (auto simp: int_size_def strip_def lstrip_def is_space_def cval_def split: if_splits)
  then have "encode_tlv_value env (PInt i) (PStr t) = pack_uint n i"
    using assms by (simp add: encode_tlv_value_def)
  then show ?thesis
    using pack_uint_Inr[of n i] by (auto simp: pack_uint_def from_be_be_bytes nat_less_iff)
qed

section \<open>Validation\<close>

definition tlv_tag :: "pyval list \<Rightarrow> int option" where
  "tlv_tag t = (if t = [] then None else case int_val (hd t) of Inr i \<Rightarrow> Some (tag16 i) | Inl _ \<Rightarrow> None)"

definition last_with :: "int \<Rightarrow> pyval list list \<Rightarrow> pyval list option" where
  "last_with k ts = find (\<lambda>t. tlv_tag t = Some k) (rev ts)"

lemma find_append: "find P (xs @ ys) = (case find P xs of Some x \<Rightarrow> Some x | None \<Rightarrow> find P ys)"
  by (induction xs) auto

lemma find_filter: "(\<And>x. P x \<Longrightarrow> Q x) \<Longrightarrow> find P (filter Q xs) = find P xs"
  by (induction xs) auto

lemma map_of_foldl_dset:
  "map_of (foldl (\<lambda>d (k, v). dset d k v) d kvs) = map_of d ++ map_of (rev kvs)"
  by (induction kvs arbitrary: d) (auto simp: map_add_def fun_eq_iff split: option.splits)

lemma map_of_pairs: "map_of (map (\<lambda>t. (f t, t)) xs) k = find (\<lambda>t. f t = k) xs"
  by (induction xs) auto

lemma tlvs_by_tag_ok:
  assumes "\<forall>t \<in> set ts. t \<noteq> [] \<longrightarrow> (\<exists>i. int_val (hd t) = Inr i)"
  obtains bt where "tlvs_by_tag ts = Inr bt" "\<And>k. map_of bt k = last_with k ts"
proof
  let ?ts = "filter (\<lambda>t. t \<noteq> []) ts"
  let ?kv = "\<lambda>t. (the (tlv_tag t), t)"
  let ?bt = "foldl (\<lambda>d (k, t). dset d k t) [] (map ?kv ?ts)"
  have tags: "\<exists>k. tlv_tag t = Some k" if "t \<in> set ?ts" for t using assms that by (force simp: tlv_tag_def)
  have "map_res (\<lambda>t. res_bind (int_val (hd t)) (\<lambda>i. Inr (tag16 i, t))) ?ts = Inr (map ?kv ?ts)"
    by (rule map_res_Inr_map) (use assms in \<open>force simp: tlv_tag_def\<close>)
  then show "tlvs_by_tag ts = Inr ?bt" by (simp add: tlvs_by_tag_def)
  show "map_of ?bt k = last_with k ts" for k
  proof -
    have "map_of ?bt k = find (\<lambda>t. the (tlv_tag t) = k) (rev ?ts)"
      by (simp add: map_of_foldl_dset rev_map map_of_pairs)
    also have "\<dots> = find (\<lambda>t. tlv_tag t = Some k) (rev ?ts)"
      by (rule find_cong) (use tags in \<open>force+\<close>)
    also have "\<dots> = last_with k ts"
      unfolding last_with_def rev_filter by (rule find_filter) (simp add: tlv_tag_def split: if_splits)
    finally show ?thesis .
  qed
qed

text \<open>What the documentation of the validator promises for one rule.\<close>

definition rule_ok :: "tlv_env \<Rightarrow> pyval list list \<Rightarrow> tlv_rule \<Rightarrow> bool" where
  "rule_ok env ts r \<longleftrightarrow>
     (case last_with (tag16 (tr_tag r)) ts of
        None \<Rightarrow> \<not> tr_required r
      | Some t \<Rightarrow>
          (case (tr_length r, present_value r t) of
             (Some m, Some (v, ty)) \<Rightarrow> \<exists>b. encode_tlv_value env v ty = Inr b \<and> int (length b) \<le> m
           | _ \<Rightarrow> True))"

lemma first_failure_True:
  "first_failure f xs = Inr (True, None) \<longleftrightarrow> (\<forall>x \<in> set xs. f x = Inr None)"
  by (induction xs) (auto split: option.splits)

lemma first_failure_False:
  "first_failure f xs = Inr (False, msg) \<Longrightarrow> \<exists>x \<in> set xs. \<exists>m. f x = Inr (Some m) \<and> msg = Some m"
  by (induction xs) (auto split: option.splits)

lemma check_rule_None:
  assumes "\<And>k. map_of bt k = last_with k ts"
  shows "check_rule env bt r = Inr None \<longleftrightarrow> rule_ok env ts r"
  using assms[of "tag16 (tr_tag r)"]
  by (auto simp: check_rule_def rule_ok_def encoded_value_length_def Let_def simp del: res_bind_eq_Inr
      split: option.splits if_splits prod.splits py_splits)

lemma check_rule_Some:
  assumes "\<And>k. map_of bt k = last_with k ts" "check_rule env bt r = Inr (Some m)"
  shows "\<not> rule_ok env ts r"
  using check_rule_None[OF assms(1), of env r] assms(2) by simp


definition sample_rules :: "tlv_rule list" where
  "sample_rules =
     [\<lparr>tr_tag = 5121, tr_type = ''OctetString'', tr_length = Some 3, tr_required = True\<rparr>]"


text \<open>
  Of several TLVs with one tag only the last is checked: a message whose first value for a tag
  is longer than the configured maximum passes the validation when a later one is short, and both
  are put on the wire.
\<close>

lemma validate_checks_last_only:
  "\<exists>ts bs. validate_custom_tlvs sample_tlv_env ts sample_rules = Inr (True, None) \<and>
     encode_custom_tlvs sample_tlv_env ts = Inr bs \<and>
     parse_tlvs bs = Some [(5121, ''too long''), (5121, ''ok'')]"
proof (intro exI conjI)
  let ?ts = "[[PInt 5121, PNone, PStr ''OctetString'', PStr ''too long''],
              [PInt 5121, PNone, PStr ''OctetString'', PStr ''ok'']]"
  show "validate_custom_tlvs sample_tlv_env ?ts sample_rules = Inr (True, None)" by code_simp
  show "encode_custom_tlvs sample_tlv_env ?ts =
    Inr (map char_of [20, 1, 0, 8, 116, 111, 111, 32, 108, 111, 110, 103, 20, 1, 0, 2, 111, 107 :: nat])"
    by code_simp
  show "parse_tlvs (map char_of [20, 1, 0, 8, 116, 111, 111, 32, 108, 111, 110, 103, 20, 1, 0, 2, 111, 107 :: nat]) =
    Some [(5121, ''too long''), (5121, ''ok'')]" by code_simp
qed
section \<open>Reading printed rules\<close>

definition clean :: "string \<Rightarrow> bool" where
  "clean s \<longleftrightarrow> s \<noteq> [] \<and> list_all (\<lambda>c. \<not> is_space c \<and> c \<noteq> CHR '','' \<and> c \<noteq> CHR '';'') s"

lemma clean_strip [simp]: "clean s \<Longrightarrow> strip s = s"
  by (rule strip_id) (auto simp: clean_def list_all_iff)

lemma clean_no_sep: "clean s \<Longrightarrow> CHR '','' \<notin> set s" "clean s \<Longrightarrow> CHR '';'' \<notin> set s"
  by (auto simp: clean_def list_all_iff)

lemma clean_append: "list_all (\<lambda>c. \<not> is_space c \<and> c \<noteq> CHR '','' \<and> c \<noteq> CHR '';'') s \<Longrightarrow> clean t \<Longrightarrow> clean (s @ t)"
  by (auto simp: clean_def list_all_iff)

lemma upper_digit:
  assumes "d < 16"
  shows "digit_val (to_upper (digit_char d)) = Some d" "to_upper (digit_char d) \<noteq> CHR ''_''"
    "\<not> is_space (to_upper (digit_char d))" "to_upper (digit_char d) \<noteq> CHR '',''"
    "to_upper (digit_char d) \<noteq> CHR '';''"
proof -
  have "\<forall>d \<in> set [0..<16]. digit_val (to_upper (digit_char d)) = Some d \<and> to_upper (digit_char d) \<noteq> CHR ''_'' \<and>
      \<not> is_space (to_upper (digit_char d)) \<and> to_upper (digit_char d) \<noteq> CHR '','' \<and>
      to_upper (digit_char d) \<noteq> CHR '';''"
    by code_simp
  moreover have "d \<in> set [0..<16]" using assms by simp
  ultimately show "digit_val (to_upper (digit_char d)) = Some d" "to_upper (digit_char d) \<noteq> CHR ''_''"
    "\<not> is_space (to_upper (digit_char d))" "to_upper (digit_char d) \<noteq> CHR '',''"
    "to_upper (digit_char d) \<noteq> CHR '';''" by blast+
qed

lemma radix16_upper: "c \<in> set (upper (radix_str 16 n)) \<Longrightarrow> \<exists>d < 16. c = to_upper (digit_char d)"
  using radix_str_set[of 16] by fastforce

lemma hex_digits_zeros:
  assumes "s \<noteq> []" "hd s \<noteq> CHR ''_''"
  shows "digits_val 16 0 prev (replicate k CHR ''0'' @ s) = digits_val 16 0 False s"
proof (induction k arbitrary: prev)
  case 0
  show ?case using assms by (cases s) simp_all
next
  case (Suc k)
  have "digit_val CHR ''0'' = Some 0" by code_simp
  then show ?case by (simp add: Suc.IH)
qed

lemma clean_hex4: assumes "0 \<le> i" shows "clean (hex4 i)"
proof -
  have "\<not> is_space c \<and> c \<noteq> CHR '','' \<and> c \<noteq> CHR '';''" if "c \<in> set (upper (radix_str 16 (nat i)))" for c
    using radix16_upper[OF that] upper_digit by auto
  then have "clean (upper (radix_str 16 (nat i)))" by (simp add: clean_def list_all_iff)
  moreover have "\<not> is_space CHR ''0''" by code_simp
  ultimately show ?thesis using assms by (auto simp: hex4_def intro!: clean_append simp: list_all_iff)
qed

lemma int_literal_hex4:
  assumes "0 \<le> i" shows "int_literal (''0x'' @ hex4 i) = Inr i"
proof -
  let ?u = "upper (radix_str 16 (nat i))"
  let ?z = "replicate (4 - length ?u) CHR ''0''"
  have h: "hex4 i = ?z @ ?u" using assms by (simp add: hex4_def)
  have "hd ?u \<in> set ?u" by (rule hd_in_set) simp
  from radix16_upper[OF this] obtain d where d: "d < 16" "hd ?u = to_upper (digit_char d)" by blast
  have hd: "hd ?u \<noteq> CHR ''_''" unfolding d(2) by (rule upper_digit(2)[OF d(1)])
  have nu: "hd (hex4 i) \<noteq> CHR ''_''" using hd unfolding h by (cases "4 - length ?u") simp_all
  have "digits_val 16 0 False (hex4 i) = digits_val 16 0 False ?u"
    unfolding h by (rule hex_digits_zeros) (use hd in simp_all)
  also have "\<dots> = Some (nat i)"
    by (simp add: digits_val_upper digits_val_radix_str)
  finally have v: "digits_val 16 0 False (hex4 i) = Some (nat i)" .
  have sw: "startswith (lower (''0x'' @ hex4 i)) ''0x''" "\<not> startswith (''0x'' @ hex4 i) ''-''"
    "\<not> startswith (''0x'' @ hex4 i) ''+''"
    by (simp_all add: startswith_def to_lower_def is_upper_def cval_def)
  have c: "clean (''0x'' @ hex4 i)"
    by (rule clean_append[OF _ clean_hex4[OF assms]]) (simp add: is_space_def cval_def)
  have "drop_underscore (hex4 i) = hex4 i" using nu by (cases "hex4 i") (simp_all add: drop_underscore_def)
  then have "int_body 16 (''0x'' @ hex4 i) = Some (nat i)"
    using sw(1) v by (simp add: int_body_def)
  then show ?thesis
    using assms sw c by (simp add: int_literal_def py_int_def Let_def del: append_Cons append_Nil)
qed

lemma clean_digit:
  assumes "d < 10" shows "\<not> is_space (digit_char d) \<and> digit_char d \<noteq> CHR '','' \<and> digit_char d \<noteq> CHR '';''"
proof -
  have "\<forall>d \<in> set [0..<10]. \<not> is_space (digit_char d) \<and> digit_char d \<noteq> CHR '','' \<and> digit_char d \<noteq> CHR '';''"
    by code_simp
  with assms show ?thesis by simp
qed

lemma clean_radix10: "clean (radix_str 10 n)"
proof -
  have "\<not> is_space c \<and> c \<noteq> CHR '','' \<and> c \<noteq> CHR '';''" if "c \<in> set (radix_str 10 n)" for c
    using radix_str_set[OF _ that] clean_digit by auto
  then show ?thesis by (simp add: clean_def list_all_iff)
qed

lemma parse_max_length_str:
  assumes "0 < n" shows "parse_max_length (str_int n) = Inr (Some n)"
proof -
  let ?s = "radix_str 10 (nat n)"
  have s: "str_int n = ?s" using assms by (simp add: str_int_def)
  have "hd ?s \<in> set ?s" by simp
  then have "?s \<noteq> ''-''" using radix_str_clean(1)[of 10 "hd ?s" "nat n"] by auto
  moreover have "\<not> startswith (lower ?s) ''0x''" by (rule radix_str_no_0x) simp_all
  ultimately show ?thesis
    using assms py_int_str_int[of n] by (simp add: parse_max_length_def int_literal_def s)
qed
text \<open>Rules that the configuration of a connector accepts, with a tag that is not negative.\<close>

definition rule_wf :: "tlv_rule \<Rightarrow> bool" where
  "rule_wf r \<longleftrightarrow> 0 \<le> tr_tag r \<and> tr_type r \<in> set VALID_TLV_TYPES \<and>
     (case tr_length r of None \<Rightarrow> True | Some n \<Rightarrow> 0 < n)"

definition rule_parts :: "tlv_rule \<Rightarrow> string list" where
  "rule_parts r =
     [''0x'' @ hex4 (tr_tag r), tr_type r, case tr_length r of None \<Rightarrow> ''-'' | Some n \<Rightarrow> str_int n,
      if tr_required r then ''required'' else ''optional'']"

lemma show_rule_parts: "show_rule r = join_with CHR '','' (rule_parts r)"
  by (simp add: show_rule_def rule_parts_def)

lemma rule_parts_clean:
  assumes "rule_wf r" "w \<in> set (rule_parts r)" shows "clean w"
proof -
  have ty: "\<forall>t \<in> set VALID_TLV_TYPES. clean t" by code_simp
  have k: "clean ''-''" "clean ''required''" "clean ''optional''" by code_simp+
  have z: "list_all (\<lambda>c. \<not> is_space c \<and> c \<noteq> CHR '','' \<and> c \<noteq> CHR '';'') ''0x''" by code_simp
  have "clean (''0x'' @ hex4 (tr_tag r))"
    using assms(1) by (intro clean_append[OF z] clean_hex4) (simp add: rule_wf_def)
  moreover have "clean (str_int n)" if "tr_length r = Some n" for n
    using assms(1) that clean_radix10 by (simp add: rule_wf_def str_int_def)
  ultimately show ?thesis
    using assms ty k by (auto simp: rule_parts_def rule_wf_def split: option.splits if_splits)
qed

lemma parse_rule_parts:
  assumes "rule_wf r" shows "parse_rule (show_rule r) = Inr r"
proof -
  have c: "clean w" if "w \<in> set (rule_parts r)" for w by (rule rule_parts_clean[OF assms that])
  have sp: "split_on CHR '','' (show_rule r) = rule_parts r"
    unfolding show_rule_parts using c clean_no_sep(1) by (intro split_join) (auto simp: rule_parts_def)
  have st: "strip (rule_parts r ! i) = rule_parts r ! i" if "i < 4" for i
    using that by (intro clean_strip c nth_mem) (simp add: rule_parts_def)
  have len: "parse_max_length (rule_parts r ! 2) = Inr (tr_length r)"
    using assms parse_max_length_str
    by (cases "tr_length r") (simp_all add: rule_parts_def rule_wf_def parse_max_length_def[of "''-''"])
  have "lower ''required'' = ''required''" "lower ''optional'' = ''optional''" by code_simp+
  then have req: "parse_required (rule_parts r) = Inr (tr_required r)"
    using st[of 3] by (simp add: parse_required_def) (simp add: rule_parts_def)
  have "int_literal (rule_parts r ! 0) = Inr (tr_tag r)" "rule_parts r ! 1 = tr_type r"
    "tr_type r \<in> set VALID_TLV_TYPES" "length (rule_parts r) = 4"
    using assms int_literal_hex4[of "tr_tag r"] by (simp_all add: rule_parts_def rule_wf_def)
  then show ?thesis
    using st[of 0] st[of 1] st[of 2] len req by (simp add: parse_rule_def sp Let_def)
qed

lemma show_rule_shape:
  assumes "rule_wf r"
  shows "strip (show_rule r) = show_rule r" "CHR '';'' \<notin> set (show_rule r)" "hd (show_rule r) = CHR ''0''"
    "show_rule r \<noteq> []"
proof -
  have e: "show_rule r = rule_parts r ! 0 @ '','' @ rule_parts r ! 1 @ '','' @ rule_parts r ! 2 @ '','' @ rule_parts r ! 3"
    by (simp add: show_rule_def rule_parts_def)
  have c: "clean (rule_parts r ! i)" if "i < 4" for i
    using that by (intro rule_parts_clean[OF assms] nth_mem) (simp add: rule_parts_def)
  show "CHR '';'' \<notin> set (show_rule r)"
    using c clean_no_sep(2) by (auto simp: e)
  show h: "hd (show_rule r) = CHR ''0''" by (simp add: show_rule_def)
  show n: "show_rule r \<noteq> []" by (simp add: show_rule_def)
  have "last (show_rule r) = last (rule_parts r ! 3)" using c[of 3] by (simp add: e clean_def)
  moreover have "\<not> is_space (last (rule_parts r ! 3))" using c[of 3] by (simp add: clean_def list_all_iff)
  moreover have "\<not> is_space CHR ''0''" by code_simp
  ultimately show "strip (show_rule r) = show_rule r" using h by (intro strip_id) simp
qed

text \<open>
  Claim C33.  The console prints the TLV rules of a connector in the form it reads: parsing the printed
  rules gives the rules back, for every list of rules that a connector configuration accepts and
  whose tags are not negative.
\<close>

theorem tlv_rules_roundtrip:
  assumes "\<forall>r \<in> set rs. rule_wf r"
  shows "parseTlvString (show_rules rs) = Inr rs"
proof (cases "rs = []")
  case True
  have "lower ''none'' = ''none''" by code_simp
  with True show ?thesis by (simp add: parseTlvString_def show_rules_def)
next
  case False
  let ?ws = "map show_rule rs"
  note sh = show_rule_shape[OF assms[rule_format]]
  have sp: "split_on CHR '';'' (join_with CHR '';'' ?ws) = ?ws"
    using False sh(2) by (intro split_join) auto
  have "map strip ?ws = ?ws" using sh(1) by (induction rs) auto
  then have "filter (\<lambda>e. e \<noteq> []) (map strip ?ws) = ?ws" using sh(4) by (simp only:) (intro filter_True, auto)
  moreover have "map_res parse_rule ?ws = Inr rs"
    using assms parse_rule_parts by (induction rs) auto
  moreover have "lower (join_with CHR '';'' ?ws) \<noteq> ''none''"
  proof -
    obtain r rs' where rs: "rs = r # rs'" using False by (cases rs) auto
    have "hd (join_with CHR '';'' ?ws) = CHR ''0''" "join_with CHR '';'' ?ws \<noteq> []"
      using sh(3,4)[of r] rs by (cases rs'; simp)+
    then have "hd (lower (join_with CHR '';'' ?ws)) = to_lower CHR ''0''" by (simp add: hd_map)
    moreover have "to_lower CHR ''0'' \<noteq> CHR ''n''" by code_simp
    ultimately show ?thesis by auto
  qed
  ultimately show ?thesis using False by (simp only: parseTlvString_def show_rules_def sp if_False)
qed

theorem tlv_rules_roundtrip_witness:
  "\<exists>rs. rs = [\<lparr>tr_tag = 5121, tr_type = ''Int8'', tr_length = Some 8, tr_required = True\<rparr>,
              \<lparr>tr_tag = 3, tr_type = ''OctetString'', tr_length = None, tr_required = False\<rparr>] \<and>
     show_rules rs = ''0x1401,Int8,8,required;0x0003,OctetString,-,optional'' \<and>
     parseTlvString (show_rules rs) = Inr rs"
proof -
  let ?rs = "[\<lparr>tr_tag = 5121, tr_type = ''Int8'', tr_length = Some 8, tr_required = True\<rparr>,
              \<lparr>tr_tag = 3, tr_type = ''OctetString'', tr_length = None, tr_required = False\<rparr>]"
  have "show_rules ?rs = ''0x1401,Int8,8,required;0x0003,OctetString,-,optional''" by code_simp
  moreover have "parseTlvString (show_rules ?rs) = Inr ?rs"
    by (rule tlv_rules_roundtrip) (simp add: rule_wf_def VALID_TLV_TYPES_def)
  ultimately show ?thesis by blast
qed
section \<open>Normalisation returns\<close>

definition raw_text :: "tlv_env \<Rightarrow> pyval \<Rightarrow> string" where
  "raw_text env v = (case v of PStr s \<Rightarrow> s | PBytes b \<Rightarrow> te_decode env b | _ \<Rightarrow> [])"

lemma length_strip: "length (strip s) \<le> length s"
  by (metis strip_def lstrip_def length_rev length_dropWhile_le order_trans)

lemma normalize_item_len: "normalize_item kv = Inr t \<Longrightarrow> length t = 4"
  by (induction kv rule: normalize_item.induct) auto

lemma normalize_entry_len: "normalize_entry v = Inr ts \<Longrightarrow> t \<in> set ts \<Longrightarrow> length t = 4"
  by (induction v rule: normalize_entry.induct) (auto split: if_splits)

definition four_fields :: "pyval list list res \<Rightarrow> bool" where
  "four_fields r = (case r of Inr ts \<Rightarrow> list_all (\<lambda>t. length t = 4) ts | Inl _ \<Rightarrow> True)"

lemma four_fields_simps [simp]:
  "four_fields (Inr [])" "four_fields (map_res normalize_item d)"
  "four_fields (res_bind (map_res normalize_entry xs) (\<lambda>ts. Inr (concat ts)))"
proof -
  show "four_fields (map_res normalize_item d)"
  proof (cases "map_res normalize_item d")
    case (Inr ts)
    then show ?thesis using map_res_in[OF Inr] normalize_item_len by (fastforce simp: four_fields_def list_all_iff)
  qed (simp add: four_fields_def)
  show "four_fields (res_bind (map_res normalize_entry xs) (\<lambda>ts. Inr (concat ts)))"
  proof (cases "map_res normalize_entry xs")
    case (Inr ts)
    then show ?thesis using map_res_in[OF Inr] normalize_entry_len by (fastforce simp: four_fields_def list_all_iff)
  qed (simp add: four_fields_def)
qed (simp add: four_fields_def)

lemma normalize_enough:
  assumes "\<And>s t. te_json env s = Some (PStr t) \<Longrightarrow> length t < length s"
    "\<And>s t. te_json env s \<noteq> Some (PBytes t)"
  shows "length (raw_text env v) + 1 < n \<Longrightarrow> \<exists>r. normalize_custom_tlvs env n v = Some r \<and> four_fields r"
proof (induction n arbitrary: v)
  case (Suc n)
  have tx: "\<exists>r. (if strip s = [] then Some (Inr [])
                 else case te_json env (strip s) of None \<Rightarrow> Some (Inr [])
                      | Some v \<Rightarrow> normalize_custom_tlvs env n v) = Some r \<and> four_fields r"
    if s: "length s < n" for s
  proof (cases "strip s = [] \<or> te_json env (strip s) = None")
    case False
    then obtain w where w: "te_json env (strip s) = Some w" "strip s \<noteq> []" by auto
    have "length (raw_text env w) + 1 < n"
    proof (cases w)
      case (PStr t)
      with assms(1) w length_strip[of s] s show ?thesis by (fastforce simp: raw_text_def)
    next
      case (PBytes t)
      with assms(2) w show ?thesis by auto
    qed (use w length_strip[of s] s in \<open>cases "strip s"; simp add: raw_text_def\<close>)+
    from Suc.IH[OF this] w show ?thesis by simp
  qed auto
  show ?case
  proof (cases "truthy v")
    case True
    with Suc.prems tx show ?thesis by (cases v) (simp_all add: raw_text_def Let_def)
  qed simp
qed simp

text \<open>
  Normalising the TLVs of a request always returns, because a JSON text that holds another
  text is longer than it: fuel for one call more than the text has characters is enough for every
  request, and every TLV of the result has the four fields tag, length, type and value.
\<close>

theorem normalize_custom_tlvs_returns:
  assumes "\<And>s t. te_json env s = Some (PStr t) \<Longrightarrow> length t < length s"
    "\<And>s t. te_json env s \<noteq> Some (PBytes t)"
  shows "\<exists>r. normalize_custom_tlvs env (length (raw_text env raw) + 2) raw = Some r \<and>
    (\<forall>ts. r = Inr ts \<longrightarrow> (\<forall>t \<in> set ts. length t = 4))"
  using normalize_enough[OF assms, of raw "length (raw_text env raw) + 2"]
  by (auto simp: four_fields_def list_all_iff)

text \<open>A fragment of JSON: quoted texts without escapes, and one object.\<close>

definition sample_json :: "string \<Rightarrow> pyval option" where
  "sample_json s =
     (if s = ''{x}'' then Some (PDict [(PStr ''0x1401:Int8'', PInt 7)])
      else if 2 \<le> length s \<and> hd s = CHR 0x22 \<and> last s = CHR 0x22 then Some (PStr (butlast (tl s)))
      else None)"

definition json_env :: tlv_env where
  "json_env = sample_tlv_env\<lparr>te_json := sample_json\<rparr>"

theorem normalize_custom_tlvs_returns_witness:
  "\<exists>r. normalize_custom_tlvs json_env 7 (PStr [CHR 0x22, CHR ''{'', CHR ''x'', CHR ''}'', CHR 0x22]) = Some r \<and>
     r = Inr [[PInt 5121, PNone, PStr ''Int8'', PInt 7]] \<and>
     (\<forall>ts. r = Inr ts \<longrightarrow> (\<forall>t \<in> set ts. length t = 4))"
proof -
  let ?v = "PStr [CHR 0x22, CHR ''{'', CHR ''x'', CHR ''}'', CHR 0x22]"
  have j: "te_json json_env s = Some (PStr t) \<Longrightarrow> length t < length s" "te_json json_env s \<noteq> Some (PBytes t)" for s t
    by (auto simp: json_env_def sample_json_def split: if_splits)
  have "length (raw_text json_env ?v) + 2 = 7" by (simp add: raw_text_def)
  with normalize_custom_tlvs_returns[OF j, of ?v] obtain r where
    r: "normalize_custom_tlvs json_env 7 ?v = Some r" "\<forall>ts. r = Inr ts \<longrightarrow> (\<forall>t \<in> set ts. length t = 4)" by metis
  moreover have "normalize_custom_tlvs json_env 7 ?v = Some (Inr [[PInt 5121, PNone, PStr ''Int8'', PInt 7]])"
    by code_simp
  ultimately show ?thesis by simp
qed

section \<open>Vendor TLVs of a received message\<close>

text \<open>How the decoder of \<^verbatim>\<open>smpp.pdu\<close> reads optional parameters: one after the other to the end of the
  PDU.\<close>

fun read_options :: "option_tap \<Rightarrow> nat \<Rightarrow> string \<Rightarrow> bucket \<Rightarrow> unit res \<times> bucket" where
  "read_options tap n [] b = (Inr (), b)"
| "read_options tap 0 file b = (Inl ValueError, b)"
| "read_options tap (Suc n) file b =
     (case tap file b of (Inl e, b') \<Rightarrow> (Inl e, b') | (Inr (_, rest), b') \<Rightarrow> read_options tap n rest b')"

definition wire_tlv :: "int \<times> string \<Rightarrow> string" where
  "wire_tlv w = be_bytes 2 (nat (fst w)) @ be_bytes 2 (length (snd w)) @ snd w"

definition wire_ok :: "int \<times> string \<Rightarrow> bool" where
  "wire_ok w \<longleftrightarrow> 0 \<le> fst w \<and> fst w < 65536 \<and> length (snd w) < 65536"

lemma tap_vendor:
  assumes "wire_ok w" "orig (wire_tlv w @ rest) = Inr ((''vendor_specific_bypass'', PBytes (snd w)), rest)"
  shows "option_decode_tap orig (wire_tlv w @ rest) (Some ts) =
    (Inr ((''vendor_specific_bypass'', PBytes (snd w)), rest),
     Some (ts @ [(PInt (fst w), PInt (int (length (snd w))), PStr ''OctetString'', PBytes (snd w))]))"
proof -
  have f: "from_be (be_bytes 2 (nat (fst w))) = nat (fst w)" "from_be (be_bytes 2 (length (snd w))) = length (snd w)"
    using assms(1) by (auto intro!: from_be_be_bytes simp: wire_ok_def)
  have "take 4 (wire_tlv w @ rest) = be_bytes 2 (nat (fst w)) @ be_bytes 2 (length (snd w))"
    by (simp add: wire_tlv_def)
  with assms f show ?thesis by (simp add: option_decode_tap_def Let_def wire_ok_def)
qed

lemma read_vendor:
  assumes "\<And>w rest. w \<in> set ws \<Longrightarrow> orig (wire_tlv w @ rest) = Inr ((''vendor_specific_bypass'', PBytes (snd w)), rest)"
    "list_all wire_ok ws"
  shows "read_options (option_decode_tap orig) (length ws) (concat (map wire_tlv ws)) (Some ts) =
    (Inr (), Some (ts @ map (\<lambda>w. (PInt (fst w), PInt (int (length (snd w))), PStr ''OctetString'', PBytes (snd w))) ws))"
  using assms
proof (induction ws arbitrary: ts)
  case (Cons w ws)
  have "wire_tlv w @ concat (map wire_tlv ws) \<noteq> []" by (simp add: wire_tlv_def numeral_2_eq_2)
  then obtain c cs where c: "wire_tlv w @ concat (map wire_tlv ws) = c # cs" by (cases "wire_tlv w @ concat (map wire_tlv ws)") auto
  have "option_decode_tap orig (c # cs) (Some ts) = (Inr ((''vendor_specific_bypass'', PBytes (snd w)), concat (map wire_tlv ws)),
     Some (ts @ [(PInt (fst w), PInt (int (length (snd w))), PStr ''OctetString'', PBytes (snd w))]))"
    unfolding c[symmetric] by (rule tap_vendor) (use Cons.prems in simp_all)
  with Cons show ?case by (simp add: c)
qed simp

text \<open>
  Vendor TLVs of a received message are not lost: when the options of the PDU are vendor TLVs and
  the decoder underneath reads each of them as a bypassed option, the decoded PDU carries all of
  them, in wire order, with their tags, lengths and bytes.
\<close>

theorem vendor_tlvs_preserved:
  assumes "\<And>w rest. w \<in> set ws \<Longrightarrow> orig (wire_tlv w @ rest) = Inr ((''vendor_specific_bypass'', PBytes (snd w)), rest)"
    "list_all wire_ok ws" "ws \<noteq> []"
    "\<And>tap b. orig_pdu tap (concat (map wire_tlv ws)) b =
       (case read_options tap (length ws) (concat (map wire_tlv ws)) b of (Inr _, b') \<Rightarrow> (Inr p, b') | (Inl e, b') \<Rightarrow> (Inl e, b'))"
  shows "pdu_decode_tap orig_pdu orig (concat (map wire_tlv ws)) =
    Inr (p\<lparr>p_custom_tlvs :=
       Some (map (\<lambda>w. (PInt (fst w), PInt (int (length (snd w))), PStr ''OctetString'', PBytes (snd w))) ws)\<rparr>)"
proof -
  define ts where "ts = map (\<lambda>w. (PInt (fst w), PInt (int (length (snd w))), PStr ''OctetString'', PBytes (snd w))) ws"
  obtain t ts' where t: "ts = t # ts'" using assms(3) by (cases ws) (auto simp: ts_def)
  have "orig_pdu (option_decode_tap orig) (concat (map wire_tlv ws)) (Some []) = (Inr p, Some ts)"
    using read_vendor[OF assms(1,2), of "[]"] by (simp add: assms(4) ts_def)
  then have "pdu_decode_tap orig_pdu orig (concat (map wire_tlv ws)) = Inr (p\<lparr>p_custom_tlvs := Some ts\<rparr>)"
    by (simp add: pdu_decode_tap_def t)
  then show ?thesis by (simp add: ts_def)
qed

text \<open>A decoder of one option that takes every tag for a vendor tag.\<close>

definition sample_decoder :: option_decoder where
  "sample_decoder file =
     (let n = from_be (take 2 (drop 2 file))
      in if length file < 4 + n then Inl ValueError
         else Inr ((''vendor_specific_bypass'', PBytes (take n (drop 4 file))), drop (4 + n) file))"

lemma sample_decoder_wire:
  assumes "wire_ok w"
  shows "sample_decoder (wire_tlv w @ rest) = Inr ((''vendor_specific_bypass'', PBytes (snd w)), rest)"
proof -
  have "from_be (be_bytes 2 (length (snd w))) = length (snd w)"
    using assms by (auto intro!: from_be_be_bytes simp: wire_ok_def)
  then show ?thesis by (simp add: sample_decoder_def wire_tlv_def Let_def)
qed

definition sample_orig_pdu :: "option_tap \<Rightarrow> string \<Rightarrow> bucket \<Rightarrow> pdu res \<times> bucket" where
  "sample_orig_pdu tap file b =
     (case read_options tap 2 file b of
        (Inr _, b') \<Rightarrow> (Inr sample_pdu, b') | (Inl e, b') \<Rightarrow> (Inl e, b'))"

theorem vendor_tlvs_preserved_witness:
  "pdu_decode_tap sample_orig_pdu sample_decoder (concat (map wire_tlv [(5121, ''ab''), (5122, ''c'')])) =
     Inr (sample_pdu\<lparr>p_custom_tlvs := Some [(PInt 5121, PInt 2, PStr ''OctetString'', PBytes ''ab''),
                                              (PInt 5122, PInt 1, PStr ''OctetString'', PBytes ''c'')]\<rparr>)"
proof -
  let ?ws = "[(5121, ''ab''), (5122, ''c'')]"
  have ok: "list_all wire_ok ?ws" by (simp add: wire_ok_def)
  have "pdu_decode_tap sample_orig_pdu sample_decoder (concat (map wire_tlv ?ws)) =
     Inr (sample_pdu\<lparr>p_custom_tlvs :=
       Some (map (\<lambda>w. (PInt (fst w), PInt (int (length (snd w))), PStr ''OctetString'', PBytes (snd w))) ?ws)\<rparr>)"
    by (rule vendor_tlvs_preserved[OF _ ok])
      (auto intro!: sample_decoder_wire simp: wire_ok_def sample_orig_pdu_def numeral_2_eq_2)
  then show ?thesis by simp
qed

end
