(* ===== verification/Operations.thy ===== *)
theory Operations
  imports Tlv
begin

text \<open>
  Building and reading PDUs (\<^verbatim>\<open>jasmin/protocols/smpp/operations.py\<close>).  A chain of PDUs linked by
  \<^verbatim>\<open>nextPdu\<close> is the list of them.  From the \<^verbatim>\<open>smpp.pdu\<close> package come the mandatory parameters of a
  \<^verbatim>\<open>submit_sm\<close> and the member names of its enumerations, from \<^verbatim>\<open>dateutil\<close> the reading of dates; they
  are fields of an \<open>op_env\<close>, together with decoding of bytes, \<^verbatim>\<open>str\<close> of other values and the present time.
\<close>

section \<open>State and environment\<close>

record op_env =
  oe_mandatory :: "string list"
  oe_members :: "string \<Rightarrow> string list"
  oe_date :: "string \<Rightarrow> string res"
  oe_now :: string
  oe_decode :: "string \<Rightarrow> string res"
  oe_decode_ignore :: "string \<Rightarrow> string"
  oe_str :: "pyval \<Rightarrow> string"

record op_factory =
  of_config :: "(string, pyval) dict"
  of_max_parts :: int
  of_split :: string
  of_last_ref :: int

definition SMPPOperationFactory ::
  "(string, pyval) dict \<Rightarrow> pyval \<Rightarrow> string \<Rightarrow> op_factory res" where
  "SMPPOperationFactory cfg parts split =
     res_bind (int_val parts) (\<lambda>n. Inr \<lparr>of_config = cfg, of_max_parts = n, of_split = split, of_last_ref = 0\<rparr>)"

text \<open>Values of \<^verbatim>\<open>EsmClass\<close>: mode, type and the GSM features.\<close>

definition EsmClass :: "string \<Rightarrow> string \<Rightarrow> string list \<Rightarrow> pyval" where
  "EsmClass mode ty fs =
     PList [PEnum ''EsmClassMode'' mode, PEnum ''EsmClassType'' ty, PList (map (PEnum ''EsmClassGsmFeatures'') fs)]"

definition mk_pdu :: "string \<Rightarrow> (string, pyval) dict \<Rightarrow> pdu" where
  "mk_pdu cmd ps = \<lparr>p_command = cmd, p_seqNum = None, p_status = ''ESME_ROK'', p_params = ps, p_custom_tlvs = None\<rparr>"

text \<open>Every mandatory parameter that was not given is set from the configuration, or to \<^verbatim>\<open>None\<close>.\<close>

definition setConfigParamsInPDU :: "op_env \<Rightarrow> op_factory \<Rightarrow> pdu \<Rightarrow> (string, pyval) dict \<Rightarrow> pdu" where
  "setConfigParamsInPDU env f p kwargs =
     p\<lparr>p_params :=
        foldl (\<lambda>ps k. if has_key kwargs k then ps
                      else dset ps k (case map_of (of_config f) k of Some v \<Rightarrow> v | None \<Rightarrow> PNone))
          (p_params p) (oe_mandatory env)\<rparr>"

section \<open>Long messages\<close>

definition claimLongMsgRefNum :: "op_factory \<Rightarrow> int \<times> op_factory" where
  "claimLongMsgRefNum f =
     (let n = (if of_last_ref f \<ge> 255 then 0 else of_last_ref f) + 1 in (n, f\<lparr>of_last_ref := n\<rparr>))"

definition num_in :: "pyval \<Rightarrow> int list \<Rightarrow> bool" where
  "num_in v ns \<longleftrightarrow> is_number v \<and> list_ex (\<lambda>n. num v = of_int n) ns"

text \<open>Bits of a character, characters of a single message, characters of a part.\<close>

definition coding_limits :: "pyval \<Rightarrow> nat \<times> nat \<times> nat" where
  "coding_limits dc =
     (if num_in dc [3, 6, 7, 10] then (8, 140, 134)
      else if num_in dc [2, 4, 5, 8, 9, 13, 14] then (16, 70, 67)
      else (7, 160, 153))"

text \<open>\<^verbatim>\<open>len(v)\<close> and \<^verbatim>\<open>v[a:b]\<close> of a text or a byte string.\<close>

fun content_len :: "pyval \<Rightarrow> nat res" where
  "content_len (PStr s) = Inr (length s)"
| "content_len (PBytes s) = Inr (length s)"
| "content_len _ = Inl TypeError"

fun content_slice :: "nat \<Rightarrow> nat \<Rightarrow> pyval \<Rightarrow> pyval" where
  "content_slice a b (PStr s) = PStr (drop a (take b s))"
| "content_slice a b (PBytes s) = PBytes (drop a (take b s))"
| "content_slice a b v = v"

definition sm_length :: "nat \<Rightarrow> nat \<Rightarrow> rat" where
  "sm_length bits n = (if bits = 16 then fl (of_nat n / 2) else of_nat n)"

text \<open>\<^verbatim>\<open>int(math.ceil(smLength / float(slicedMaxSmLength)))\<close>, at most \<^verbatim>\<open>long_content_max_parts\<close>.\<close>

definition segments :: "op_factory \<Rightarrow> nat \<Rightarrow> nat \<Rightarrow> nat \<Rightarrow> int" where
  "segments f bits sliced n =
     (let c = \<lceil>fl (sm_length bits n / of_nat sliced)\<rceil> in if c > of_max_parts f then of_max_parts f else c)"

definition udh_header :: "int \<Rightarrow> int \<Rightarrow> int \<Rightarrow> string res" where
  "udh_header ref segs seqnum =
     res_bind (pack_uint 1 ref) (\<lambda>a. res_bind (pack_uint 1 segs) (\<lambda>b. res_bind (pack_uint 1 seqnum) (\<lambda>c.
       Inr ([CHR 0x05, CHR 0x00, CHR 0x03] @ a @ b @ c))))"

definition submit_part ::
  "op_env \<Rightarrow> op_factory \<Rightarrow> (string, pyval) dict \<Rightarrow> pyval \<Rightarrow> nat \<Rightarrow> int \<Rightarrow> int \<Rightarrow> nat \<Rightarrow> pdu res" where
  "submit_part env f kwargs msg chunk segs ref i =
     (let seqnum = int i + 1;
          part = content_slice (chunk * i) (chunk * (i + 1)) msg;
          kw = dset kwargs ''short_message'' part;
          p = setConfigParamsInPDU env f (mk_pdu ''submit_sm'' kw) kw;
          ps = p_params p
      in if of_split f = ''sar'' then
           Inr (p\<lparr>p_params := dset (dset (dset ps ''sar_total_segments'' (PInt segs))
                    ''sar_segment_seqnum'' (PInt seqnum)) ''sar_msg_ref_num'' (PInt ref)\<rparr>)
         else if of_split f = ''udh'' then
           res_bind (udh_header ref segs seqnum) (\<lambda>h.
             Inr (p\<lparr>p_params :=
               dset (dset (dset ps ''esm_class'' (EsmClass ''DEFAULT'' ''DEFAULT'' [''UDHI_INDICATOR_SET'']))
                 ''more_messages_to_send''
                 (PEnum ''MoreMessagesToSend'' (if seqnum < segs then ''MORE_MESSAGES'' else ''NO_MORE_MESSAGES'')))
                 ''short_message''
                 (case part of PStr s \<Rightarrow> PBytes (h @ utf8_encode s) | PBytes b \<Rightarrow> PBytes (h @ b) | v \<Rightarrow> v)\<rparr>))
         else Inr p)"

definition SubmitSM ::
  "op_env \<Rightarrow> op_factory \<Rightarrow> pyval \<Rightarrow> pyval \<Rightarrow> (string, pyval) dict \<Rightarrow> pdu list res \<times> op_factory" where
  "SubmitSM env f msg dc kwargs0 =
     (let kwargs = dset (dset kwargs0 ''short_message'' msg) ''data_coding'' dc;
          (bits, max_len, sliced) = coding_limits dc
      in case content_len msg of
           Inl e \<Rightarrow> (Inl e, f)
         | Inr n \<Rightarrow>
             if sm_length bits n > of_nat max_len then
               (let segs = segments f bits sliced n;
                    (ref, f') = claimLongMsgRefNum f;
                    chunk = (if bits = 16 then sliced * 2 else sliced)
                in if segs \<le> 0 then (Inl NameError, f')
                   else (map_res (submit_part env f kwargs msg chunk segs ref) [0..<nat segs], f'))
             else (Inr [setConfigParamsInPDU env f (mk_pdu ''submit_sm'' kwargs) kwargs], f))"

section \<open>Receipts\<close>

definition message_state_map :: "(string \<times> string) list" where
  "message_state_map =
     [(''ACCEPTED'', ''ACCEPTD''), (''UNDELIVERABLE'', ''UNDELIV''), (''REJECTED'', ''REJECTD''),
      (''DELIVERED'', ''DELIVRD''), (''EXPIRED'', ''EXPIRED''), (''DELETED'', ''DELETED''),
      (''UNKNOWN'', ''UNKNOWN'')]"

text \<open>\<^verbatim>\<open>\w\<close> of a pattern on text.\<close>

definition is_word :: "char \<Rightarrow> bool" where
  "is_word c \<longleftrightarrow> is_alnum c \<or> c = CHR ''_'' \<or>
     (let n = cval c in n \<in> {0xAA, 0xB2, 0xB3, 0xB5, 0xB9, 0xBA, 0xBC, 0xBD, 0xBE} \<or>
        0xC0 \<le> n \<and> n \<noteq> 0xD7 \<and> n \<noteq> 0xF7)"

text \<open>\<^verbatim>\<open>re.search\<close> of a pattern that is one of some literals followed by a group of at least \<open>lo\<close> and at
  most \<open>hi\<close> characters of a class: the leftmost match, with as many characters as the group takes.\<close>

definition group_at :: "string list \<Rightarrow> (char \<Rightarrow> bool) \<Rightarrow> nat \<Rightarrow> nat option \<Rightarrow> string \<Rightarrow> string option" where
  "group_at lits cls lo hi s =
     (case find (startswith s) lits of
        None \<Rightarrow> None
      | Some l \<Rightarrow>
          (let w = takeWhile cls (drop (length l) s);
               g = (case hi of None \<Rightarrow> w | Some h \<Rightarrow> take h w)
           in if length g < lo then None else Some g))"

fun re_search :: "string list \<Rightarrow> (char \<Rightarrow> bool) \<Rightarrow> nat \<Rightarrow> nat option \<Rightarrow> string \<Rightarrow> string option" where
  "re_search lits cls lo hi s =
     (case group_at lits cls lo hi s of
        Some g \<Rightarrow> Some g
      | None \<Rightarrow> (case s of [] \<Rightarrow> None | _ # cs \<Rightarrow> re_search lits cls lo hi cs))"

declare re_search.simps [simp del]

definition is_id_char :: "char \<Rightarrow> bool" where
  "is_id_char c \<longleftrightarrow> is_alnum c \<or> c = CHR ''-'' \<or> c = CHR ''_''"

definition receipt_patterns :: "(string \<times> (string \<Rightarrow> string option)) list" where
  "receipt_patterns =
     [(''id'', re_search [''id:''] is_id_char 1 None),
      (''sub'', re_search [''sub:''] is_digit 1 (Some 3)),
      (''dlvrd'', re_search [''dlvrd:''] is_digit 1 (Some 3)),
      (''sdate'', re_search [''submit date:''] is_digit 1 None),
      (''ddate'', re_search [''done date:''] is_digit 1 None),
      (''stat'', re_search [''stat:''] is_word 7 (Some 7)),
      (''err'', re_search [''err:''] is_word 1 (Some 3)),
      (''text'', re_search [''text:'', ''Text:''] (\<lambda>c. c \<noteq> CHR 0x0A) 0 None)]"

definition read_field :: "string \<Rightarrow> (string, pyval) dict \<Rightarrow> string \<times> (string \<Rightarrow> string option) \<Rightarrow> (string, pyval) dict" where
  "read_field text ret kp =
     (case snd kp text of
        None \<Rightarrow> ret
      | Some g \<Rightarrow>
          if (fst kp \<noteq> ''id'' \<and> fst kp \<noteq> ''stat'') \<or> \<not> has_key ret (fst kp) then dset ret (fst kp) (PStr g)
          else ret)"

text \<open>\<^verbatim>\<open>'{:0>3}'.format(s)\<close> for a field that is set and shorter than three characters.\<close>

definition pad_field :: "(string, pyval) dict \<Rightarrow> string \<Rightarrow> (string, pyval) dict" where
  "pad_field ret k =
     (case map_of ret k of
        Some (PStr s) \<Rightarrow>
          if s \<noteq> ''ND'' \<and> length s < 3 then dset ret k (PStr (replicate (3 - length s) CHR ''0'' @ s)) else ret
      | _ \<Rightarrow> ret)"

definition receipt_stat :: "pyval \<Rightarrow> string" where
  "receipt_stat st =
     (case st of
        PEnum t n \<Rightarrow>
          (if t = ''MessageState''
           then case map_of message_state_map n of Some s \<Rightarrow> s | None \<Rightarrow> ''UNKNOWN''
           else ''UNKNOWN'')
      | _ \<Rightarrow> ''UNKNOWN'')"

text \<open>The default fields, with id and status from the optional parameters; then the fields found in the
  content; then the padding and the decision.\<close>

definition receipt_start :: "pdu \<Rightarrow> (string, pyval) dict" where
  "receipt_start p =
     (let nd = PStr ''ND'';
          ret = [(''dlvrd'', nd), (''sub'', nd), (''sdate'', nd), (''ddate'', nd), (''err'', nd), (''text'', PStr [])]
      in case (map_of (p_params p) ''receipted_message_id'', map_of (p_params p) ''message_state'') of
           (Some i, Some st) \<Rightarrow> dset (dset ret ''id'' i) ''stat'' (PStr (receipt_stat st))
         | _ \<Rightarrow> ret)"

definition receipt_content :: "op_env \<Rightarrow> pdu \<Rightarrow> (string, pyval) dict \<Rightarrow> (string, pyval) dict res" where
  "receipt_content env p ret =
     (case map_of (p_params p) ''short_message'' of
        None \<Rightarrow> Inr ret
      | Some (PBytes b) \<Rightarrow> Inr (foldl (read_field (oe_decode_ignore env b)) ret receipt_patterns)
      | Some (PStr s) \<Rightarrow> Inr (foldl (read_field s) ret receipt_patterns)
      | Some _ \<Rightarrow> Inl TypeError)"

definition receipt_finish :: "(string, pyval) dict \<Rightarrow> (string, pyval) dict option" where
  "receipt_finish ret0 =
     (let ret = foldl pad_field ret0 [''sub'', ''dlvrd'', ''err'']
      in if has_key ret ''id'' \<and> has_key ret ''stat'' then Some ret else None)"

definition isDeliveryReceipt :: "op_env \<Rightarrow> pdu \<Rightarrow> (string, pyval) dict option res" where
  "isDeliveryReceipt env p =
     (if p_command p \<noteq> ''deliver_sm'' \<and> p_command p \<noteq> ''data_sm'' then Inr None
      else res_bind (receipt_content env p (receipt_start p)) (\<lambda>ret. Inr (receipt_finish ret)))"

definition text_of :: "op_env \<Rightarrow> pyval \<Rightarrow> string res" where
  "text_of env v = (case v of PStr s \<Rightarrow> Inr s | PBytes b \<Rightarrow> oe_decode env b | _ \<Rightarrow> Inr (oe_str env v))"

text \<open>The state of a message and the status text written into the receipt.\<close>

definition status_states :: "(string \<times> string) list" where
  "status_states =
     [(''UNDELIV'', ''UNDELIVERABLE''), (''REJECTD'', ''REJECTED''), (''DELIVRD'', ''DELIVERED''),
      (''EXPIRED'', ''EXPIRED''), (''DELETED'', ''DELETED''), (''ACCEPTD'', ''ACCEPTED''),
      (''ENROUTE'', ''ENROUTE''), (''UNKNOWN'', ''UNKNOWN'')]"

definition receipt_state :: "string \<Rightarrow> (string \<times> string) res" where
  "receipt_state st =
     (if take 5 st = ''ESME_'' then
        Inr (if st = ''ESME_ROK'' then (''ACCEPTED'', ''ACCEPTD'') else (''UNDELIVERABLE'', ''UNDELIV''))
      else case map_of status_states st of
             Some m \<Rightarrow> Inr (m, st)
           | None \<Rightarrow> Inl UnknownMessageStatusError)"

definition get_enum :: "op_env \<Rightarrow> string \<Rightarrow> pyval \<Rightarrow> pyval res" where
  "get_enum env ty v =
     (case v of
        PEnum _ _ \<Rightarrow> Inr v
      | PStr s \<Rightarrow>
          (let ws = split_on CHR ''.'' s; n = (if length ws = 2 then ws ! 1 else s)
           in if n \<in> set (oe_members env ty) then Inr (PEnum ty n) else Inl AttributeError)
      | PBytes _ \<Rightarrow> Inl TypeError
      | _ \<Rightarrow> Inl AttributeError)"

definition receipt_text :: "string \<Rightarrow> string \<Rightarrow> string \<Rightarrow> string \<Rightarrow> string \<Rightarrow> string" where
  "receipt_text msgid sdate ddate stat err =
     ''id:'' @ msgid @ '' submit date:'' @ sdate @ '' done date:'' @ ddate @ '' stat:'' @ stat @ '' err:'' @ err"

definition getReceipt ::
  "op_env \<Rightarrow> string \<Rightarrow> pyval \<Rightarrow> pyval \<Rightarrow> pyval \<Rightarrow> pyval \<Rightarrow> pyval \<Rightarrow> string \<Rightarrow>
   pyval \<Rightarrow> pyval \<Rightarrow> pyval \<Rightarrow> pyval \<Rightarrow> pdu res" where
  "getReceipt env dlr_pdu msgid source destination status err sub_date s_ton s_npi d_ton d_npi =
     res_bind (text_of env status) (\<lambda>st.
     res_bind (text_of env msgid) (\<lambda>mid.
     res_bind (text_of env err) (\<lambda>er.
     res_bind (if is_str status \<or> is_bytes status then receipt_state st else Inl TypeError) (\<lambda>(state, stat).
     res_bind (if dlr_pdu = ''deliver_sm''
               then res_bind (oe_date env sub_date) (\<lambda>sd.
                      Inr [(''short_message'', PStr (receipt_text mid sd (oe_now env) stat er))])
               else Inr []) (\<lambda>sm.
     res_bind (get_enum env ''AddrTon'' d_ton) (\<lambda>a.
     res_bind (get_enum env ''AddrNpi'' d_npi) (\<lambda>b.
     res_bind (get_enum env ''AddrTon'' s_ton) (\<lambda>c.
     res_bind (get_enum env ''AddrNpi'' s_npi) (\<lambda>d.
       Inr (mk_pdu (if dlr_pdu = ''deliver_sm'' then ''deliver_sm'' else ''data_sm'')
         ([(''source_addr'', destination), (''destination_addr'', source),
           (''esm_class'', EsmClass ''DEFAULT'' ''SMSC_DELIVERY_RECEIPT'' []),
           (''receipted_message_id'', PStr mid)] @ sm @
          [(''message_state'', PEnum ''MessageState'' state),
           (''source_addr_ton'', a), (''source_addr_npi'', b), (''dest_addr_ton'', c), (''dest_addr_npi'', d)])))))))))))"
section \<open>Exact floating-point numbers\<close>

lemma fl_exact:
  assumes "0 < n" "n < 2 ^ 53" "x = of_int n * pow2 e" shows "fl x = x"
proof -
  have x: "0 < x" using assms by simp
  let ?k = "ilog2 x"
  have "x < of_int (2 ^ 53) * pow2 e"
    unfolding assms(3) by (rule mult_strict_right_mono) (use assms(2) in \<open>simp_all only: of_int_less_iff pow2_pos\<close>)
  also have "\<dots> = pow2 (53 + e)" by (simp add: pow2_add pow2_def[of 53])
  finally have "x < pow2 (53 + e)" .
  have "?k < 53 + e"
  proof (rule ccontr)
    assume "\<not> ?k < 53 + e"
    then have "pow2 (53 + e) \<le> pow2 ?k" by (intro pow2_mono) simp
    also have "\<dots> \<le> x" by (rule ilog2_bounds(1)[OF x])
    finally show False using \<open>x < pow2 (53 + e)\<close> by simp
  qed
  then have "0 \<le> e - (?k - 52)" by simp
  then obtain j where "e - (?k - 52) = int j" by (rule nonneg_int_cases)
  then have j: "e = ?k - 52 + int j" by simp
  have "x / pow2 (?k - 52) = of_int (n * 2 ^ j)"
  proof -
    have "pow2 e = pow2 (?k - 52) * 2 ^ j" by (subst j) (simp only: pow2_add pow2_nat)
    then have "of_int n * pow2 e = of_int (n * 2 ^ j) * pow2 (?k - 52)" by simp
    then have "x = of_int (n * 2 ^ j) * pow2 (?k - 52)" unfolding assms(3)[symmetric] .
    then show ?thesis by (simp add: nonzero_divide_eq_eq)
  qed
  then have "fl_pos x = x"
    using pow2_nonzero[of "?k - 52"] by (simp add: fl_pos_def Let_def del: of_int_mult of_int_power) (simp add: field_simps)
  with x show ?thesis by (simp add: fl_def)
qed

lemma fl_of_nat: "n < 2 ^ 53 \<Longrightarrow> fl (of_nat n) = of_nat n"
  using fl_exact[of "int n" "of_nat n" 0] by (cases "n = 0") simp_all

lemma fl_half: "n < 2 ^ 53 \<Longrightarrow> fl (of_nat n / 2) = of_nat n / 2"
  using fl_exact[of "int n" "of_nat n / 2" "-1"] by (cases "n = 0") (simp_all add: pow2_def)

text \<open>Rounding does not change the number of parts of a message.\<close>

lemma ceiling_fl_div:
  assumes "n < 2 ^ 40" "0 < c" "c \<le> 2 ^ 10"
  shows "\<lceil>fl (of_nat n / of_nat c)\<rceil> = \<lceil>of_nat n / of_nat c :: rat\<rceil>"
proof -
  let ?q = "of_nat n / of_nat c :: rat"
  let ?k = "\<lceil>?q\<rceil>"
  have q: "0 \<le> ?q" by simp
  have "- 1 < ?q" using q by linarith
  then have k: "0 \<le> ?k" by (simp add: le_ceiling_iff)
  have "?q \<le> of_nat n"
    using assms(2) mult_right_mono[of 1 "of_nat c" "of_nat n :: rat"] by (simp add: divide_le_eq mult.commute)
  then have "?k \<le> int n" by (simp add: ceiling_le_iff)
  then have "nat ?k < 2 ^ 53" using assms(1) by (simp add: nat_less_iff)
  from fl_of_nat[OF this] k have fk: "fl (of_int ?k) = of_int ?k" by simp
  have up: "fl ?q \<le> of_int ?k" using fl_mono[of ?q "of_int ?k"] fk by simp
  have lo: "of_int ?k - 1 < fl ?q"
  proof -
    have "of_int ?k - 1 < ?q" by linarith
    then have "(of_int ?k - 1) * of_nat c < (of_nat n :: rat)" using assms(2) by (simp add: field_simps)
    then have "of_int ((?k - 1) * int c) < (of_int (int n) :: rat)" by simp
    then have "(?k - 1) * int c + 1 \<le> int n" by (simp only: of_int_less_iff)
    then have "of_int ((?k - 1) * int c + 1) \<le> (of_int (int n) :: rat)" by (simp only: of_int_le_iff)
    then have "((of_int ?k - 1) * of_nat c + 1) / of_nat c \<le> ?q" by (intro divide_right_mono) simp_all
    moreover have "((of_int ?k - 1) * of_nat c + 1) / of_nat c = (of_int ?k - 1 + 1 / of_nat c :: rat)"
      using assms(2) by (simp add: add_divide_distrib)
    ultimately have gap: "of_int ?k - 1 + 1 / of_nat c \<le> ?q" by simp
    have "?q \<le> 2 ^ 40" using \<open>?q \<le> of_nat n\<close> assms(1) by (meson less_imp_le of_nat_less_numeral_power_cancel_iff order_trans)
    then have "?q / 2 ^ 53 \<le> 1 / 2 ^ 13" by simp
    also have "\<dots> < 1 / 2 ^ 10" by simp
    also have "\<dots> \<le> (1 / of_nat c :: rat)" using assms(2,3) by (simp add: field_simps)
    finally have "?q / 2 ^ 53 < 1 / of_nat c" .
    with gap fl_rel_error[OF q] show ?thesis by linarith
  qed
  show ?thesis using up lo by (intro ceiling_unique) simp_all
qed
section \<open>Splitting a long message\<close>

lemma setConfig_given:
  assumes "has_key kwargs k"
  shows "map_of (p_params (setConfigParamsInPDU env f p kwargs)) k = map_of (p_params p) k"
proof -
  have "map_of (foldl (\<lambda>ps k. if has_key kwargs k then ps
            else dset ps k (case map_of (of_config f) k of Some v \<Rightarrow> v | None \<Rightarrow> PNone)) ps ks) k = map_of ps k" for ps ks
    using assms by (induction ks arbitrary: ps) auto
  then show ?thesis by (simp add: setConfigParamsInPDU_def)
qed

lemma claim_range:
  "claimLongMsgRefNum f = (r, f') \<Longrightarrow> 0 \<le> of_last_ref f \<Longrightarrow> 1 \<le> r \<and> r \<le> 255 \<and> of_last_ref f' = r"
  by (auto simp: claimLongMsgRefNum_def Let_def split: if_splits)

text \<open>What a receiver reads from a part: reference number, number of parts, position and content.\<close>

definition part_view :: "string \<Rightarrow> pdu \<Rightarrow> (int \<times> int \<times> int \<times> string) option" where
  "part_view split p =
     (let ps = p_params p
      in if split = ''sar'' then
           (case (map_of ps ''sar_msg_ref_num'', map_of ps ''sar_total_segments'', map_of ps ''sar_segment_seqnum'',
                  map_of ps ''short_message'') of
              (Some (PInt r), Some (PInt t), Some (PInt s), Some (PBytes c)) \<Rightarrow> Some (r, t, s, c)
            | _ \<Rightarrow> None)
         else
           (case map_of ps ''short_message'' of
              Some (PBytes (a # b # d # r # t # s # c)) \<Rightarrow>
                if [a, b, d] = [CHR 0x05, CHR 0x00, CHR 0x03] then Some (int (cval r), int (cval t), int (cval s), c)
                else None
            | _ \<Rightarrow> None))"

lemma pack1: "0 \<le> n \<Longrightarrow> n < 256 \<Longrightarrow> pack_uint 1 n = Inr [char_of (nat n)] \<and> int (cval (char_of (nat n))) = n"
  by (simp add: pack_uint_def cval_char_of nat_less_iff)

lemma slice_chunk: "drop (c * i) (take (c + c * i) m) = take c (drop (c * i) m)"
  by (simp add: take_drop add.commute)

lemma submit_part_view:
  assumes "of_split f = ''sar'' \<or> of_split f = ''udh''" "1 \<le> ref" "ref \<le> 255" "segs \<le> 255" "int i < segs"
  shows "\<exists>p. submit_part env f kwargs (PBytes m) chunk segs ref i = Inr p \<and>
    part_view (of_split f) p = Some (ref, segs, int i + 1, take chunk (drop (chunk * i) m))"
proof -
  let ?kw = "dset kwargs ''short_message'' (PBytes (take chunk (drop (chunk * i) m)))"
  have sm: "map_of (p_params (setConfigParamsInPDU env f (mk_pdu ''submit_sm'' ?kw) ?kw)) ''short_message'' =
      Some (PBytes (take chunk (drop (chunk * i) m)))"
    by (subst setConfig_given) (simp_all add: mk_pdu_def)
  have p: "pack_uint 1 ref = Inr [char_of (nat ref)]" "int (cval (char_of (nat ref))) = ref"
    "pack_uint 1 segs = Inr [char_of (nat segs)]" "int (cval (char_of (nat segs))) = segs"
    "pack_uint 1 (int i + 1) = Inr [char_of (nat (int i + 1))]" "int (cval (char_of (nat (int i + 1)))) = int i + 1"
    using pack1[of ref] pack1[of segs] pack1[of "int i + 1"] assms by auto
  show ?thesis
    using assms(1)
  proof
    assume "of_split f = ''sar''"
    with sm show ?thesis by (simp add: submit_part_def Let_def part_view_def slice_chunk)
  next
    assume u: "of_split f = ''udh''"
    have "udh_header ref segs (int i + 1) =
      Inr [CHR 0x05, CHR 0x00, CHR 0x03, char_of (nat ref), char_of (nat segs), char_of (nat (int i + 1))]"
      by (simp add: udh_header_def p[unfolded One_nat_def])
    with u show ?thesis by (simp add: submit_part_def Let_def part_view_def slice_chunk p(2,4,6))
  qed
qed

lemma concat_chunks: "concat (map (\<lambda>i. take c (drop (c * i) m)) [0..<n]) = take (c * n) m"
  by (induction n) (simp_all add: take_add[symmetric] add.commute)

definition chunk_size :: "pyval \<Rightarrow> nat" where
  "chunk_size dc = (case coding_limits dc of (bits, _, sliced) \<Rightarrow> if bits = 16 then sliced * 2 else sliced)"

definition single_size :: "pyval \<Rightarrow> nat" where
  "single_size dc = (case coding_limits dc of (bits, max_len, _) \<Rightarrow> if bits = 16 then max_len * 2 else max_len)"

lemma coding_limits_cases:
  "coding_limits dc \<in> {(8, 140, 134), (16, 70, 67), (7, 160, 153)}"
  by (simp add: coding_limits_def)

lemma sm_length_exact: "n < 2 ^ 53 \<Longrightarrow> sm_length bits n = (if bits = 16 then of_nat n / 2 else of_nat n)"
  by (simp add: sm_length_def fl_half)

lemma segments_exact:
  assumes "n < 2 ^ 40" "coding_limits dc = (bits, max_len, sliced)"
  shows "segments f bits sliced n = min (of_max_parts f) \<lceil>of_nat n / of_nat (chunk_size dc) :: rat\<rceil>"
proof -
  have c: "chunk_size dc \<in> {134, 153}" "sliced \<noteq> 0"
    using coding_limits_cases[of dc] assms(2) by (auto simp: chunk_size_def)
  have "sm_length bits n / of_nat sliced = of_nat n / of_nat (chunk_size dc)"
    using sm_length_exact[of n bits] assms by (simp add: chunk_size_def)
  moreover have "\<lceil>fl (of_nat n / of_nat (chunk_size dc))\<rceil> = \<lceil>of_nat n / of_nat (chunk_size dc) :: rat\<rceil>"
    by (rule ceiling_fl_div[OF assms(1)]) (use c in auto)
  ultimately show ?thesis by (simp add: segments_def Let_def min_def)
qed

lemma long_iff:
  assumes "n < 2 ^ 40" "coding_limits dc = (bits, max_len, sliced)"
  shows "sm_length bits n > of_nat max_len \<longleftrightarrow> single_size dc < n"
proof -
  have "of_nat max_len < (of_nat n / 2 :: rat) \<longleftrightarrow> max_len * 2 < n"
  proof -
    have "of_nat max_len < (of_nat n / 2 :: rat) \<longleftrightarrow> of_nat (max_len * 2) < (of_nat n :: rat)" by (simp add: less_divide_eq)
    then show ?thesis by (simp only: of_nat_less_iff)
  qed
  then show ?thesis
    using sm_length_exact[of n bits] assms by (simp add: single_size_def)
qed
definition split_ok :: "op_factory \<Rightarrow> bool" where
  "split_ok f \<longleftrightarrow> (of_split f = ''sar'' \<or> of_split f = ''udh'') \<and> 1 \<le> of_max_parts f \<and> of_max_parts f \<le> 255 \<and>
     0 \<le> of_last_ref f"

lemma SubmitSM_long:
  assumes "split_ok f" "length m < 2 ^ 40" "single_size dc < length m"
    "n = min (of_max_parts f) \<lceil>of_nat (length m) / of_nat (chunk_size dc) :: rat\<rceil>"
    "claimLongMsgRefNum f = (ref, f')"
  shows "\<exists>ps. SubmitSM env f (PBytes m) dc kw = (Inr ps, f') \<and>
    list_all2 (\<lambda>i p. part_view (of_split f) p =
        Some (ref, n, int i + 1, take (chunk_size dc) (drop (chunk_size dc * i) m))) [0..<nat n] ps"
proof -
  obtain bits max_len sliced where l: "coding_limits dc = (bits, max_len, sliced)" by (metis prod_cases3)
  have seg: "segments f bits sliced (length m) = n" using segments_exact[OF assms(2) l] assms(4) by simp
  have long: "sm_length bits (length m) > of_nat max_len" using long_iff[OF assms(2) l] assms(3) by simp
  have ch: "chunk_size dc = (if bits = 16 then sliced * 2 else sliced)" by (simp add: chunk_size_def l)
  have "chunk_size dc \<noteq> 0" using coding_limits_cases[of dc] by (auto simp: chunk_size_def)
  then have "0 < (of_nat (length m) / of_nat (chunk_size dc) :: rat)"
    using assms(3) by (intro divide_pos_pos) (auto simp: of_nat_0_less_iff)
  then have "0 < \<lceil>of_nat (length m) / of_nat (chunk_size dc) :: rat\<rceil>" by simp
  then have n: "0 < n" "n \<le> 255" unfolding assms(4) using assms(1) by (simp_all add: split_ok_def min_le_iff_disj)
  note r = claim_range[OF assms(5)]
  let ?kw = "dset (dset kw ''short_message'' (PBytes m)) ''data_coding'' dc"
  let ?g = "submit_part env f ?kw (PBytes m) (chunk_size dc) n ref"
  have "\<forall>i \<in> set [0..<nat n]. \<exists>p. ?g i = Inr p \<and>
      part_view (of_split f) p = Some (ref, n, int i + 1, take (chunk_size dc) (drop (chunk_size dc * i) m))"
    using assms(1) n r by (intro ballI submit_part_view) (auto simp: split_ok_def)
  then obtain g where g: "\<forall>i \<in> set [0..<nat n]. ?g i = Inr (g i) \<and>
      part_view (of_split f) (g i) = Some (ref, n, int i + 1, take (chunk_size dc) (drop (chunk_size dc * i) m))"
    by metis
  have "map_res ?g [0..<nat n] = Inr (map g [0..<nat n])" by (rule map_res_Inr_map) (use g in blast)
  then have "SubmitSM env f (PBytes m) dc kw = (Inr (map g [0..<nat n]), f')"
    using l long seg assms(5) n ch by (simp add: SubmitSM_def Let_def)
  moreover have "list_all2 (\<lambda>i p. part_view (of_split f) p =
        Some (ref, n, int i + 1, take (chunk_size dc) (drop (chunk_size dc * i) m))) [0..<nat n] (map g [0..<nat n])"
    using g by (auto simp: list_all2_conv_all_nth)
  ultimately show ?thesis by blast
qed

lemma views_of_all2:
  assumes "list_all2 (\<lambda>i p. v p = Some (r, t, int i + 1, c i)) [0..<n] ps"
  shows "map v ps = map (\<lambda>i. Some (r, t, int i + 1, c i)) [0..<n]"
  using assms by (auto simp: list_all2_conv_all_nth intro!: nth_equalityI)

text \<open>
  Claim C34.  A message that does not fit into one short message is cut without loss or overlap: the parts
  carry one reference number between 1 and 255, the number of parts and their positions from 1 on, as
  a receiver reads them from the SAR options or the user data header; each part is within the size
  for the data coding; and the contents in order are the message, or its beginning when the
  configured number of parts is too small for it.  The floating-point computation of the number of
  parts is exact for messages below \<open>2 ^ 40\<close> bytes.
\<close>

theorem SubmitSM_split:
  assumes "split_ok f" "length m < 2 ^ 40" "single_size dc < length m"
  shows "\<exists>ps f' ref n cs. SubmitSM env f (PBytes m) dc kw = (Inr ps, f') \<and> 1 \<le> ref \<and> ref \<le> 255 \<and>
    length ps = n \<and> length cs = n \<and>
    map (part_view (of_split f)) ps = map (\<lambda>i. Some (ref, int n, int i + 1, cs ! i)) [0..<n] \<and>
    list_all (\<lambda>c. length c \<le> chunk_size dc) cs \<and>
    concat cs = take (n * chunk_size dc) m \<and>
    (length m \<le> nat (of_max_parts f) * chunk_size dc \<longrightarrow> concat cs = m)"
proof -
  let ?c = "chunk_size dc"
  define n where "n = min (of_max_parts f) \<lceil>of_nat (length m) / of_nat ?c :: rat\<rceil>"
  obtain ref f' where claim: "claimLongMsgRefNum f = (ref, f')" by fastforce
  obtain ps where ps: "SubmitSM env f (PBytes m) dc kw = (Inr ps, f')"
    and v: "list_all2 (\<lambda>i p. part_view (of_split f) p = Some (ref, n, int i + 1, take ?c (drop (?c * i) m))) [0..<nat n] ps"
    using SubmitSM_long[OF assms n_def claim] by blast
  have c0: "?c \<noteq> 0" using coding_limits_cases[of dc] by (auto simp: chunk_size_def)
  let ?cs = "map (\<lambda>i. take ?c (drop (?c * i) m)) [0..<nat n]"
  have "- 1 < (of_nat (length m) / of_nat ?c :: rat)" by (rule less_le_trans[of _ 0]) simp_all
  then have n0: "0 \<le> n" using assms(1) by (simp add: n_def split_ok_def)
  have full: "length m \<le> nat n * ?c" if "length m \<le> nat (of_max_parts f) * ?c"
  proof (cases "n = of_max_parts f")
    case False
    then have "n = \<lceil>of_nat (length m) / of_nat ?c :: rat\<rceil>" by (simp add: n_def min_def split: if_splits)
    then have "of_nat (length m) / of_nat ?c \<le> (of_int n :: rat)" by (simp add: le_of_int_ceiling)
    then have "of_int (int (length m)) \<le> (of_int (n * int ?c) :: rat)" using c0 by (simp add: divide_le_eq)
    then have "int (length m) \<le> n * int ?c" by (simp only: of_int_le_iff)
    also have "\<dots> = int (nat n * ?c)" using n0 by simp
    finally show ?thesis by (simp only: of_nat_le_iff)
  qed (use that in simp)
  have views: "map (part_view (of_split f)) ps = map (\<lambda>i. Some (ref, int (nat n), int i + 1, ?cs ! i)) [0..<nat n]"
    using views_of_all2[OF v] n0 by simp
  have cat: "concat ?cs = take (nat n * ?c) m" by (simp only: concat_chunks) (simp only: mult.commute)
  have "1 \<le> ref" "ref \<le> 255" using claim_range[OF claim] assms(1) by (auto simp: split_ok_def)
  moreover have "length ps = nat n" using list_all2_lengthD[OF v] by simp
  moreover have "list_all (\<lambda>c. length c \<le> ?c) ?cs" by (simp add: list_all_iff)
  ultimately show ?thesis
    using ps views cat full
    by (intro exI[of _ ps] exI[of _ f'] exI[of _ ref] exI[of _ "nat n"] exI[of _ ?cs]) simp
qed

definition sample_op_env :: op_env where
  "sample_op_env =
     \<lparr>oe_mandatory = [''source_addr'', ''data_coding'', ''short_message''],
      oe_members = (\<lambda>t. [''UNKNOWN'', ''NATIONAL'', ''INTERNATIONAL'', ''ISDN'']),
      oe_date = (\<lambda>s. Inr ''2401010000''), oe_now = ''2401010001'', oe_decode = Inr, oe_decode_ignore = (\<lambda>s. s),
      oe_str = (\<lambda>v. [])\<rparr>"

definition sample_factory :: op_factory where
  "sample_factory = \<lparr>of_config = [], of_max_parts = 5, of_split = ''udh'', of_last_ref = 255\<rparr>"

theorem SubmitSM_split_witness:
  "\<exists>ps cs. fst (SubmitSM sample_op_env sample_factory (PBytes (replicate 200 CHR ''a'')) (PInt 0) []) = Inr ps \<and>
     map (part_view ''udh'') ps = [Some (1, 2, 1, cs ! 0), Some (1, 2, 2, cs ! 1)] \<and>
     concat cs = replicate 200 CHR ''a''"
proof -
  let ?m = "replicate 200 CHR ''a''"
  have k: "single_size (PInt 0) = 160" "chunk_size (PInt 0) = 153" by code_simp+
  have f: "of_split sample_factory = ''udh''" "of_max_parts sample_factory = 5" by (simp_all add: sample_factory_def)
  have "split_ok sample_factory" "length ?m < 2 ^ 40" "single_size (PInt 0) < length ?m"
    unfolding k by (simp_all add: split_ok_def sample_factory_def)
  from SubmitSM_split[OF this, of sample_op_env "[]"] obtain ps f' ref n cs where
    r: "SubmitSM sample_op_env sample_factory (PBytes ?m) (PInt 0) [] = (Inr ps, f')"
      "map (part_view ''udh'') ps = map (\<lambda>i. Some (ref, int n, int i + 1, cs ! i)) [0..<n]" "concat cs = ?m"
    unfolding f k by auto
  have "map_option (map (\<lambda>p. map_option (\<lambda>(r, t, _). (r, t)) (part_view ''udh'' p)))
      (case fst (SubmitSM sample_op_env sample_factory (PBytes ?m) (PInt 0) []) of Inr ps \<Rightarrow> Some ps | _ \<Rightarrow> None) =
    Some [Some (1, 2), Some (1, 2)]"
    by code_simp
  then have "map (map_option (\<lambda>(r, t, _). (r, t))) (map (part_view ''udh'') ps) = [Some (1, 2), Some (1, 2)]"
    by (simp add: r(1) comp_def)
  then have "map (\<lambda>i. Some (ref, int n)) [0..<n] = [Some (1, 2), Some (1, 2)]" unfolding r(2) by (simp add: comp_def)
  then have "n = 2" "ref = 1" by (auto dest: arg_cong[of _ _ length])
  with r show ?thesis by (intro exI[of _ ps] exI[of _ cs]) (simp add: upt_rec numeral_2_eq_2)
qed
section \<open>Reading back a receipt\<close>

lemma read_field_keeps:
  "map_of ret k = Some v \<Longrightarrow> k = ''id'' \<or> k = ''stat'' \<Longrightarrow> map_of (read_field text ret kp) k = Some v"
  by (auto simp: read_field_def has_key_def split: option.splits)

lemma read_fields_keep:
  "map_of ret k = Some v \<Longrightarrow> k = ''id'' \<or> k = ''stat'' \<Longrightarrow> map_of (foldl (read_field text) ret kps) k = Some v"
  by (induction kps arbitrary: ret) (simp_all add: read_field_keeps)

lemma pad_field_other: "k \<noteq> j \<Longrightarrow> map_of (pad_field ret j) k = map_of ret k"
  by (auto simp: pad_field_def split: option.splits pyval.splits)

lemma pad_fields_keep:
  "k = ''id'' \<or> k = ''stat'' \<Longrightarrow> map_of (foldl pad_field ret [''sub'', ''dlvrd'', ''err'']) k = map_of ret k"
  by (auto simp: pad_field_other)

lemma receipt_content_keeps:
  assumes "receipt_content env p ret = Inr ret'" "k = ''id'' \<or> k = ''stat''" "map_of ret k = Some v"
  shows "map_of ret' k = Some v"
  using assms(1,3) read_fields_keep[OF assms(3,2)]
  by (auto simp: receipt_content_def split: option.splits pyval.splits)

lemma receipt_finish_keeps:
  assumes "map_of ret ''id'' = Some i" "map_of ret ''stat'' = Some s"
  shows "\<exists>d. receipt_finish ret = Some d \<and> map_of d ''id'' = Some i \<and> map_of d ''stat'' = Some s"
  using assms pad_fields_keep[of "''id''" ret] pad_fields_keep[of "''stat''" ret]
  by (simp add: receipt_finish_def Let_def has_key_def)

lemma receipt_state_stat:
  assumes "receipt_state st = Inr (m, stat)"
  shows "receipt_stat (PEnum ''MessageState'' m) = (if st = ''ENROUTE'' then ''UNKNOWN'' else stat)"
proof (cases "take 5 st = ''ESME_''")
  case True
  have e: "receipt_stat (PEnum ''MessageState'' ''ACCEPTED'') = ''ACCEPTD''"
    "receipt_stat (PEnum ''MessageState'' ''UNDELIVERABLE'') = ''UNDELIV''" by code_simp+
  have "st \<noteq> ''ENROUTE''" using True by auto
  with True assms e show ?thesis by (auto simp: receipt_state_def split: if_splits)
next
  case False
  have all: "list_all (\<lambda>(k, m). receipt_stat (PEnum ''MessageState'' m) = (if k = ''ENROUTE'' then ''UNKNOWN'' else k))
      status_states" by code_simp
  from False assms have m: "map_of status_states st = Some m" "stat = st"
    by (simp_all add: receipt_state_def split: option.splits)
  with map_of_SomeD[OF m(1)] all show ?thesis by (simp add: list_all_iff split: prod.splits)
qed

lemma isDeliveryReceipt_state:
  assumes "p_command p = ''deliver_sm'' \<or> p_command p = ''data_sm''"
    "map_of (p_params p) ''receipted_message_id'' = Some i"
    "map_of (p_params p) ''message_state'' = Some st"
    "\<forall>v. map_of (p_params p) ''short_message'' = Some v \<longrightarrow> is_str v \<or> is_bytes v"
  shows "\<exists>d. isDeliveryReceipt env p = Inr (Some d) \<and> map_of d ''id'' = Some i \<and>
    map_of d ''stat'' = Some (PStr (receipt_stat st))"
proof -
  have r: "map_of (receipt_start p) ''id'' = Some i" "map_of (receipt_start p) ''stat'' = Some (PStr (receipt_stat st))"
    by (simp_all add: receipt_start_def assms(2,3) Let_def)
  have "\<exists>ret. receipt_content env p (receipt_start p) = Inr ret"
    using assms(4) by (auto simp: receipt_content_def split: option.splits pyval.splits)
  then obtain ret where ret: "receipt_content env p (receipt_start p) = Inr ret" by blast
  from receipt_finish_keeps[of ret i "PStr (receipt_stat st)"] receipt_content_keeps[OF ret _ r(1)]
    receipt_content_keeps[OF ret _ r(2)] ret assms(1)
  show ?thesis by (auto simp: isDeliveryReceipt_def)
qed

text \<open>
  Claim C35.  A receipt that the gateway builds is recognised as a receipt by its own parser, with the
  message id and the status it was built for: an \<^verbatim>\<open>ESME_\<close> error reads as \<^verbatim>\<open>UNDELIV\<close>, \<^verbatim>\<open>ESME_ROK\<close> as
  \<^verbatim>\<open>ACCEPTD\<close>, every other known status as itself, except \<^verbatim>\<open>ENROUTE\<close>, which the parser reports as
  \<^verbatim>\<open>UNKNOWN\<close>.  An unknown status is refused.
\<close>

theorem receipt_roundtrip:
  assumes "getReceipt env k (PStr mid) src dst (PStr st) err sd a b c d = Inr p"
  shows "\<exists>r m stat. receipt_state st = Inr (m, stat) \<and> isDeliveryReceipt env p = Inr (Some r) \<and>
    map_of r ''id'' = Some (PStr mid) \<and>
    map_of r ''stat'' = Some (PStr (if st = ''ENROUTE'' then ''UNKNOWN'' else stat))"
proof -
  obtain m stat where s: "receipt_state st = Inr (m, stat)"
    and p: "p_command p = ''deliver_sm'' \<or> p_command p = ''data_sm''"
      "map_of (p_params p) ''receipted_message_id'' = Some (PStr mid)"
      "map_of (p_params p) ''message_state'' = Some (PEnum ''MessageState'' m)"
      "\<forall>v. map_of (p_params p) ''short_message'' = Some v \<longrightarrow> is_str v \<or> is_bytes v"
    using assms unfolding getReceipt_def
    by (auto simp: text_of_def mk_pdu_def split: if_splits)
  from isDeliveryReceipt_state[OF p] obtain r where
    r: "isDeliveryReceipt env p = Inr (Some r)" "map_of r ''id'' = Some (PStr mid)"
      "map_of r ''stat'' = Some (PStr (receipt_stat (PEnum ''MessageState'' m)))" by blast
  have "receipt_stat (PEnum ''MessageState'' m) = (if st = ''ENROUTE'' then ''UNKNOWN'' else stat)"
    by (rule receipt_state_stat[OF s])
  with r s show ?thesis by auto
qed

theorem receipt_roundtrip_witness:
  "\<exists>p r. getReceipt sample_op_env ''deliver_sm'' (PStr ''42'') (PStr ''1'') (PStr ''2'') (PStr ''ESME_RTHROTTLED'')
       (PStr ''99'') ''x'' (PStr ''AddrTon.NATIONAL'') (PStr ''ISDN'') (PStr ''UNKNOWN'') (PStr ''UNKNOWN'') = Inr p \<and>
     map_of (p_params p) ''short_message'' =
       Some (PStr ''id:42 submit date:2401010000 done date:2401010001 stat:UNDELIV err:99'') \<and>
     isDeliveryReceipt sample_op_env p = Inr (Some r) \<and> map_of r ''stat'' = Some (PStr ''UNDELIV'') \<and>
     map_of r ''err'' = Some (PStr ''099'')"
proof -
  let ?g = "getReceipt sample_op_env ''deliver_sm'' (PStr ''42'') (PStr ''1'') (PStr ''2'') (PStr ''ESME_RTHROTTLED'')
       (PStr ''99'') ''x'' (PStr ''AddrTon.NATIONAL'') (PStr ''ISDN'') (PStr ''UNKNOWN'') (PStr ''UNKNOWN'')"
  define p where "p = (case ?g of Inr p \<Rightarrow> p | Inl _ \<Rightarrow> mk_pdu [] [])"
  have g: "?g = Inr p" unfolding p_def by code_simp
  have t: "map_of (p_params p) ''short_message'' =
       Some (PStr ''id:42 submit date:2401010000 done date:2401010001 stat:UNDELIV err:99'')"
    unfolding p_def by code_simp
  have e: "(case isDeliveryReceipt sample_op_env p of Inr (Some r) \<Rightarrow> map_of r ''err'' | _ \<Rightarrow> None) = Some (PStr ''099'')"
    unfolding p_def by code_simp
  from receipt_roundtrip[OF g] obtain r where
    "isDeliveryReceipt sample_op_env p = Inr (Some r)" "map_of r ''stat'' = Some (PStr ''UNDELIV'')"
    by (auto simp: receipt_state_def)
  with g t e show ?thesis by auto
qed

end
