(* ===== verification/Messaging.thy ===== *)
theory Messaging
  imports Operations
begin

text \<open>
  Messages between the components (\<^verbatim>\<open>jasmin/managers/content.py\<close>, \<^verbatim>\<open>jasmin/routing/content.py\<close>), and the
  shape of the code that handles them: an \<open>action\<close> is a computation that changes a state and may
  raise, keeping what it had changed before.

  The AMQP broker is not part of the model: what a component publishes and how it settles a message is
  recorded as a list of effects in the order they are issued.  Pickling a value gives the value back.
\<close>

named_theorems act_defs \<open>definitions of the combinators for actions\<close>

section \<open>Actions\<close>

type_synonym ('s, 'a) action = "'s \<Rightarrow> 'a res \<times> 's"

definition act_bind :: "('s, 'a) action \<Rightarrow> ('a \<Rightarrow> ('s, 'b) action) \<Rightarrow> ('s, 'b) action" where
  [act_defs]: "act_bind m f s = (case m s of (Inl e, s') \<Rightarrow> (Inl e, s') | (Inr x, s') \<Rightarrow> f x s')"

definition act_res :: "'a res \<Rightarrow> ('s, 'a) action" where
  [act_defs]: "act_res r s = (r, s)"

definition act_do :: "('s \<Rightarrow> 's) \<Rightarrow> ('s, unit) action" where
  [act_defs]: "act_do f s = (Inr (), f s)"

definition act_when :: "bool \<Rightarrow> ('s, unit) action \<Rightarrow> ('s, unit) action" where
  [act_defs]: "act_when c m s = (if c then m s else (Inr (), s))"

definition act_seq :: "('s, unit) action \<Rightarrow> ('s, 'b) action \<Rightarrow> ('s, 'b) action" where
  [act_defs]: "act_seq m n = act_bind m (\<lambda>_. n)"

text \<open>A property of states that every step of an action keeps.\<close>

definition act_inv :: "('s \<Rightarrow> 's \<Rightarrow> bool) \<Rightarrow> ('s, 'a) action \<Rightarrow> bool" where
  "act_inv R m \<longleftrightarrow> (\<forall>s. R s (snd (m s)))"

lemma act_inv_bind:
  assumes "transp R" "act_inv R m" "\<And>x. act_inv R (f x)" shows "act_inv R (act_bind m f)"
  unfolding act_inv_def
proof
  fix s
  obtain r s' where m: "m s = (r, s')" by fastforce
  then have "R s s'" using assms(2) by (metis act_inv_def snd_conv)
  then show "R s (snd (act_bind m f s))"
    using m assms(3) transpD[OF assms(1)] by (cases r) (auto simp: act_bind_def act_inv_def)
qed

lemma act_inv_res: "reflp R \<Longrightarrow> act_inv R (act_res r)"
  by (simp add: act_inv_def act_res_def reflp_def)

lemma act_inv_do: "(\<And>s. R s (f s)) \<Longrightarrow> act_inv R (act_do f)"
  by (simp add: act_inv_def act_do_def)

lemma act_inv_when: "reflp R \<Longrightarrow> (c \<Longrightarrow> act_inv R m) \<Longrightarrow> act_inv R (act_when c m)"
  by (simp add: act_inv_def act_when_def reflp_def)

lemma act_inv_seq: "transp R \<Longrightarrow> act_inv R m \<Longrightarrow> act_inv R n \<Longrightarrow> act_inv R (act_seq m n)"
  by (simp add: act_seq_def act_inv_bind)

lemma act_simps [simp]:
  "act_bind (act_res (Inr x)) f = f x"
  "act_bind (act_res (Inl e)) f = act_res (Inl e)"
  "act_when False m = act_res (Inr ())"
  "act_when True m = m"
  "act_seq (act_res (Inr u)) n = n"
  by (simp_all add: act_defs fun_eq_iff)

section \<open>Contents\<close>

datatype body = BText string | BPdus "pdu list"

record content =
  c_body :: body
  c_msgid :: string
  c_headers :: "(string, pyval) dict"
  c_priority :: "int option"
  c_replyto :: "string option"
  c_bill :: "bill option"
  c_dcs :: "connector list"

definition mk_content :: "body \<Rightarrow> string \<Rightarrow> (string, pyval) dict \<Rightarrow> content" where
  "mk_content b i hs =
     \<lparr>c_body = b, c_msgid = i, c_headers = hs, c_priority = None, c_replyto = None, c_bill = None, c_dcs = []\<rparr>"

record amqp_msg =
  m_tag :: nat
  m_routing_key :: string
  m_content :: content

abbreviation m_msgid :: "amqp_msg \<Rightarrow> string" where
  "m_msgid m \<equiv> c_msgid (m_content m)"

datatype effect = EPublish string content | EAck nat | EReject nat bool

text \<open>\<^verbatim>\<open>str(v)\<close> where \<open>v\<close> may be a member of an enumeration.\<close>

definition enum_str :: "op_env \<Rightarrow> pyval \<Rightarrow> string" where
  "enum_str env v =
     (case v of PEnum t n \<Rightarrow> t @ ''.'' @ n | PStr s \<Rightarrow> s | PInt i \<Rightarrow> str_int i | _ \<Rightarrow> oe_str env v)"

text \<open>A delivery receipt on its way to the lookup.  \<open>smpp_msgid\<close> is the id given by the SMSC.\<close>

definition mk_DLR ::
  "op_env \<Rightarrow> string \<Rightarrow> string \<Rightarrow> pyval \<Rightarrow> string option \<Rightarrow> string option \<Rightarrow> (string, pyval) dict option \<Rightarrow>
   content res" where
  "mk_DLR env pdu_type msgid status smpp_msgid cid details =
     (let incoming = (pdu_type = ''deliver_sm'' \<or> pdu_type = ''data_sm'');
          resp = (pdu_type = ''submit_sm_resp'')
      in raise_if (\<not> incoming \<and> \<not> resp) InvalidParameterError
        (raise_if (resp \<and> status = PEnum ''CommandStatus'' ''ESME_ROK'' \<and> smpp_msgid = None) InvalidParameterError
        (raise_if (incoming \<and> (cid = None \<or> details = None)) InvalidParameterError
        (res_bind
          (if resp \<and> smpp_msgid \<noteq> None
           then res_bind (oe_decode env (the smpp_msgid)) (\<lambda>s. Inr [(''smpp_msgid'', PStr (lstrip0 (upper s)))])
           else if incoming
           then res_bind (map_res (\<lambda>(k, v). case v of
                            PBytes b \<Rightarrow> res_bind (oe_decode env b) (\<lambda>s. Inr (''dlr_'' @ k, PStr s))
                          | _ \<Rightarrow> Inr (''dlr_'' @ k, v)) (the details))
                  (\<lambda>hs. Inr ((''cid'', PStr (the cid)) # hs))
           else Inr [])
          (\<lambda>hs. Inr (mk_content
            (BText (case status of PEnum _ n \<Rightarrow> n | PStr s \<Rightarrow> s | PBytes s \<Rightarrow> s | _ \<Rightarrow> oe_str env status))
            msgid ((''type'', PStr pdu_type) # hs)))))))"

definition receipt_statuses :: "string list" where
  "receipt_statuses =
     [''DELIVRD'', ''EXPIRED'', ''DELETED'', ''UNDELIV'', ''ACCEPTD'', ''UNKNOWN'', ''REJECTD'']"

definition status_valid :: "string \<Rightarrow> bool" where
  "status_valid st \<longleftrightarrow> take 5 st = ''ESME_'' \<or> st \<in> set receipt_statuses"

definition mk_DLRContentForHttpapi ::
  "string \<Rightarrow> string \<Rightarrow> pyval \<Rightarrow> pyval \<Rightarrow> pyval \<Rightarrow> (string, pyval) dict \<Rightarrow> pyval \<Rightarrow> content res" where
  "mk_DLRContentForHttpapi st msgid url level connector details method =
     raise_if (\<not> status_valid st) InvalidParameterError
      (raise_if (\<not> num_in level [1, 2, 3]) InvalidParameterError
        (raise_if (method \<noteq> PStr ''POST'' \<and> method \<noteq> PStr ''GET'') InvalidParameterError
          (Inr (mk_content (BText msgid) msgid
            ([(''try-count'', PInt 0), (''url'', url), (''method'', method), (''message_status'', PStr st), (''level'', level)] @
             map (\<lambda>k. (k, case map_of details k of Some v \<Rightarrow> v | None \<Rightarrow> PStr []))
               [''id_smsc'', ''sub'', ''dlvrd'', ''subdate'', ''donedate'', ''err''] @
             [(''connector'', connector), (''text'', case map_of details ''text'' of Some v \<Rightarrow> v | None \<Rightarrow> PStr [])])))))"

definition mk_DLRContentForSmpps ::
  "op_env \<Rightarrow> string \<Rightarrow> string \<Rightarrow> pyval \<Rightarrow> pyval \<Rightarrow> pyval \<Rightarrow> pyval \<Rightarrow> pyval \<Rightarrow> pyval \<Rightarrow> pyval \<Rightarrow> pyval \<Rightarrow> pyval \<Rightarrow>
   content res" where
  "mk_DLRContentForSmpps env st msgid system_id source destination sub_date s_ton s_npi d_ton d_npi err =
     raise_if (\<not> status_valid st) InvalidParameterError
      (Inr (mk_content (BText msgid) msgid
        [(''try-count'', PInt 0), (''message_status'', PStr st), (''err'', err), (''system_id'', system_id),
         (''source_addr'', source), (''destination_addr'', destination), (''sub_date'', PStr (enum_str env sub_date)),
         (''source_addr_ton'', PStr (enum_str env s_ton)), (''source_addr_npi'', PStr (enum_str env s_npi)),
         (''dest_addr_ton'', PStr (enum_str env d_ton)), (''dest_addr_npi'', PStr (enum_str env d_npi))]))"

text \<open>The id of a message comes from \<^verbatim>\<open>randomUniqueId\<close>, its creation date from the clock.\<close>

definition mk_SubmitSmContent ::
  "string \<Rightarrow> string \<Rightarrow> pdu list \<Rightarrow> string \<Rightarrow> bill option \<Rightarrow> pyval \<Rightarrow> pyval \<Rightarrow> string option \<Rightarrow> string \<Rightarrow> content res" where
  "mk_SubmitSmContent new_id now body replyto bill priority expiration msgid source_connector =
     raise_if (\<not> is_int priority) InvalidParameterError
      (raise_if (int_of priority < 0) InvalidParameterError
        (raise_if (source_connector \<noteq> ''httpapi'' \<and> source_connector \<noteq> ''smppsapi'') InvalidParameterError
          (Inr \<lparr>c_body = BPdus body, c_msgid = (case msgid of None \<Rightarrow> new_id | Some i \<Rightarrow> i),
                c_headers = [(''source_connector'', PStr source_connector)] @
                  (if expiration = PNone then [] else [(''expiration'', expiration)]) @ [(''created_at'', PStr now)],
                c_priority = Some (int_of priority), c_replyto = Some replyto, c_bill = bill, c_dcs = []\<rparr>)))"

definition mk_SubmitSmRespContent :: "string \<Rightarrow> pdu \<Rightarrow> string \<Rightarrow> content" where
  "mk_SubmitSmRespContent now p msgid = mk_content (BPdus [p]) msgid [(''created_at'', PStr now)]"

definition mk_DeliverSmContent :: "string \<Rightarrow> string \<Rightarrow> pdu \<Rightarrow> string \<Rightarrow> bool \<Rightarrow> bool \<Rightarrow> content" where
  "mk_DeliverSmContent new_id now p cid concatenated will_be_concatenated =
     mk_content (BPdus [p]) new_id
       [(''try-count'', PInt 0), (''connector-id'', PStr cid), (''concatenated'', PBool concatenated),
        (''will_be_concatenated'', PBool will_be_concatenated), (''created_at'', PStr now)]"

text \<open>The amount of a bill travels as text, which is read back as the same number.\<close>

definition mk_SubmitSmRespBillContent :: "string \<Rightarrow> string \<Rightarrow> pyval \<Rightarrow> content res" where
  "mk_SubmitSmRespBillContent bid uid amount =
     raise_if (\<not> is_number amount) InvalidParameterError
      (raise_if (num amount < 0) InvalidParameterError
        (Inr (mk_content (BText bid) bid [(''user-id'', PStr uid), (''amount'', amount)])))"

definition mk_RoutedDeliverSmContent ::
  "pdu \<Rightarrow> string \<Rightarrow> string \<Rightarrow> connector list \<Rightarrow> string \<Rightarrow> int \<Rightarrow> content" where
  "mk_RoutedDeliverSmContent p msgid scid dcs route_type trycount =
     (mk_content (BPdus [p]) msgid
       [(''route-type'', PStr route_type), (''src-connector-id'', PStr scid), (''try-count'', PInt trycount)])
     \<lparr>c_dcs := dcs\<rparr>"

section \<open>Lemmas\<close>

lemma mk_DLR_smpp_msgid:
  assumes "mk_DLR env ''submit_sm_resp'' msgid st (Some b) cid d = Inr c" "oe_decode env b = Inr s"
  shows "c_msgid c = msgid \<and> map_of (c_headers c) ''smpp_msgid'' = Some (PStr (lstrip0 (upper s)))"
  using assms by (auto simp: mk_DLR_def mk_content_def Let_def)

section \<open>Redelivery\<close>

text \<open>Successive deliveries of a message by the broker to a consumer: each is processed, and its requeue timer fires
  when one was started.  What the outside world answers may differ each time.\<close>

fun redeliver ::
  "('o \<Rightarrow> amqp_msg \<Rightarrow> 's \<Rightarrow> 's) \<Rightarrow> (string \<Rightarrow> 's \<Rightarrow> 's) \<Rightarrow> (nat \<Rightarrow> 'o) \<Rightarrow> (nat \<Rightarrow> amqp_msg) \<Rightarrow> string \<Rightarrow> nat \<Rightarrow> 's \<Rightarrow> 's" where
  "redeliver consume fire world ms msgid 0 st = st"
| "redeliver consume fire world ms msgid (Suc k) st =
     fire msgid (consume (world k) (ms k) (redeliver consume fire world ms msgid k st))"

definition final_effect :: "amqp_msg \<Rightarrow> effect \<Rightarrow> bool" where
  "final_effect m e \<longleftrightarrow> e = EAck (m_tag m) \<or> e = EReject (m_tag m) False"

text \<open>The contract of a consumer with bounded retries: \<open>tries\<close> counts the deliveries of a message so far, and a
  consumer that is ready for a message either settles it and forgets it, or requeues it, counts the
  delivery and has fewer than \<open>bound\<close> of them.\<close>

locale retrying_consumer =
  fixes consume :: "'o \<Rightarrow> amqp_msg \<Rightarrow> 's \<Rightarrow> 's"
    and fire :: "string \<Rightarrow> 's \<Rightarrow> 's"
    and out :: "'s \<Rightarrow> effect list"
    and tries :: "string \<Rightarrow> 's \<Rightarrow> nat"
    and ready :: "string \<Rightarrow> 's \<Rightarrow> bool"
    and good :: "amqp_msg \<Rightarrow> bool"
    and bound :: nat
  assumes bound_pos: "0 < bound"
    and delivery: "ready (m_msgid m) st \<Longrightarrow> good m \<Longrightarrow> st' = fire (m_msgid m) (consume w m st) \<Longrightarrow>
      ready (m_msgid m) st' \<and>
      (final_effect m (last (out st')) \<and> tries (m_msgid m) st' = 0 \<or>
       last (out st') = EReject (m_tag m) True \<and> tries (m_msgid m) st' = Suc (tries (m_msgid m) st) \<and>
       Suc (tries (m_msgid m) st) < bound)"
begin

lemma progress:
  assumes "ready msgid st" "tries msgid st = 0" "\<And>k. good (ms k)" "\<And>k. m_msgid (ms k) = msgid"
  shows "(\<exists>n < k. (let st' = redeliver consume fire w ms msgid (Suc n) st
             in final_effect (ms n) (last (out st')) \<and> ready msgid st' \<and> tries msgid st' = 0) \<and>
           (\<forall>i < n. last (out (redeliver consume fire w ms msgid (Suc i) st)) = EReject (m_tag (ms i)) True)) \<or>
    (ready msgid (redeliver consume fire w ms msgid k st) \<and> tries msgid (redeliver consume fire w ms msgid k st) = k \<and>
     (0 < k \<longrightarrow> k < bound) \<and>
     (\<forall>i < k. last (out (redeliver consume fire w ms msgid (Suc i) st)) = EReject (m_tag (ms i)) True))"
proof (induction k)
  case 0
  then show ?case using assms(1,2) by simp
next
  case (Suc k)
  then show ?case
  proof
    let ?s = "redeliver consume fire w ms msgid k st"
    assume t: "ready msgid ?s \<and> tries msgid ?s = k \<and> (0 < k \<longrightarrow> k < bound) \<and>
      (\<forall>i < k. last (out (redeliver consume fire w ms msgid (Suc i) st)) = EReject (m_tag (ms i)) True)"
    have "redeliver consume fire w ms msgid (Suc k) st = fire (m_msgid (ms k)) (consume (w k) (ms k) ?s)"
      by (simp add: assms(4))
    from delivery[OF _ assms(3) this] t show ?thesis
      by (auto simp: assms(4) Let_def less_Suc_eq simp del: redeliver.simps)
  qed (auto simp: Let_def less_Suc_eq simp del: redeliver.simps)
qed

lemma settles:
  assumes "ready msgid st" "tries msgid st = 0" "\<And>k. good (ms k)" "\<And>k. m_msgid (ms k) = msgid"
  shows "\<exists>n < bound. (let st' = redeliver consume fire w ms msgid (Suc n) st
             in final_effect (ms n) (last (out st')) \<and> ready msgid st' \<and> tries msgid st' = 0) \<and>
           (\<forall>i < n. last (out (redeliver consume fire w ms msgid (Suc i) st)) = EReject (m_tag (ms i)) True)"
  using progress[OF assms(1,2), of ms bound w, OF assms(3,4)] bound_pos by blast

end

end
