(* ===== verification/Dlr.thy ===== *)
theory Dlr
  imports Messaging
begin

text \<open>
  The lookup of delivery receipts (\<^verbatim>\<open>jasmin/managers/dlr.py\<close>): receipts are matched with the requests
  stored in Redis, published for the throwers, and settled; a lookup that fails is retried a bounded
  number of times by requeueing the message after a delay.

  The Redis client is not part of the program: its commands are the functions of a \<open>redis_ops\<close> over an
  arbitrary state \<open>'r\<close>.  A requeue timer is the message it will reject; timers in the table are
  pending, since firing or cancelling one removes it.
\<close>

section \<open>State\<close>

record 'r redis_ops =
  rd_hgetall :: "'r \<Rightarrow> string \<Rightarrow> (string, pyval) dict res"
  rd_hmset :: "'r \<Rightarrow> string \<Rightarrow> (string, pyval) dict \<Rightarrow> 'r res"
  rd_expire :: "'r \<Rightarrow> string \<Rightarrow> pyval \<Rightarrow> 'r res"
  rd_delete :: "'r \<Rightarrow> string \<Rightarrow> 'r res"

record dlr_config =
  dc_max_retries :: int
  dc_receipt_on_success :: bool

record 'r dlr_lookup =
  dl_redis :: "'r option"
  dl_connected :: bool
  dl_timers :: "(string, amqp_msg) dict"
  dl_retrials :: "(string, int) dict"
  dl_out :: "effect list"

definition DLRLookup :: "'r option \<Rightarrow> bool \<Rightarrow> 'r dlr_lookup" where
  "DLRLookup redis conn =
     \<lparr>dl_redis = redis, dl_connected = conn, dl_timers = [], dl_retrials = [], dl_out = []\<rparr>"

definition emit :: "effect \<Rightarrow> 'r dlr_lookup \<Rightarrow> 'r dlr_lookup" where
  "emit e st = st\<lparr>dl_out := dl_out st @ [e]\<rparr>"

section \<open>Settling a message\<close>

definition clearRequeueTimer :: "string \<Rightarrow> 'r dlr_lookup \<Rightarrow> 'r dlr_lookup" where
  "clearRequeueTimer msgid st = st\<lparr>dl_timers := ddel (dl_timers st) msgid\<rparr>"

definition clearRequeueTimers :: "'r dlr_lookup \<Rightarrow> 'r dlr_lookup" where
  "clearRequeueTimers st = st\<lparr>dl_timers := []\<rparr>"

definition rejectMessage :: "amqp_msg \<Rightarrow> bool \<Rightarrow> 'r dlr_lookup \<Rightarrow> 'r dlr_lookup" where
  "rejectMessage m requeue st =
     (let st1 = (if \<not> requeue then st\<lparr>dl_retrials := ddel (dl_retrials st) (m_msgid m)\<rparr> else st);
          st2 = clearRequeueTimer (m_msgid m) st1
      in if \<not> dl_connected st2 then st2 else emit (EReject (m_tag m) requeue) st2)"

text \<open>A pending timer for the id is only reset: it keeps the message it was started for.\<close>

definition rejectAndRequeueMessage :: "amqp_msg \<Rightarrow> bool \<Rightarrow> 'r dlr_lookup \<Rightarrow> 'r dlr_lookup" where
  "rejectAndRequeueMessage m delay st =
     (if delay then
        (if has_key (dl_timers st) (m_msgid m) then st
         else st\<lparr>dl_timers := dset (dl_timers st) (m_msgid m) m\<rparr>)
      else rejectMessage m True st)"

definition timer_fires :: "string \<Rightarrow> 'r dlr_lookup \<Rightarrow> 'r dlr_lookup" where
  "timer_fires msgid st =
     (case map_of (dl_timers st) msgid of None \<Rightarrow> st | Some m \<Rightarrow> rejectMessage m True st)"

definition ackMessage :: "amqp_msg \<Rightarrow> 'r dlr_lookup \<Rightarrow> 'r dlr_lookup" where
  "ackMessage m st =
     (let st1 = clearRequeueTimer (m_msgid m) (st\<lparr>dl_retrials := ddel (dl_retrials st) (m_msgid m)\<rparr>)
      in if \<not> dl_connected st1 then st1 else emit (EAck (m_tag m)) st1)"

section \<open>Steps of the callbacks\<close>

definition redis_get :: "'r redis_ops \<Rightarrow> string \<Rightarrow> ('r dlr_lookup, (string, pyval) dict) action" where
  "redis_get ops k st =
     (case dl_redis st of None \<Rightarrow> (Inl RedisError, st) | Some r \<Rightarrow> (rd_hgetall ops r k, st))"

definition redis_do :: "('r \<Rightarrow> 'r res) \<Rightarrow> ('r dlr_lookup, unit) action" where
  "redis_do f st =
     (case dl_redis st of
        None \<Rightarrow> (Inl RedisError, st)
      | Some r \<Rightarrow> (case f r of Inl e \<Rightarrow> (Inl e, st) | Inr r' \<Rightarrow> (Inr (), st\<lparr>dl_redis := Some r'\<rparr>)))"

definition publish :: "string \<Rightarrow> content res \<Rightarrow> ('r dlr_lookup, unit) action" where
  "publish key c = act_bind (act_res c) (\<lambda>x. act_do (emit (EPublish key x)))"

definition dlr_key :: "string \<Rightarrow> string" where
  "dlr_key msgid = ''dlr:'' @ msgid"

definition queue_key :: "string \<Rightarrow> string" where
  "queue_key msgid = ''queue-msgid:'' @ msgid"

definition msg_status :: "amqp_msg \<Rightarrow> string" where
  "msg_status m = (case c_body (m_content m) of BText s \<Rightarrow> s | BPdus _ \<Rightarrow> [])"

text \<open>\<^verbatim>\<open>to_enum\<close>: a printed member of the three enumerations of \<^verbatim>\<open>smpp.pdu\<close>; anything else is a \<^verbatim>\<open>KeyError\<close>.\<close>

definition to_enum :: "op_env \<Rightarrow> pyval \<Rightarrow> pyval res" where
  "to_enum env v =
     (case v of
        PStr s \<Rightarrow>
          (case split_on CHR ''.'' s of
             [t, n] \<Rightarrow>
               if t \<in> set [''RegisteredDeliveryReceipt'', ''AddrNpi'', ''AddrTon''] \<and> n \<in> set (oe_members env t)
               then Inr (PEnum t n) else Inl KeyError
           | _ \<Rightarrow> Inl KeyError)
      | _ \<Rightarrow> Inl KeyError)"

definition int_to_str :: "pyval \<Rightarrow> pyval" where
  "int_to_str v = (case v of PInt i \<Rightarrow> PStr (str_int i) | PBool b \<Rightarrow> PStr (if b then ''True'' else ''False'') | _ \<Rightarrow> v)"

text \<open>Remember under the id of the SMSC which message the receipt will belong to.\<close>

definition map_smpp_msgid :: "op_env \<Rightarrow> 'r redis_ops \<Rightarrow> amqp_msg \<Rightarrow> string \<Rightarrow> pyval \<Rightarrow> ('r dlr_lookup, unit) action" where
  "map_smpp_msgid env ops m connector_type expiry =
     act_bind (act_res (dget (c_headers (m_content m)) ''smpp_msgid'')) (\<lambda>i.
       let key = queue_key (enum_str env i)
       in act_seq (redis_do (\<lambda>r. rd_hmset ops r key
                    [(''msgid'', PStr (m_msgid m)), (''connector_type'', PStr connector_type)]))
                  (redis_do (\<lambda>r. rd_expire ops r key expiry)))"

section \<open>Receipts from submit_sm_resp\<close>

definition resp_http :: "op_env \<Rightarrow> 'r redis_ops \<Rightarrow> amqp_msg \<Rightarrow> (string, pyval) dict \<Rightarrow> ('r dlr_lookup, unit) action" where
  "resp_http env ops m dlr =
     (let st = msg_status m; msgid = m_msgid m
      in act_bind (act_res (dget dlr ''url'')) (\<lambda>url.
         act_bind (act_res (dget dlr ''level'')) (\<lambda>level.
         act_bind (act_res (dget dlr ''method'')) (\<lambda>method.
         act_bind (act_res (dget dlr ''expiry'')) (\<lambda>expiry.
           let connector = (case map_of dlr ''connector'' of Some v \<Rightarrow> v | None \<Rightarrow> PStr ''unknown'')
           in act_seq
                (act_when (num_in level [1, 3])
                  (act_seq
                    (publish ''dlr_thrower.http'' (mk_DLRContentForHttpapi st msgid url (PInt 1) connector [] method))
                    (act_when (num_in level [1] \<or> st \<noteq> ''ESME_ROK'')
                      (redis_do (\<lambda>r. rd_delete ops r (dlr_key msgid))))))
                (act_when (num_in level [2, 3] \<and> st = ''ESME_ROK'')
                  (map_smpp_msgid env ops m ''httpapi'' expiry)))))))"

abbreviation rd_requested :: pyval where
  "rd_requested \<equiv> PEnum ''RegisteredDeliveryReceipt'' ''SMSC_DELIVERY_RECEIPT_REQUESTED''"

abbreviation rd_for_failure :: pyval where
  "rd_for_failure \<equiv> PEnum ''RegisteredDeliveryReceipt'' ''SMSC_DELIVERY_RECEIPT_REQUESTED_FOR_FAILURE''"

text \<open>The fields of the request of an SMPP user, in the order they are read.\<close>

record smpps_request =
  sq_system_id :: pyval
  sq_s_ton :: pyval
  sq_s_npi :: pyval
  sq_source :: pyval
  sq_d_ton :: pyval
  sq_d_npi :: pyval
  sq_destination :: pyval
  sq_sub_date :: pyval
  sq_rd :: pyval

definition read_smpps_request :: "op_env \<Rightarrow> (string, pyval) dict \<Rightarrow> smpps_request res" where
  "read_smpps_request env dlr =
     res_bind (dget dlr ''system_id'') (\<lambda>sid.
     res_bind (res_bind (dget dlr ''source_addr_ton'') (to_enum env)) (\<lambda>st.
     res_bind (res_bind (dget dlr ''source_addr_npi'') (to_enum env)) (\<lambda>sn.
     res_bind (dget dlr ''source_addr'') (\<lambda>src.
     res_bind (res_bind (dget dlr ''dest_addr_ton'') (to_enum env)) (\<lambda>dt.
     res_bind (res_bind (dget dlr ''dest_addr_npi'') (to_enum env)) (\<lambda>dn.
     res_bind (dget dlr ''destination_addr'') (\<lambda>dst.
     res_bind (dget dlr ''sub_date'') (\<lambda>sd.
     res_bind (res_bind (dget dlr ''rd_receipt'') (to_enum env)) (\<lambda>rd.
       Inr \<lparr>sq_system_id = sid, sq_s_ton = st, sq_s_npi = sn, sq_source = int_to_str src, sq_d_ton = dt,
            sq_d_npi = dn, sq_destination = int_to_str dst, sq_sub_date = sd, sq_rd = rd\<rparr>)))))))))"

definition smpps_receipt :: "op_env \<Rightarrow> string \<Rightarrow> string \<Rightarrow> smpps_request \<Rightarrow> pyval \<Rightarrow> content res" where
  "smpps_receipt env st msgid q err =
     mk_DLRContentForSmpps env st msgid (sq_system_id q) (sq_source q) (sq_destination q) (sq_sub_date q)
       (sq_s_ton q) (sq_s_npi q) (sq_d_ton q) (sq_d_npi q) err"

definition resp_smpps ::
  "op_env \<Rightarrow> dlr_config \<Rightarrow> 'r redis_ops \<Rightarrow> amqp_msg \<Rightarrow> (string, pyval) dict \<Rightarrow> ('r dlr_lookup, unit) action" where
  "resp_smpps env cfg ops m dlr =
     (let st = msg_status m; msgid = m_msgid m; rok = (st = ''ESME_ROK'')
      in act_bind (act_res (read_smpps_request env dlr)) (\<lambda>q.
         act_bind (act_res (dget dlr ''expiry'')) (\<lambda>expiry.
           act_when ((rok \<and> sq_rd q \<in> set [rd_for_failure, rd_requested]) \<or> (\<not> rok \<and> sq_rd q = rd_for_failure))
             (act_seq
               (act_when (\<not> rok \<or> dc_receipt_on_success cfg)
                 (publish ''dlr_thrower.smpps'' (smpps_receipt env st msgid q (PInt 99))))
               (act_when rok (map_smpp_msgid env ops m ''smppsapi'' expiry))))))"

definition resp_lookup ::
  "op_env \<Rightarrow> dlr_config \<Rightarrow> 'r redis_ops \<Rightarrow> amqp_msg \<Rightarrow> ('r dlr_lookup, unit) action" where
  "resp_lookup env cfg ops m =
     act_bind (redis_get ops (dlr_key (m_msgid m))) (\<lambda>dlr.
       if dlr = [] then act_res (Inl DLRMapNotFound)
       else case map_of dlr ''sc'' of
              Some sc \<Rightarrow>
                if sc = PStr ''httpapi'' then resp_http env ops m dlr
                else if sc = PStr ''smppsapi'' then resp_smpps env cfg ops m dlr
                else act_res (Inl DLRMapError)
            | None \<Rightarrow> act_res (Inl DLRMapError))"

section \<open>Receipts from deliver_sm\<close>

definition success_states :: "string list" where
  "success_states = [''ACCEPTD'', ''DELIVRD'']"

definition final_states :: "string list" where
  "final_states = [''DELIVRD'', ''EXPIRED'', ''DELETED'', ''UNDELIV'', ''REJECTD'']"

definition remove_if_final :: "'r redis_ops \<Rightarrow> string \<Rightarrow> string \<Rightarrow> ('r dlr_lookup, unit) action" where
  "remove_if_final ops st qid =
     act_when (st \<in> set final_states) (redis_do (\<lambda>r. rd_delete ops r (dlr_key qid)))"

text \<open>The headers that are read before the lookup starts.\<close>

definition deliver_headers :: "string list" where
  "deliver_headers =
     [''cid'', ''dlr_id'', ''dlr_ddate'', ''dlr_sdate'', ''dlr_sub'', ''dlr_err'', ''dlr_text'', ''dlr_dlvrd'']"

definition header :: "amqp_msg \<Rightarrow> string \<Rightarrow> pyval" where
  "header m k = (case map_of (c_headers (m_content m)) k of Some v \<Rightarrow> v | None \<Rightarrow> PNone)"

definition deliver_http ::
  "op_env \<Rightarrow> 'r redis_ops \<Rightarrow> amqp_msg \<Rightarrow> string \<Rightarrow> (string, pyval) dict \<Rightarrow> ('r dlr_lookup, unit) action" where
  "deliver_http env ops m qid dlr =
     (let st = msg_status m;
          details = [(''id_smsc'', PStr (m_msgid m)), (''sub'', header m ''dlr_sub''), (''dlvrd'', header m ''dlr_dlvrd''),
                     (''subdate'', header m ''dlr_sdate''), (''donedate'', header m ''dlr_ddate''),
                     (''err'', header m ''dlr_err''), (''text'', header m ''dlr_text'')]
      in act_bind (act_res (dget dlr ''url'')) (\<lambda>url.
         act_bind (act_res (dget dlr ''level'')) (\<lambda>level.
         act_bind (act_res (dget dlr ''method'')) (\<lambda>method.
           act_when (num_in level [2, 3])
             (act_seq
               (publish ''dlr_thrower.http''
                 (mk_DLRContentForHttpapi st qid url (PInt 2) (header m ''dlr_id'') details method))
               (remove_if_final ops st qid))))))"

definition deliver_smpps ::
  "op_env \<Rightarrow> 'r redis_ops \<Rightarrow> amqp_msg \<Rightarrow> string \<Rightarrow> (string, pyval) dict \<Rightarrow> ('r dlr_lookup, unit) action" where
  "deliver_smpps env ops m qid dlr =
     (let st = msg_status m; ok = (st \<in> set success_states)
      in act_bind (act_res (read_smpps_request env dlr)) (\<lambda>q.
           act_when ((ok \<and> sq_rd q = rd_requested) \<or> (\<not> ok \<and> sq_rd q \<in> set [rd_requested, rd_for_failure]))
             (act_seq
               (publish ''dlr_thrower.smpps'' (smpps_receipt env st qid q (header m ''dlr_err'')))
               (remove_if_final ops st qid))))"

definition deliver_lookup ::
  "op_env \<Rightarrow> 'r redis_ops \<Rightarrow> amqp_msg \<Rightarrow> ('r dlr_lookup, unit) action" where
  "deliver_lookup env ops m =
     act_bind (redis_get ops (queue_key (m_msgid m))) (\<lambda>q.
       if length q \<noteq> 2 \<or> \<not> has_key q ''msgid'' \<or> \<not> has_key q ''connector_type''
       then act_res (Inl DLRMapNotFound)
       else
         let qid = enum_str env (the (map_of q ''msgid'')); ct = the (map_of q ''connector_type'')
         in act_bind (redis_get ops (dlr_key qid)) (\<lambda>dlr.
              if dlr = [] then act_res (Inl DLRMapNotFound)
              else act_bind (act_res (dget dlr ''sc'')) (\<lambda>sc.
                if sc \<noteq> ct then act_res (Inl DLRMapError)
                else if ct = PStr ''httpapi'' then deliver_http env ops m qid dlr
                else if ct = PStr ''smppsapi'' then deliver_smpps env ops m qid dlr
                else act_res (Inr ()))))"

section \<open>The callbacks\<close>

definition retry_or_reject :: "dlr_config \<Rightarrow> amqp_msg \<Rightarrow> 'r dlr_lookup \<Rightarrow> 'r dlr_lookup" where
  "retry_or_reject cfg m st =
     (case map_of (dl_retrials st) (m_msgid m) of
        Some n \<Rightarrow> if n < dc_max_retries cfg then rejectAndRequeueMessage m True st else rejectMessage m False st
      | None \<Rightarrow> rejectMessage m False st)"

definition submit_sm_resp_dlr_callback ::
  "op_env \<Rightarrow> dlr_config \<Rightarrow> 'r redis_ops \<Rightarrow> amqp_msg \<Rightarrow> 'r dlr_lookup \<Rightarrow> 'r dlr_lookup" where
  "submit_sm_resp_dlr_callback env cfg ops m st =
     (case resp_lookup env cfg ops m st of
        (Inr _, st') \<Rightarrow> ackMessage m st'
      | (Inl RedisError, st') \<Rightarrow> retry_or_reject cfg m st'
      | (Inl _, st') \<Rightarrow> rejectMessage m False st')"

text \<open>A missing header raises before the lookup, and the error handler of the queue only logs it.\<close>

definition deliver_sm_dlr_callback ::
  "op_env \<Rightarrow> dlr_config \<Rightarrow> 'r redis_ops \<Rightarrow> amqp_msg \<Rightarrow> 'r dlr_lookup \<Rightarrow> 'r dlr_lookup" where
  "deliver_sm_dlr_callback env cfg ops m st =
     (if \<not> list_all (has_key (c_headers (m_content m))) deliver_headers then st
      else
        case deliver_lookup env ops m st of
          (Inr _, st') \<Rightarrow> ackMessage m st'
        | (Inl RedisError, st') \<Rightarrow> retry_or_reject cfg m st'
        | (Inl DLRMapNotFound, st') \<Rightarrow> retry_or_reject cfg m st'
        | (Inl _, st') \<Rightarrow> rejectMessage m False st')"

definition count_try :: "string \<Rightarrow> 'r dlr_lookup \<Rightarrow> 'r dlr_lookup" where
  "count_try msgid st =
     st\<lparr>dl_retrials := dset (dl_retrials st) msgid
          (case map_of (dl_retrials st) msgid of Some n \<Rightarrow> n + 1 | None \<Rightarrow> 1)\<rparr>"

definition dlr_callback_dispatcher ::
  "op_env \<Rightarrow> dlr_config \<Rightarrow> 'r redis_ops \<Rightarrow> amqp_msg \<Rightarrow> 'r dlr_lookup \<Rightarrow> 'r dlr_lookup" where
  "dlr_callback_dispatcher env cfg ops m st0 =
     (let st = count_try (m_msgid m) st0
      in if m_routing_key m = ''dlr.submit_sm_resp'' then submit_sm_resp_dlr_callback env cfg ops m st
         else if m_routing_key m = ''dlr.deliver_sm'' then deliver_sm_dlr_callback env cfg ops m st
         else rejectMessage m False st)"
section \<open>What a lookup changes\<close>

definition is_publish :: "effect \<Rightarrow> bool" where
  "is_publish e \<longleftrightarrow> (\<exists>k c. e = EPublish k c)"

text \<open>A lookup publishes and updates Redis; it settles nothing and leaves timers and counters alone.\<close>

definition only_publishes :: "'r dlr_lookup \<Rightarrow> 'r dlr_lookup \<Rightarrow> bool" where
  "only_publishes st st' \<longleftrightarrow>
     dl_timers st' = dl_timers st \<and> dl_retrials st' = dl_retrials st \<and> dl_connected st' = dl_connected st \<and>
     (\<exists>ps. dl_out st' = dl_out st @ ps \<and> list_all is_publish ps)"

lemma only_publishes_refl: "reflp only_publishes"
  by (rule reflpI) (simp add: only_publishes_def)

lemma only_publishes_trans: "transp only_publishes"
  by (rule transpI) (fastforce simp: only_publishes_def)

named_theorems lookup_intros \<open>rules that show that a step only publishes\<close>

lemmas lookup_combinators [lookup_intros] =
  act_inv_bind[OF only_publishes_trans] act_inv_seq[OF only_publishes_trans]
  act_inv_res[OF only_publishes_refl] act_inv_when[OF only_publishes_refl]

lemma redis_get_inv [lookup_intros]: "act_inv only_publishes (redis_get ops k)"
  by (auto simp: act_inv_def redis_get_def only_publishes_def split: option.splits)

lemma redis_do_inv [lookup_intros]: "act_inv only_publishes (redis_do f)"
  by (auto simp: act_inv_def redis_do_def only_publishes_def split: option.splits sum.splits)

lemma publish_inv [lookup_intros]: "act_inv only_publishes (publish k c)"
  unfolding publish_def
  by (intro lookup_intros act_inv_do) (simp add: only_publishes_def emit_def is_publish_def)

lemma map_smpp_msgid_inv [lookup_intros]: "act_inv only_publishes (map_smpp_msgid env ops m t e)"
  unfolding map_smpp_msgid_def Let_def by (intro lookup_intros)

lemma resp_lookup_inv: "act_inv only_publishes (resp_lookup env cfg ops m)"
  unfolding resp_lookup_def resp_http_def resp_smpps_def Let_def
  by (intro lookup_intros) (auto split: option.splits intro!: lookup_intros)

lemma deliver_lookup_inv: "act_inv only_publishes (deliver_lookup env ops m)"
  unfolding deliver_lookup_def deliver_http_def deliver_smpps_def remove_if_final_def Let_def
  by (intro lookup_intros) (auto intro!: lookup_intros)

section \<open>Every message is settled or retried\<close>

text \<open>The three ways a delivery ends: acknowledged, rejected for good, or waiting for its requeue timer with a
  retry left.\<close>

definition delivery_ends :: "dlr_config \<Rightarrow> amqp_msg \<Rightarrow> 'r dlr_lookup \<Rightarrow> 'r dlr_lookup \<Rightarrow> bool" where
  "delivery_ends cfg m st st' \<longleftrightarrow>
     dl_connected st' = dl_connected st \<and>
     (\<exists>ps. list_all is_publish ps \<and>
       ((dl_out st' \<in> {dl_out st @ ps @ [EAck (m_tag m)], dl_out st @ ps @ [EReject (m_tag m) False]} \<and>
         map_of (dl_retrials st') (m_msgid m) = None \<and> map_of (dl_timers st') (m_msgid m) = None) \<or>
        (dl_out st' = dl_out st @ ps \<and> map_of (dl_timers st') (m_msgid m) = Some m \<and>
         (\<exists>n. map_of (dl_retrials st') (m_msgid m) = Some n \<and> map_of (dl_retrials st) (m_msgid m) = Some n \<and>
              n < dc_max_retries cfg))))"

lemma rejectMessage_ends:
  assumes "only_publishes st st1" "dl_connected st"
  shows "delivery_ends cfg m st (rejectMessage m False st1)"
  using assms by (auto simp: only_publishes_def delivery_ends_def rejectMessage_def clearRequeueTimer_def emit_def Let_def)

lemma ackMessage_ends:
  assumes "only_publishes st st1" "dl_connected st"
  shows "delivery_ends cfg m st (ackMessage m st1)"
  using assms by (auto simp: only_publishes_def delivery_ends_def ackMessage_def clearRequeueTimer_def emit_def Let_def)

lemma retry_or_reject_ends:
  assumes "only_publishes st st1" "dl_connected st" "map_of (dl_timers st) (m_msgid m) = None"
  shows "delivery_ends cfg m st (retry_or_reject cfg m st1)"
proof (cases "\<exists>n. map_of (dl_retrials st1) (m_msgid m) = Some n \<and> n < dc_max_retries cfg")
  case True
  then obtain n where n: "map_of (dl_retrials st1) (m_msgid m) = Some n" "n < dc_max_retries cfg" by blast
  obtain ps where s: "dl_timers st1 = dl_timers st" "dl_retrials st1 = dl_retrials st" "dl_connected st1 = dl_connected st"
    "dl_out st1 = dl_out st @ ps" "list_all is_publish ps"
    using assms(1) by (auto simp: only_publishes_def)
  then have "retry_or_reject cfg m st1 = st1\<lparr>dl_timers := dset (dl_timers st1) (m_msgid m) m\<rparr>"
    using n assms(3) by (simp add: retry_or_reject_def rejectAndRequeueMessage_def has_key_def)
  then show ?thesis using s n by (auto simp: delivery_ends_def)
next
  case False
  then have "retry_or_reject cfg m st1 = rejectMessage m False st1"
    by (auto simp: retry_or_reject_def split: option.splits)
  with rejectMessage_ends[OF assms(1,2)] show ?thesis by simp
qed

definition headers_ok :: "amqp_msg \<Rightarrow> bool" where
  "headers_ok m \<longleftrightarrow>
     (m_routing_key m = ''dlr.deliver_sm'' \<longrightarrow> list_all (has_key (c_headers (m_content m))) deliver_headers)"

lemma dispatcher_ends:
  assumes "headers_ok m" "dl_connected st" "map_of (dl_timers st) (m_msgid m) = None"
  shows "delivery_ends cfg m (count_try (m_msgid m) st) (dlr_callback_dispatcher env cfg ops m st)"
proof -
  let ?st = "count_try (m_msgid m) st"
  have c: "dl_connected ?st" "map_of (dl_timers ?st) (m_msgid m) = None"
    using assms by (simp_all add: count_try_def)
  obtain r1 s1 where l1: "resp_lookup env cfg ops m ?st = (r1, s1)" by fastforce
  have i1: "only_publishes ?st s1" using resp_lookup_inv[of env cfg ops m] l1 by (metis act_inv_def snd_conv)
  obtain r2 s2 where l2: "deliver_lookup env ops m ?st = (r2, s2)" by fastforce
  have i2: "only_publishes ?st s2" using deliver_lookup_inv[of env ops m] l2 by (metis act_inv_def snd_conv)
  have "only_publishes ?st ?st" by (rule reflpD[OF only_publishes_refl])
  note e0 = rejectMessage_ends[OF this c(1)]
  note e1 = rejectMessage_ends[OF i1 c(1)] ackMessage_ends[OF i1 c(1)] retry_or_reject_ends[OF i1 c]
  note e2 = rejectMessage_ends[OF i2 c(1)] ackMessage_ends[OF i2 c(1)] retry_or_reject_ends[OF i2 c]
  have "delivery_ends cfg m ?st (submit_sm_resp_dlr_callback env cfg ops m ?st)"
    using e1 by (simp add: submit_sm_resp_dlr_callback_def l1 split: sum.splits pyexc.splits)
  moreover have "delivery_ends cfg m ?st (deliver_sm_dlr_callback env cfg ops m ?st)"
    if "m_routing_key m = ''dlr.deliver_sm''"
    using e2 assms(1) that by (simp add: deliver_sm_dlr_callback_def headers_ok_def l2 split: sum.splits pyexc.splits)
  ultimately show ?thesis using e0 by (simp add: dlr_callback_dispatcher_def Let_def)
qed
definition dlr_tries :: "string \<Rightarrow> 'r dlr_lookup \<Rightarrow> nat" where
  "dlr_tries msgid st = (case map_of (dl_retrials st) msgid of None \<Rightarrow> 0 | Some n \<Rightarrow> nat n)"

definition dlr_ready :: "string \<Rightarrow> 'r dlr_lookup \<Rightarrow> bool" where
  "dlr_ready msgid st \<longleftrightarrow> dl_connected st \<and> map_of (dl_timers st) msgid = None \<and>
     (case map_of (dl_retrials st) msgid of None \<Rightarrow> True | Some n \<Rightarrow> 0 < n)"

lemma dlr_delivery:
  assumes "dlr_ready (m_msgid m) st" "headers_ok m"
    "st' = timer_fires (m_msgid m) (dlr_callback_dispatcher env cfg ops m st)"
  shows "dlr_ready (m_msgid m) st' \<and>
    (final_effect m (last (dl_out st')) \<and> dlr_tries (m_msgid m) st' = 0 \<or>
     last (dl_out st') = EReject (m_tag m) True \<and> dlr_tries (m_msgid m) st' = Suc (dlr_tries (m_msgid m) st) \<and>
     Suc (dlr_tries (m_msgid m) st) < max 1 (nat (dc_max_retries cfg)))"
proof -
  let ?d = "dlr_callback_dispatcher env cfg ops m st" and ?i = "m_msgid m"
  have c: "dl_connected st" "map_of (dl_timers st) ?i = None" using assms(1) by (simp_all add: dlr_ready_def)
  have n: "map_of (dl_retrials (count_try ?i st)) ?i = Some (int (Suc (dlr_tries ?i st)))"
    using assms(1) by (auto simp: dlr_ready_def dlr_tries_def count_try_def split: option.splits)
  note e = dispatcher_ends[OF assms(2) c, of cfg env ops]
  show ?thesis
  proof (cases "map_of (dl_timers ?d) ?i")
    case None
    then have "st' = ?d" using assms(3) by (simp add: timer_fires_def)
    with None e c(1) show ?thesis
      by (auto simp: delivery_ends_def final_effect_def dlr_ready_def dlr_tries_def count_try_def)
  next
    case (Some m')
    with e n have d: "m' = m" "dl_connected ?d" "map_of (dl_retrials ?d) ?i = Some (int (Suc (dlr_tries ?i st)))"
      "int (Suc (dlr_tries ?i st)) < dc_max_retries cfg"
      using c(1) by (auto simp: delivery_ends_def count_try_def)
    have "st' = rejectMessage m True ?d" using assms(3) Some d(1) by (simp add: timer_fires_def)
    with d show ?thesis
      by (auto simp: rejectMessage_def clearRequeueTimer_def emit_def Let_def dlr_ready_def dlr_tries_def)
  qed
qed

interpretation dlr_consumer: retrying_consumer
  "dlr_callback_dispatcher env cfg" timer_fires dl_out dlr_tries dlr_ready headers_ok "max 1 (nat (dc_max_retries cfg))"
  for env cfg
  by unfold_locales (simp, rule dlr_delivery)

text \<open>
  Claim C12.  A receipt is never retried for ever and never forgotten: whatever Redis answers, a message
  that the broker keeps redelivering is acknowledged or rejected for good after at most the configured
  number of lookups (at least one), every delivery before that ends with a rejection that requeues it,
  and no timer and no retry counter is left behind.
\<close>

theorem dlr_lookup_settles:
  assumes "dl_connected st" "map_of (dl_timers st) msgid = None" "map_of (dl_retrials st) msgid = None"
    "\<And>k. headers_ok (ms k)" "\<And>k. m_msgid (ms k) = msgid"
  shows "\<exists>n < max 1 (nat (dc_max_retries cfg)).
    (let st' = redeliver (dlr_callback_dispatcher env cfg) timer_fires ops ms msgid (Suc n) st
     in final_effect (ms n) (last (dl_out st')) \<and> map_of (dl_timers st') msgid = None \<and>
        dlr_tries msgid st' = 0) \<and>
    (\<forall>i < n. last (dl_out (redeliver (dlr_callback_dispatcher env cfg) timer_fires ops ms msgid (Suc i) st)) =
       EReject (m_tag (ms i)) True)"
proof -
  have "dlr_ready msgid st" "dlr_tries msgid st = 0" using assms(1-3) by (simp_all add: dlr_ready_def dlr_tries_def)
  from dlr_consumer.settles[OF this, of ms cfg env ops, OF assms(4,5)] show ?thesis
    unfolding Let_def dlr_ready_def by blast
qed

text \<open>A Redis client that has lost its connection.\<close>

definition broken_redis :: "unit redis_ops" where
  "broken_redis =
     \<lparr>rd_hgetall = (\<lambda>_ _. Inl RedisError), rd_hmset = (\<lambda>_ _ _. Inl RedisError),
      rd_expire = (\<lambda>_ _ _. Inl RedisError), rd_delete = (\<lambda>_ _. Inl RedisError)\<rparr>"

definition resp_msg :: "nat \<Rightarrow> amqp_msg" where
  "resp_msg t =
     \<lparr>m_tag = t, m_routing_key = ''dlr.submit_sm_resp'',
      m_content = mk_content (BText ''ESME_ROK'') ''a-1'' [(''smpp_msgid'', PStr ''77'')]\<rparr>"

definition sample_dlr_config :: dlr_config where
  "sample_dlr_config = \<lparr>dc_max_retries = 2, dc_receipt_on_success = False\<rparr>"

theorem dlr_lookup_settles_witness:
  "dl_out (redeliver (dlr_callback_dispatcher sample_op_env sample_dlr_config) timer_fires (\<lambda>_. broken_redis) resp_msg ''a-1'' 2 (DLRLookup (Some ()) True)) =
     [EReject 0 True, EReject 1 False] \<and>
   (\<exists>n < 2. final_effect (resp_msg n) (last (dl_out (redeliver (dlr_callback_dispatcher sample_op_env sample_dlr_config) timer_fires (\<lambda>_. broken_redis)
       resp_msg ''a-1'' (Suc n) (DLRLookup (Some ()) True)))))"
proof -
  have h: "headers_ok (resp_msg k)" "m_msgid (resp_msg k) = ''a-1''" for k
    by (simp_all add: headers_ok_def resp_msg_def mk_content_def)
  have "dl_connected (DLRLookup (Some ()) True)" "map_of (dl_timers (DLRLookup (Some ()) True)) ''a-1'' = None"
    "map_of (dl_retrials (DLRLookup (Some ()) True)) ''a-1'' = None" by (simp_all add: DLRLookup_def)
  moreover have mx: "max 1 (nat (dc_max_retries sample_dlr_config)) = 2" by (simp add: sample_dlr_config_def)
  ultimately have "\<exists>n < 2. final_effect (resp_msg n) (last (dl_out (redeliver (dlr_callback_dispatcher sample_op_env sample_dlr_config) timer_fires (\<lambda>_. broken_redis)
       resp_msg ''a-1'' (Suc n) (DLRLookup (Some ()) True))))"
    using dlr_lookup_settles[of "DLRLookup (Some ()) True" "''a-1''" resp_msg sample_dlr_config sample_op_env
        "\<lambda>_. broken_redis", OF _ _ _ h, unfolded mx Let_def] by blast
  moreover have "dl_out (redeliver (dlr_callback_dispatcher sample_op_env sample_dlr_config) timer_fires (\<lambda>_. broken_redis) resp_msg ''a-1'' 2
      (DLRLookup (Some ()) True)) = [EReject 0 True, EReject 1 False]" by code_simp
  ultimately show ?thesis by blast
qed

text \<open>
  Two receipts for one message id that wait for a retry at the same time share one timer: the
  second is neither acknowledged nor rejected, neither when the timer fires nor when all timers have
  fired, and stays unsettled at the broker.
\<close>

theorem dlr_second_receipt_unsettled:
  "\<exists>cfg st. st = timer_fires ''a-1'' (dlr_callback_dispatcher sample_op_env cfg broken_redis (resp_msg 1)
          (dlr_callback_dispatcher sample_op_env cfg broken_redis (resp_msg 0) (DLRLookup (Some ()) True))) \<and>
     dl_timers st = [] \<and> dl_out st = [EReject 0 True]"
proof (intro exI conjI)
  let ?cfg = "\<lparr>dc_max_retries = 5, dc_receipt_on_success = False\<rparr>"
  let ?st = "timer_fires ''a-1'' (dlr_callback_dispatcher sample_op_env ?cfg broken_redis (resp_msg 1)
          (dlr_callback_dispatcher sample_op_env ?cfg broken_redis (resp_msg 0) (DLRLookup (Some ()) True)))"
  show "?st = ?st" by (rule refl)
  show "dl_timers ?st = []" by code_simp
  show "dl_out ?st = [EReject 0 True]" by code_simp
qed
section \<open>Receipts find their message\<close>

text \<open>A text that the Redis client does not turn into a number when it reads it.\<close>

definition plain_text :: "pyval \<Rightarrow> bool" where
  "plain_text v = (case v of PStr s \<Rightarrow> py_int 10 s = Inl ValueError \<and> CHR ''.'' \<notin> set s | _ \<Rightarrow> False)"

text \<open>Documented behaviour of the hash commands of Redis.\<close>

definition redis_ok :: "'r redis_ops \<Rightarrow> bool" where
  "redis_ok ops \<longleftrightarrow>
     (\<forall>r k h. \<exists>r'. rd_hmset ops r k h = Inr r' \<and>
        (rd_hgetall ops r k = Inr [] \<and> distinct (map fst h) \<and> list_all (\<lambda>(f, v). plain_text v) h \<longrightarrow> rd_hgetall ops r' k = Inr h) \<and>
        (\<forall>j. j \<noteq> k \<longrightarrow> rd_hgetall ops r' j = rd_hgetall ops r j)) \<and>
     (\<forall>r k t. \<exists>r'. rd_expire ops r k t = Inr r' \<and> rd_hgetall ops r' = rd_hgetall ops r) \<and>
     (\<forall>r k. \<exists>r'. rd_delete ops r k = Inr r' \<and> rd_hgetall ops r' k = Inr [] \<and>
        (\<forall>j. j \<noteq> k \<longrightarrow> rd_hgetall ops r' j = rd_hgetall ops r j))"

lemma redis_hmset:
  assumes "redis_ok ops" "rd_hgetall ops r k = Inr []" "distinct (map fst h)" "list_all (\<lambda>(f, v). plain_text v) h"
  shows "\<exists>r'. rd_hmset ops r k h = Inr r' \<and> rd_hgetall ops r' k = Inr h \<and>
    (\<forall>j. j \<noteq> k \<longrightarrow> rd_hgetall ops r' j = rd_hgetall ops r j)"
proof -
  from assms(1) have "\<exists>r'. rd_hmset ops r k h = Inr r' \<and>
      (rd_hgetall ops r k = Inr [] \<and> distinct (map fst h) \<and> list_all (\<lambda>(f, v). plain_text v) h \<longrightarrow> rd_hgetall ops r' k = Inr h) \<and>
      (\<forall>j. j \<noteq> k \<longrightarrow> rd_hgetall ops r' j = rd_hgetall ops r j)"
    unfolding redis_ok_def by (elim conjE allE) assumption
  with assms(2-4) show ?thesis by blast
qed

lemma redis_expire: "redis_ok ops \<Longrightarrow> \<exists>r'. rd_expire ops r k t = Inr r' \<and> rd_hgetall ops r' = rd_hgetall ops r"
  unfolding redis_ok_def by (elim conjE allE) assumption

lemma redis_delete: "redis_ok ops \<Longrightarrow> \<exists>r'. rd_delete ops r k = Inr r' \<and> rd_hgetall ops r' k = Inr []"
  unfolding redis_ok_def by meson

lemma keys_differ: "dlr_key a \<noteq> queue_key b"
  by (simp add: dlr_key_def queue_key_def)

text \<open>A request for receipts of a message sent over HTTP, with the terminal level.\<close>

definition http_request :: "(string, pyval) dict \<Rightarrow> pyval \<Rightarrow> bool" where
  "http_request dlr url \<longleftrightarrow>
     map_of dlr ''sc'' = Some (PStr ''httpapi'') \<and> map_of dlr ''url'' = Some url \<and>
     (\<exists>lvl. map_of dlr ''level'' = Some lvl \<and> num_in lvl [2, 3] \<and> \<not> num_in lvl [1]) \<and>
     (\<exists>mt. map_of dlr ''method'' = Some mt \<and> (mt = PStr ''POST'' \<or> mt = PStr ''GET'')) \<and>
     map_of dlr ''expiry'' \<noteq> None"

lemma map_smpp_msgid_step:
  assumes "redis_ok ops" "dl_redis st = Some r" "map_of (c_headers (m_content m)) ''smpp_msgid'' = Some (PStr sid)"
    "rd_hgetall ops r (queue_key sid) = Inr []" "plain_text (PStr (m_msgid m))"
  shows "\<exists>r'. map_smpp_msgid env ops m ''httpapi'' ex st = (Inr (), st\<lparr>dl_redis := Some r'\<rparr>) \<and>
    rd_hgetall ops r' (queue_key sid) = Inr [(''msgid'', PStr (m_msgid m)), (''connector_type'', PStr ''httpapi'')] \<and>
    (\<forall>j. j \<noteq> queue_key sid \<longrightarrow> rd_hgetall ops r' j = rd_hgetall ops r j)"
proof -
  let ?h = "[(''msgid'', PStr (m_msgid m)), (''connector_type'', PStr ''httpapi'')]"
  have "plain_text (PStr ''httpapi'')" by code_simp
  then have "distinct (map fst ?h)" "list_all (\<lambda>(f, v). plain_text v) ?h" using assms(5) by simp_all
  from redis_hmset[OF assms(1,4) this] obtain r1 where
    r1: "rd_hmset ops r (queue_key sid) ?h = Inr r1" "rd_hgetall ops r1 (queue_key sid) = Inr ?h"
      "\<forall>j. j \<noteq> queue_key sid \<longrightarrow> rd_hgetall ops r1 j = rd_hgetall ops r j" by blast
  obtain r2 where r2: "rd_expire ops r1 (queue_key sid) ex = Inr r2" "rd_hgetall ops r2 = rd_hgetall ops r1"
    using redis_expire[OF assms(1)] by blast
  have "map_smpp_msgid env ops m ''httpapi'' ex st = (Inr (), st\<lparr>dl_redis := Some r2\<rparr>)"
    using assms(2,3) r1(1) r2(1) by (simp add: map_smpp_msgid_def dget_def Let_def enum_str_def act_defs redis_do_def)
  with r1 r2 show ?thesis by auto
qed

lemma resp_http_step:
  assumes "redis_ok ops" "dl_redis st = Some r" "rd_hgetall ops r (dlr_key (m_msgid m)) = Inr dlr"
    "http_request dlr url" "msg_status m = ''ESME_ROK''" "map_of (c_headers (m_content m)) ''smpp_msgid'' = Some (PStr sid)"
    "rd_hgetall ops r (queue_key sid) = Inr []" "plain_text (PStr (m_msgid m))"
  shows "\<exists>st' r'. resp_lookup env cfg ops m st = (Inr (), st') \<and> dl_redis st' = Some r' \<and>
    rd_hgetall ops r' (queue_key sid) = Inr [(''msgid'', PStr (m_msgid m)), (''connector_type'', PStr ''httpapi'')] \<and>
    rd_hgetall ops r' (dlr_key (m_msgid m)) = Inr dlr"
proof -
  obtain lvl mt ex where d: "map_of dlr ''level'' = Some lvl" "num_in lvl [2, 3]" "\<not> num_in lvl [1]"
    "map_of dlr ''method'' = Some mt" "mt = PStr ''POST'' \<or> mt = PStr ''GET''" "map_of dlr ''expiry'' = Some ex"
    "map_of dlr ''url'' = Some url" "map_of dlr ''sc'' = Some (PStr ''httpapi'')"
    using assms(4) unfolding http_request_def by blast
  have "dlr \<noteq> []" using d(7) by auto
  define conn where "conn = (case map_of dlr ''connector'' of Some v \<Rightarrow> v | None \<Rightarrow> PStr ''unknown'')"
  have "status_valid ''ESME_ROK''" "num_in (PInt 1) [1, 2, 3]" by code_simp+
  then obtain c where c: "mk_DLRContentForHttpapi ''ESME_ROK'' (m_msgid m) url (PInt 1) conn [] mt = Inr c"
    using d(5) by (auto simp: mk_DLRContentForHttpapi_def)
  define st1 where "st1 = (if num_in lvl [1, 3] then emit (EPublish ''dlr_thrower.http'' c) st else st)"
  have "dl_redis st1 = Some r" using assms(2) by (simp add: st1_def emit_def)
  from map_smpp_msgid_step[OF assms(1) this assms(6-8), of env ex] obtain r' where
    r': "map_smpp_msgid env ops m ''httpapi'' ex st1 = (Inr (), st1\<lparr>dl_redis := Some r'\<rparr>)"
    "rd_hgetall ops r' (queue_key sid) = Inr [(''msgid'', PStr (m_msgid m)), (''connector_type'', PStr ''httpapi'')]"
    "\<forall>j. j \<noteq> queue_key sid \<longrightarrow> rd_hgetall ops r' j = rd_hgetall ops r j" by blast
  have "resp_lookup env cfg ops m st = map_smpp_msgid env ops m ''httpapi'' ex st1"
    using d c \<open>dlr \<noteq> []\<close> assms(2,3,5)
    by (simp add: resp_lookup_def redis_get_def resp_http_def dget_def Let_def conn_def[symmetric] publish_def
        st1_def act_bind_def act_res_def act_do_def act_when_def act_seq_def)
  with r' assms(3) keys_differ show ?thesis by auto
qed

lemma deliver_http_step:
  assumes "redis_ok ops" "dl_redis st = Some r"
    "rd_hgetall ops r (queue_key (m_msgid m)) = Inr [(''msgid'', PStr i), (''connector_type'', PStr ''httpapi'')]"
    "rd_hgetall ops r (dlr_key i) = Inr dlr" "http_request dlr url" "status_valid (msg_status m)"
  shows "\<exists>st' r' c. deliver_lookup env ops m st = (Inr (), st') \<and> dl_redis st' = Some r' \<and>
    dl_out st' = dl_out st @ [EPublish ''dlr_thrower.http'' c] \<and> c_msgid c = i \<and>
    map_of (c_headers c) ''url'' = Some url \<and> map_of (c_headers c) ''level'' = Some (PInt 2) \<and>
    map_of (c_headers c) ''message_status'' = Some (PStr (msg_status m)) \<and>
    map_of (c_headers c) ''id_smsc'' = Some (PStr (m_msgid m)) \<and>
    rd_hgetall ops r' (dlr_key i) = Inr (if msg_status m \<in> set final_states then [] else dlr)"
proof -
  obtain lvl mt where d: "map_of dlr ''level'' = Some lvl" "num_in lvl [2, 3]"
    "map_of dlr ''method'' = Some mt" "mt = PStr ''POST'' \<or> mt = PStr ''GET''"
    "map_of dlr ''url'' = Some url" "map_of dlr ''sc'' = Some (PStr ''httpapi'')"
    using assms(5) unfolding http_request_def by blast
  have "dlr \<noteq> []" using d(6) by auto
  let ?det = "[(''id_smsc'', PStr (m_msgid m)), (''sub'', header m ''dlr_sub''), (''dlvrd'', header m ''dlr_dlvrd''),
     (''subdate'', header m ''dlr_sdate''), (''donedate'', header m ''dlr_ddate''),
     (''err'', header m ''dlr_err''), (''text'', header m ''dlr_text'')]"
  have "num_in (PInt 2) [1, 2, 3]" by code_simp
  then obtain c where c: "mk_DLRContentForHttpapi (msg_status m) i url (PInt 2) (header m ''dlr_id'') ?det mt = Inr c"
    "c_msgid c = i" "map_of (c_headers c) ''url'' = Some url" "map_of (c_headers c) ''level'' = Some (PInt 2)"
    "map_of (c_headers c) ''message_status'' = Some (PStr (msg_status m))"
    "map_of (c_headers c) ''id_smsc'' = Some (PStr (m_msgid m))"
    using d(4) assms(6) by (auto simp: mk_DLRContentForHttpapi_def mk_content_def)
  define st1 where "st1 = emit (EPublish ''dlr_thrower.http'' c) st"
  have s1: "dl_redis st1 = Some r" "dl_out st1 = dl_out st @ [EPublish ''dlr_thrower.http'' c]"
    using assms(2) by (simp_all add: st1_def emit_def)
  have "deliver_lookup env ops m st = remove_if_final ops (msg_status m) i st1"
    using d c(1) \<open>dlr \<noteq> []\<close> assms(2-4)
    by (simp add: deliver_lookup_def redis_get_def deliver_http_def dget_def has_key_def Let_def publish_def
        enum_str_def st1_def act_bind_def act_res_def act_do_def act_seq_def)
  moreover obtain rd where "rd_delete ops r (dlr_key i) = Inr rd" "rd_hgetall ops rd (dlr_key i) = Inr []"
    using redis_delete[OF assms(1)] by blast
  ultimately show ?thesis
    using s1 c(2-6) assms(4) by (simp add: remove_if_final_def act_when_def redis_do_def)
qed
lemma dispatch_resp:
  assumes "m_routing_key m = ''dlr.submit_sm_resp''" "resp_lookup env cfg ops m (count_try (m_msgid m) st) = (Inr (), st')"
  shows "dlr_callback_dispatcher env cfg ops m st = ackMessage m st'"
  using assms by (simp add: dlr_callback_dispatcher_def submit_sm_resp_dlr_callback_def Let_def)

lemma dispatch_deliver:
  assumes "m_routing_key m = ''dlr.deliver_sm''" "headers_ok m"
    "deliver_lookup env ops m (count_try (m_msgid m) st) = (Inr (), st')"
  shows "dlr_callback_dispatcher env cfg ops m st = ackMessage m st'"
  using assms by (simp add: dlr_callback_dispatcher_def deliver_sm_dlr_callback_def headers_ok_def Let_def)

lemma ackMessage_redis [simp]: "dl_redis (ackMessage m st) = dl_redis st"
  by (simp add: ackMessage_def clearRequeueTimer_def emit_def Let_def)

lemma count_try_redis [simp]: "dl_redis (count_try i st) = dl_redis st" "dl_out (count_try i st) = dl_out st"
  by (simp_all add: count_try_def)

lemma ackMessage_out: "dl_out (ackMessage m st) = dl_out st @ (if dl_connected st then [EAck (m_tag m)] else [])"
  by (simp add: ackMessage_def clearRequeueTimer_def emit_def Let_def)

text \<open>The response and the receipt of one message, in this order.\<close>

lemma dlr_receipt_flow:
  assumes "redis_ok ops" "dl_redis st = Some r" "rd_hgetall ops r (dlr_key (m_msgid m1)) = Inr dlr"
    "http_request dlr url" "m_routing_key m1 = ''dlr.submit_sm_resp''" "msg_status m1 = ''ESME_ROK''"
    "map_of (c_headers (m_content m1)) ''smpp_msgid'' = Some (PStr (m_msgid m2))"
    "rd_hgetall ops r (queue_key (m_msgid m2)) = Inr []" "plain_text (PStr (m_msgid m1))"
    "m_routing_key m2 = ''dlr.deliver_sm''" "headers_ok m2" "status_valid (msg_status m2)"
  shows "\<exists>st2 r2 c. dlr_callback_dispatcher env cfg ops m2 (dlr_callback_dispatcher env cfg ops m1 st) = st2 \<and>
    EPublish ''dlr_thrower.http'' c \<in> set (dl_out st2) \<and> c_msgid c = m_msgid m1 \<and>
    map_of (c_headers c) ''url'' = Some url \<and> map_of (c_headers c) ''level'' = Some (PInt 2) \<and>
    map_of (c_headers c) ''message_status'' = Some (PStr (msg_status m2)) \<and>
    map_of (c_headers c) ''id_smsc'' = Some (PStr (m_msgid m2)) \<and>
    dl_redis st2 = Some r2 \<and>
    rd_hgetall ops r2 (dlr_key (m_msgid m1)) = Inr (if msg_status m2 \<in> set final_states then [] else dlr)"
proof -
  have "dl_redis (count_try (m_msgid m1) st) = Some r" using assms(2) by simp
  from resp_http_step[OF assms(1) this assms(3,4,6,7,8,9), of env cfg] obtain st1 r1 where
    s1: "resp_lookup env cfg ops m1 (count_try (m_msgid m1) st) = (Inr (), st1)" "dl_redis st1 = Some r1"
      "rd_hgetall ops r1 (queue_key (m_msgid m2)) = Inr [(''msgid'', PStr (m_msgid m1)), (''connector_type'', PStr ''httpapi'')]"
      "rd_hgetall ops r1 (dlr_key (m_msgid m1)) = Inr dlr" by blast
  have "dl_redis (count_try (m_msgid m2) (ackMessage m1 st1)) = Some r1" using s1(2) by simp
  from deliver_http_step[OF assms(1) this s1(3,4) assms(4,12), of env] obtain st2 r2 c where
    s2: "deliver_lookup env ops m2 (count_try (m_msgid m2) (ackMessage m1 st1)) = (Inr (), st2)" "dl_redis st2 = Some r2"
      "dl_out st2 = dl_out (count_try (m_msgid m2) (ackMessage m1 st1)) @ [EPublish ''dlr_thrower.http'' c]"
    and c: "c_msgid c = m_msgid m1" "map_of (c_headers c) ''url'' = Some url"
      "map_of (c_headers c) ''level'' = Some (PInt 2)" "map_of (c_headers c) ''message_status'' = Some (PStr (msg_status m2))"
      "map_of (c_headers c) ''id_smsc'' = Some (PStr (m_msgid m2))"
      "rd_hgetall ops r2 (dlr_key (m_msgid m1)) = Inr (if msg_status m2 \<in> set final_states then [] else dlr)" by blast
  have "dlr_callback_dispatcher env cfg ops m2 (dlr_callback_dispatcher env cfg ops m1 st) = ackMessage m2 st2"
    using dispatch_resp[OF assms(5) s1(1)] dispatch_deliver[OF assms(10,11) s2(1)] by simp
  moreover have "EPublish ''dlr_thrower.http'' c \<in> set (dl_out (ackMessage m2 st2))"
    using s2(3) by (simp add: ackMessage_out)
  moreover have "dl_redis (ackMessage m2 st2) = Some r2" using s2(2) by simp
  ultimately show ?thesis using c by blast
qed

text \<open>
  Claim C25.  A terminal receipt reaches the sender of its message: when a message was accepted by the SMSC
  under an id and its sender asked over HTTP for receipts of the terminal level, a later receipt for
  that id is published for the original message, its URL and the reported status, and once the status
  is final the request is forgotten.
\<close>

theorem dlr_receipt_correlated:
  assumes "redis_ok ops" "dl_redis st = Some r" "rd_hgetall ops r (dlr_key (m_msgid m1)) = Inr dlr"
    "http_request dlr url" "m_routing_key m1 = ''dlr.submit_sm_resp''" "msg_status m1 = ''ESME_ROK''"
    "map_of (c_headers (m_content m1)) ''smpp_msgid'' = Some (PStr (m_msgid m2))"
    "rd_hgetall ops r (queue_key (m_msgid m2)) = Inr []" "plain_text (PStr (m_msgid m1))"
    "m_routing_key m2 = ''dlr.deliver_sm''" "headers_ok m2" "status_valid (msg_status m2)"
  shows "\<exists>st2 r2 c. dlr_callback_dispatcher env cfg ops m2 (dlr_callback_dispatcher env cfg ops m1 st) = st2 \<and>
    EPublish ''dlr_thrower.http'' c \<in> set (dl_out st2) \<and> c_msgid c = m_msgid m1 \<and>
    map_of (c_headers c) ''url'' = Some url \<and> map_of (c_headers c) ''level'' = Some (PInt 2) \<and>
    map_of (c_headers c) ''message_status'' = Some (PStr (msg_status m2)) \<and>
    map_of (c_headers c) ''id_smsc'' = Some (PStr (m_msgid m2)) \<and>
    dl_redis st2 = Some r2 \<and>
    rd_hgetall ops r2 (dlr_key (m_msgid m1)) = Inr (if msg_status m2 \<in> set final_states then [] else dlr)"
  using assms by (rule dlr_receipt_flow)

text \<open>A store of hashes that follows the documented behaviour.\<close>

definition store_get :: "(string, (string, pyval) dict) dict \<Rightarrow> string \<Rightarrow> (string, pyval) dict" where
  "store_get r k = (case map_of r k of Some h \<Rightarrow> h | None \<Rightarrow> [])"

definition store_ops :: "(string, (string, pyval) dict) dict redis_ops" where
  "store_ops =
     \<lparr>rd_hgetall = (\<lambda>r k. Inr (store_get r k)),
      rd_hmset = (\<lambda>r k h. Inr (dset r k (foldl (\<lambda>d (f, v). dset d f v) (store_get r k) h))),
      rd_expire = (\<lambda>r k t. Inr r), rd_delete = (\<lambda>r k. Inr (ddel r k))\<rparr>"

lemma foldl_dset_distinct:
  "distinct (map fst (d @ h)) \<Longrightarrow> foldl (\<lambda>d (f, v). dset d f v) d h = d @ h"
proof (induction h arbitrary: d)
  case (Cons p h)
  obtain f v where p: "p = (f, v)" by fastforce
  have "f \<notin> fst ` set d" using Cons.prems p by auto
  then have "dset d f v = d @ [(f, v)]" by (induction d) auto
  with Cons p show ?case by simp
qed simp

lemma store_ok: "redis_ok store_ops"
proof -
  have "foldl (\<lambda>d (f, v). dset d f v) [] h = h" if "distinct (map fst h)" for h :: "(string, pyval) dict"
    using foldl_dset_distinct[of "[]" h] that by simp
  then show ?thesis by (auto simp: redis_ok_def store_ops_def store_get_def split: option.splits)
qed

definition sample_request :: "(string, pyval) dict" where
  "sample_request =
     [(''sc'', PStr ''httpapi''), (''url'', PStr ''http://h/dlr''), (''level'', PInt 3), (''method'', PStr ''POST''),
      (''expiry'', PInt 3600)]"

definition deliver_msg :: amqp_msg where
  "deliver_msg =
     \<lparr>m_tag = 1, m_routing_key = ''dlr.deliver_sm'',
      m_content = mk_content (BText ''DELIVRD'') ''77'' (map (\<lambda>k. (k, PStr ''x'')) deliver_headers)\<rparr>"

theorem dlr_receipt_correlated_witness:
  "\<exists>st2 c. dlr_callback_dispatcher sample_op_env sample_dlr_config store_ops deliver_msg
       (dlr_callback_dispatcher sample_op_env sample_dlr_config store_ops (resp_msg 0)
         (DLRLookup (Some [(''dlr:a-1'', sample_request)]) True)) = st2 \<and>
     EPublish ''dlr_thrower.http'' c \<in> set (dl_out st2) \<and> c_msgid c = ''a-1'' \<and>
     map_of (c_headers c) ''url'' = Some (PStr ''http://h/dlr'') \<and>
     map_of (c_headers c) ''message_status'' = Some (PStr ''DELIVRD'')"
proof -
  let ?st = "DLRLookup (Some [(''dlr:a-1'', sample_request)]) True"
  have st: "dl_redis ?st = Some [(''dlr:a-1'', sample_request)]" by (simp add: DLRLookup_def)
  have q: "http_request sample_request (PStr ''http://h/dlr'')"
    by (simp add: http_request_def sample_request_def num_in_def is_number_def)
  have m: "m_msgid (resp_msg 0) = ''a-1''" "m_routing_key (resp_msg 0) = ''dlr.submit_sm_resp''"
    "msg_status (resp_msg 0) = ''ESME_ROK''" "m_msgid deliver_msg = ''77''"
    "map_of (c_headers (m_content (resp_msg 0))) ''smpp_msgid'' = Some (PStr ''77'')"
    "m_routing_key deliver_msg = ''dlr.deliver_sm''" "msg_status deliver_msg = ''DELIVRD''"
    by (simp_all add: resp_msg_def deliver_msg_def mk_content_def msg_status_def)
  have r: "rd_hgetall store_ops [(''dlr:a-1'', sample_request)] (dlr_key ''a-1'') = Inr sample_request"
    "rd_hgetall store_ops [(''dlr:a-1'', sample_request)] (queue_key ''77'') = Inr []"
    by (simp_all add: store_ops_def store_get_def dlr_key_def queue_key_def)
  have p: "plain_text (PStr ''a-1'')" "headers_ok deliver_msg" "status_valid ''DELIVRD''" by code_simp+
  from dlr_receipt_correlated[OF store_ok st, of "resp_msg 0" sample_request "PStr ''http://h/dlr''" deliver_msg
      sample_op_env sample_dlr_config] q m r p
  show ?thesis by auto
qed

end
