(* ===== verification/Throwers.thy ===== *)
theory Throwers
  imports Dlr
begin

text \<open>
  Throwing received messages and receipts to their receivers (\<^verbatim>\<open>jasmin/routing/throwers.py\<close>).  The two
  throwers share the class attributes for timers and retry counters, so one state serves both.

  Outside the program are the HTTP client, the SMPP server that delivers to bound clients, and the
  tables of the \<^verbatim>\<open>smpp.pdu\<close> package: they are the functions of a \<open>thrower_env\<close>.  A requeue timer is the
  message it will reject and whether it is still active.
\<close>

section \<open>State and environment\<close>

text \<open>The answer of a receiver: a status code with a body, or an exception with its text.\<close>

datatype http_answer = Response int string | HttpFailure string

datatype smpps_access = NoAccess | Direct | PerspectiveBroker

record thrower_env =
  te_http :: "string \<Rightarrow> string \<Rightarrow> (string, pyval) dict \<Rightarrow> http_answer"
  te_access :: smpps_access
  te_bound :: "string list res"
  te_deliverer :: "string \<Rightarrow> bool"
  te_send :: "string \<Rightarrow> pdu \<Rightarrow> bool res"
  te_priority :: "pyval \<Rightarrow> pyval res"
  te_coding :: "pyval \<Rightarrow> pyval res"
  te_dumps :: "pyval \<Rightarrow> string"
  te_op :: op_env

record thrower_config =
  tc_max_retries :: int
  tc_dlr_pdu :: string

record thrower =
  th_timers :: "(string, amqp_msg \<times> bool) dict"
  th_retrials :: "(string, int) dict"
  th_calls :: "(string \<times> string) list"
  th_out :: "effect list"

definition Thrower :: thrower where
  "Thrower = \<lparr>th_timers = [], th_retrials = [], th_calls = [], th_out = []\<rparr>"

section \<open>Retries and settlement\<close>

definition getThrowingRetrials :: "amqp_msg \<Rightarrow> thrower \<Rightarrow> int" where
  "getThrowingRetrials m st = (case map_of (th_retrials st) (m_msgid m) of Some n \<Rightarrow> n | None \<Rightarrow> 0)"

definition delThrowingRetrials :: "amqp_msg \<Rightarrow> thrower \<Rightarrow> thrower" where
  "delThrowingRetrials m st = st\<lparr>th_retrials := ddel (th_retrials st) (m_msgid m)\<rparr>"

definition incThrowingRetrials :: "amqp_msg \<Rightarrow> thrower \<Rightarrow> thrower" where
  "incThrowingRetrials m st = st\<lparr>th_retrials := dset (th_retrials st) (m_msgid m) (getThrowingRetrials m st + 1)\<rparr>"

definition th_clearRequeueTimer :: "string \<Rightarrow> thrower \<Rightarrow> thrower" where
  "th_clearRequeueTimer msgid st = st\<lparr>th_timers := ddel (th_timers st) msgid\<rparr>"

definition th_clearRequeueTimers :: "thrower \<Rightarrow> thrower" where
  "th_clearRequeueTimers st = st\<lparr>th_timers := []\<rparr>"

definition th_rejectMessage :: "amqp_msg \<Rightarrow> bool \<Rightarrow> thrower \<Rightarrow> thrower" where
  "th_rejectMessage m requeue st =
     (let st1 = (if \<not> requeue then delThrowingRetrials m st else st)
      in st1\<lparr>th_out := th_out st1 @ [EReject (m_tag m) requeue]\<rparr>)"

definition th_ackMessage :: "amqp_msg \<Rightarrow> thrower \<Rightarrow> thrower" where
  "th_ackMessage m st =
     (let st1 = delThrowingRetrials m st in st1\<lparr>th_out := th_out st1 @ [EAck (m_tag m)]\<rparr>)"

definition th_rejectAndRequeueMessage :: "amqp_msg \<Rightarrow> bool \<Rightarrow> thrower \<Rightarrow> thrower" where
  "th_rejectAndRequeueMessage m delay st =
     (if delay then
        (let st1 = th_clearRequeueTimer (m_msgid m) st
         in st1\<lparr>th_timers := dset (th_timers st1) (m_msgid m) (m, True)\<rparr>)
      else th_rejectMessage m True st)"

definition th_timer_fires :: "string \<Rightarrow> thrower \<Rightarrow> thrower" where
  "th_timer_fires msgid st =
     (case map_of (th_timers st) msgid of
        Some (m, True) \<Rightarrow> th_rejectMessage m True (st\<lparr>th_timers := dset (th_timers st) msgid (m, False)\<rparr>)
      | _ \<Rightarrow> st)"

text \<open>Requeue while the message was tried at most \<^verbatim>\<open>max_retries\<close> times, else give up.\<close>

definition requeue_or_purge :: "thrower_config \<Rightarrow> bool \<Rightarrow> amqp_msg \<Rightarrow> thrower \<Rightarrow> thrower" where
  "requeue_or_purge cfg retry m st =
     (if retry \<and> getThrowingRetrials m st \<le> tc_max_retries cfg then th_rejectAndRequeueMessage m True st
      else th_rejectMessage m False st)"

section \<open>Throwing over HTTP\<close>

definition hexlify :: "string \<Rightarrow> string" where
  "hexlify s = concat (map (\<lambda>c. [digit_char (cval c div 16), digit_char (cval c mod 16)]) s)"

text \<open>The text of the exception a call ends with, if it does.  The class of an HTTP error is part of its text.\<close>

definition http_error :: "http_answer \<Rightarrow> string option" where
  "http_error a =
     (case a of
        HttpFailure t \<Rightarrow> Some t
      | Response code content \<Rightarrow>
          if 400 \<le> code then Some (str_int code @ '': HttpApiError ('' @ content @ '')'')
          else if strip content \<noteq> ''ACK/Jasmin'' then Some ''Destination end did not acknowledge receipt of the message.''
          else None)"

definition noRetryErrors :: "string list" where
  "noRetryErrors = [''404'']"

definition pdu_content :: "pdu \<Rightarrow> pyval option" where
  "pdu_content p =
     (case map_of (p_params p) ''short_message'' of
        Some v \<Rightarrow>
          if content_len v \<noteq> Inr 0 then Some v
          else (case map_of (p_params p) ''message_payload'' of Some w \<Rightarrow> Some w | None \<Rightarrow> Some v)
      | None \<Rightarrow> map_of (p_params p) ''message_payload'')"

definition binary_of :: "pyval \<Rightarrow> pyval res" where
  "binary_of v =
     (case v of
        PBytes b \<Rightarrow> Inr (PBytes (hexlify b))
      | PStr s \<Rightarrow> Inr (PBytes (hexlify (utf8_encode s)))
      | _ \<Rightarrow> Inl AttributeError)"

text \<open>An optional argument: read when the parameter is there and not \<^verbatim>\<open>None\<close>.\<close>

definition opt_arg :: "pdu \<Rightarrow> string \<Rightarrow> string \<Rightarrow> (pyval \<Rightarrow> pyval res) \<Rightarrow> (string, pyval) dict \<Rightarrow> (string, pyval) dict res" where
  "opt_arg p k name f args =
     (case map_of (p_params p) k of
        None \<Rightarrow> Inr args
      | Some v \<Rightarrow> if v = PNone then Inr args else res_bind (f v) (\<lambda>w. Inr (dset args name w)))"

definition standard_optional_params :: "string list" where
  "standard_optional_params =
     [''user_message_reference'', ''source_port'', ''destination_port'', ''sar_msg_ref_num'', ''sar_total_segments'',
      ''sar_segment_seqnum'', ''payload_type'', ''privacy_indicator'', ''callback_num'', ''language_indicator'',
      ''its_session_info'', ''network_error_code'', ''message_state'', ''receipted_message_id'']"

definition tlv_text :: "op_env \<Rightarrow> pyval \<Rightarrow> string" where
  "tlv_text env v = (case v of PBytes b \<Rightarrow> hexlify b | PEnum _ n \<Rightarrow> n | _ \<Rightarrow> enum_str env v)"

definition tlv_params :: "op_env \<Rightarrow> pdu \<Rightarrow> (pyval \<times> pyval) list" where
  "tlv_params env p =
     map (\<lambda>k. (PStr k, PStr (tlv_text env (the (map_of (p_params p) k)))))
       (filter (\<lambda>k. map_of (p_params p) k \<noteq> None \<and> map_of (p_params p) k \<noteq> Some PNone) standard_optional_params)"

definition custom_tlvs_data :: "pdu \<Rightarrow> pyval list" where
  "custom_tlvs_data p =
     map (\<lambda>(tag, len, ty, v). PDict [(PStr ''tag'', tag), (PStr ''length'', len), (PStr ''type'', ty),
            (PStr ''value'', case v of PBytes b \<Rightarrow> PStr (hexlify b) | _ \<Rightarrow> v)])
       (case p_custom_tlvs p of Some ts \<Rightarrow> ts | None \<Rightarrow> [])"

text \<open>The arguments of the request.  \<^verbatim>\<open>Inr None\<close>: the PDU has no content; an exception is not caught.\<close>

definition throw_args :: "thrower_env \<Rightarrow> amqp_msg \<Rightarrow> pdu \<Rightarrow> (string, pyval) dict option res" where
  "throw_args env m p =
     res_bind (dget (p_params p) ''source_addr'') (\<lambda>src.
     res_bind (dget (p_params p) ''destination_addr'') (\<lambda>dst.
     res_bind (dget (c_headers (m_content m)) ''src-connector-id'') (\<lambda>cid.
       case pdu_content p of
         None \<Rightarrow> Inr None
       | Some content \<Rightarrow>
           res_bind (binary_of content) (\<lambda>bin.
           res_bind (opt_arg p ''priority_flag'' ''priority'' (te_priority env)
             [(''id'', PStr (m_msgid m)), (''from'', src), (''to'', dst), (''origin-connector'', cid),
              (''content'', content), (''binary'', bin)]) (\<lambda>a1.
           res_bind (opt_arg p ''data_coding'' ''coding'' (te_coding env) a1) (\<lambda>a2.
           res_bind (opt_arg p ''validity_period'' ''validity'' Inr a2) (\<lambda>a3.
             let a4 = (if tlv_params (te_op env) p = [] then a3
                       else dset a3 ''tlv_params'' (PStr (te_dumps env (PDict (tlv_params (te_op env) p)))));
                 a5 = (if custom_tlvs_data p = [] then a4
                       else dset a4 ''custom_tlvs'' (PStr (te_dumps env (PList (custom_tlvs_data p)))))
             in Inr (Some a5))))))))"

definition call_http :: "thrower_env \<Rightarrow> string \<Rightarrow> string \<Rightarrow> (string, pyval) dict \<Rightarrow> thrower \<Rightarrow> string option \<times> thrower" where
  "call_http env method url args st =
     (http_error (te_http env method url args), st\<lparr>th_calls := th_calls st @ [(method, url)]\<rparr>)"

text \<open>The loop over the connectors of a route: a simple route uses the first; a failover route goes on to the next
  until one acknowledges, and leaves the message alone when none does.  There are no other kinds of routes.\<close>

fun http_loop ::
  "thrower_env \<Rightarrow> thrower_config \<Rightarrow> amqp_msg \<Rightarrow> string \<Rightarrow> (string, pyval) dict \<Rightarrow> connector list \<Rightarrow> thrower \<Rightarrow> thrower" where
  "http_loop env cfg m rt args [] st = st"
| "http_loop env cfg m rt args (dc # dcs) st =
     (case dc of
        HttpConnector cid url method \<Rightarrow>
          (case call_http env (upper method) url args st of
             (None, st1) \<Rightarrow>
               if rt = ''simple'' \<or> rt = ''failover'' then th_ackMessage m st1
               else http_loop env cfg m rt args dcs (th_ackMessage m st1)
           | (Some e, st1) \<Rightarrow>
               if rt = ''simple'' then requeue_or_purge cfg (e \<notin> set noRetryErrors) m st1
               else if rt = ''failover'' then (if dcs = [] then st1 else http_loop env cfg m rt args dcs st1)
               else http_loop env cfg m rt args dcs st1)
      | _ \<Rightarrow>
          if rt = ''simple'' then requeue_or_purge cfg True m st
          else http_loop env cfg m rt args dcs st)"

definition the_pdu :: "amqp_msg \<Rightarrow> pdu res" where
  "the_pdu m = (case c_body (m_content m) of BPdus (p # _) \<Rightarrow> Inr p | _ \<Rightarrow> Inl ValueError)"

definition route_kind :: "amqp_msg \<Rightarrow> string res" where
  "route_kind m = (case map_of (c_headers (m_content m)) ''route-type'' of Some (PStr t) \<Rightarrow> Inr t | _ \<Rightarrow> Inl KeyError)"

text \<open>\<^verbatim>\<open>Inl\<close> is an exception that leaves the message to the error handler of the queue.\<close>

definition http_deliver_sm_callback ::
  "thrower_env \<Rightarrow> thrower_config \<Rightarrow> amqp_msg \<Rightarrow> thrower \<Rightarrow> unit res \<times> thrower" where
  "http_deliver_sm_callback env cfg m st0 =
     (case res_bind (route_kind m) (\<lambda>rt. res_bind (the_pdu m) (\<lambda>p. Inr (rt, p))) of
        Inl e \<Rightarrow> (Inl e, st0)
      | Inr (rt, p) \<Rightarrow>
          (let st = th_clearRequeueTimer (m_msgid m) st0
           in case c_dcs (m_content m) of
                [] \<Rightarrow> (Inl IndexError, st)
              | dc # dcs \<Rightarrow>
                  if conn_type dc \<noteq> ''http'' then (Inr (), th_rejectMessage m False st)
                  else (case throw_args env m p of
                          Inl e \<Rightarrow> (Inl e, st)
                        | Inr None \<Rightarrow> (Inr (), th_rejectMessage m False st)
                        | Inr (Some args) \<Rightarrow> (Inr (), http_loop env cfg m rt args (dc # dcs) st))))"

section \<open>Throwing to bound SMPP clients\<close>

definition smpps_send :: "thrower_env \<Rightarrow> string \<Rightarrow> pdu res \<Rightarrow> unit res" where
  "smpps_send env sid rp =
     (if te_access env = NoAccess then Inl SmppsNotSetError
      else res_bind (te_bound env) (\<lambda>ids.
        if sid \<notin> set ids then Inl SystemIdNotBound
        else res_bind rp (\<lambda>p.
          if te_access env = Direct
          then (if \<not> te_deliverer env sid then Inl NoDelivererForSystemId
                else res_bind (te_send env sid p) (\<lambda>_. Inr ()))
          else res_bind (te_send env sid p) (\<lambda>r. raise_if (\<not> r) DeliveringFailed (Inr ())))))"

fun smpp_loop ::
  "thrower_env \<Rightarrow> thrower_config \<Rightarrow> amqp_msg \<Rightarrow> string \<Rightarrow> pdu \<Rightarrow> connector list \<Rightarrow> thrower \<Rightarrow> thrower" where
  "smpp_loop env cfg m rt p [] st = st"
| "smpp_loop env cfg m rt p (dc # dcs) st =
     (let st1 = st\<lparr>th_calls := th_calls st @ [(''smpps'', conn_cid dc)]\<rparr>
      in case smpps_send env (conn_cid dc) (Inr p) of
           Inr _ \<Rightarrow>
             if rt = ''simple'' \<or> rt = ''failover'' then th_ackMessage m st1
             else smpp_loop env cfg m rt p dcs (th_ackMessage m st1)
         | Inl e \<Rightarrow>
             if rt = ''simple'' then requeue_or_purge cfg (e \<noteq> SmppsNotSetError) m st1
             else if rt = ''failover'' then (if dcs = [] then st1 else smpp_loop env cfg m rt p dcs st1)
             else smpp_loop env cfg m rt p dcs st1)"

definition smpp_deliver_sm_callback ::
  "thrower_env \<Rightarrow> thrower_config \<Rightarrow> amqp_msg \<Rightarrow> thrower \<Rightarrow> unit res \<times> thrower" where
  "smpp_deliver_sm_callback env cfg m st0 =
     (case res_bind (route_kind m) (\<lambda>rt. res_bind (the_pdu m) (\<lambda>p. Inr (rt, p))) of
        Inl e \<Rightarrow> (Inl e, st0)
      | Inr (rt, p) \<Rightarrow>
          (let st = th_clearRequeueTimer (m_msgid m) st0
           in case c_dcs (m_content m) of
                [] \<Rightarrow> (Inl IndexError, st)
              | dc # dcs \<Rightarrow>
                  if conn_type dc \<noteq> ''smpps'' then (Inr (), th_rejectMessage m False st)
                  else (Inr (), smpp_loop env cfg m rt p (dc # dcs) st)))"

definition deliver_sm_throwing_callback ::
  "thrower_env \<Rightarrow> thrower_config \<Rightarrow> amqp_msg \<Rightarrow> thrower \<Rightarrow> unit res \<times> thrower" where
  "deliver_sm_throwing_callback env cfg m st0 =
     (let st = incThrowingRetrials m st0
      in if m_routing_key m = ''deliver_sm_thrower.http'' then http_deliver_sm_callback env cfg m st
         else if m_routing_key m = ''deliver_sm_thrower.smpps'' then smpp_deliver_sm_callback env cfg m st
         else (Inr (), th_rejectMessage m False st))"

section \<open>Throwing receipts\<close>

definition dlr_args :: "amqp_msg \<Rightarrow> (string \<times> string \<times> (string, pyval) dict) res" where
  "dlr_args m =
     (let h = dget (c_headers (m_content m))
      in res_bind (h ''url'') (\<lambda>url. res_bind (h ''method'') (\<lambda>method. res_bind (h ''level'') (\<lambda>level.
         res_bind (map_res (\<lambda>k. res_bind (h k) (\<lambda>v. Inr (k, v)))
           ([''message_status'', ''connector''] @
            (if num_in level [2, 3] then [''id_smsc'', ''sub'', ''dlvrd'', ''subdate'', ''donedate'', ''err'', ''text''] else [])))
         (\<lambda>kvs.
           case (url, method) of
             (PStr u, PStr t) \<Rightarrow> Inr (u, t, [(''id'', PStr (m_msgid m)), (''level'', level)] @ kvs)
           | _ \<Rightarrow> Inl TypeError)))))"

definition http_dlr_callback :: "thrower_env \<Rightarrow> thrower_config \<Rightarrow> amqp_msg \<Rightarrow> thrower \<Rightarrow> unit res \<times> thrower" where
  "http_dlr_callback env cfg m st0 =
     (case dlr_args m of
        Inl e \<Rightarrow> (Inl e, st0)
      | Inr (url, method, args) \<Rightarrow>
          (let st = th_clearRequeueTimer (m_msgid m) st0
           in case call_http env method url args st of
                (None, st1) \<Rightarrow> (Inr (), th_ackMessage m st1)
              | (Some e, st1) \<Rightarrow> (Inr (), requeue_or_purge cfg (e \<notin> set noRetryErrors) m st1)))"

text \<open>The requeue timer is looked up under the encoded id, which is not a key of the table, so it is not cleared.\<close>

definition smpp_dlr_receipt :: "thrower_env \<Rightarrow> thrower_config \<Rightarrow> amqp_msg \<Rightarrow> (string \<times> pdu res) res" where
  "smpp_dlr_receipt env cfg m =
     (let h = dget (c_headers (m_content m)); str = (\<lambda>v. PStr (enum_str (te_op env) v))
      in res_bind (encode_ascii (m_msgid m)) (\<lambda>msgid.
         res_bind (h ''system_id'') (\<lambda>sid.
         res_bind (h ''message_status'') (\<lambda>st.
         res_bind (case st of PStr s \<Rightarrow> encode_ascii s | _ \<Rightarrow> Inl AttributeError) (\<lambda>status.
         res_bind (h ''err'') (\<lambda>err0.
         res_bind (h ''source_addr'') (\<lambda>src.
         res_bind (h ''destination_addr'') (\<lambda>dst.
         res_bind (h ''sub_date'') (\<lambda>sd.
         res_bind (h ''source_addr_ton'') (\<lambda>a.
         res_bind (h ''source_addr_npi'') (\<lambda>b.
         res_bind (h ''dest_addr_ton'') (\<lambda>c.
         res_bind (h ''dest_addr_npi'') (\<lambda>d.
         res_bind (case err0 of PStr s \<Rightarrow> res_bind (encode_ascii s) (\<lambda>e. Inr (PBytes e)) | _ \<Rightarrow> Inr err0) (\<lambda>err.
           case (sid, sd) of
             (PStr i, PStr date) \<Rightarrow>
               Inr (i, getReceipt (te_op env) (tc_dlr_pdu cfg) (PBytes msgid) (str src) (str dst) (PBytes status) err date a b c d)
           | _ \<Rightarrow> Inl TypeError))))))))))))))"

definition smpp_dlr_callback :: "thrower_env \<Rightarrow> thrower_config \<Rightarrow> amqp_msg \<Rightarrow> thrower \<Rightarrow> unit res \<times> thrower" where
  "smpp_dlr_callback env cfg m st =
     (case smpp_dlr_receipt env cfg m of
        Inl e \<Rightarrow> (Inl e, st)
      | Inr (sid, rp) \<Rightarrow>
          (let st1 = st\<lparr>th_calls := th_calls st @ [(''smpps'', sid)]\<rparr>
           in case smpps_send env sid rp of
                Inr _ \<Rightarrow> (Inr (), th_ackMessage m st1)
              | Inl e \<Rightarrow> (Inr (), requeue_or_purge cfg (e \<noteq> SmppsNotSetError) m st1)))"

definition dlr_throwing_callback ::
  "thrower_env \<Rightarrow> thrower_config \<Rightarrow> amqp_msg \<Rightarrow> thrower \<Rightarrow> unit res \<times> thrower" where
  "dlr_throwing_callback env cfg m st0 =
     (let st = incThrowingRetrials m st0
      in if m_routing_key m = ''dlr_thrower.http'' then http_dlr_callback env cfg m st
         else if m_routing_key m = ''dlr_thrower.smpps'' then smpp_dlr_callback env cfg m st
         else (Inr (), th_rejectMessage m False st))"

section \<open>Failover\<close>

definition conn_answers :: "thrower_env \<Rightarrow> (string, pyval) dict \<Rightarrow> connector \<Rightarrow> string option" where
  "conn_answers env args dc =
     (case dc of HttpConnector cid url method \<Rightarrow> http_error (te_http env (upper method) url args) | _ \<Rightarrow> Some [])"

definition conn_call :: "connector \<Rightarrow> string \<times> string" where
  "conn_call dc = (case dc of HttpConnector cid url method \<Rightarrow> (upper method, url) | _ \<Rightarrow> ([], []))"

definition is_http :: "connector \<Rightarrow> bool" where
  "is_http dc = (case dc of HttpConnector _ _ _ \<Rightarrow> True | _ \<Rightarrow> False)"

lemma http_loop_failover_Cons:
  assumes "is_http dc"
  shows "http_loop env cfg m ''failover'' args (dc # dcs) st =
    (let st1 = st\<lparr>th_calls := th_calls st @ [conn_call dc]\<rparr>
     in if conn_answers env args dc = None then th_ackMessage m st1
        else http_loop env cfg m ''failover'' args dcs st1)"
  using assms by (cases dc; cases dcs) (simp_all add: is_http_def call_http_def conn_answers_def conn_call_def Let_def split: option.splits)

lemma http_failover_fails:
  assumes "list_all is_http dcs" "\<forall>dc \<in> set dcs. conn_answers env args dc \<noteq> None"
  shows "http_loop env cfg m ''failover'' args dcs st = st\<lparr>th_calls := th_calls st @ map conn_call dcs\<rparr>"
  using assms
  by (induction dcs arbitrary: st) (auto simp: http_loop_failover_Cons Let_def simp del: http_loop.simps(2))

lemma http_failover_acks:
  assumes "list_all is_http (as @ dc # bs)" "\<forall>d \<in> set as. conn_answers env args d \<noteq> None" "conn_answers env args dc = None"
  shows "http_loop env cfg m ''failover'' args (as @ dc # bs) st =
    th_ackMessage m (st\<lparr>th_calls := th_calls st @ map conn_call (as @ [dc])\<rparr>)"
  using assms
  by (induction as arbitrary: st) (auto simp: http_loop_failover_Cons Let_def simp del: http_loop.simps(2))

text \<open>
  Claim C36.  Throwing a message along a failover route calls its HTTP connectors in order and stops at the
  first one that acknowledges, and the message is then acknowledged exactly once.  When none of them
  acknowledges, all have been called once and the message is neither acknowledged nor rejected nor
  put on a timer: it stays unsettled.
\<close>

theorem http_failover:
  assumes "list_all is_http dcs"
  shows "(\<forall>as dc bs. dcs = as @ dc # bs \<and> (\<forall>d \<in> set as. conn_answers env args d \<noteq> None) \<and> conn_answers env args dc = None \<longrightarrow>
       http_loop env cfg m ''failover'' args dcs st =
         th_ackMessage m (st\<lparr>th_calls := th_calls st @ map conn_call (as @ [dc])\<rparr>)) \<and>
    ((\<forall>d \<in> set dcs. conn_answers env args d \<noteq> None) \<longrightarrow>
       http_loop env cfg m ''failover'' args dcs st = st\<lparr>th_calls := th_calls st @ map conn_call dcs\<rparr>)"
  using http_failover_acks http_failover_fails[OF assms] assms by blast

definition sample_thrower_env :: thrower_env where
  "sample_thrower_env =
     \<lparr>te_http = (\<lambda>method url args. if url = ''http://ok'' then Response 200 ''ACK/Jasmin'' else Response 404 ''gone''),
      te_access = Direct, te_bound = Inr [], te_deliverer = (\<lambda>_. False), te_send = (\<lambda>_ _. Inr True),
      te_priority = Inr, te_coding = Inr, te_dumps = (\<lambda>_. []), te_op = sample_op_env\<rparr>"

definition sample_thrower_config :: thrower_config where
  "sample_thrower_config = \<lparr>tc_max_retries = 1, tc_dlr_pdu = ''deliver_sm''\<rparr>"

definition sample_dcs :: "connector list" where
  "sample_dcs =
     [HttpConnector ''aaa'' ''http://x'' ''get'', HttpConnector ''bbb'' ''http://ok'' ''post'',
      HttpConnector ''ccc'' ''http://y'' ''get'']"

theorem http_failover_witness:
  "http_loop sample_thrower_env sample_thrower_config (resp_msg 5) ''failover'' [] sample_dcs Thrower =
   th_ackMessage (resp_msg 5) (Thrower\<lparr>th_calls := [(''GET'', ''http://x''), (''POST'', ''http://ok'')]\<rparr>)"
proof -
  have h: "list_all is_http sample_dcs" by code_simp
  have a: "conn_answers sample_thrower_env [] (sample_dcs ! 0) \<noteq> None" "conn_answers sample_thrower_env [] (sample_dcs ! 1) = None"
    by code_simp+
  have s: "sample_dcs = [sample_dcs ! 0] @ sample_dcs ! 1 # [sample_dcs ! 2]" by (simp add: sample_dcs_def)
  have c: "th_calls Thrower @ map conn_call ([sample_dcs ! 0] @ [sample_dcs ! 1]) = [(''GET'', ''http://x''), (''POST'', ''http://ok'')]"
    by code_simp
  have "http_loop sample_thrower_env sample_thrower_config (resp_msg 5) ''failover'' [] sample_dcs Thrower =
      th_ackMessage (resp_msg 5) (Thrower\<lparr>th_calls := th_calls Thrower @ map conn_call ([sample_dcs ! 0] @ [sample_dcs ! 1])\<rparr>)"
    using http_failover[OF h, of sample_thrower_env "[]" sample_thrower_config "resp_msg 5" Thrower] s a by fastforce
  then show ?thesis unfolding c .
qed

text \<open>No HTTP status stops the retries, not even 404, because the text of the error carries more than the code.\<close>

lemma no_status_is_final:
  assumes "400 \<le> code" "http_error (Response code c) = Some e" shows "e \<notin> set noRetryErrors"
proof -
  have "length e \<ge> 5" using assms by (auto simp: http_error_def split: if_splits)
  then show ?thesis by (auto simp: noRetryErrors_def)
qed
section \<open>Receipts are thrown a bounded number of times\<close>

definition th_tries :: "string \<Rightarrow> thrower \<Rightarrow> nat" where
  "th_tries msgid st = (case map_of (th_retrials st) msgid of None \<Rightarrow> 0 | Some n \<Rightarrow> nat n)"

definition th_ready :: "string \<Rightarrow> thrower \<Rightarrow> bool" where
  "th_ready msgid st \<longleftrightarrow> (\<forall>m. map_of (th_timers st) msgid \<noteq> Some (m, True)) \<and>
     (case map_of (th_retrials st) msgid of None \<Rightarrow> True | Some n \<Rightarrow> 0 < n)"

text \<open>A receipt whose headers can be read, as the lookup publishes it.\<close>

definition receipt_ok :: "amqp_msg \<Rightarrow> bool" where
  "receipt_ok m \<longleftrightarrow>
     (m_routing_key m = ''dlr_thrower.http'' \<longrightarrow> (\<exists>x. dlr_args m = Inr x)) \<and>
     (m_routing_key m = ''dlr_thrower.smpps'' \<longrightarrow> (\<forall>env cfg. \<exists>x. smpp_dlr_receipt env cfg m = Inr x))"

text \<open>The state after the try was counted and before the message is settled.\<close>

definition counted :: "amqp_msg \<Rightarrow> thrower \<Rightarrow> thrower \<Rightarrow> bool" where
  "counted m st s \<longleftrightarrow> (\<forall>x. map_of (th_timers s) (m_msgid m) \<noteq> Some (x, True)) \<and>
     map_of (th_retrials s) (m_msgid m) = Some (int (Suc (th_tries (m_msgid m) st)))"

definition delivered :: "thrower_config \<Rightarrow> amqp_msg \<Rightarrow> thrower \<Rightarrow> thrower \<Rightarrow> bool" where
  "delivered cfg m st st' \<longleftrightarrow> th_ready (m_msgid m) st' \<and>
     (final_effect m (last (th_out st')) \<and> th_tries (m_msgid m) st' = 0 \<or>
      last (th_out st') = EReject (m_tag m) True \<and> th_tries (m_msgid m) st' = Suc (th_tries (m_msgid m) st) \<and>
      Suc (th_tries (m_msgid m) st) < Suc (nat (tc_max_retries cfg)))"

lemma no_active_timer: "(\<forall>x. map_of (th_timers s) i \<noteq> Some (x, True)) \<Longrightarrow> th_timer_fires i s = s"
  by (auto simp: th_timer_fires_def split: option.splits bool.splits)

lemma settled_delivered:
  assumes "counted m st s"
  shows "delivered cfg m st (th_timer_fires (m_msgid m) (th_ackMessage m s))"
    and "delivered cfg m st (th_timer_fires (m_msgid m) (th_rejectMessage m False s))"
  using assms
  by (auto simp: no_active_timer counted_def delivered_def th_ready_def th_tries_def final_effect_def th_ackMessage_def
      th_rejectMessage_def delThrowingRetrials_def Let_def)

lemma requeue_delivered:
  assumes "counted m st s"
  shows "delivered cfg m st (th_timer_fires (m_msgid m) (requeue_or_purge cfg retry m s))"
proof (cases "retry \<and> getThrowingRetrials m s \<le> tc_max_retries cfg")
  case True
  have "getThrowingRetrials m s = int (Suc (th_tries (m_msgid m) st))"
    using assms by (simp add: getThrowingRetrials_def counted_def)
  with True assms show ?thesis
    by (auto simp: requeue_or_purge_def th_rejectAndRequeueMessage_def th_clearRequeueTimer_def Let_def th_timer_fires_def
        th_rejectMessage_def delivered_def th_ready_def counted_def th_tries_def)
next
  case False
  then have "requeue_or_purge cfg retry m s = th_rejectMessage m False s" by (auto simp: requeue_or_purge_def)
  then show ?thesis using settled_delivered(2)[OF assms] by simp
qed

lemma counted_step:
  "counted m st s \<Longrightarrow> counted m st (s\<lparr>th_calls := cs\<rparr>)"
  "counted m st s \<Longrightarrow> counted m st (th_clearRequeueTimer i s)"
  by (auto simp: counted_def th_clearRequeueTimer_def)

lemma inc_counted: "th_ready (m_msgid m) st \<Longrightarrow> counted m st (incThrowingRetrials m st)"
  by (auto simp: th_ready_def counted_def incThrowingRetrials_def getThrowingRetrials_def th_tries_def split: option.splits)

lemma dlr_throw_delivered:
  assumes "th_ready (m_msgid m) st" "receipt_ok m"
    "st' = th_timer_fires (m_msgid m) (snd (dlr_throwing_callback env cfg m st))"
  shows "delivered cfg m st st'"
proof -
  let ?s = "incThrowingRetrials m st"
  note c = inc_counted[OF assms(1)]
  have http: "delivered cfg m st (th_timer_fires (m_msgid m) (snd (http_dlr_callback env cfg m ?s)))"
    if k: "m_routing_key m = ''dlr_thrower.http''"
  proof -
    obtain url verb ps where a: "dlr_args m = Inr (url, verb, ps)" using assms(2) k by (auto simp: receipt_ok_def)
    obtain r s1 where h: "call_http env verb url ps (th_clearRequeueTimer (m_msgid m) ?s) = (r, s1)" by fastforce
    have "counted m st s1" using h counted_step[OF counted_step(2)[OF c]] by (auto simp: call_http_def)
    with a h settled_delivered(1) requeue_delivered show ?thesis
      by (cases r) (simp_all add: http_dlr_callback_def Let_def)
  qed
  have smpp: "delivered cfg m st (th_timer_fires (m_msgid m) (snd (smpp_dlr_callback env cfg m ?s)))"
    if k: "m_routing_key m = ''dlr_thrower.smpps''"
  proof -
    obtain sid rp where a: "smpp_dlr_receipt env cfg m = Inr (sid, rp)" using assms(2) k by (fastforce simp: receipt_ok_def)
    note s1 = counted_step(1)[OF c, of "th_calls ?s @ [(''smpps'', sid)]"]
    show ?thesis
      using a settled_delivered(1)[OF s1] requeue_delivered[OF s1]
      by (cases "smpps_send env sid rp") (simp_all add: smpp_dlr_callback_def Let_def)
  qed
  show ?thesis
    unfolding assms(3) dlr_throwing_callback_def Let_def using http smpp settled_delivered(2)[OF c] by simp
qed

interpretation dlr_thrower: retrying_consumer
  "\<lambda>env m st. snd (dlr_throwing_callback env cfg m st)" th_timer_fires th_out th_tries th_ready receipt_ok
  "Suc (nat (tc_max_retries cfg))"
  for cfg
  by unfold_locales (simp, rule dlr_throw_delivered[unfolded delivered_def])

text \<open>
  Claim C13.  A receipt is thrown at most \<^verbatim>\<open>max_retries\<close> + 1 times: whatever the receiver answers, over HTTP
  or to a bound SMPP client, a redelivered receipt is acknowledged or rejected for good by then, every
  throw before that ends with a rejection that requeues it, and its retry counter is removed.
\<close>

theorem dlr_thrower_settles:
  assumes "th_timers st = []" "map_of (th_retrials st) msgid = None"
    "\<And>k. receipt_ok (ms k)" "\<And>k. m_msgid (ms k) = msgid"
  shows "\<exists>n \<le> nat (tc_max_retries cfg).
    (let st' = redeliver (\<lambda>env m st. snd (dlr_throwing_callback env cfg m st)) th_timer_fires env ms msgid (Suc n) st
     in final_effect (ms n) (last (th_out st')) \<and> map_of (th_retrials st') msgid = None) \<and>
    (\<forall>i < n. last (th_out (redeliver (\<lambda>env m st. snd (dlr_throwing_callback env cfg m st)) th_timer_fires env ms msgid (Suc i) st)) =
       EReject (m_tag (ms i)) True)"
proof -
  have r: "th_ready msgid st" "th_tries msgid st = 0" using assms(1,2) by (simp_all add: th_ready_def th_tries_def)
  have none: "map_of (th_retrials s) msgid = None" if "th_ready msgid s" "th_tries msgid s = 0" for s
    using that by (auto simp: th_ready_def th_tries_def split: option.splits)
  from dlr_thrower.settles[OF r, of ms cfg env, OF assms(3,4)] none show ?thesis
    unfolding Let_def less_Suc_eq_le by blast
qed

definition http_receipt :: "nat \<Rightarrow> amqp_msg" where
  "http_receipt t =
     \<lparr>m_tag = t, m_routing_key = ''dlr_thrower.http'',
      m_content = mk_content (BText ''i-1'') ''i-1''
        [(''url'', PStr ''http://gone''), (''method'', PStr ''POST''), (''level'', PInt 1),
         (''message_status'', PStr ''ESME_ROK''), (''connector'', PStr ''c'')]\<rparr>"

theorem dlr_thrower_settles_witness:
  "th_out (redeliver (\<lambda>env m st. snd (dlr_throwing_callback env sample_thrower_config m st)) th_timer_fires
       (\<lambda>_. sample_thrower_env) http_receipt ''i-1'' 2 Thrower) = [EReject 0 True, EReject 1 False] \<and>
   (\<exists>n \<le> 1. final_effect (http_receipt n) (last (th_out (redeliver
       (\<lambda>env m st. snd (dlr_throwing_callback env sample_thrower_config m st)) th_timer_fires
       (\<lambda>_. sample_thrower_env) http_receipt ''i-1'' (Suc n) Thrower))))"
proof -
  have "dlr_args (http_receipt k) = Inr (''http://gone'', ''POST'', [(''id'', PStr ''i-1''), (''level'', PInt 1),
      (''message_status'', PStr ''ESME_ROK''), (''connector'', PStr ''c'')])" for k
    by (simp add: dlr_args_def http_receipt_def mk_content_def dget_def num_in_def is_number_def Let_def)
  then have h: "receipt_ok (http_receipt k)" "m_msgid (http_receipt k) = ''i-1''" for k
    by (simp_all add: receipt_ok_def http_receipt_def mk_content_def)
  have "th_timers Thrower = []" "map_of (th_retrials Thrower) ''i-1'' = None" by (simp_all add: Thrower_def)
  moreover have mx: "nat (tc_max_retries sample_thrower_config) = 1" by (simp add: sample_thrower_config_def)
  ultimately have "\<exists>n \<le> 1. final_effect (http_receipt n) (last (th_out (redeliver
       (\<lambda>env m st. snd (dlr_throwing_callback env sample_thrower_config m st)) th_timer_fires
       (\<lambda>_. sample_thrower_env) http_receipt ''i-1'' (Suc n) Thrower)))"
    using dlr_thrower_settles[of Thrower "''i-1''" http_receipt sample_thrower_config "\<lambda>_. sample_thrower_env", OF _ _ h,
        unfolded mx Let_def] by blast
  moreover have "th_out (redeliver (\<lambda>env m st. snd (dlr_throwing_callback env sample_thrower_config m st)) th_timer_fires
       (\<lambda>_. sample_thrower_env) http_receipt ''i-1'' 2 Thrower) = [EReject 0 True, EReject 1 False]" by code_simp
  ultimately show ?thesis by blast
qed

end
