(* ===== verification/Stats.thy ===== *)
theory Stats
  imports Messaging
begin

text \<open>
  Statistics (\<^verbatim>\<open>jasmin/tools/stats.py\<close>, \<^verbatim>\<open>jasmin/protocols/smpp/stats.py\<close>, \<^verbatim>\<open>jasmin/protocols/http/stats.py\<close>):
  a dictionary with a fixed set of keys, some of which count.  The updates a method makes are a list of
  \<open>stat_op\<close>.  Updating an unknown key, or incrementing a key that does not hold an integer, raises; the
  lemmas show that a list of well-typed updates never does.
\<close>

section \<open>Statistics objects\<close>

type_synonym stats = "(string, pyval) dict"

datatype stat_op = SSet string pyval | SInc string int

definition st_set :: "string \<Rightarrow> pyval \<Rightarrow> (stats, unit) action" where
  "st_set key v s = (if \<not> has_key s key then (Inl KeyNotFound, s) else (Inr (), dset s key v))"

definition st_get :: "string \<Rightarrow> stats \<Rightarrow> pyval res" where
  "st_get key s = (case map_of s key of None \<Rightarrow> Inl KeyNotFound | Some v \<Rightarrow> Inr v)"

definition st_inc :: "string \<Rightarrow> int \<Rightarrow> (stats, unit) action" where
  "st_inc key n s =
     (case map_of s key of
        None \<Rightarrow> (Inl KeyNotFound, s)
      | Some v \<Rightarrow> if \<not> is_int v then (Inl KeyNotIncrementable, s) else (Inr (), dset s key (PInt (int_of v + n))))"

definition st_dec :: "string \<Rightarrow> int \<Rightarrow> (stats, unit) action" where
  "st_dec key n = st_inc key (- n)"

fun stat_do :: "stat_op \<Rightarrow> (stats, unit) action" where
  "stat_do (SSet k v) = st_set k v"
| "stat_do (SInc k n) = (if 0 \<le> n then st_inc k n else st_dec k (- n))"

fun stats_run :: "stat_op list \<Rightarrow> (stats, unit) action" where
  "stats_run [] = act_res (Inr ())"
| "stats_run (x # xs) = act_seq (stat_do x) (stats_run xs)"

definition ClientConnectorStatistics :: stats where
  "ClientConnectorStatistics =
     [(''created_at'', PInt 0), (''last_received_pdu_at'', PInt 0), (''last_sent_pdu_at'', PInt 0),
      (''last_received_elink_at'', PInt 0), (''last_sent_elink_at'', PInt 0), (''last_seqNum_at'', PInt 0),
      (''last_seqNum'', PNone), (''connected_at'', PInt 0), (''bound_at'', PInt 0), (''disconnected_at'', PInt 0),
      (''connected_count'', PInt 0), (''bound_count'', PInt 0), (''disconnected_count'', PInt 0),
      (''submit_sm_request_count'', PInt 0), (''submit_sm_count'', PInt 0), (''deliver_sm_count'', PInt 0),
      (''data_sm_count'', PInt 0), (''elink_count'', PInt 0), (''throttling_error_count'', PInt 0),
      (''other_submit_error_count'', PInt 0), (''interceptor_error_count'', PInt 0), (''interceptor_count'', PInt 0)]"

definition ServerConnectorStatistics :: stats where
  "ServerConnectorStatistics =
     [(''created_at'', PInt 0), (''last_received_pdu_at'', PInt 0), (''last_sent_pdu_at'', PInt 0),
      (''last_received_elink_at'', PInt 0), (''connected_count'', PInt 0), (''connect_count'', PInt 0),
      (''disconnect_count'', PInt 0), (''bound_trx_count'', PInt 0), (''bound_rx_count'', PInt 0),
      (''bound_tx_count'', PInt 0), (''bind_trx_count'', PInt 0), (''bind_rx_count'', PInt 0),
      (''bind_tx_count'', PInt 0), (''unbind_count'', PInt 0), (''submit_sm_request_count'', PInt 0),
      (''submit_sm_count'', PInt 0), (''deliver_sm_count'', PInt 0), (''data_sm_count'', PInt 0),
      (''elink_count'', PInt 0), (''throttling_error_count'', PInt 0), (''other_submit_error_count'', PInt 0),
      (''interceptor_error_count'', PInt 0), (''interceptor_count'', PInt 0)]"

definition HttpAPIStatistics :: stats where
  "HttpAPIStatistics =
     [(''created_at'', PInt 0), (''request_count'', PInt 0), (''last_request_at'', PInt 0),
      (''auth_error_count'', PInt 0), (''route_error_count'', PInt 0), (''interceptor_error_count'', PInt 0),
      (''interceptor_count'', PInt 0), (''throughput_error_count'', PInt 0), (''charging_error_count'', PInt 0),
      (''server_error_count'', PInt 0), (''success_count'', PInt 0), (''last_success_at'', PInt 0)]"

text \<open>A collector keeps one statistics object per connector, made on first use.\<close>

definition collector_get :: "stats \<Rightarrow> string \<Rightarrow> (string, stats) dict \<Rightarrow> stats \<times> (string, stats) dict" where
  "collector_get fresh cid connectors =
     (case map_of connectors cid of
        Some s \<Rightarrow> (s, connectors)
      | None \<Rightarrow> (fresh, dset connectors cid fresh))"

section \<open>Well-typed updates\<close>

definition is_counter :: "string \<Rightarrow> bool" where
  "is_counter k \<longleftrightarrow> drop (length k - 6) k = ''_count''"

definition stats_typed :: "stats \<Rightarrow> stats \<Rightarrow> bool" where
  "stats_typed fresh s \<longleftrightarrow> map fst s = map fst fresh \<and> list_all (\<lambda>(k, v). is_counter k \<longrightarrow> is_int v) s"

fun stat_op_ok :: "stats \<Rightarrow> stat_op \<Rightarrow> bool" where
  "stat_op_ok fresh (SSet k v) = (has_key fresh k \<and> \<not> is_counter k)"
| "stat_op_ok fresh (SInc k n) = (has_key fresh k \<and> is_counter k)"

lemma has_key_fst: "has_key d k \<longleftrightarrow> k \<in> set (map fst d)"
  by (simp add: has_key_def map_of_eq_None_iff)

lemma dset_keys: "has_key s k \<Longrightarrow> map fst (dset s k v) = map fst s"
  by (simp add: has_key_fst update_keys)

lemma stats_typed_key: "stats_typed fresh s \<Longrightarrow> has_key s k \<longleftrightarrow> has_key fresh k"
  by (simp add: stats_typed_def has_key_fst)

lemma stats_typed_fresh:
  "stats_typed ClientConnectorStatistics ClientConnectorStatistics"
  "stats_typed ServerConnectorStatistics ServerConnectorStatistics"
  "stats_typed HttpAPIStatistics HttpAPIStatistics"
  by code_simp+

lemma stat_do_typed:
  assumes "stats_typed fresh s" "stat_op_ok fresh x"
  shows "\<exists>s'. stat_do x s = (Inr (), s') \<and> stats_typed fresh s'"
proof (cases x)
  case (SSet k v)
  with assms stats_typed_key[OF assms(1)] show ?thesis
    by (auto simp: st_set_def stats_typed_def dset_keys intro!: list_all_dset)
next
  case (SInc k n)
  then obtain v where v: "map_of s k = Some v" "is_counter k"
    using assms(2) stats_typed_key[OF assms(1), of k] by (auto simp: has_key_def)
  then have "is_int v" using assms(1) map_of_SomeD[OF v(1)] by (auto simp: stats_typed_def list_all_iff)
  with v SInc assms(1) show ?thesis
    by (auto simp: st_inc_def st_dec_def stats_typed_def dset_keys has_key_def intro!: list_all_dset)
qed

lemma stats_run_typed:
  "stats_typed fresh s \<Longrightarrow> list_all (stat_op_ok fresh) xs \<Longrightarrow>
   \<exists>s'. stats_run xs s = (Inr (), s') \<and> stats_typed fresh s'"
proof (induction xs arbitrary: s)
  case (Cons x xs)
  then obtain s' where "stat_do x s = (Inr (), s')" "stats_typed fresh s'"
    using stat_do_typed[of fresh s x] by auto
  with Cons show ?case by (simp add: act_seq_def act_bind_def)
qed (simp add: act_res_def)

end
