(* ===== verification/Client_Protocol.thy ===== *)
theory Client_Protocol
  imports Stats
begin

text \<open>
  The client side of an SMPP session (\<^verbatim>\<open>SMPPClientProtocol\<close> of \<^verbatim>\<open>jasmin/protocols/smpp/protocol.py\<close>).  Its
  work is the transaction of a long message: the parts are sent one by one, each in a transaction of the
  vendor's protocol class, and one more transaction per message counts the responses that are missing.

  The vendor's class is the parameter \<open>vendor_client\<close>, whose methods act on a state \<open>'l\<close> of their own; the
  two methods that call back into the subclass get the whole object, as inheritance gives it to them.
  A \<^verbatim>\<open>Deferred\<close> is a number; what it was fired with is recorded in \<open>cp_fired\<close>.  A PDU with the attribute
  \<^verbatim>\<open>LongSubmitSm\<close> is a \<open>part\<close>.  The timer of a transaction is started and cancelled with it.
\<close>

section \<open>State\<close>

record long_flags =
  lf_ref :: pyval
  lf_total :: pyval
  lf_seq :: pyval

record part =
  pt_pdu :: pdu
  pt_long :: "long_flags option"

record long_txn =
  lt_request :: part
  lt_deferred :: nat
  lt_nack :: pyval

datatype long_result = LongAck part pdu | LongFail pyexc

record 'l client_proto =
  cp_lib :: 'l
  cp_txns :: "(pyval, long_txn) dict"
  cp_next :: nat
  cp_fired :: "(nat \<times> long_result) list"
  cp_stats :: stats

text \<open>What \<^verbatim>\<open>doSendRequest\<close> returns: the transaction of a long message, or what the vendor's class returns.\<close>

datatype sent = LongSent nat | VendorSent

record 'l vendor_client =
  vc_corrupted :: "'l \<Rightarrow> bool"
  vc_requireAck :: "string \<Rightarrow> string option"
  vc_claimSeqNum :: "'l \<Rightarrow> int \<times> 'l"
  vc_sendPDU :: "pdu \<Rightarrow> ('l, unit) action"
  vc_startOutboundTransaction :: "part \<Rightarrow> ('l, unit) action"
  vc_closeOutboundTransaction :: "int option \<Rightarrow> 'l \<Rightarrow> part option \<times> 'l"
  vc_cancelOutboundTransactions :: "pyexc \<Rightarrow> 'l \<Rightarrow> 'l"
  vc_doSendRequest :: "pdu \<Rightarrow> ('l client_proto, unit) action"
  vc_sendDataRequest :: "(pdu list \<Rightarrow> ('l client_proto, sent) action) \<Rightarrow> pdu list \<Rightarrow> ('l client_proto, sent) action"
  vc_coding_name :: "int \<Rightarrow> string option"
  vc_now :: pyval

record client_config =
  cc_source_addr :: pyval

definition SMPPClientProtocol :: "'l \<Rightarrow> stats \<Rightarrow> 'l client_proto" where
  "SMPPClientProtocol l s = \<lparr>cp_lib = l, cp_txns = [], cp_next = 0, cp_fired = [], cp_stats = s\<rparr>"

definition on_lib :: "('l, 'a) action \<Rightarrow> ('l client_proto, 'a) action" where
  "on_lib m st = (case m (cp_lib st) of (r, l) \<Rightarrow> (r, st\<lparr>cp_lib := l\<rparr>))"

definition on_stats :: "stat_op list \<Rightarrow> ('l client_proto, unit) action" where
  "on_stats ops st = (case stats_run ops (cp_stats st) of (r, s) \<Rightarrow> (r, st\<lparr>cp_stats := s\<rparr>))"

section \<open>Statistics\<close>

definition cl_received_stats :: "pyval \<Rightarrow> stat_op list" where
  "cl_received_stats now = [SSet ''last_received_pdu_at'' now]"

definition cl_made_stats :: "pyval \<Rightarrow> stat_op list" where
  "cl_made_stats now = [SSet ''connected_at'' now, SInc ''connected_count'' 1]"

definition cl_lost_stats :: "pyval \<Rightarrow> stat_op list" where
  "cl_lost_stats now = [SSet ''disconnected_at'' now, SInc ''disconnected_count'' 1]"

definition cl_request_stats :: "pyval \<Rightarrow> pdu \<Rightarrow> stat_op list" where
  "cl_request_stats now p =
     (if p_command p = ''enquire_link'' then [SSet ''last_received_elink_at'' now]
      else if p_command p = ''deliver_sm'' then [SInc ''deliver_sm_count'' 1]
      else if p_command p = ''data_sm'' then [SInc ''data_sm_count'' 1]
      else [])"

definition cl_response_stats :: "pdu \<Rightarrow> stat_op list" where
  "cl_response_stats p =
     (if p_command p = ''submit_sm_resp'' then
        (if p_status p = ''ESME_RTHROTTLED'' then [SInc ''throttling_error_count'' 1]
         else if p_status p \<noteq> ''ESME_ROK'' then [SInc ''other_submit_error_count'' 1]
         else [SInc ''submit_sm_count'' 1])
      else [])"

definition cl_sent_stats :: "pyval \<Rightarrow> pdu \<Rightarrow> stat_op list" where
  "cl_sent_stats now p =
     SSet ''last_sent_pdu_at'' now #
     (if p_command p = ''enquire_link'' then [SSet ''last_sent_elink_at'' now, SInc ''elink_count'' 1]
      else if p_command p = ''submit_sm'' then [SInc ''submit_sm_request_count'' 1]
      else [])"

definition cl_seq_stats :: "pyval \<Rightarrow> int \<Rightarrow> stat_op list" where
  "cl_seq_stats now n = [SSet ''last_seqNum_at'' now, SSet ''last_seqNum'' (PInt n)]"

definition cl_bound_stats :: "pyval \<Rightarrow> stat_op list" where
  "cl_bound_stats now = [SSet ''bound_at'' now, SInc ''bound_count'' 1]"

section \<open>Sending\<close>

definition claimSeqNum :: "'l vendor_client \<Rightarrow> ('l client_proto, int) action" where
  "claimSeqNum vc =
     act_bind (on_lib (\<lambda>l. case vc_claimSeqNum vc l of (n, l') \<Rightarrow> (Inr n, l'))) (\<lambda>n.
       act_seq (on_stats (cl_seq_stats (vc_now vc) n)) (act_res (Inr n)))"

definition sendPDU :: "'l vendor_client \<Rightarrow> pdu \<Rightarrow> ('l client_proto, unit) action" where
  "sendPDU vc p = act_seq (on_lib (vc_sendPDU vc p)) (on_stats (cl_sent_stats (vc_now vc) p))"

text \<open>The GSM features of the message; only an \<^verbatim>\<open>EsmClass\<close> has the attribute.\<close>

definition gsm_features :: "pyval \<Rightarrow> pyval list" where
  "gsm_features v = (case v of PList [m, t, PList fs] \<Rightarrow> fs | _ \<Rightarrow> [])"

definition udhi_set :: "pyval \<Rightarrow> bool" where
  "udhi_set v \<longleftrightarrow> PEnum ''EsmClassGsmFeatures'' ''UDHI_INDICATOR_SET'' \<in> set (gsm_features v)"

definition udh_prefix :: string where
  "udh_prefix = [CHR 0x05, CHR 0x00, CHR 0x03]"

text \<open>\<^verbatim>\<open>v[:3] == b'\x05\x00\x03'\<close>.\<close>

definition has_udh_prefix :: "pyval \<Rightarrow> bool res" where
  "has_udh_prefix v =
     (case v of
        PBytes b \<Rightarrow> Inr (take 3 b = udh_prefix)
      | PStr _ \<Rightarrow> Inr False
      | PList _ \<Rightarrow> Inr False
      | _ \<Rightarrow> Inl TypeError)"

definition splitMethod :: "pdu \<Rightarrow> string option res" where
  "splitMethod p =
     res_bind (dget (p_params p) ''esm_class'') (\<lambda>esm.
       if has_key (p_params p) ''sar_msg_ref_num'' then Inr (Some ''sar'')
       else if udhi_set esm then
         res_bind (dget (p_params p) ''short_message'') (\<lambda>sm.
         res_bind (has_udh_prefix sm) (\<lambda>b. Inr (if b then Some ''udh'' else None)))
       else Inr None)"

text \<open>\<^verbatim>\<open>v[i]\<close> of a byte string is a number, of a text a text.\<close>

definition byte_at :: "pyval \<Rightarrow> nat \<Rightarrow> pyval res" where
  "byte_at v i =
     (case v of
        PBytes b \<Rightarrow> raise_if (length b \<le> i) IndexError (Inr (PInt (int (cval (b ! i)))))
      | PStr s \<Rightarrow> raise_if (length s \<le> i) IndexError (Inr (PStr [s ! i]))
      | PList vs \<Rightarrow> raise_if (length vs \<le> i) IndexError (Inr (vs ! i))
      | _ \<Rightarrow> Inl TypeError)"

definition part_flags :: "string \<Rightarrow> pdu \<Rightarrow> long_flags res" where
  "part_flags split p =
     (let ps = p_params p
      in if split = ''sar'' then
           res_bind (dget ps ''sar_msg_ref_num'') (\<lambda>r.
           res_bind (dget ps ''sar_total_segments'') (\<lambda>t.
           res_bind (dget ps ''sar_segment_seqnum'') (\<lambda>s. Inr \<lparr>lf_ref = r, lf_total = t, lf_seq = s\<rparr>)))
         else
           res_bind (res_bind (dget ps ''short_message'') (\<lambda>sm. byte_at sm 3)) (\<lambda>r.
           res_bind (res_bind (dget ps ''short_message'') (\<lambda>sm. byte_at sm 4)) (\<lambda>t.
           res_bind (res_bind (dget ps ''short_message'') (\<lambda>sm. byte_at sm 5)) (\<lambda>s.
             Inr \<lparr>lf_ref = r, lf_total = t, lf_seq = s\<rparr>))))"

text \<open>A numeric data coding becomes the named one, or \<^verbatim>\<open>None\<close>; the source address defaults to the one of the
  connector.\<close>

definition preSubmitSm :: "'l vendor_client \<Rightarrow> client_config \<Rightarrow> pdu \<Rightarrow> pdu res" where
  "preSubmitSm vc cfg p =
     (let ps = (case map_of (p_params p) ''data_coding'' of
                  Some v \<Rightarrow>
                    if is_int v then
                      dset (p_params p) ''data_coding''
                        (case vc_coding_name vc (int_of v) of Some n \<Rightarrow> PEnum ''DataCodingDefault'' n | None \<Rightarrow> PNone)
                    else p_params p
                | None \<Rightarrow> p_params p)
      in res_bind (dget ps ''source_addr'') (\<lambda>src.
           Inr (p\<lparr>p_params :=
             (if src = PNone \<and> cc_source_addr cfg \<noteq> PNone then dset ps ''source_addr'' (cc_source_addr cfg) else ps)\<rparr>)))"

section \<open>Transactions of long messages\<close>

definition startLongSubmitSmTransaction :: "part \<Rightarrow> ('l client_proto, nat) action" where
  "startLongSubmitSmTransaction pt st =
     (case pt_long pt of
        None \<Rightarrow> (Inl AttributeError, st)
      | Some fg \<Rightarrow>
          if has_key (cp_txns st) (lf_ref fg) then (Inl LongSubmitSmTransactionError, st)
          else
            (Inr (cp_next st),
             st\<lparr>cp_txns := dset (cp_txns st) (lf_ref fg)
                  \<lparr>lt_request = pt, lt_deferred = cp_next st, lt_nack = lf_total fg\<rparr>,
                cp_next := cp_next st + 1\<rparr>))"

definition closeLongSubmitSmTransaction :: "pyval \<Rightarrow> ('l client_proto, long_txn) action" where
  "closeLongSubmitSmTransaction ref st =
     (case map_of (cp_txns st) ref of
        None \<Rightarrow> (Inl KeyError, st)
      | Some t \<Rightarrow> (Inr t, st\<lparr>cp_txns := ddel (cp_txns st) ref\<rparr>))"

definition fire :: "long_txn \<Rightarrow> long_result \<Rightarrow> ('l client_proto, unit) action" where
  "fire t r = act_do (\<lambda>st. st\<lparr>cp_fired := cp_fired st @ [(lt_deferred t, r)]\<rparr>)"

text \<open>One response less is missing; a count that is not positive is left alone.\<close>

definition nack_after :: "pyval \<Rightarrow> pyval res" where
  "nack_after v = res_bind (py_lt (PInt 0) v) (\<lambda>b. if b then py_sub v (PInt 1) else Inr v)"

definition endLongSubmitSmTransaction :: "part \<Rightarrow> pdu \<Rightarrow> ('l client_proto, unit) action" where
  "endLongSubmitSmTransaction pt resp st =
     (case pt_long pt of
        None \<Rightarrow> (Inl AttributeError, st)
      | Some fg \<Rightarrow>
          (case map_of (cp_txns st) (lf_ref fg) of
             None \<Rightarrow> (Inl LongSubmitSmTransactionError, st)
           | Some t \<Rightarrow>
               (case nack_after (lt_nack t) of
                  Inl e \<Rightarrow> (Inl e, st)
                | Inr n \<Rightarrow>
                    (let st1 = st\<lparr>cp_txns := dset (cp_txns st) (lf_ref fg) (t\<lparr>lt_nack := n\<rparr>)\<rparr>
                     in if num_in n [0] then
                          act_bind (closeLongSubmitSmTransaction (lf_ref fg))
                            (\<lambda>t'. fire t' (LongAck (lt_request t') resp)) st1
                        else (Inr (), st1)))))"

definition onLongSubmitSmTransactionTimeout :: "pyval \<Rightarrow> ('l client_proto, unit) action" where
  "onLongSubmitSmTransactionTimeout ref =
     act_bind (closeLongSubmitSmTransaction ref) (\<lambda>t. fire t (LongFail SMPPRequestTimoutError))"

fun cancel_txns :: "pyexc \<Rightarrow> pyval list \<Rightarrow> ('l client_proto, unit) action" where
  "cancel_txns err [] = act_res (Inr ())"
| "cancel_txns err (ref # refs) =
     act_seq (act_bind (closeLongSubmitSmTransaction ref) (\<lambda>t. fire t (LongFail err))) (cancel_txns err refs)"

definition txn_ref :: "long_txn \<Rightarrow> pyval" where
  "txn_ref t = (case pt_long (lt_request t) of Some fg \<Rightarrow> lf_ref fg | None \<Rightarrow> PNone)"

definition cancelLongSubmitSmTransactions :: "pyexc \<Rightarrow> ('l client_proto, unit) action" where
  "cancelLongSubmitSmTransactions err st = cancel_txns err (map (txn_ref \<circ> snd) (cp_txns st)) st"

definition cancelOutboundTransactions :: "'l vendor_client \<Rightarrow> pyexc \<Rightarrow> ('l client_proto, unit) action" where
  "cancelOutboundTransactions vc err =
     act_seq (on_lib (\<lambda>l. (Inr (), vc_cancelOutboundTransactions vc err l))) (cancelLongSubmitSmTransactions err)"

section \<open>Requests\<close>

definition send_part ::
  "'l vendor_client \<Rightarrow> client_config \<Rightarrow> string \<Rightarrow> pdu \<Rightarrow> ('l client_proto, part) action" where
  "send_part vc cfg split p0 =
     act_bind (claimSeqNum vc) (\<lambda>n.
     act_bind (act_res (part_flags split p0)) (\<lambda>fg.
     act_bind (act_res (preSubmitSm vc cfg (p0\<lparr>p_seqNum := Some n\<rparr>))) (\<lambda>p.
       let pt = \<lparr>pt_pdu = p, pt_long = Some fg\<rparr>
       in act_seq (sendPDU vc p)
          (act_seq (on_lib (vc_startOutboundTransaction vc pt))
            (act_res (Inr pt))))))"

fun send_parts :: "'l vendor_client \<Rightarrow> client_config \<Rightarrow> string \<Rightarrow> pdu list \<Rightarrow> ('l client_proto, unit) action" where
  "send_parts vc cfg split [] = act_res (Inr ())"
| "send_parts vc cfg split (p # ps) = act_bind (send_part vc cfg split p) (\<lambda>_. send_parts vc cfg split ps)"

text \<open>The transaction of the message is started after its first part was sent.\<close>

definition send_long ::
  "'l vendor_client \<Rightarrow> client_config \<Rightarrow> string \<Rightarrow> pdu \<Rightarrow> pdu list \<Rightarrow> ('l client_proto, nat) action" where
  "send_long vc cfg split p ps =
     act_bind (send_part vc cfg split p) (\<lambda>pt.
     act_bind (startLongSubmitSmTransaction pt) (\<lambda>d.
       act_seq (send_parts vc cfg split ps) (act_res (Inr d))))"

text \<open>A PDU with its successors in the chain of \<^verbatim>\<open>nextPdu\<close>.\<close>

definition doSendRequest ::
  "'l vendor_client \<Rightarrow> client_config \<Rightarrow> pdu list \<Rightarrow> ('l client_proto, sent) action" where
  "doSendRequest vc cfg chain st =
     (case chain of
        [] \<Rightarrow> (Inl SMPPClientError, st)
      | p # ps \<Rightarrow>
          if vc_corrupted vc (cp_lib st) then (Inl SMPPClientConnectionCorruptedError, st)
          else if vc_requireAck vc (p_command p) = None then (Inl SMPPClientError, st)
          else if p_command p = ''submit_sm'' then
            act_bind (act_res (splitMethod p)) (\<lambda>m.
              if m \<noteq> None \<and> ps \<noteq> [] then
                act_bind (send_long vc cfg (the m) p ps) (\<lambda>d. act_res (Inr (LongSent d)))
              else
                act_bind (act_res (preSubmitSm vc cfg p)) (\<lambda>p'.
                  act_seq (vc_doSendRequest vc p') (act_res (Inr VendorSent)))) st
          else act_seq (vc_doSendRequest vc p) (act_res (Inr VendorSent)) st)"

definition strip_bypass :: "string \<Rightarrow> pdu \<Rightarrow> pdu" where
  "strip_bypass cmd p = (if p_command p = cmd then p\<lparr>p_params := ddel (p_params p) ''vendor_specific_bypass''\<rparr> else p)"

definition sendDataRequest ::
  "'l vendor_client \<Rightarrow> client_config \<Rightarrow> pdu list \<Rightarrow> ('l client_proto, sent) action" where
  "sendDataRequest vc cfg chain =
     vc_sendDataRequest vc (doSendRequest vc cfg)
       (case chain of [] \<Rightarrow> [] | p # ps \<Rightarrow> strip_bypass ''submit_sm'' p # ps)"

section \<open>Responses\<close>

text \<open>What a transaction of the vendor's class is fired with.\<close>

datatype txn_result = TxnAck part pdu | TxnFail pyexc

text \<open>Every status of a response to a \<^verbatim>\<open>submit_sm\<close> is a result.  A response of the wrong type is meant to
  fail the transaction, but \<^verbatim>\<open>errback\<close> is called with two arguments and raises \<^verbatim>\<open>TypeError\<close> instead.\<close>

definition endOutboundTransaction :: "'l vendor_client \<Rightarrow> pdu \<Rightarrow> ('l client_proto, txn_result option) action" where
  "endOutboundTransaction vc resp st =
     (case vc_closeOutboundTransaction vc (p_seqNum resp) (cp_lib st) of
        (req, l) \<Rightarrow>
          (case req of
             None \<Rightarrow> Inr None
           | Some pt \<Rightarrow>
               if p_command (pt_pdu pt) = ''submit_sm'' \<or> p_status resp = ''ESME_ROK'' then
                 (if vc_requireAck vc (p_command (pt_pdu pt)) \<noteq> Some (p_command resp) then Inl TypeError
                  else Inr (Some (TxnAck pt resp)))
               else if p_command resp = ''generic_nack'' then Inr (Some (TxnFail SMPPGenericNackTransactionError))
               else Inr (Some (TxnFail SMPPTransactionError)),
           st\<lparr>cp_lib := l\<rparr>))"

text \<open>The callbacks of a part: a result counts for the message, a failure changes nothing.\<close>

definition part_answered :: "txn_result \<Rightarrow> ('l client_proto, unit) action" where
  "part_answered r =
     (case r of
        TxnAck pt resp \<Rightarrow> (if pt_long pt \<noteq> None then endLongSubmitSmTransaction pt resp else act_res (Inr ()))
      | TxnFail e \<Rightarrow> act_res (if e = SMPPClientConnectionCorruptedError then Inr () else Inl e))"

end
