(* ===== verification/Client_Protocol_Correct.thy ===== *)
theory Client_Protocol_Correct
  imports Client_Protocol "HOL-Library.Multiset"
begin

text \<open>
  Correctness of the transactions of long messages: every transaction that was started is open or was
  fired exactly once, a transaction is fired when the last of its responses arrives, and what happens
  when a reference number is used twice.
\<close>

section \<open>Dictionaries as multisets\<close>

lemma ddel_absent: "\<not> has_key d k \<Longrightarrow> ddel d k = d"
  by (simp add: delete_id has_key_def map_of_eq_None_iff)

lemma mset_ddel:
  assumes "distinct (map fst d)" "map_of d k = Some v"
  shows "mset (map f d) = add_mset (f (k, v)) (mset (map f (ddel d k)))"
  using assms
proof (induction d)
  case (Cons x d)
  show ?case
  proof (cases "fst x = k")
    case True
    with Cons.prems have "\<not> has_key d k" by (auto simp: has_key_def map_of_eq_None_iff)
    with True Cons.prems show ?thesis by (cases x) (simp add: ddel_absent)
  qed (use Cons in \<open>auto split: if_splits\<close>)
qed simp

lemma mset_dset_same:
  assumes "distinct (map fst d)" "map_of d k = Some v" "f (k, w) = f (k, v)"
  shows "mset (map f (dset d k w)) = mset (map f d)"
  using assms by (induction d) (auto split: if_splits)

lemma dset_subset: "set (dset d k v) \<subseteq> insert (k, v) (set d)"
  by (induction d) auto

lemma ddel_subset: "set (ddel d k) \<subseteq> set d"
  by (induction d) auto

lemma distinct_ddel: "distinct (map fst d) \<Longrightarrow> distinct (map fst (ddel d k))"
  by (rule distinct_delete)

lemma list_all_ddel: "list_all P d \<Longrightarrow> list_all P (ddel d k)"
  by (induction d) auto

section \<open>Every transaction is open or fired once\<close>

definition open_ids :: "'l client_proto \<Rightarrow> nat list" where
  "open_ids st = map (lt_deferred \<circ> snd) (cp_txns st)"

definition txns_ok :: "'l client_proto \<Rightarrow> bool" where
  "txns_ok st \<longleftrightarrow>
     distinct (map fst (cp_txns st)) \<and> list_all (\<lambda>(k, t). txn_ref t = k) (cp_txns st) \<and>
     mset (open_ids st) + mset (map fst (cp_fired st)) = mset [0..<cp_next st]"

text \<open>An action that changes neither the transactions nor what was fired.\<close>

definition frames :: "('l client_proto, 'a) action \<Rightarrow> bool" where
  "frames m \<longleftrightarrow> (\<forall>st. cp_txns (snd (m st)) = cp_txns st \<and> cp_next (snd (m st)) = cp_next st \<and>
     cp_fired (snd (m st)) = cp_fired st)"

abbreviation keeps :: "'l client_proto \<Rightarrow> 'l client_proto \<Rightarrow> bool" where
  "keeps st st' \<equiv> txns_ok st \<longrightarrow> txns_ok st'"

lemma keeps_pre [simp]: "reflp keeps" "transp keeps"
  by (auto intro: reflpI transpI)

lemma keepsD: "act_inv keeps m \<Longrightarrow> txns_ok st \<Longrightarrow> txns_ok (snd (m st))"
  by (simp add: act_inv_def)

lemma frames_inv: "frames m \<Longrightarrow> act_inv keeps m"
  by (simp add: frames_def act_inv_def txns_ok_def open_ids_def)

lemma frames_lib [intro]: "frames (on_lib m)"
  by (simp add: frames_def on_lib_def split: prod.splits)

lemma frames_stats [intro]: "frames (on_stats ops)"
  by (simp add: frames_def on_stats_def split: prod.splits)

lemma frames_bind [intro]: "frames m \<Longrightarrow> (\<And>x. frames (f x)) \<Longrightarrow> frames (act_bind m f)"
  by (simp add: frames_def act_bind_def split: prod.splits sum.splits) (metis snd_conv)

lemma frames_res [intro]: "frames (act_res r)"
  by (simp add: frames_def act_res_def)

lemma frames_seq [intro]: "frames m \<Longrightarrow> frames n \<Longrightarrow> frames (act_seq m n)"
  unfolding act_seq_def by (rule frames_bind)

lemma frames_send_part: "frames (send_part vc cfg split p)"
  unfolding send_part_def claimSeqNum_def sendPDU_def Let_def by (intro frames_bind frames_seq frames_lib frames_stats frames_res)

lemma frames_send_parts: "frames (send_parts vc cfg split ps)"
  by (induction ps) (auto intro: frames_send_part)

lemma start_inv: "act_inv keeps (startLongSubmitSmTransaction pt)"
  by (auto simp: act_inv_def startLongSubmitSmTransaction_def txns_ok_def open_ids_def dset_new txn_ref_def has_key_fst
      atLeast0_lessThan_Suc split: option.splits)

lemma fired_step:
  assumes "txns_ok st" "map_of (cp_txns st) k = Some t"
  shows "txns_ok (st\<lparr>cp_txns := ddel (cp_txns st) k, cp_fired := cp_fired st @ [(lt_deferred t, r)]\<rparr>)"
proof -
  have "mset (open_ids st) = add_mset (lt_deferred t) (mset (map (lt_deferred \<circ> snd) (ddel (cp_txns st) k)))"
    unfolding open_ids_def using mset_ddel[OF _ assms(2), of "lt_deferred \<circ> snd"] assms(1) by (simp add: txns_ok_def)
  then show ?thesis using assms(1) by (simp add: txns_ok_def open_ids_def distinct_ddel list_all_ddel)
qed

lemma close_fire_inv: "act_inv keeps (act_bind (closeLongSubmitSmTransaction k) (\<lambda>t. fire t (r t)))"
  using fired_step by (auto simp: act_inv_def closeLongSubmitSmTransaction_def fire_def act_defs split: option.splits)

lemma txn_ref_nack [simp]: "txn_ref (t\<lparr>lt_nack := n\<rparr>) = txn_ref t"
  by (simp add: txn_ref_def)

lemma nack_ok:
  assumes "txns_ok st" "map_of (cp_txns st) k = Some t"
  shows "txns_ok (st\<lparr>cp_txns := dset (cp_txns st) k (t\<lparr>lt_nack := n\<rparr>)\<rparr>)"
proof -
  have "txn_ref t = k" using assms map_of_SomeD[OF assms(2)] by (auto simp: txns_ok_def list_all_iff)
  moreover have "map fst (dset (cp_txns st) k (t\<lparr>lt_nack := n\<rparr>)) = map fst (cp_txns st)"
    using assms(2) by (intro dset_keys) (simp add: has_key_def)
  ultimately show ?thesis
    using assms mset_dset_same[OF _ assms(2), of "lt_deferred \<circ> snd" "t\<lparr>lt_nack := n\<rparr>"]
    by (simp add: txns_ok_def open_ids_def list_all_dset)
qed

lemma end_long_inv: "act_inv keeps (endLongSubmitSmTransaction pt resp)"
  using close_fire_inv nack_ok
  by (fastforce simp: act_inv_def endLongSubmitSmTransaction_def Let_def split: option.splits sum.splits)

lemma cancel_txns_inv: "act_inv keeps (cancel_txns err refs)"
  by (induction refs) (auto intro!: act_inv_seq close_fire_inv act_inv_res)

text \<open>The vendor's method for a single PDU does not know the attributes of the subclass.\<close>

definition vendor_frames :: "'l vendor_client \<Rightarrow> bool" where
  "vendor_frames vc \<longleftrightarrow> (\<forall>p. frames (vc_doSendRequest vc p))"

lemma send_long_inv: "act_inv keeps (send_long vc cfg split p ps)"
  unfolding send_long_def
  by (intro act_inv_bind act_inv_seq start_inv frames_inv frames_send_part frames_send_parts frames_res) simp_all

lemma doSendRequest_inv:
  assumes "vendor_frames vc" shows "act_inv keeps (doSendRequest vc cfg chain)"
proof -
  have v: "act_inv keeps (act_seq (vc_doSendRequest vc p) (act_res (Inr VendorSent)))" for p
    using assms by (auto simp: vendor_frames_def intro: frames_inv)
  have m: "act_inv keeps (act_bind (act_res (splitMethod p)) (\<lambda>m.
      if m \<noteq> None \<and> ps \<noteq> [] then
        act_bind (send_long vc cfg (the m) p ps) (\<lambda>d. act_res (Inr (LongSent d)))
      else act_bind (act_res (preSubmitSm vc cfg p)) (\<lambda>p'. act_seq (vc_doSendRequest vc p') (act_res (Inr VendorSent)))))"
    for p ps
    by (intro act_inv_bind act_inv_res) (simp_all add: act_inv_bind send_long_inv act_inv_res v)
  show ?thesis
    using v m unfolding act_inv_def doSendRequest_def by (auto split: list.splits)
qed

section \<open>Steps of a session\<close>

text \<open>The response to a part: the transaction of the part ends, then its callbacks run.\<close>

definition response_received :: "'l vendor_client \<Rightarrow> pdu \<Rightarrow> ('l client_proto, unit) action" where
  "response_received vc resp =
     act_bind (endOutboundTransaction vc resp)
       (\<lambda>r. case r of None \<Rightarrow> act_res (Inr ()) | Some x \<Rightarrow> part_answered x)"

inductive client_step :: "'l vendor_client \<Rightarrow> client_config \<Rightarrow> 'l client_proto \<Rightarrow> 'l client_proto \<Rightarrow> bool"
  for vc cfg where
  send: "client_step vc cfg st (snd (doSendRequest vc cfg chain st))"
| response: "client_step vc cfg st (snd (response_received vc resp st))"
| timeout: "has_key (cp_txns st) ref \<Longrightarrow> client_step vc cfg st (snd (onLongSubmitSmTransactionTimeout ref st))"
| cancel: "client_step vc cfg st (snd (cancelOutboundTransactions vc err st))"
| statistics: "client_step vc cfg st (snd (on_stats ops st))"

inductive client_reachable :: "'l vendor_client \<Rightarrow> client_config \<Rightarrow> 'l client_proto \<Rightarrow> bool" for vc cfg where
  init: "client_reachable vc cfg (SMPPClientProtocol l s)"
| step: "client_reachable vc cfg st \<Longrightarrow> client_step vc cfg st st' \<Longrightarrow> client_reachable vc cfg st'"

lemma response_inv: "act_inv keeps (response_received vc resp)"
  unfolding response_received_def
proof (rule act_inv_bind)
  show "act_inv keeps (endOutboundTransaction vc resp)"
    by (auto simp: act_inv_def endOutboundTransaction_def txns_ok_def open_ids_def split: prod.splits)
  show "act_inv keeps (case r of None \<Rightarrow> act_res (Inr ()) | Some x \<Rightarrow> part_answered x)" for r
    by (auto simp: part_answered_def act_inv_res end_long_inv split: option.split txn_result.split)
qed simp

lemma cancel_inv: "act_inv keeps (cancelOutboundTransactions vc err)"
proof -
  have "act_inv keeps (cancelLongSubmitSmTransactions err)"
    using cancel_txns_inv by (auto simp: act_inv_def cancelLongSubmitSmTransactions_def)
  then show ?thesis
    unfolding cancelOutboundTransactions_def using frames_inv[OF frames_lib] by (intro act_inv_seq) simp_all
qed

lemma client_step_ok:
  assumes "client_step vc cfg st st'" "vendor_frames vc" "txns_ok st" shows "txns_ok st'"
  using assms(1)
proof cases
  case (send chain)
  then show ?thesis by (simp only: keepsD[OF doSendRequest_inv[OF assms(2)] assms(3)])
next
  case (timeout ref)
  then show ?thesis unfolding onLongSubmitSmTransactionTimeout_def by (simp only: keepsD[OF close_fire_inv assms(3)])
qed (simp_all only: keepsD[OF response_inv assms(3)] keepsD[OF cancel_inv assms(3)]
       keepsD[OF frames_inv[OF frames_stats] assms(3)])

lemma client_reachable_ok:
  assumes "client_reachable vc cfg st" "vendor_frames vc" shows "txns_ok st"
  using assms(1)
proof (induction rule: client_reachable.induct)
  case (init l s)
  then show ?case by (simp add: SMPPClientProtocol_def txns_ok_def open_ids_def)
qed (rule client_step_ok[OF _ assms(2)])

text \<open>Claim C10.  In every reachable state of a session each transaction of a long message that was ever
  started either is open, with its caller still waiting, or was fired exactly once: no result is lost and none
  is delivered twice, whatever responses, time-outs and disconnections occur.\<close>

theorem long_txn_open_or_fired_once:
  assumes "client_reachable vc cfg st" "vendor_frames vc"
  shows "distinct (map fst (cp_fired st)) \<and> distinct (open_ids st) \<and>
    set (open_ids st) \<inter> set (map fst (cp_fired st)) = {} \<and>
    set (open_ids st) \<union> set (map fst (cp_fired st)) = {..<cp_next st}"
proof -
  have "mset (open_ids st @ map fst (cp_fired st)) = mset [0..<cp_next st]"
    using client_reachable_ok[OF assms] by (simp add: txns_ok_def)
  then have "distinct (open_ids st @ map fst (cp_fired st))" "set (open_ids st @ map fst (cp_fired st)) = set [0..<cp_next st]"
    using mset_eq_imp_distinct_iff mset_eq_setD distinct_upt by blast+
  then show ?thesis by (auto simp: atLeast0LessThan)
qed

section \<open>A transaction ends with its last response\<close>

text \<open>The responses to parts, in the order they arrive.\<close>

fun answer_all :: "(part \<times> pdu) list \<Rightarrow> 'l client_proto \<Rightarrow> 'l client_proto" where
  "answer_all [] st = st"
| "answer_all ((pt, resp) # xs) st = answer_all xs (snd (endLongSubmitSmTransaction pt resp st))"

definition has_ref :: "pyval \<Rightarrow> part \<times> pdu \<Rightarrow> bool" where
  "has_ref ref x \<longleftrightarrow> map_option lf_ref (pt_long (fst x)) = Some ref"

definition fired_for :: "nat \<Rightarrow> 'l client_proto \<Rightarrow> long_result list" where
  "fired_for d st = map snd (filter (\<lambda>x. fst x = d) (cp_fired st))"

lemma answer_other:
  assumes "\<not> has_ref ref (pt, resp)" "txns_ok st" "map_of (cp_txns st) ref = Some t"
  shows "map_of (cp_txns (snd (endLongSubmitSmTransaction pt resp st))) ref = Some t \<and>
    fired_for (lt_deferred t) (snd (endLongSubmitSmTransaction pt resp st)) = fired_for (lt_deferred t) st"
proof -
  have "lt_deferred u \<noteq> lt_deferred t" if "map_of (cp_txns st) k = Some u" "k \<noteq> ref" for k u
  proof
    assume eq: "lt_deferred u = lt_deferred t"
    let ?f = "lt_deferred \<circ> snd :: pyval \<times> long_txn \<Rightarrow> nat"
    have d: "distinct (open_ids st)"
      using assms(2) mset_eq_imp_distinct_iff[of "open_ids st @ map fst (cp_fired st)" "[0..<cp_next st]"]
      by (simp add: txns_ok_def)
    then have "(k, u) = (ref, t)"
      using map_of_SomeD[OF that(1)] map_of_SomeD[OF assms(3)] eq
      by (metis (no_types, lifting) open_ids_def distinct_map inj_on_def comp_apply snd_conv)
    then show False using that(2) by simp
  qed
  then show ?thesis
    using assms(1,3)
    by (auto simp: endLongSubmitSmTransaction_def has_ref_def closeLongSubmitSmTransaction_def fire_def act_defs Let_def
        fired_for_def split: option.splits sum.splits)
qed

lemma nack_after_int: "nack_after (PInt i) = Inr (PInt (if 0 < i then i - 1 else i))"
  by (simp add: nack_after_def py_defs)

lemma answer_mine:
  assumes "has_ref ref (pt, resp)" "map_of (cp_txns st) ref = Some t" "lt_nack t = PInt (int (Suc n))"
  shows "snd (endLongSubmitSmTransaction pt resp st) =
    (if n = 0 then st\<lparr>cp_txns := ddel (dset (cp_txns st) ref (t\<lparr>lt_nack := PInt 0\<rparr>)) ref,
                      cp_fired := cp_fired st @ [(lt_deferred t, LongAck (lt_request t) resp)]\<rparr>
     else st\<lparr>cp_txns := dset (cp_txns st) ref (t\<lparr>lt_nack := PInt (int n)\<rparr>)\<rparr>)"
  using assms by (auto simp: has_ref_def endLongSubmitSmTransaction_def nack_after_int Let_def num_in_def is_number_def
      closeLongSubmitSmTransaction_def fire_def act_defs)

lemma answer_ok: "txns_ok st \<Longrightarrow> txns_ok (snd (endLongSubmitSmTransaction pt resp st))"
  by (rule keepsD[OF end_long_inv])

text \<open>A transaction that is not open stays closed and is not fired again.\<close>

lemma open_idsI: "map_of (cp_txns st) k = Some t \<Longrightarrow> lt_deferred t \<in> set (open_ids st)"
  by (force simp: open_ids_def dest: map_of_SomeD)

lemma answer_not_open:
  assumes "d \<notin> set (open_ids st)" "\<not> has_key (cp_txns st) ref"
  shows "d \<notin> set (open_ids (snd (endLongSubmitSmTransaction pt resp st))) \<and>
    \<not> has_key (cp_txns (snd (endLongSubmitSmTransaction pt resp st))) ref \<and>
    fired_for d (snd (endLongSubmitSmTransaction pt resp st)) = fired_for d st"
proof (cases "\<exists>fg t n. pt_long pt = Some fg \<and> map_of (cp_txns st) (lf_ref fg) = Some t \<and> nack_after (lt_nack t) = Inr n")
  case True
  then obtain fg t n where t: "pt_long pt = Some fg" "map_of (cp_txns st) (lf_ref fg) = Some t" "nack_after (lt_nack t) = Inr n"
    by blast
  have d: "lt_deferred t \<noteq> d" using open_idsI[OF t(2)] assms(1) by auto
  have r: "lf_ref fg \<noteq> ref" using t(2) assms(2) by (auto simp: has_key_def)
  have sub: "(lt_deferred \<circ> snd) ` set (dset (cp_txns st) (lf_ref fg) (t\<lparr>lt_nack := n\<rparr>)) \<subseteq>
      insert (lt_deferred t) (set (open_ids st))"
    using image_mono[OF dset_subset[where d = "cp_txns st" and k = "lf_ref fg" and v = "t\<lparr>lt_nack := n\<rparr>"],
        of "lt_deferred \<circ> snd"]
    by (simp add: open_ids_def)
  have n1: "d \<notin> (lt_deferred \<circ> snd) ` set (dset (cp_txns st) (lf_ref fg) (t\<lparr>lt_nack := n\<rparr>))"
    using d assms(1) subsetD[OF sub] by (metis insertE)
  have n2: "d \<notin> (lt_deferred \<circ> snd) ` set (ddel (dset (cp_txns st) (lf_ref fg) (t\<lparr>lt_nack := n\<rparr>)) (lf_ref fg))"
    using n1 image_mono[OF ddel_subset] by (rule contra_subsetD[rotated])
  show ?thesis
    using t r assms(2) d n1 n2
    by (simp add: endLongSubmitSmTransaction_def Let_def closeLongSubmitSmTransaction_def fire_def act_defs fired_for_def
        open_ids_def)
next
  case False
  with assms show ?thesis by (auto simp: endLongSubmitSmTransaction_def split: option.splits sum.splits)
qed

lemma answer_all_not_open:
  "d \<notin> set (open_ids st) \<Longrightarrow> \<not> has_key (cp_txns st) ref \<Longrightarrow>
   \<not> has_key (cp_txns (answer_all xs st)) ref \<and> fired_for d (answer_all xs st) = fired_for d st"
proof (induction xs arbitrary: st)
  case (Cons x xs)
  then show ?case using answer_not_open[OF Cons.prems] by (cases x) fastforce
qed simp

lemma answer_last:
  assumes "txns_ok st" "has_ref ref (pt, resp)" "map_of (cp_txns st) ref = Some t" "lt_nack t = PInt 1"
  shows "\<not> has_key (cp_txns (answer_all xs (snd (endLongSubmitSmTransaction pt resp st)))) ref \<and>
    fired_for (lt_deferred t) (answer_all xs (snd (endLongSubmitSmTransaction pt resp st))) =
      fired_for (lt_deferred t) st @ [LongAck (lt_request t) resp]"
proof -
  let ?st = "snd (endLongSubmitSmTransaction pt resp st)"
  have st: "?st = st\<lparr>cp_txns := ddel (dset (cp_txns st) ref (t\<lparr>lt_nack := PInt 0\<rparr>)) ref,
      cp_fired := cp_fired st @ [(lt_deferred t, LongAck (lt_request t) resp)]\<rparr>"
    using answer_mine[OF assms(2,3), of 0] assms(4) by simp
  have "distinct (open_ids ?st @ map fst (cp_fired ?st))"
    using answer_ok[OF assms(1), of pt resp]
      mset_eq_imp_distinct_iff[of "open_ids ?st @ map fst (cp_fired ?st)" "[0..<cp_next ?st]"]
    by (simp add: txns_ok_def)
  then have "lt_deferred t \<notin> set (open_ids ?st)" by (simp add: st)
  moreover have "\<not> has_key (cp_txns ?st) ref" by (simp add: st)
  ultimately have "\<not> has_key (cp_txns (answer_all xs ?st)) ref \<and>
      fired_for (lt_deferred t) (answer_all xs ?st) = fired_for (lt_deferred t) ?st"
    by (rule answer_all_not_open)
  then show ?thesis by (simp add: st fired_for_def)
qed

text \<open>Claim C27.  Responses to the parts of a long message count until the last one: while some are missing the
  transaction stays open and is not fired, and the response that completes the number of parts closes it and fires
  it once, with the request of the first part and with that last response.  Responses to other messages may arrive
  in between, and the order of the parts does not matter.\<close>

theorem long_submit_completes:
  assumes "txns_ok st" "map_of (cp_txns st) ref = Some t" "lt_nack t = PInt (int n)" "0 < n"
    and "length (filter (has_ref ref) xs) \<le> n"
  shows "let mine = filter (has_ref ref) xs; st' = answer_all xs st; d = lt_deferred t
    in if length mine < n
       then map_of (cp_txns st') ref = Some (t\<lparr>lt_nack := PInt (int (n - length mine))\<rparr>) \<and>
         fired_for d st' = fired_for d st
       else \<not> has_key (cp_txns st') ref \<and>
         fired_for d st' = fired_for d st @ [LongAck (lt_request t) (snd (last mine))]"
  using assms
proof (induction xs arbitrary: st t n)
  case (Cons x xs)
  obtain pt resp where x: "x = (pt, resp)" by fastforce
  let ?st = "snd (endLongSubmitSmTransaction pt resp st)"
  have ok: "txns_ok ?st" using Cons.prems(1) by (rule answer_ok)
  show ?case
  proof (cases "has_ref ref x")
    case False
    have "map_of (cp_txns ?st) ref = Some t" "fired_for (lt_deferred t) ?st = fired_for (lt_deferred t) st"
      using answer_other[OF False[unfolded x] Cons.prems(1,2)] by simp_all
    with Cons.IH[OF ok _ Cons.prems(3,4)] False Cons.prems(5) x show ?thesis by (simp add: Let_def)
  next
    case True
    from Cons.prems(4) obtain m where n: "n = Suc m" by (cases n) simp_all
    note mine = answer_mine[OF True[unfolded x] Cons.prems(2,3)[unfolded n]]
    show ?thesis
    proof (cases "m = 0")
      case True
      with Cons.prems(5) n \<open>has_ref ref x\<close> have "filter (has_ref ref) xs = []" by simp
      with answer_last[OF Cons.prems(1) \<open>has_ref ref x\<close>[unfolded x] Cons.prems(2), of xs] Cons.prems(3) True n
        \<open>has_ref ref x\<close> x show ?thesis by (simp add: Let_def)
    next
      case False
      let ?t = "t\<lparr>lt_nack := PInt (int m)\<rparr>"
      have "map_of (cp_txns ?st) ref = Some ?t" "fired_for (lt_deferred t) ?st = fired_for (lt_deferred t) st"
        using mine False by (simp_all add: fired_for_def)
      with Cons.IH[OF ok, of ?t m] False n Cons.prems(5) \<open>has_ref ref x\<close> x show ?thesis
        by (auto simp: Let_def split: if_splits)
    qed
  qed
qed (simp add: Let_def)
section \<open>Sending a long message\<close>

text \<open>The vendor's class sends a PDU and starts its transaction without raising.\<close>

definition vendor_live :: "'l vendor_client \<Rightarrow> bool" where
  "vendor_live vc \<longleftrightarrow> (\<forall>p l. fst (vc_sendPDU vc p l) = Inr ()) \<and> (\<forall>pt l. fst (vc_startOutboundTransaction vc pt l) = Inr ())"

lemma client_ops_ok:
  "list_all (stat_op_ok ClientConnectorStatistics) (cl_seq_stats now n)"
  "list_all (stat_op_ok ClientConnectorStatistics) (cl_sent_stats now p)"
  "list_all (stat_op_ok ClientConnectorStatistics) (cl_received_stats now)"
  "list_all (stat_op_ok ClientConnectorStatistics) (cl_made_stats now)"
  "list_all (stat_op_ok ClientConnectorStatistics) (cl_lost_stats now)"
  "list_all (stat_op_ok ClientConnectorStatistics) (cl_request_stats now p)"
  "list_all (stat_op_ok ClientConnectorStatistics) (cl_response_stats p)"
  "list_all (stat_op_ok ClientConnectorStatistics) (cl_bound_stats now)"
  by (simp_all add: cl_seq_stats_def cl_sent_stats_def cl_received_stats_def cl_made_stats_def cl_lost_stats_def
      cl_request_stats_def cl_response_stats_def cl_bound_stats_def ClientConnectorStatistics_def has_key_def is_counter_def)

abbreviation cl_typed :: "'l client_proto \<Rightarrow> bool" where
  "cl_typed st \<equiv> stats_typed ClientConnectorStatistics (cp_stats st)"

lemma on_stats_typed:
  assumes "cl_typed st" "list_all (stat_op_ok ClientConnectorStatistics) ops"
  shows "\<exists>s. on_stats ops st = (Inr (), st\<lparr>cp_stats := s\<rparr>) \<and> stats_typed ClientConnectorStatistics s"
  using stats_run_typed[OF assms] by (auto simp: on_stats_def)

lemma preSubmitSm_ok: "has_key (p_params p) ''source_addr'' \<Longrightarrow> \<exists>q. preSubmitSm vc cfg p = Inr q"
proof -
  assume k: "has_key (p_params p) ''source_addr''"
  have "has_key (case map_of (p_params p) ''data_coding'' of
      Some v \<Rightarrow> if is_int v then dset (p_params p) ''data_coding''
          (case vc_coding_name vc (int_of v) of Some n \<Rightarrow> PEnum ''DataCodingDefault'' n | None \<Rightarrow> PNone)
        else p_params p
    | None \<Rightarrow> p_params p) ''source_addr''"
    using k by (simp split: option.split)
  then show ?thesis unfolding preSubmitSm_def Let_def by (subst (asm) dget_ok_iff[symmetric]) auto
qed

lemma send_part_ok:
  assumes "vendor_live vc" "cl_typed st" "part_flags split p = Inr fg" "has_key (p_params p) ''source_addr''"
  shows "\<exists>pt st'. send_part vc cfg split p st = (Inr pt, st') \<and> pt_long pt = Some fg \<and> cl_typed st'"
proof -
  obtain n l where c: "vc_claimSeqNum vc (cp_lib st) = (n, l)" by fastforce
  obtain s1 where s1: "on_stats (cl_seq_stats (vc_now vc) n) (st\<lparr>cp_lib := l\<rparr>) = (Inr (), st\<lparr>cp_lib := l, cp_stats := s1\<rparr>)"
    "stats_typed ClientConnectorStatistics s1"
    using on_stats_typed[of "st\<lparr>cp_lib := l\<rparr>" "cl_seq_stats (vc_now vc) n"] assms(2) client_ops_ok(1) by auto
  obtain q where q: "preSubmitSm vc cfg (p\<lparr>p_seqNum := Some n\<rparr>) = Inr q"
    using preSubmitSm_ok[of "p\<lparr>p_seqNum := Some n\<rparr>"] assms(4) by auto
  obtain l2 where l2: "vc_sendPDU vc q l = (Inr (), l2)"
    using assms(1) by (metis vendor_live_def prod.collapse)
  obtain s2 where s2: "on_stats (cl_sent_stats (vc_now vc) q) (st\<lparr>cp_lib := l, cp_stats := s1, cp_lib := l2\<rparr>) =
      (Inr (), st\<lparr>cp_lib := l, cp_stats := s1, cp_lib := l2, cp_stats := s2\<rparr>)" "stats_typed ClientConnectorStatistics s2"
    using on_stats_typed[of "st\<lparr>cp_lib := l, cp_stats := s1, cp_lib := l2\<rparr>" "cl_sent_stats (vc_now vc) q"]
      s1(2) client_ops_ok(2) by auto
  obtain l3 where l3: "vc_startOutboundTransaction vc \<lparr>pt_pdu = q, pt_long = Some fg\<rparr> l2 = (Inr (), l3)"
    using assms(1) by (metis vendor_live_def prod.collapse)
  show ?thesis
    using c s1 q l2 s2 l3 assms(3)
    by (simp add: send_part_def claimSeqNum_def sendPDU_def act_defs on_lib_def Let_def)
qed

lemma send_parts_ok:
  "vendor_live vc \<Longrightarrow> cl_typed st \<Longrightarrow>
   list_all (\<lambda>p. (\<exists>fg. part_flags split p = Inr fg) \<and> has_key (p_params p) ''source_addr'') ps \<Longrightarrow>
   \<exists>st'. send_parts vc cfg split ps st = (Inr (), st')"
proof (induction ps arbitrary: st)
  case (Cons p ps)
  then obtain fg where "part_flags split p = Inr fg" "has_key (p_params p) ''source_addr''" by auto
  with Cons.prems(1,2) obtain pt st1 where "send_part vc cfg split p st = (Inr pt, st1)" "cl_typed st1"
    using send_part_ok[of vc st split p fg cfg] by blast
  with Cons show ?case by (simp add: act_bind_def)
qed (simp add: act_res_def)

lemma send_long_ok:
  assumes "vendor_live vc" "cl_typed st" "part_flags split p = Inr fg" "has_key (p_params p) ''source_addr''"
    "list_all (\<lambda>p. (\<exists>fg. part_flags split p = Inr fg) \<and> has_key (p_params p) ''source_addr'') ps"
    "\<not> has_key (cp_txns st) (lf_ref fg)"
  shows "\<exists>pt st'. send_long vc cfg split p ps st = (Inr (cp_next st), st') \<and> pt_long pt = Some fg \<and>
    map_of (cp_txns st') (lf_ref fg) = Some \<lparr>lt_request = pt, lt_deferred = cp_next st, lt_nack = lf_total fg\<rparr> \<and>
    cp_fired st' = cp_fired st"
proof -
  obtain pt st1 where s1: "send_part vc cfg split p st = (Inr pt, st1)" "pt_long pt = Some fg" "cl_typed st1"
    using send_part_ok[OF assms(1-4)] by blast
  have f1: "cp_txns st1 = cp_txns st" "cp_next st1 = cp_next st" "cp_fired st1 = cp_fired st"
    using frames_send_part[of vc cfg split p] s1(1) by (auto simp: frames_def dest: spec[of _ st])
  let ?t = "\<lparr>lt_request = pt, lt_deferred = cp_next st, lt_nack = lf_total fg\<rparr>"
  let ?st2 = "st1\<lparr>cp_txns := dset (cp_txns st) (lf_ref fg) ?t, cp_next := cp_next st + 1\<rparr>"
  have s2: "startLongSubmitSmTransaction pt st1 = (Inr (cp_next st), ?st2)"
    using s1(2) f1 assms(6) by (simp add: startLongSubmitSmTransaction_def)
  obtain st3 where s3: "send_parts vc cfg split ps ?st2 = (Inr (), st3)"
    using send_parts_ok[of vc ?st2 split ps cfg] s1(3) assms(1,5) by auto
  have "cp_txns st3 = cp_txns ?st2" "cp_fired st3 = cp_fired ?st2"
    using frames_send_parts[of vc cfg split ps] s3 by (auto simp: frames_def dest: spec[of _ ?st2])
  with s1 s2 s3 f1 show ?thesis by (simp add: send_long_def act_defs)
qed

section \<open>The parts of a built message\<close>

lemma setConfig_keys:
  "has_key (p_params (setConfigParamsInPDU env f (mk_pdu cmd kw) kw)) k \<longleftrightarrow> has_key kw k \<or> k \<in> set (oe_mandatory env)"
proof -
  have "has_key (foldl (\<lambda>ps k. if has_key kw k then ps
            else dset ps k (case map_of (of_config f) k of Some v \<Rightarrow> v | None \<Rightarrow> PNone)) ps ks) k \<longleftrightarrow>
        has_key ps k \<or> (k \<in> set ks \<and> \<not> has_key kw k)" for ps ks
    by (induction ks arbitrary: ps) auto
  from this[of "p_params (mk_pdu cmd kw)" "oe_mandatory env"] show ?thesis
    by (auto simp: setConfigParamsInPDU_def mk_pdu_def)
qed

lemma part_view_udh:
  assumes "part_view ''udh'' p = Some (r, t, s, c)"
  obtains r' t' s' where "map_of (p_params p) ''short_message'' = Some (PBytes (udh_prefix @ r' # t' # s' # c))"
    "r = int (cval r')" "t = int (cval t')" "s = int (cval s')"
proof (cases "map_of (p_params p) ''short_message''")
  case (Some v)
  then show ?thesis
    using assms that
    by (cases v) (simp_all add: part_view_def udh_prefix_def split: list.splits if_splits)
qed (use assms in \<open>simp add: part_view_def\<close>)

lemma part_view_sar:
  assumes "part_view ''sar'' p = Some (r, t, s, c)"
  shows "map_of (p_params p) ''sar_msg_ref_num'' = Some (PInt r) \<and>
    map_of (p_params p) ''sar_total_segments'' = Some (PInt t) \<and> map_of (p_params p) ''sar_segment_seqnum'' = Some (PInt s)"
proof -
  let ?m = "map_of (p_params p)"
  note d = assms[unfolded part_view_def Let_def, simplified]
  obtain r' where r': "?m ''sar_msg_ref_num'' = Some (PInt r')"
    using d by (cases "?m ''sar_msg_ref_num''"; cases "the (?m ''sar_msg_ref_num'')") simp_all
  note d1 = d[unfolded r', simplified]
  obtain t' where t': "?m ''sar_total_segments'' = Some (PInt t')"
    using d1 by (cases "?m ''sar_total_segments''"; cases "the (?m ''sar_total_segments'')") simp_all
  note d2 = d1[unfolded t', simplified]
  obtain s' where s': "?m ''sar_segment_seqnum'' = Some (PInt s')"
    using d2 by (cases "?m ''sar_segment_seqnum''"; cases "the (?m ''sar_segment_seqnum'')") simp_all
  note d3 = d2[unfolded s', simplified]
  have "r' = r \<and> t' = t \<and> s' = s"
    using d3 by (cases "?m ''short_message''"; cases "the (?m ''short_message'')") simp_all
  with r' t' s' show ?thesis by simp
qed

lemma part_flags_view:
  assumes "part_view split p = Some (r, t, s, c)" "split = ''sar'' \<or> split = ''udh''"
  shows "part_flags split p = Inr \<lparr>lf_ref = PInt r, lf_total = PInt t, lf_seq = PInt s\<rparr>"
  using assms(2)
proof
  assume sar: "split = ''sar''"
  with part_view_sar[of p] assms(1) show ?thesis by (simp add: part_flags_def dget_def)
next
  assume udh: "split = ''udh''"
  obtain r' t' s' where "map_of (p_params p) ''short_message'' = Some (PBytes (udh_prefix @ r' # t' # s' # c))"
    "r = int (cval r')" "t = int (cval t')" "s = int (cval s')"
    using assms(1) part_view_udh unfolding udh by blast
  with udh show ?thesis by (simp add: part_flags_def dget_def byte_at_def udh_prefix_def)
qed

text \<open>The caller does not set the splitting options of a message itself, and a message has the mandatory
  parameters of its command.\<close>

definition plain_request :: "op_env \<Rightarrow> (string, pyval) dict \<Rightarrow> bool" where
  "plain_request env kw \<longleftrightarrow>
     \<not> has_key kw ''sar_msg_ref_num'' \<and> ''sar_msg_ref_num'' \<notin> set (oe_mandatory env) \<and>
     ''esm_class'' \<in> set (oe_mandatory env) \<and> ''source_addr'' \<in> set (oe_mandatory env)"

lemma splitMethod_cases:
  "has_key (p_params p) ''esm_class'' \<Longrightarrow> has_key (p_params p) ''sar_msg_ref_num'' \<Longrightarrow> splitMethod p = Inr (Some ''sar'')"
  "map_of (p_params p) ''esm_class'' = Some esm \<Longrightarrow> udhi_set esm \<Longrightarrow> \<not> has_key (p_params p) ''sar_msg_ref_num'' \<Longrightarrow>
   map_of (p_params p) ''short_message'' = Some (PBytes b) \<Longrightarrow> take 3 b = udh_prefix \<Longrightarrow> splitMethod p = Inr (Some ''udh'')"
proof -
  assume "has_key (p_params p) ''esm_class''" "has_key (p_params p) ''sar_msg_ref_num''"
  then show "splitMethod p = Inr (Some ''sar'')"
    unfolding splitMethod_def by (subst (asm) dget_ok_iff[symmetric]) auto
next
  assume "map_of (p_params p) ''esm_class'' = Some esm" "udhi_set esm" "\<not> has_key (p_params p) ''sar_msg_ref_num''"
    "map_of (p_params p) ''short_message'' = Some (PBytes b)" "take 3 b = udh_prefix"
  then show "splitMethod p = Inr (Some ''udh'')" by (simp add: splitMethod_def dget_def has_udh_prefix_def)
qed

lemma udhi_set_EsmClass: "udhi_set (EsmClass a b [''UDHI_INDICATOR_SET''])"
  by (simp add: udhi_set_def gsm_features_def EsmClass_def)

lemma submit_part_sendable:
  assumes "submit_part env f kw (PBytes m) chunk segs ref i = Inr p" "plain_request env kw"
    "of_split f = ''sar'' \<or> of_split f = ''udh''" "part_view (of_split f) p = Some (r, t, s, c)"
  shows "splitMethod p = Inr (Some (of_split f)) \<and> has_key (p_params p) ''source_addr'' \<and> p_command p = ''submit_sm''"
proof -
  let ?kw = "dset kw ''short_message'' (content_slice (chunk * i) (chunk * (i + 1)) (PBytes m))"
  define q where "q = setConfigParamsInPDU env f (mk_pdu ''submit_sm'' ?kw) ?kw"
  have q: "has_key (p_params q) ''esm_class''" "has_key (p_params q) ''source_addr''" "\<not> has_key (p_params q) ''sar_msg_ref_num''"
    using assms(2) unfolding q_def setConfig_keys plain_request_def by auto
  have cmd: "p_command q = ''submit_sm''" by (simp add: q_def setConfigParamsInPDU_def mk_pdu_def)
  note sp = assms(1)[unfolded submit_part_def Let_def, folded q_def]
  from assms(3) show ?thesis
  proof
    assume sar: "of_split f = ''sar''"
    with sp obtain x y z where p: "p = q\<lparr>p_params := dset (dset (dset (p_params q) ''sar_total_segments'' x)
        ''sar_segment_seqnum'' y) ''sar_msg_ref_num'' z\<rparr>"
      by auto
    with q have "has_key (p_params p) ''esm_class''" "has_key (p_params p) ''sar_msg_ref_num''" "has_key (p_params p) ''source_addr''"
      by simp_all
    then show ?thesis using sar splitMethod_cases(1) p cmd by simp
  next
    assume udh: "of_split f = ''udh''"
    with sp obtain x y where p: "p = q\<lparr>p_params := dset (dset (dset (p_params q) ''esm_class''
        (EsmClass ''DEFAULT'' ''DEFAULT'' [''UDHI_INDICATOR_SET''])) ''more_messages_to_send'' x) ''short_message'' y\<rparr>"
      by auto
    then have m: "map_of (p_params p) ''esm_class'' = Some (EsmClass ''DEFAULT'' ''DEFAULT'' [''UDHI_INDICATOR_SET''])"
      "\<not> has_key (p_params p) ''sar_msg_ref_num''" "has_key (p_params p) ''source_addr''"
      using q by simp_all
    obtain b where b: "map_of (p_params p) ''short_message'' = Some (PBytes b)" "take 3 b = udh_prefix"
      by (rule part_view_udh[OF assms(4)[unfolded udh]]) (simp add: udh_prefix_def)
    show ?thesis using splitMethod_cases(2)[OF m(1) udhi_set_EsmClass m(2) b] udh m(3) p cmd by simp
  qed
qed

lemma SubmitSM_parts:
  assumes "SubmitSM env f msg dc kw = (Inr ps, f')" "2 \<le> length ps" "p \<in> set ps"
  shows "\<exists>chunk segs ref i. submit_part env f (dset (dset kw ''short_message'' msg) ''data_coding'' dc) msg chunk segs ref i = Inr p"
  using assms by (auto simp: SubmitSM_def Let_def dest!: map_res_in split: sum.splits if_splits prod.splits)

lemma long_needs_two:
  assumes "split_ok f" "2 \<le> of_max_parts f" "single_size dc < length m"
  shows "2 \<le> min (of_max_parts f) \<lceil>of_nat (length m) / of_nat (chunk_size dc) :: rat\<rceil>"
proof -
  have c: "0 < chunk_size dc" "chunk_size dc < length m"
    using coding_limits_cases[of dc] assms(3) by (auto simp: chunk_size_def single_size_def)
  have "of_nat (chunk_size dc) < (of_nat (length m) :: rat)" using c(2) by (simp only: of_nat_less_iff)
  then have "1 < of_nat (length m) / (of_nat (chunk_size dc) :: rat)" using c(1) by (simp add: less_divide_eq)
  then have "1 < \<lceil>of_nat (length m) / of_nat (chunk_size dc) :: rat\<rceil>" by (simp add: less_ceiling_iff)
  with assms(2) show ?thesis by simp
qed
lemma built_part_sendable:
  assumes "split_ok f" "plain_request env kw" "SubmitSM env f (PBytes m) dc kw = (Inr ps, f')" "2 \<le> length ps"
    "list_all2 (\<lambda>i p. part_view (of_split f) p = Some (ref, n, int i + 1, cs i)) is ps" "p \<in> set ps"
  shows "splitMethod p = Inr (Some (of_split f)) \<and> has_key (p_params p) ''source_addr'' \<and> p_command p = ''submit_sm'' \<and>
    (\<exists>s. part_flags (of_split f) p = Inr \<lparr>lf_ref = PInt ref, lf_total = PInt n, lf_seq = PInt s\<rparr>)"
proof -
  have split: "of_split f = ''sar'' \<or> of_split f = ''udh''" using assms(1) by (simp add: split_ok_def)
  have plain: "plain_request env (dset (dset kw ''short_message'' (PBytes m)) ''data_coding'' dc)"
    using assms(2) by (simp add: plain_request_def)
  obtain j where "j < length ps" "p = ps ! j" using assms(6) by (metis in_set_conv_nth)
  with list_all2_nthD2[OF assms(5)] obtain s c where w: "part_view (of_split f) p = Some (ref, n, s, c)" by blast
  obtain chunk segs r i where
    "submit_part env f (dset (dset kw ''short_message'' (PBytes m)) ''data_coding'' dc) (PBytes m) chunk segs r i = Inr p"
    using SubmitSM_parts[OF assms(3,4,6)] by blast
  from submit_part_sendable[OF this plain split w] part_flags_view[OF w split] show ?thesis by blast
qed


section \<open>What goes wrong\<close>

text \<open>A reference number that is still in use is only noticed after the first part of the second
  message was sent: the request fails and is repeated later, the part was already submitted, and the response to
  that stray part is counted for the other message, whose transaction then ends one response early.\<close>

theorem long_ref_clash:
  assumes "vendor_live vc" "cl_typed st" "\<not> vc_corrupted vc (cp_lib st)" "vc_requireAck vc ''submit_sm'' \<noteq> None"
    "p_command p = ''submit_sm''" "splitMethod p = Inr (Some m)" "ps \<noteq> []" "part_flags m p = Inr fg"
    "has_key (p_params p) ''source_addr''" "map_of (cp_txns st) (lf_ref fg) = Some t" "lt_nack t = PInt n" "1 < n"
  shows "\<exists>pt st'. send_part vc cfg m p st = (Inr pt, st') \<and>
    doSendRequest vc cfg (p # ps) st = (Inl LongSubmitSmTransactionError, st') \<and> cp_txns st' = cp_txns st \<and>
    map_of (cp_txns (snd (endLongSubmitSmTransaction pt resp st'))) (lf_ref fg) = Some (t\<lparr>lt_nack := PInt (n - 1)\<rparr>)"
proof -
  obtain pt st' where s: "send_part vc cfg m p st = (Inr pt, st')" "pt_long pt = Some fg"
    using send_part_ok[OF assms(1,2,8,9)] by blast
  have tx: "cp_txns st' = cp_txns st"
    using frames_send_part[of vc cfg m p] s(1) by (auto simp: frames_def dest: spec[of _ st])
  have "startLongSubmitSmTransaction pt st' = (Inl LongSubmitSmTransactionError, st')"
    using s(2) tx assms(10) by (simp add: startLongSubmitSmTransaction_def has_key_def)
  then have "doSendRequest vc cfg (p # ps) st = (Inl LongSubmitSmTransactionError, st')"
    using assms(3-7) s(1) by (simp add: doSendRequest_def send_long_def act_defs)
  moreover have "map_of (cp_txns (snd (endLongSubmitSmTransaction pt resp st'))) (lf_ref fg) = Some (t\<lparr>lt_nack := PInt (n - 1)\<rparr>)"
    using s(2) tx assms(10-12)
    by (simp add: endLongSubmitSmTransaction_def nack_after_int Let_def num_in_def is_number_def)
  ultimately show ?thesis using s tx by blast
qed

text \<open>A \<^verbatim>\<open>generic_nack\<close> for a \<^verbatim>\<open>submit_sm\<close> ends its transaction, but neither its result nor its failure reaches
  the caller.\<close>

lemma generic_nack_unanswered:
  assumes "vc_closeOutboundTransaction vc (p_seqNum resp) (cp_lib st) = (Some pt, l)"
    "p_command (pt_pdu pt) = ''submit_sm''" "p_command resp = ''generic_nack''"
    "vc_requireAck vc ''submit_sm'' = Some ''submit_sm_resp''"
  shows "response_received vc resp st = (Inl TypeError, st\<lparr>cp_lib := l\<rparr>)"
  using assms by (simp add: response_received_def endOutboundTransaction_def act_defs)

section \<open>A sample session\<close>

definition sample_vendor :: "(int \<times> part list) vendor_client" where
  "sample_vendor =
     \<lparr>vc_corrupted = (\<lambda>l. False), vc_requireAck = (\<lambda>c. if c = ''submit_sm'' then Some ''submit_sm_resp'' else None),
      vc_claimSeqNum = (\<lambda>(n, ps). (n + 1, (n + 1, ps))), vc_sendPDU = (\<lambda>p l. (Inr (), l)),
      vc_startOutboundTransaction = (\<lambda>pt (n, ps). (Inr (), (n, ps @ [pt]))),
      vc_closeOutboundTransaction = (\<lambda>i (n, ps). (find (\<lambda>pt. p_seqNum (pt_pdu pt) = i) ps, (n, ps))),
      vc_cancelOutboundTransactions = (\<lambda>e (n, ps). (n, [])), vc_doSendRequest = (\<lambda>p st. (Inr (), st)),
      vc_sendDataRequest = (\<lambda>f chain. f chain), vc_coding_name = (\<lambda>i. None), vc_now = PInt 0\<rparr>"

definition sample_client_config :: client_config where
  "sample_client_config = \<lparr>cc_source_addr = PNone\<rparr>"

definition sample_session :: "(int \<times> part list) client_proto" where
  "sample_session = SMPPClientProtocol (0, []) ClientConnectorStatistics"

definition sample_part :: "int \<Rightarrow> int \<Rightarrow> pdu" where
  "sample_part ref i =
     mk_pdu ''submit_sm'' [(''source_addr'', PBytes ''1''), (''esm_class'', PNone), (''short_message'', PBytes ''a''),
       (''sar_msg_ref_num'', PInt ref), (''sar_total_segments'', PInt 2), (''sar_segment_seqnum'', PInt i)]"

definition ok_resp :: pdu where
  "ok_resp = mk_pdu ''submit_sm_resp'' []"

lemma sample_vendor_ok: "vendor_frames sample_vendor" "vendor_live sample_vendor"
  by (simp_all add: vendor_frames_def vendor_live_def frames_def sample_vendor_def split: prod.splits)

definition sample_open :: "(int \<times> part list) client_proto" where
  "sample_open = snd (doSendRequest sample_vendor sample_client_config [sample_part 7 1, sample_part 7 2] sample_session)"

lemma sample_reach: "client_reachable sample_vendor sample_client_config sample_open"
  unfolding sample_open_def sample_session_def by (rule client_reachable.step[OF client_reachable.init client_step.send])

definition sample_txn :: long_txn where
  "sample_txn = the (map_of (cp_txns sample_open) (PInt 7))"

definition sample_long_env :: op_env where
  "sample_long_env = sample_op_env\<lparr>oe_mandatory := [''source_addr'', ''esm_class'', ''data_coding'', ''short_message'']\<rparr>"

lemma sample_open_facts:
  "open_ids sample_open = [0]" "cp_fired sample_open = []" "map_of (cp_txns sample_open) (PInt 7) = Some sample_txn"
  "lt_nack sample_txn = PInt 2" "lt_deferred sample_txn = 0" "cp_next sample_open = 1"
  "has_ref (PInt 7) (lt_request sample_txn, ok_resp)" "cl_typed sample_open" "cl_typed sample_session"
  by code_simp+

theorem long_txn_open_or_fired_once_witness:
  "client_reachable sample_vendor sample_client_config sample_open \<and> distinct (open_ids sample_open) \<and>
   set (open_ids sample_open) \<union> set (map fst (cp_fired sample_open)) = {..<1}"
  using long_txn_open_or_fired_once[OF sample_reach sample_vendor_ok(1)] sample_reach by (simp add: sample_open_facts)

theorem long_submit_completes_witness:
  "fired_for 0 (answer_all [(lt_request sample_txn, ok_resp)] sample_open) = [] \<and>
   fired_for 0 (answer_all [(lt_request sample_txn, ok_resp), (lt_request sample_txn, ok_resp)] sample_open) =
     [LongAck (lt_request sample_txn) ok_resp]"
proof -
  note t = long_submit_completes[OF client_reachable_ok[OF sample_reach sample_vendor_ok(1)] sample_open_facts(3), of 2]
  show ?thesis
    using t[of "[(lt_request sample_txn, ok_resp)]"]
      t[of "[(lt_request sample_txn, ok_resp), (lt_request sample_txn, ok_resp)]"]
    by (simp add: sample_open_facts Let_def fired_for_def)
qed


theorem long_ref_clash_witness:
  "fst (doSendRequest sample_vendor sample_client_config [sample_part 7 1, sample_part 7 2] sample_open) =
     Inl LongSubmitSmTransactionError \<and>
   (\<exists>pt st'. send_part sample_vendor sample_client_config ''sar'' (sample_part 7 1) sample_open = (Inr pt, st') \<and>
     map_option lt_nack (map_of (cp_txns (snd (endLongSubmitSmTransaction pt ok_resp st'))) (PInt 7)) = Some (PInt 1))"
proof -
  let ?fg = "\<lparr>lf_ref = PInt 7, lf_total = PInt 2, lf_seq = PInt 1\<rparr>"
  have "splitMethod (sample_part 7 1) = Inr (Some ''sar'')" "part_flags ''sar'' (sample_part 7 1) = Inr ?fg"
    "p_command (sample_part 7 1) = ''submit_sm''" "has_key (p_params (sample_part 7 1)) ''source_addr''"
    "vc_requireAck sample_vendor ''submit_sm'' \<noteq> None" "\<not> vc_corrupted sample_vendor (cp_lib sample_open)"
    by code_simp+
  with long_ref_clash[of sample_vendor sample_open "sample_part 7 1" "''sar''" "[sample_part 7 2]" ?fg sample_txn 2
      sample_client_config ok_resp] sample_vendor_ok(2) sample_open_facts
  show ?thesis by auto
qed

end
