(* ===== verification/Listener.thy ===== *)
theory Listener
  imports Client_Protocol
begin

text \<open>
  The listener of a client connector (\<^verbatim>\<open>SMPPClientSMListener\<close> of \<^verbatim>\<open>jasmin/managers/listeners.py\<close>): it takes
  messages from the queue of the connector, sends them, and settles them by the response; and it takes
  the messages and receipts the SMSC delivers, joins the parts of long ones, and publishes them.

  Instants are microseconds since the epoch; \<open>le_clock k\<close> is what the \<open>k\<close>-th reading of the clock in a
  callback gives, and \<open>le_id\<close> gives the identifiers of new messages.  What \<^verbatim>\<open>sendDataRequest\<close> results in, the interceptor's answer and the state of the SMPP
  session are fields of the environment, the Redis commands for the parts of long messages are those of a
  \<open>seg_ops\<close>.  A reject timer is the message it will requeue, its delay and whether it is still pending.
\<close>

section \<open>State\<close>

record listener_env =
  le_op :: op_env
  le_tlv :: tlv_env
  le_clock :: "nat \<Rightarrow> int"
  le_parse :: "string \<Rightarrow> int res"
  le_session :: "bool option"
  le_send :: "pdu list \<Rightarrow> (pdu list \<times> pdu) res"
  le_id :: "nat \<Rightarrow> string"
  le_bid :: string
  le_date :: date
  le_time :: time

record listener_config =
  lc_cid :: string
  lc_requeue_delay :: pyval
  lc_throughput :: pyval
  lc_tlv_rules :: "tlv_rule list"
  lc_dlr_bases :: pyval
  lc_publish_resp :: bool
  lc_error_retrial :: "(string, int \<times> pyval) dict"
  lc_max_age :: int
  lc_retrial_delay :: int
  lc_log_privacy :: bool

record 'r listener =
  ls_queue :: bool
  ls_gets :: nat
  ls_qos_last :: "int option"
  ls_timers :: "(string, amqp_msg \<times> pyval \<times> bool) dict"
  ls_retrials :: "(string, int) dict"
  ls_redis :: "'r option"
  ls_stats :: stats
  ls_waits :: "rat list"
  ls_out :: "effect list"

definition SMPPClientSMListener :: "'r option \<Rightarrow> stats \<Rightarrow> 'r listener" where
  "SMPPClientSMListener redis stats =
     \<lparr>ls_queue = False, ls_gets = 0, ls_qos_last = None, ls_timers = [], ls_retrials = [], ls_redis = redis,
      ls_stats = stats, ls_waits = [], ls_out = []\<rparr>"

definition setSubmitSmQ :: "bool \<Rightarrow> 'r listener \<Rightarrow> 'r listener" where
  "setSubmitSmQ q st = st\<lparr>ls_queue := q\<rparr>"

definition ls_emit :: "effect \<Rightarrow> 'r listener \<Rightarrow> 'r listener" where
  "ls_emit e st = st\<lparr>ls_out := ls_out st @ [e]\<rparr>"

definition ls_publish :: "string \<Rightarrow> content res \<Rightarrow> ('r listener, unit) action" where
  "ls_publish key c = act_bind (act_res c) (\<lambda>x. act_do (ls_emit (EPublish key x)))"

section \<open>Timers and settlement\<close>

definition clearRejectTimer :: "string \<Rightarrow> 'r listener \<Rightarrow> 'r listener" where
  "clearRejectTimer msgid st = st\<lparr>ls_timers := ddel (ls_timers st) msgid\<rparr>"

definition clearRejectTimers :: "'r listener \<Rightarrow> 'r listener" where
  "clearRejectTimers st = st\<lparr>ls_timers := []\<rparr>"

text \<open>No method sets the timer of the throughput, so that only the reject timers are cancelled.\<close>

definition clearAllTimers :: "'r listener \<Rightarrow> 'r listener" where
  "clearAllTimers = clearRejectTimers"

definition ls_rejectMessage :: "amqp_msg \<Rightarrow> bool \<Rightarrow> 'r listener \<Rightarrow> 'r listener" where
  "ls_rejectMessage m requeue = ls_emit (EReject (m_tag m) requeue)"

definition ls_ackMessage :: "amqp_msg \<Rightarrow> 'r listener \<Rightarrow> 'r listener" where
  "ls_ackMessage m = ls_emit (EAck (m_tag m))"

text \<open>\<^verbatim>\<open>True\<close> stands for the delay of the connector, another true value is the delay itself.\<close>

definition ls_rejectAndRequeueMessage :: "listener_config \<Rightarrow> amqp_msg \<Rightarrow> pyval \<Rightarrow> 'r listener \<Rightarrow> 'r listener" where
  "ls_rejectAndRequeueMessage cfg m delay st =
     (if truthy delay then
        (let d = (if \<not> is_bool delay then delay else lc_requeue_delay cfg);
             st1 = clearRejectTimer (m_msgid m) st
         in st1\<lparr>ls_timers := dset (ls_timers st1) (m_msgid m) (m, d, True)\<rparr>)
      else ls_rejectMessage m True st)"

definition ls_timer_fires :: "string \<Rightarrow> 'r listener \<Rightarrow> 'r listener" where
  "ls_timer_fires msgid st =
     (case map_of (ls_timers st) msgid of
        Some (m, d, True) \<Rightarrow> ls_rejectMessage m True (st\<lparr>ls_timers := dset (ls_timers st) msgid (m, d, False)\<rparr>)
      | _ \<Rightarrow> st)"

section \<open>Responses to submitted messages\<close>

definition RegisteredDelivery :: "string \<Rightarrow> pyval" where
  "RegisteredDelivery receipt = PList [PEnum ''RegisteredDeliveryReceipt'' receipt]"

definition receipt_of :: "pyval \<Rightarrow> pyval res" where
  "receipt_of v = (case v of PList [r] \<Rightarrow> Inr r | _ \<Rightarrow> Inl AttributeError)"

text \<open>\<^verbatim>\<open>len(v)\<close> for the log line that does not show the content.\<close>

definition logged_content :: "bool \<Rightarrow> pyval \<Rightarrow> unit res" where
  "logged_content privacy v =
     (if privacy
      then (case v of PStr _ \<Rightarrow> Inr () | PBytes _ \<Rightarrow> Inr () | PList _ \<Rightarrow> Inr () | PDict _ \<Rightarrow> Inr () | _ \<Rightarrow> Inl TypeError)
      else Inr ())"

text \<open>What the log line about a sent message reads, and may fail to read.\<close>

definition log_sent :: "listener_env \<Rightarrow> listener_config \<Rightarrow> amqp_msg \<Rightarrow> pdu \<Rightarrow> pyval \<Rightarrow> unit res" where
  "log_sent env cfg m p content =
     res_bind (logged_content (lc_log_privacy cfg) content) (\<lambda>_.
     raise_if (c_priority (m_content m) = None) KeyError
       (res_bind (res_bind (dget (p_params p) ''registered_delivery'') receipt_of) (\<lambda>_.
        res_bind (dget (p_params p) ''source_addr'') (\<lambda>_.
        res_bind (dget (p_params p) ''destination_addr'') (\<lambda>_.
        res_bind (format_tlvs_for_log (le_tlv env) (oe_mandatory (le_op env)) (lc_log_privacy cfg) p) (\<lambda>_. Inr ()))))))"

text \<open>\<^verbatim>\<open>a + b\<close> of two contents, and \<^verbatim>\<open>v[6:]\<close>.\<close>

fun content_add :: "pyval \<Rightarrow> pyval \<Rightarrow> pyval res" where
  "content_add (PBytes a) (PBytes b) = Inr (PBytes (a @ b))"
| "content_add (PStr a) (PStr b) = Inr (PStr (a @ b))"
| "content_add _ _ = Inl TypeError"

fun content_drop6 :: "pyval \<Rightarrow> pyval res" where
  "content_drop6 (PBytes b) = Inr (PBytes (drop 6 b))"
| "content_drop6 (PStr s) = Inr (PStr (drop 6 s))"
| "content_drop6 _ = Inl TypeError"

definition part_content :: "string \<Rightarrow> string \<Rightarrow> pdu \<Rightarrow> pyval res" where
  "part_content split key p =
     res_bind (dget (p_params p) key) (\<lambda>v. if split = ''sar'' then Inr v else content_drop6 v)"

fun join_parts :: "string \<Rightarrow> string \<Rightarrow> pyval \<Rightarrow> pdu list \<Rightarrow> pyval res" where
  "join_parts split key acc [] = Inr acc"
| "join_parts split key acc (p # ps) =
     res_bind (part_content split key p) (\<lambda>v. res_bind (content_add acc v) (\<lambda>a. join_parts split key a ps))"

text \<open>The amount of the bill, once for every part of a long message.\<close>

fun add_times :: "nat \<Rightarrow> pyval \<Rightarrow> pyval \<Rightarrow> pyval res" where
  "add_times 0 a acc = Inr acc"
| "add_times (Suc n) a acc = res_bind (py_add acc a) (add_times n a)"

definition billable :: "bill option \<Rightarrow> pyval option res" where
  "billable b =
     (case b of
        None \<Rightarrow> Inr None
      | Some x \<Rightarrow>
          res_bind (getTotalAmounts x) (\<lambda>a. res_bind (py_lt (PInt 0) a) (\<lambda>pos. Inr (if pos then Some a else None))))"

text \<open>After an \<^verbatim>\<open>ESME_ROK\<close>: the amount to bill, with the checks of the log line.\<close>

definition sent_ok ::
  "listener_env \<Rightarrow> listener_config \<Rightarrow> amqp_msg \<Rightarrow> bill option \<Rightarrow> pdu list \<Rightarrow> pdu \<Rightarrow> pyval res" where
  "sent_ok env cfg m resp_bill chain resp =
     (let p = hd chain; rest = tl chain
      in res_bind (billable resp_bill) (\<lambda>amount.
         res_bind (splitMethod p) (\<lambda>split.
         res_bind (case split of
                     None \<Rightarrow> res_bind (dget (p_params p) ''short_message'') (\<lambda>c. Inr (c, p, 0))
                   | Some s \<Rightarrow>
                       res_bind (part_content s ''short_message'' p) (\<lambda>c0.
                       res_bind (join_parts s ''short_message'' c0 rest) (\<lambda>c. Inr (c, last chain, length rest))))
           (\<lambda>(content, q, n).
         res_bind (case amount of None \<Rightarrow> Inr (PFloat 0) | Some a \<Rightarrow> add_times n a a) (\<lambda>total_amount.
         res_bind (dget (p_params resp) ''message_id'') (\<lambda>_.
         res_bind (log_sent env cfg m q content) (\<lambda>_. Inr total_amount)))))))"

text \<open>After another status: whether the message will be retried.\<close>

definition sent_error ::
  "listener_env \<Rightarrow> listener_config \<Rightarrow> amqp_msg \<Rightarrow> pdu list \<Rightarrow> pdu \<Rightarrow> ('r listener, bool) action" where
  "sent_error env cfg m chain resp st =
     (let p = hd chain; msgid = m_msgid m;
          decide = (case map_of (lc_error_retrial cfg) (p_status resp) of
                      None \<Rightarrow> (Inr False, st)
                    | Some (count, delay) \<Rightarrow>
                        (case map_of (ls_retrials st) msgid of
                           None \<Rightarrow> (Inl KeyError, st)
                         | Some n \<Rightarrow>
                             if n < count then (Inr True, ls_rejectAndRequeueMessage cfg m delay st)
                             else (Inr False, st\<lparr>ls_retrials := ddel (ls_retrials st) msgid\<rparr>)))
      in case decide of
           (Inl e, st1) \<Rightarrow> (Inl e, st1)
         | (Inr retried, st1) \<Rightarrow>
             (res_bind (dget (p_params p) ''short_message'') (\<lambda>c.
              res_bind (log_sent env cfg m p c) (\<lambda>_. Inr retried)), st1))"

definition rok :: pyval where
  "rok = PEnum ''CommandStatus'' ''ESME_ROK''"

definition resp_dlr :: "listener_env \<Rightarrow> amqp_msg \<Rightarrow> pdu \<Rightarrow> content res" where
  "resp_dlr env m resp =
     (if p_status resp = ''ESME_ROK'' then
        res_bind (dget (p_params resp) ''message_id'') (\<lambda>i.
          case i of
            PBytes b \<Rightarrow> mk_DLR (le_op env) (p_command resp) (m_msgid m) rok (Some b) None None
          | PNone \<Rightarrow> mk_DLR (le_op env) (p_command resp) (m_msgid m) rok None None None
          | _ \<Rightarrow> Inl AttributeError)
      else
        mk_DLR (le_op env) (p_command resp) (m_msgid m) (PEnum ''CommandStatus'' (p_status resp)) None None None)"

definition resp_body ::
  "listener_env \<Rightarrow> listener_config \<Rightarrow> pdu list \<Rightarrow> pdu \<Rightarrow> amqp_msg \<Rightarrow> ('r listener, unit) action" where
  "resp_body env cfg chain resp m =
     act_bind (act_res (case c_bill (m_content m) of
                          None \<Rightarrow> Inr None
                        | Some b \<Rightarrow> res_bind (getSubmitSmRespBill (le_bid env) b) (\<lambda>x. Inr (Some x)))) (\<lambda>resp_bill.
     act_bind
       (if p_status resp = ''ESME_ROK'' then
          act_seq (\<lambda>st. if has_key (ls_retrials st) (m_msgid m)
                        then (Inr (), st\<lparr>ls_retrials := ddel (ls_retrials st) (m_msgid m)\<rparr>) else (Inl KeyError, st))
            (act_bind (act_res (sent_ok env cfg m resp_bill chain resp)) (\<lambda>a. act_res (Inr (a, False))))
        else act_bind (sent_error env cfg m chain resp) (\<lambda>retried. act_res (Inr (PFloat 0, retried)))) (\<lambda>(amount, retried).
     act_seq (act_when (\<not> retried) (act_do (\<lambda>st. ls_ackMessage m (clearRejectTimer (m_msgid m) st))))
    (act_seq (ls_publish ''dlr.submit_sm_resp'' (resp_dlr env m resp))
    (act_seq (act_bind (act_res (py_lt (PInt 0) amount)) (\<lambda>pos. act_when pos
        (let b = the resp_bill
         in ls_publish (''bill_request.submit_sm_resp.'' @ u_uid (b_user b))
              (mk_SubmitSmRespBillContent (b_bid b) (u_uid (b_user b)) amount))))
      (act_when (lc_publish_resp cfg)
        (case c_replyto (m_content m) of
           None \<Rightarrow> act_res (Inl KeyError)
         | Some key \<Rightarrow> ls_publish key (Inr (mk_SubmitSmRespContent (oe_now (le_op env)) resp (m_msgid m)))))))))"

text \<open>Every exception is caught and only logged.\<close>

definition submit_sm_resp_event ::
  "listener_env \<Rightarrow> listener_config \<Rightarrow> pdu list \<Rightarrow> pdu \<Rightarrow> amqp_msg \<Rightarrow> 'r listener \<Rightarrow> 'r listener" where
  "submit_sm_resp_event env cfg chain resp m st = snd (resp_body env cfg chain resp m st)"

section \<open>Messages to submit\<close>

text \<open>\<^verbatim>\<open>timedelta(microseconds=1 / float(throughput) * 1000000)\<close>, and the pause before a message is sent:
  \<^verbatim>\<open>.microseconds\<close> is what is left of a duration after its whole seconds.\<close>

definition qos_interval :: "pyval \<Rightarrow> int" where
  "qos_interval v = round_half_even (fl (fl (1 / to_float v) * 1000000))"

definition qos_slow_down :: "int \<Rightarrow> int \<Rightarrow> rat option" where
  "qos_slow_down interval delay =
     (if delay < interval then Some (fl (of_int ((interval - delay) mod 1000000) / 1000000)) else None)"

definition qos_step :: "listener_env \<Rightarrow> listener_config \<Rightarrow> 'r listener \<Rightarrow> 'r listener" where
  "qos_step env cfg st =
     (let last_at = (case ls_qos_last st of None \<Rightarrow> 0 | Some t \<Rightarrow> t)
      in if 0 < num (lc_throughput cfg) then
           st\<lparr>ls_waits := ls_waits st @
                 (case qos_slow_down (qos_interval (lc_throughput cfg)) (le_clock env 0 - last_at) of
                    None \<Rightarrow> [] | Some w \<Rightarrow> [w]),
              ls_qos_last := Some (le_clock env 1)\<rparr>
         else st\<lparr>ls_qos_last := Some last_at\<rparr>)"

text \<open>\<^verbatim>\<open>msgAge.seconds\<close>: the whole seconds of a duration without its days.\<close>

definition age_seconds :: "int \<Rightarrow> int \<Rightarrow> int" where
  "age_seconds now created = (now - created) div 1000000 mod 86400"

definition not_ready :: "listener_env \<Rightarrow> listener_config \<Rightarrow> amqp_msg \<Rightarrow> ('r listener, unit) action" where
  "not_ready env cfg m =
     act_bind (act_res (dget (c_headers (m_content m)) ''created_at'')) (\<lambda>v.
     act_bind (act_res (case v of PStr s \<Rightarrow> le_parse env s | _ \<Rightarrow> Inl TypeError)) (\<lambda>created.
       if age_seconds (le_clock env 3) created > lc_max_age cfg then act_do (ls_rejectMessage m False)
       else act_do (ls_rejectAndRequeueMessage cfg m (PInt (lc_retrial_delay cfg)))))"

definition tlv_seq :: "custom_tlv \<Rightarrow> pyval list" where
  "tlv_seq = (\<lambda>(tag, len, ty, v). [tag, len, ty, v])"

definition tlv_tuple :: "pyval list \<Rightarrow> custom_tlv" where
  "tlv_tuple t = (t ! 0, t ! 1, t ! 2, t ! 3)"

text \<open>The TLVs of a message with their types resolved; logging a TLV needs a tag that \<^verbatim>\<open>int()\<close> reads.\<close>

definition resolve_logged :: "custom_tlv list \<Rightarrow> tlv_rule list \<Rightarrow> custom_tlv list res" where
  "resolve_logged ts rules =
     res_bind (resolve_tlv_types (map tlv_seq ts) rules) (\<lambda>rs.
     res_bind (for_check (\<lambda>t. res_bind (int_val (t ! 0)) (\<lambda>_. Inr ())) rs) (\<lambda>_. Inr (map tlv_tuple rs)))"

definition prepare_tlvs :: "listener_env \<Rightarrow> listener_config \<Rightarrow> pdu \<Rightarrow> (pdu \<times> bool) res" where
  "prepare_tlvs env cfg p =
     (let before = (case p_custom_tlvs p of Some ts \<Rightarrow> ts | None \<Rightarrow> [])
      in res_bind (for_check (\<lambda>t. res_bind (int_val (fst t)) (\<lambda>_. Inr ())) before) (\<lambda>_.
         res_bind (resolve_logged before (lc_tlv_rules cfg)) (\<lambda>ts.
         res_bind (validate_custom_tlvs (le_tlv env) (map tlv_seq ts) (lc_tlv_rules cfg)) (\<lambda>(ok, err).
           Inr (p\<lparr>p_custom_tlvs := Some ts\<rparr>, ok)))))"

definition expired :: "listener_env \<Rightarrow> amqp_msg \<Rightarrow> bool res" where
  "expired env m =
     (case map_of (c_headers (m_content m)) ''expiration'' of
        None \<Rightarrow> Inr False
      | Some (PStr s) \<Rightarrow> res_bind (le_parse env s) (\<lambda>t. Inr (t < le_clock env 2))
      | Some _ \<Rightarrow> Inl TypeError)"

definition ls_count_try :: "string \<Rightarrow> 'r listener \<Rightarrow> 'r listener" where
  "ls_count_try msgid st =
     st\<lparr>ls_retrials := dset (ls_retrials st) msgid
          (case map_of (ls_retrials st) msgid of Some n \<Rightarrow> n + 1 | None \<Rightarrow> 1)\<rparr>"

definition send_ready :: "listener_env \<Rightarrow> listener_config \<Rightarrow> amqp_msg \<Rightarrow> pdu list \<Rightarrow> ('r listener, unit) action" where
  "send_ready env cfg m chain =
     act_bind (act_res (prepare_tlvs env cfg (hd chain))) (\<lambda>(p, ok).
       if \<not> ok then act_do (ls_rejectMessage m False)
       else act_bind (act_res (le_send env (p # tl chain))) (\<lambda>(req, resp).
              act_do (submit_sm_resp_event env cfg req resp m)))"

definition submit_body :: "listener_env \<Rightarrow> listener_config \<Rightarrow> amqp_msg \<Rightarrow> ('r listener, unit) action" where
  "submit_body env cfg m =
     (case c_body (m_content m) of
        BText _ \<Rightarrow> act_res (Inl ValueError)
      | BPdus chain \<Rightarrow>
          act_seq (\<lambda>st. if ls_queue st then (Inr (), st\<lparr>ls_gets := ls_gets st + 1\<rparr>) else (Inl AttributeError, st))
         (act_seq (act_do (ls_count_try (m_msgid m)))
         (act_seq (act_do (qos_step env cfg))
           (if chain = [] \<or> p_command (hd chain) \<noteq> ''submit_sm'' then act_do (ls_rejectMessage m False)
            else
              act_bind (act_res (expired env m)) (\<lambda>x.
                if x then act_do (ls_rejectMessage m False)
                else if le_session env \<noteq> Some True then not_ready env cfg m
                else send_ready env cfg m chain)))))"

text \<open>A message is taken from the queue: the pending \<^verbatim>\<open>get\<close> is used up, and a new one is asked for once the
  message was read.\<close>

definition submit_sm_callback :: "listener_env \<Rightarrow> listener_config \<Rightarrow> amqp_msg \<Rightarrow> 'r listener \<Rightarrow> 'r listener" where
  "submit_sm_callback env cfg m st =
     (case submit_body env cfg m (st\<lparr>ls_gets := ls_gets st - 1\<rparr>) of
        (Inr _, st') \<Rightarrow> st'
      | (Inl SMPPRequestTimoutError, st') \<Rightarrow> ls_rejectAndRequeueMessage cfg m (PBool True) st'
      | (Inl LongSubmitSmTransactionError, st') \<Rightarrow> ls_rejectAndRequeueMessage cfg m (PBool True) st'
      | (Inl _, st') \<Rightarrow> ls_rejectMessage m False st')"

end
