(* ===== verification/Listener_Mo.thy ===== *)
theory Listener_Mo
  imports Listener Routing_Tables
begin

text \<open>
  Messages and receipts that the SMSC delivers to a client connector (the second half of
  \<^verbatim>\<open>jasmin/managers/listeners.py\<close>): interception, recognition of receipts, and the parts of long messages,
  which are stored in Redis until the last one arrives.

  The handler of a part calls the handler of the joined message, so the recursion carries fuel; running out
  of it is the value \<^verbatim>\<open>None\<close>, and three steps are enough.  The source connector of such a message is a plain
  \<^verbatim>\<open>Connector\<close>, of which only the identifier is read; it is an \<open>SmppClientConnector\<close> here.  The result is the status answered to the SMSC,
  \<^verbatim>\<open>None\<close> where the handler returns nothing and the vendor's class answers \<^verbatim>\<open>ESME_ROK\<close>.
\<close>

section \<open>Environment\<close>

record seg_value =
  sv_pdu :: pdu
  sv_seq :: pyval

record 'r seg_ops =
  sg_hset :: "'r \<Rightarrow> string \<Rightarrow> pyval \<Rightarrow> seg_value \<Rightarrow> (int \<times> 'r) res"
  sg_hvals :: "'r \<Rightarrow> string \<Rightarrow> seg_value list res"
  sg_expire :: "'r \<Rightarrow> string \<Rightarrow> int \<Rightarrow> 'r res"

text \<open>What the interceptor returned: \<^verbatim>\<open>False\<close>, a dictionary, a pickled routable, or something else.\<close>

datatype script_result = ScriptFalse | ScriptDict "(string, pyval) dict" | ScriptRoutable routable | ScriptOther

record interceptor_access =
  ia_connected :: bool
  ia_run :: "script \<Rightarrow> routable \<Rightarrow> script_result option"

section \<open>Errors of the interception\<close>

text \<open>A known positive status code gives its status, anything else the fallback.\<close>

definition interceptor_status :: "(int \<Rightarrow> string option) \<Rightarrow> pyval \<Rightarrow> string" where
  "interceptor_status status_name code =
     (if is_int code \<and> int_of code > 0
      then (case status_name (int_of code) of Some n \<Rightarrow> n | None \<Rightarrow> ''ESME_RSYSERR'') else ''ESME_RSYSERR'')"

definition mk_InterceptorRunError :: "(int \<Rightarrow> string option) \<Rightarrow> pyexc" where
  "mk_InterceptorRunError status_name = InterceptorError ''InterceptorRunError'' (interceptor_status status_name (PInt 8))"

section \<open>Identifiers of receipts\<close>

text \<open>Bytes are decoded; where that fails the handler of the failure reads a name that is not yet bound.\<close>

definition dlr_id :: "listener_env \<Rightarrow> pyval \<Rightarrow> pyval res" where
  "dlr_id env v =
     (case v of
        PBytes b \<Rightarrow> (case oe_decode (le_op env) b of Inl _ \<Rightarrow> Inl NameError | Inr s \<Rightarrow> Inr (PStr s))
      | _ \<Rightarrow> Inr v)"

text \<open>\<^verbatim>\<open>str(dlr_id).upper().lstrip('0')\<close> where another base is not asked for or cannot be read.\<close>

definition code_dlr_msgid :: "listener_env \<Rightarrow> listener_config \<Rightarrow> pdu \<Rightarrow> pyval \<Rightarrow> string res" where
  "code_dlr_msgid env cfg p v =
     res_bind (dlr_id env v) (\<lambda>i.
       let s = (case i of PStr x \<Rightarrow> x | _ \<Rightarrow> py_str (le_tlv env) i); plain = lstrip0 (upper s)
       in Inr (if p_command p = ''deliver_sm'' \<and> num_in (lc_dlr_bases cfg) [1] then
                 (case int_val i of Inr n \<Rightarrow> lstrip0 (upper (hex_int n)) | Inl _ \<Rightarrow> plain)
               else if p_command p = ''deliver_sm'' \<and> num_in (lc_dlr_bases cfg) [2] then
                 (case py_int 16 s of Inr n \<Rightarrow> str_int n | Inl _ \<Rightarrow> plain)
               else plain))"

section \<open>Delivered messages\<close>

definition message_content :: "pdu \<Rightarrow> pyval res" where
  "message_content p =
     (case map_of (p_params p) ''short_message'' of
        Some sm \<Rightarrow>
          res_bind (content_len sm) (\<lambda>n.
            if 0 < n then Inr sm
            else case map_of (p_params p) ''message_payload'' of Some mp \<Rightarrow> Inr mp | None \<Rightarrow> Inr sm)
      | None \<Rightarrow> (case map_of (p_params p) ''message_payload'' of Some mp \<Rightarrow> Inr mp | None \<Rightarrow> Inr PNone))"

definition ls_count :: "string \<Rightarrow> ('r listener, unit) action" where
  "ls_count key st = (case st_inc key 1 (ls_stats st) of (r, s) \<Rightarrow> (r, st\<lparr>ls_stats := s\<rparr>))"

text \<open>The routable to go on with.  A script that asks for an error, fails or returns something unexpected
  raises, and is counted.\<close>

definition script_failed :: "pyexc \<Rightarrow> ('r listener, 'a) action" where
  "script_failed e = act_bind (ls_count ''interceptor_error_count'') (\<lambda>_. act_res (Inl e))"

definition after_script ::
  "(int \<Rightarrow> string option) \<Rightarrow> script_result option \<Rightarrow> routable \<Rightarrow> ('r listener, routable) action" where
  "after_script status_name r routable0 =
     (case r of
        None \<Rightarrow> act_res (Inr routable0)
      | Some ScriptFalse \<Rightarrow> script_failed (mk_InterceptorRunError status_name)
      | Some (ScriptDict d) \<Rightarrow>
          act_bind (act_res (dget d ''smpp_status'')) (\<lambda>code.
          act_bind (act_res (py_lt (PInt 0) code)) (\<lambda>pos.
            if pos then script_failed (InterceptorError ''DeliverSmInterceptionError'' (interceptor_status status_name code))
            else script_failed (mk_InterceptorRunError status_name)))
      | Some (ScriptRoutable r') \<Rightarrow> act_bind (ls_count ''interceptor_count'') (\<lambda>_. act_res (Inr r'))
      | Some ScriptOther \<Rightarrow> script_failed (mk_InterceptorRunError status_name))"

text \<open>Whether the data coding is the one of a message for the SIM card.  A data coding of the default scheme is
  its value, another one the pair of its scheme and data; other values have no scheme.\<close>

definition is_class2 :: "pyval \<Rightarrow> bool res" where
  "is_class2 v =
     (case v of
        PEnum cls _ \<Rightarrow> raise_if (cls \<noteq> ''DataCodingDefault'') AttributeError (Inr False)
      | PList [PEnum _ scheme, d] \<Rightarrow>
          Inr (scheme = ''GSM_MESSAGE_CLASS'' \<and> (case d of PList [_, PEnum _ c] \<Rightarrow> c = ''CLASS_2'' | _ \<Rightarrow> False))
      | _ \<Rightarrow> Inl AttributeError)"

record segment =
  se_split :: string
  se_total :: pyval
  se_seq :: pyval
  se_ref :: pyval

definition segment_of :: "pdu \<Rightarrow> pyval \<Rightarrow> segment option res" where
  "segment_of p content =
     (let ps = p_params p
      in res_bind (case map_of ps ''data_coding'' of None \<Rightarrow> Inr False | Some v \<Rightarrow> is_class2 v) (\<lambda>class2.
         if has_key ps ''sar_msg_ref_num'' then
           res_bind (dget ps ''sar_total_segments'') (\<lambda>t.
           res_bind (dget ps ''sar_segment_seqnum'') (\<lambda>s.
           res_bind (dget ps ''sar_msg_ref_num'') (\<lambda>r.
             Inr (Some \<lparr>se_split = ''sar'', se_total = t, se_seq = s, se_ref = r\<rparr>))))
         else if (case map_of ps ''esm_class'' of Some v \<Rightarrow> udhi_set v | None \<Rightarrow> False) \<and> \<not> class2 then
           res_bind (has_udh_prefix content) (\<lambda>b.
             if \<not> b then Inr None
             else
               res_bind (byte_at content 4) (\<lambda>t.
               res_bind (byte_at content 5) (\<lambda>s.
               res_bind (byte_at content 3) (\<lambda>r.
                 Inr (Some \<lparr>se_split = ''udh'', se_total = t, se_seq = s, se_ref = r\<rparr>)))))
         else Inr None))"

definition seg_key :: "listener_env \<Rightarrow> listener_config \<Rightarrow> pyval \<Rightarrow> pyval \<Rightarrow> string" where
  "seg_key env cfg ref dest =
     ''longDeliverSm:'' @ lc_cid cfg @ '':'' @ py_str (le_tlv env) ref @ '':'' @ py_str (le_tlv env) dest"

definition on_segs :: "('r \<Rightarrow> ('a \<times> 'r) res) \<Rightarrow> ('r listener, 'a) action" where
  "on_segs f st =
     (case ls_redis st of
        None \<Rightarrow> (Inl RedisError, st)
      | Some r \<Rightarrow> (case f r of Inl e \<Rightarrow> (Inl e, st) | Inr (x, r') \<Rightarrow> (Inr x, st\<lparr>ls_redis := Some r'\<rparr>)))"

text \<open>The parts by position, the joined content and the first part as the message that carries it.\<close>

definition seg_table :: "seg_value list \<Rightarrow> (pyval, pdu) dict" where
  "seg_table vs = foldl (\<lambda>d v. dset d (sv_seq v) (sv_pdu v)) [] vs"

fun range_parts :: "(pyval, pdu) dict \<Rightarrow> nat \<Rightarrow> nat \<Rightarrow> pdu list res" where
  "range_parts d i 0 = Inr []"
| "range_parts d i (Suc n) =
     res_bind (dget d (PInt (int i + 1))) (\<lambda>p. res_bind (range_parts d (Suc i) n) (\<lambda>ps. Inr (p # ps)))"

definition strip_split :: "string \<Rightarrow> pdu \<Rightarrow> pdu res" where
  "strip_split split p =
     (if split = ''sar'' then
        raise_if (\<not> list_all (has_key (p_params p)) [''sar_segment_seqnum'', ''sar_total_segments'', ''sar_msg_ref_num'']) KeyError
          (Inr (p\<lparr>p_params := ddel (ddel (ddel (p_params p) ''sar_segment_seqnum'') ''sar_total_segments'') ''sar_msg_ref_num''\<rparr>))
      else Inr (p\<lparr>p_params := dset (p_params p) ''esm_class'' PNone\<rparr>))"

definition joined_pdu :: "string \<Rightarrow> nat \<Rightarrow> seg_value list \<Rightarrow> pdu option res" where
  "joined_pdu split n vs =
     (let d = seg_table vs
      in res_bind (dget d (PInt 1)) (\<lambda>first.
         case (if has_key (p_params first) ''short_message'' then Some ''short_message''
               else if has_key (p_params first) ''message_payload'' then Some ''message_payload'' else None) of
           None \<Rightarrow> Inr None
         | Some key \<Rightarrow>
             res_bind (range_parts d 0 n) (\<lambda>ps.
             res_bind (join_parts split key (PBytes []) ps) (\<lambda>content.
             res_bind (strip_split split first) (\<lambda>p.
               Inr (Some (p\<lparr>p_params := dset (p_params p) key content\<rparr>)))))))"

section \<open>The handler\<close>

text \<open>\<open>post\<close> is the handler of the joined message.  A part that is already stored changes nothing; the last part
  looks for all of them.\<close>

definition concatDeliverSMs ::
  "(pdu \<Rightarrow> 'r listener \<Rightarrow> 'r listener option) \<Rightarrow> 'r seg_ops \<Rightarrow> int \<Rightarrow> string \<Rightarrow> segment \<Rightarrow>
   'r listener \<Rightarrow> (unit res \<times> 'r listener) option" where
  "concatDeliverSMs post ops hset_return key seg st =
     (if hset_return = 0 then Some (Inr (), st)
      else
        case on_segs (\<lambda>r. res_bind (sg_expire ops r key 300) (\<lambda>r'. Inr ((), r'))) st of
          (Inl e, st1) \<Rightarrow> Some (Inl e, st1)
        | (Inr _, st1) \<Rightarrow>
            if se_seq seg \<noteq> se_total seg then Some (Inr (), st1)
            else
              (case on_segs (\<lambda>r. res_bind (sg_hvals ops r key) (\<lambda>vs. Inr (vs, r))) st1 of
                 (Inl e, st2) \<Rightarrow> Some (Inl e, st2)
               | (Inr vs, st2) \<Rightarrow>
                   if PInt (int (length vs)) \<noteq> se_total seg then Some (Inr (), st2)
                   else
                     (case joined_pdu (se_split seg) (length vs) vs of
                        Inl e \<Rightarrow> Some (Inl e, st2)
                      | Inr None \<Rightarrow> Some (Inr (), st2)
                      | Inr (Some p) \<Rightarrow> map_option (\<lambda>st3. (Inr (), st3)) (post p st2))))"

definition mo_key :: "listener_config \<Rightarrow> string" where
  "mo_key cfg = ''deliver.sm.'' @ lc_cid cfg"

definition mo_content :: "listener_env \<Rightarrow> listener_config \<Rightarrow> nat \<Rightarrow> pdu \<Rightarrow> bool \<Rightarrow> bool \<Rightarrow> content" where
  "mo_content env cfg k p concatenated wbc = mk_DeliverSmContent (le_id env k) (oe_now (le_op env)) p (lc_cid cfg) concatenated wbc"

definition log_mo :: "listener_config \<Rightarrow> pdu \<Rightarrow> pyval \<Rightarrow> unit res" where
  "log_mo cfg p content =
     res_bind (logged_content (lc_log_privacy cfg) content) (\<lambda>_.
     res_bind (dget (p_params p) ''source_addr'') (\<lambda>_. res_bind (dget (p_params p) ''destination_addr'') (\<lambda>_. Inr ())))"

text \<open>\<open>k\<close> numbers the nested calls, each of which makes a message of its own.

  A simple message is published and then logged; a part is stored, joined with the others when it is the last,
  and published for the receivers that take parts.\<close>

definition mo_simple ::
  "listener_env \<Rightarrow> listener_config \<Rightarrow> nat \<Rightarrow> pdu \<Rightarrow> pyval \<Rightarrow> bool \<Rightarrow> ('r listener, unit) action" where
  "mo_simple env cfg k p content concatenated =
     act_seq (ls_publish (mo_key cfg) (Inr (mo_content env cfg k p concatenated False))) (act_res (log_mo cfg p content))"

definition mo_part ::
  "(pdu \<Rightarrow> 'r listener \<Rightarrow> 'r listener option) \<Rightarrow> listener_env \<Rightarrow> listener_config \<Rightarrow> 'r seg_ops \<Rightarrow> nat \<Rightarrow> pdu \<Rightarrow> segment \<Rightarrow> bool \<Rightarrow>
   'r listener \<Rightarrow> (unit res \<times> 'r listener) option" where
  "mo_part post env cfg ops k p seg concatenated st =
     (if ls_redis st = None then Some (Inr (), st)
      else
        case dget (p_params p) ''destination_addr'' of
          Inl e \<Rightarrow> Some (Inl e, st)
        | Inr dest \<Rightarrow>
            (let key = seg_key env cfg (se_ref seg) dest
             in case on_segs (\<lambda>r. sg_hset ops r key (se_seq seg) \<lparr>sv_pdu = p, sv_seq = se_seq seg\<rparr>) st of
                  (Inl e, st1) \<Rightarrow> Some (Inl e, st1)
                | (Inr n, st1) \<Rightarrow>
                    (case concatDeliverSMs post ops n key seg st1 of
                       None \<Rightarrow> None
                     | Some (Inl e, st2) \<Rightarrow> Some (Inl e, st2)
                     | Some (Inr _, st2) \<Rightarrow>
                         Some (ls_publish (mo_key cfg) (Inr (mo_content env cfg k p concatenated True)) st2))))"

definition mo_receipt ::
  "listener_env \<Rightarrow> listener_config \<Rightarrow> pdu \<Rightarrow> (string, pyval) dict \<Rightarrow> ('r listener, unit) action" where
  "mo_receipt env cfg p dlr =
     act_bind (act_res (dget dlr ''id'')) (\<lambda>i.
     act_bind (act_res (code_dlr_msgid env cfg p i)) (\<lambda>msgid.
     act_bind (act_res (dget dlr ''stat'')) (\<lambda>stat.
       ls_publish ''dlr.deliver_sm''
         (mk_DLR (le_op env) (p_command p) msgid stat None (Some (lc_cid cfg)) (Some dlr)))))"

text \<open>The message after interception with its TLVs resolved, and its receipt if it is one.\<close>

definition mo_prepare ::
  "(int \<Rightarrow> string option) \<Rightarrow> listener_env \<Rightarrow> listener_config \<Rightarrow> script_result option \<Rightarrow> routable \<Rightarrow>
   ('r listener, pdu \<times> (string, pyval) dict option) action" where
  "mo_prepare status_name env cfg script r0 =
     act_bind (after_script status_name script r0) (\<lambda>r.
     act_bind (act_res (
       case p_custom_tlvs (r_pdu r) of
         None \<Rightarrow> Inr (r_pdu r)
       | Some ts \<Rightarrow>
           if ts = [] then Inr (r_pdu r)
           else res_bind (resolve_logged ts (lc_tlv_rules cfg)) (\<lambda>us. Inr ((r_pdu r)\<lparr>p_custom_tlvs := Some us\<rparr>))))
       (\<lambda>p.
     act_bind (act_res (isDeliveryReceipt (le_op env) p)) (\<lambda>dlr. act_res (Inr (p, dlr)))))"

definition mo_body ::
  "(pdu \<Rightarrow> 'r listener \<Rightarrow> 'r listener option) \<Rightarrow> (int \<Rightarrow> string option) \<Rightarrow> listener_env \<Rightarrow> listener_config \<Rightarrow> 'r seg_ops \<Rightarrow> nat \<Rightarrow>
   script_result option \<Rightarrow> routable \<Rightarrow> pyval \<Rightarrow> bool \<Rightarrow> 'r listener \<Rightarrow> (unit res \<times> 'r listener) option" where
  "mo_body post status_name env cfg ops k script r0 content concatenated st =
     (case mo_prepare status_name env cfg script r0 st of
        (Inl e, st1) \<Rightarrow> Some (Inl e, st1)
      | (Inr (p, Some dlr), st1) \<Rightarrow> Some (mo_receipt env cfg p dlr st1)
      | (Inr (p, None), st1) \<Rightarrow>
          (case segment_of p content of
             Inl e \<Rightarrow> Some (Inl e, st1)
           | Inr None \<Rightarrow> Some (mo_simple env cfg k p content concatenated st1)
           | Inr (Some seg) \<Rightarrow> mo_part post env cfg ops k p seg concatenated st1))"

text \<open>The status for an exception: that of an interception error, else an unknown error.  The log line of an
  interception error reads the addresses of the message, and fails without them.\<close>

definition mo_status :: "listener_env \<Rightarrow> listener_config \<Rightarrow> pdu \<Rightarrow> pyval \<Rightarrow> unit res \<Rightarrow> string option res" where
  "mo_status env cfg p content r =
     (case r of
        Inr _ \<Rightarrow> Inr None
      | Inl (InterceptorError cls status) \<Rightarrow>
          if cls = ''InterceptorRunError'' \<or> cls = ''DeliverSmInterceptionError''
          then
            res_bind (log_mo cfg p content) (\<lambda>_.
            res_bind (format_tlvs_for_log (le_tlv env) (oe_mandatory (le_op env)) (lc_log_privacy cfg) p) (\<lambda>_. Inr (Some status)))
          else Inr (Some ''ESME_RUNKNOWNERR'')
      | Inl _ \<Rightarrow> Inr (Some ''ESME_RUNKNOWNERR''))"

fun deliver_sm_post ::
  "nat \<Rightarrow> (int \<Rightarrow> string option) \<Rightarrow> listener_env \<Rightarrow> listener_config \<Rightarrow> 'r seg_ops \<Rightarrow> script_result option \<Rightarrow> routable \<Rightarrow> bool \<Rightarrow>
   'r listener \<Rightarrow> (string option res \<times> 'r listener) option" where
  "deliver_sm_post 0 status_name env cfg ops script r concatenated st = None"
| "deliver_sm_post (Suc k) status_name env cfg ops script r concatenated st =
     (case message_content (r_pdu r) of
        Inl e \<Rightarrow> Some (Inr (Some ''ESME_RUNKNOWNERR''), st)
      | Inr content \<Rightarrow>
          map_option (\<lambda>(res, st'). (mo_status env cfg (r_pdu r) content res, st'))
            (mo_body
              (\<lambda>p st1. map_option snd
                 (deliver_sm_post k status_name env cfg ops None
                    (RoutableDeliverSm p (SmppClientConnector (lc_cid cfg)) (le_date env) (le_time env)) True st1))
              status_name env cfg ops k script r content concatenated st))"

text \<open>The entry point: without a router the message is dropped; a message for which an interceptor is defined goes
  through its script, which \<open>ia_run\<close> runs; \<^verbatim>\<open>None\<close> is a failed run.  Both that failure and a
  failure of the handler itself call the handler again without its arguments, which it then reads.\<close>

definition script_errback :: "string option res \<Rightarrow> string option res" where
  "script_errback r = (case r of Inl _ \<Rightarrow> Inl NameError | Inr x \<Rightarrow> Inr x)"

definition deliver_sm_event_interceptor ::
  "(int \<Rightarrow> string option) \<Rightarrow> filter_env \<Rightarrow> interceptor_table option \<Rightarrow> interceptor_access option \<Rightarrow> listener_env \<Rightarrow>
   listener_config \<Rightarrow> 'r seg_ops \<Rightarrow> pdu \<Rightarrow> 'r listener \<Rightarrow> (string option res \<times> 'r listener) option" where
  "deliver_sm_event_interceptor status_name fenv table access env cfg ops p st =
     (case table of
        None \<Rightarrow> Some (Inr None, st)
      | Some t \<Rightarrow>
          (let r = RoutableDeliverSm p (SmppClientConnector (lc_cid cfg)) (le_date env) (le_time env);
               unavailable = (\<lambda>cls. InterceptorError cls (interceptor_status status_name (PInt 8)))
           in case getInterceptorFor fenv r t of
                Inl e \<Rightarrow> Some (Inl e, st)
              | Inr None \<Rightarrow> deliver_sm_post 3 status_name env cfg ops None r False st
              | Inr (Some i) \<Rightarrow>
                  (case access of
                     None \<Rightarrow> Some (script_failed (unavailable ''InterceptorNotSetError'') st)
                   | Some a \<Rightarrow>
                       if \<not> ia_connected a then Some (script_failed (unavailable ''InterceptorNotConnectedError'') st)
                       else case ia_run a (ic_script i) r of
                              None \<Rightarrow> Some (Inl NameError, st)
                            | Some x \<Rightarrow>
                                map_option (map_prod script_errback id)
                                  (deliver_sm_post 3 status_name env cfg ops (Some x) r False st))))"

end
