(* ===== verification/Listener_Correct.thy ===== *)
theory Listener_Correct
  imports Listener_Mo
begin

text \<open>
  Properties of the listener of a client connector: the identifiers by which receipts are matched with
  their messages, the pause that keeps the throughput, the settlement of a message by its response, and the
  joining of delivered parts.
\<close>

section \<open>Identifiers in two bases\<close>

lemma digits_val_zeros: "digits_val b acc True (replicate k CHR ''0'' @ s) =
    digits_val b (acc * b ^ k) True s" if "0 < b"
proof (induction k arbitrary: acc)
  case (Suc k)
  have "digit_val CHR ''0'' = Some 0" by (simp add: digit_val_def is_digit_def cval_def)
  with Suc that show ?case by (simp add: mult.assoc mult.commute)
qed simp

lemma digits_val_prev: "digits_val b acc prev s = Some n \<Longrightarrow> digits_val b acc True s = Some n"
  by (cases s) (auto split: if_splits option.splits)

lemma digits_val_padded:
  assumes "0 < b" "digits_val b 0 False s = Some n"
  shows "digits_val b 0 False (replicate k CHR ''0'' @ s) = Some n"
proof (cases k)
  case (Suc j)
  have "digit_val CHR ''0'' = Some 0" by (simp add: digit_val_def is_digit_def cval_def)
  with Suc show ?thesis
    using assms digits_val_zeros[OF assms(1), of 0 j s] digits_val_prev[OF assms(2)] by simp
qed (simp add: assms)

definition base_digits :: "nat \<Rightarrow> string \<Rightarrow> bool" where
  "base_digits b s \<longleftrightarrow> (\<forall>c \<in> set s. case digit_val c of Some d \<Rightarrow> d < b | None \<Rightarrow> False)"

lemma digit_clean:
  assumes "digit_val c = Some d" "d < 16"
  shows "\<not> is_space c" "c \<noteq> CHR ''-''" "c \<noteq> CHR ''+''" "to_lower c \<noteq> CHR ''x''"
proof -
  have v: "is_digit c \<or> is_lower c \<and> cval c < 103 \<or> is_upper c \<and> cval c < 71"
    using assms by (auto simp: digit_val_def split: if_splits)
  then show "\<not> is_space c" by (auto simp: is_space_def is_digit_def is_lower_def is_upper_def)
  show "c \<noteq> CHR ''-''" "c \<noteq> CHR ''+''"
    using v by (auto simp: is_digit_def is_lower_def is_upper_def cval_def)
  have "cval (to_lower c) < 103"
    using v by (auto simp: to_lower_def is_digit_def is_lower_def is_upper_def cval_char_of)
  then show "to_lower c \<noteq> CHR ''x''" by (auto simp: cval_def)
qed

lemma py_int_digits:
  assumes "base_digits b s" "b \<le> 16" "s \<noteq> []" "digits_val b 0 False s = Some n"
  shows "py_int b s = Inr (int n)"
proof -
  have all: "\<exists>d. digit_val c = Some d \<and> d < 16" if "c \<in> set s" for c
    using assms(1,2) that by (fastforce simp: base_digits_def split: option.splits)
  have hl: "hd s \<in> set s" "last s \<in> set s" using assms(3) by auto
  have st: "strip s = s" using digit_clean(1) all[OF hl(1)] all[OF hl(2)] by (intro strip_id) blast
  have sign: "\<not> startswith s ''-''" "\<not> startswith s ''+''"
    using digit_clean(2,3) all[OF hl(1)] assms(3) by (auto simp: startswith_single)
  have "\<not> startswith (lower s) ''0x''"
  proof
    assume "startswith (lower s) ''0x''"
    then have "CHR ''x'' \<in> set (take (length ''0x'') (lower s))" unfolding startswith_def by (simp only:) simp
    then have "CHR ''x'' \<in> set (lower s)" by (rule in_set_takeD)
    then show False using all digit_clean(4) by force
  qed
  with sign show ?thesis by (simp add: py_int_def st int_body_def assms(4))
qed

lemma base_digits_radix: "2 \<le> b \<Longrightarrow> b \<le> 16 \<Longrightarrow> base_digits b (radix_str b n)"
  using radix_str_set[of b] by (fastforce simp: base_digits_def)

lemma base_digits_upper: "base_digits b (upper s) \<longleftrightarrow> base_digits b s"
  by (simp add: base_digits_def digit_val_upper)

lemma base_digits_zeros: "0 < b \<Longrightarrow> base_digits b (replicate k CHR ''0'' @ s) \<longleftrightarrow> base_digits b s"
proof -
  assume "0 < b"
  moreover have "digit_val CHR ''0'' = Some 0" by (simp add: digit_val_def is_digit_def cval_def)
  ultimately show ?thesis by (auto simp: base_digits_def)
qed

text \<open>\<open>padded b n s\<close>: \<open>s\<close> writes \<open>n\<close> in base \<open>b\<close>, with any number of leading zeros and in either case.\<close>

definition padded :: "nat \<Rightarrow> nat \<Rightarrow> string \<Rightarrow> bool" where
  "padded b n s \<longleftrightarrow> (\<exists>k. upper s = replicate k CHR ''0'' @ upper (radix_str b n))"

lemma py_int_padded:
  assumes "padded b n s" "2 \<le> b" "b \<le> 16"
  shows "py_int b s = Inr (int n)"
proof -
  obtain k where k: "upper s = replicate k CHR ''0'' @ upper (radix_str b n)" using assms(1) by (auto simp: padded_def)
  have "digits_val b 0 False (upper s) = Some n"
    unfolding k using digits_val_padded[of b "upper (radix_str b n)" n k] digits_val_radix_str[OF assms(2,3), of n] assms(2)
    by (simp add: digits_val_upper)
  then have "digits_val b 0 False s = Some n" by (simp add: digits_val_upper)
  moreover have "base_digits b (upper s)"
    unfolding k using base_digits_radix[OF assms(2,3)] assms(2) by (simp add: base_digits_zeros base_digits_upper)
  then have "base_digits b s" by (simp add: base_digits_upper)
  moreover have "s \<noteq> []" using k by auto
  ultimately show ?thesis using py_int_digits assms(3) by blast
qed

lemma lstrip0_zeros [simp]: "lstrip0 (replicate k CHR ''0'' @ s) = lstrip0 s"
  by (induction k) (simp_all add: lstrip0_def)

lemma hd_radix_str: "0 < n \<Longrightarrow> 2 \<le> b \<Longrightarrow> b \<le> 16 \<Longrightarrow> hd (radix_str b n) \<noteq> CHR ''0''"
proof (induction b n rule: radix_str.induct)
  case (1 b n)
  show ?case
  proof (cases "n < b")
    case True
    have "digit_char n \<noteq> CHR ''0''"
    proof
      assume "digit_char n = CHR ''0''"
      then have "digit_val (digit_char n) = Some 0" by (simp add: digit_val_def is_digit_def cval_def)
      with True "1.prems" show False by simp
    qed
    with True show ?thesis by (simp add: radix_str.simps[of b n])
  next
    case False
    then have "0 < n div b" using "1.prems" by (simp add: div_greater_zero_iff)
    with False 1 show ?thesis by (simp add: radix_str.simps[of b n])
  qed
qed

lemma upper_decimal [simp]: "upper (radix_str 10 n) = radix_str 10 n"
proof -
  have "to_upper c = c" if "c \<in> set (radix_str 10 n)" for c
    using radix_str_set[OF _ that] by (auto simp: to_upper_def is_lower_def digit_char_cval)
  then show ?thesis by (simp add: map_idI)
qed

lemma lstrip0_decimal: "0 < n \<Longrightarrow> lstrip0 (radix_str 10 n) = radix_str 10 n"
  using hd_radix_str[of n 10] by (cases "radix_str 10 n") (simp_all add: lstrip0_def)

text \<open>The base of the identifiers in responses, and the one in receipts, for a setting of the connector.\<close>

definition resp_base :: "int \<Rightarrow> nat" where
  "resp_base bases = (if bases = 1 then 16 else 10)"

definition receipt_base :: "int \<Rightarrow> nat" where
  "receipt_base bases = (if bases = 1 then 10 else 16)"

lemma code_dlr_msgid_agrees:
  assumes "lc_dlr_bases cfg = PInt bases" "bases = 1 \<or> bases = 2" "p_command p = ''deliver_sm''" "0 < n"
    "padded (resp_base bases) n s" "padded (receipt_base bases) n i"
    "v = PStr i \<or> (v = PBytes b \<and> oe_decode (le_op env) b = Inr i)"
  shows "code_dlr_msgid env cfg p v = Inr (lstrip0 (upper s))"
proof -
  have i: "dlr_id env v = Inr (PStr i)" using assms(7) by (auto simp: dlr_id_def)
  from assms(2) show ?thesis
  proof
    assume b: "bases = 1"
    have "lstrip0 (upper s) = lstrip0 (upper (radix_str 16 n))"
      using assms(5) b by (auto simp: padded_def resp_base_def)
    moreover have "py_int 10 i = Inr (int n)"
      using py_int_padded[of 10 n i] assms(6) b by (simp add: receipt_base_def)
    ultimately show ?thesis
      using assms(1,3) b i by (simp add: code_dlr_msgid_def num_in_def hex_int_def Let_def is_number_def)
  next
    assume b: "bases = 2"
    have "lstrip0 (upper s) = radix_str 10 n"
      using assms(4,5) b lstrip0_decimal by (auto simp: padded_def resp_base_def)
    moreover have "py_int 16 i = Inr (int n)"
      using py_int_padded[of 16 n i] assms(6) b by (simp add: receipt_base_def)
    ultimately show ?thesis
      using assms(1,3) b i by (simp add: code_dlr_msgid_def num_in_def str_int_def Let_def is_number_def)
  qed
qed
definition decodable :: "op_env \<Rightarrow> (string, pyval) dict \<Rightarrow> bool" where
  "decodable env d \<longleftrightarrow> list_all (\<lambda>(k, v). case v of PBytes b \<Rightarrow> \<not> isl (oe_decode env b) | _ \<Rightarrow> True) d"

lemma mk_DLR_receipt:
  assumes "ty = ''deliver_sm'' \<or> ty = ''data_sm''"
    "decodable env d"
  shows "\<exists>c. mk_DLR env ty msgid stat None (Some cid) (Some d) = Inr c \<and> c_msgid c = msgid"
proof -
  let ?f = "\<lambda>(k, v). case v of
      PBytes b \<Rightarrow> res_bind (oe_decode env b) (\<lambda>s. Inr (''dlr_'' @ k, PStr s)) | _ \<Rightarrow> Inr (''dlr_'' @ k, v)"
  have "\<forall>x \<in> set d. \<exists>y. ?f x = Inr y"
  proof
    fix x assume x: "x \<in> set d"
    obtain k v where kv: "x = (k, v)" by (cases x)
    have "case v of PBytes b \<Rightarrow> \<not> isl (oe_decode env b) | _ \<Rightarrow> True"
      using assms(2) x by (auto simp: decodable_def list_all_iff kv)
    then show "\<exists>y. ?f x = Inr y"
      by (cases v; cases "oe_decode env (case v of PBytes b \<Rightarrow> b | _ \<Rightarrow> [])") (simp_all add: kv)
  qed
  from bchoice[OF this] obtain g where "\<forall>x \<in> set d. ?f x = Inr (g x)" by blast
  then have "map_res ?f d = Inr (map g d)" by (intro map_res_Inr_map) simp
  with assms(1) show ?thesis by (auto simp: mk_DLR_def mk_content_def)
qed

text \<open>
  Claim C38.  A connector set to one of the two mixed bases matches receipts with their messages: if the
  SMSC names a message by the same number in its response and in the receipt, in hexadecimal in one and decimal in
  the other, with any leading zeros and in either case, then the identifier that the response event stores
  for the lookup is the one under which the receipt is published.
\<close>

theorem receipt_id_agrees:
  assumes "lc_dlr_bases cfg = PInt bases" "bases = 1 \<or> bases = 2" "0 < n"
    and "p_status resp = ''ESME_ROK''" "p_command resp = ''submit_sm_resp''"
      "map_of (p_params resp) ''message_id'' = Some (PBytes rb)" "oe_decode (le_op env) rb = Inr s"
      "padded (resp_base bases) n s"
    and "p_command (r_pdu r) = ''deliver_sm''" "p_custom_tlvs (r_pdu r) = None"
      "message_content (r_pdu r) = Inr content"
      "isDeliveryReceipt (le_op env) (r_pdu r) = Inr (Some d)"
      "decodable (le_op env) d"
      "map_of d ''stat'' = Some stat" "map_of d ''id'' = Some v"
      "v = PStr i \<or> (v = PBytes b \<and> oe_decode (le_op env) b = Inr i)" "padded (receipt_base bases) n i"
  shows "\<exists>c c'. resp_dlr env m resp = Inr c \<and>
    deliver_sm_post (Suc k) status_name env cfg ops None r False st =
      Some (Inr None, ls_emit (EPublish ''dlr.deliver_sm'' c') st) \<and>
    map_of (c_headers c) ''smpp_msgid'' = Some (PStr (c_msgid c'))"
proof -
  have id: "code_dlr_msgid env cfg (r_pdu r) v = Inr (lstrip0 (upper s))"
    by (rule code_dlr_msgid_agrees[OF assms(1,2,9,3,8,17,16)])
  obtain c' where c': "mk_DLR (le_op env) (p_command (r_pdu r)) (lstrip0 (upper s)) stat None (Some (lc_cid cfg)) (Some d) = Inr c'"
    "c_msgid c' = lstrip0 (upper s)"
    using mk_DLR_receipt[of "p_command (r_pdu r)" "le_op env" d "lstrip0 (upper s)"] assms(9,13) by blast
  have "mo_receipt env cfg (r_pdu r) d st = (Inr (), ls_emit (EPublish ''dlr.deliver_sm'' c') st)"
    using c'(1) assms(14,15) id by (simp add: mo_receipt_def ls_publish_def act_defs dget_def)
  then have post: "deliver_sm_post (Suc k) status_name env cfg ops None r False st =
      Some (Inr None, ls_emit (EPublish ''dlr.deliver_sm'' c') st)"
    using assms(10-12) by (simp add: mo_body_def mo_prepare_def after_script_def act_defs mo_status_def)
  have "\<exists>c. resp_dlr env m resp = Inr c \<and> map_of (c_headers c) ''smpp_msgid'' = Some (PStr (lstrip0 (upper s)))"
    using assms(4-7) by (simp add: resp_dlr_def mk_DLR_def mk_content_def Let_def dget_def)
  then obtain c where c: "resp_dlr env m resp = Inr c" "map_of (c_headers c) ''smpp_msgid'' = Some (PStr (lstrip0 (upper s)))"
    by blast
  have "map_of (c_headers c) ''smpp_msgid'' = Some (PStr (c_msgid c'))" by (simp only: c(2) c'(2))
  with post c(1) show ?thesis by blast
qed

definition sample_listener_env :: listener_env where
  "sample_listener_env =
     \<lparr>le_op = sample_op_env, le_tlv = sample_tlv_env, le_clock = (\<lambda>k. 500000 + int k), le_parse = (\<lambda>s. Inr 0),
      le_session = Some True, le_send = (\<lambda>ps. Inl SMPPRequestTimoutError), le_id = (\<lambda>k. ''new'' @ str_int (int k)), le_bid = ''bid'',
      le_date = r_date sample_mo, le_time = r_time sample_mo\<rparr>"

definition sample_listener_config :: listener_config where
  "sample_listener_config =
     \<lparr>lc_cid = ''smsc'', lc_requeue_delay = PInt 120, lc_throughput = PInt 1, lc_tlv_rules = [], lc_dlr_bases = PInt 1,
      lc_publish_resp = False, lc_error_retrial = [(''ESME_RTHROTTLED'', 20, PInt 30)], lc_max_age = 1200,
      lc_retrial_delay = 60, lc_log_privacy = False\<rparr>"

definition resp_pdu :: "string \<Rightarrow> (string, pyval) dict \<Rightarrow> pdu" where
  "resp_pdu status ps =
     \<lparr>p_command = ''submit_sm_resp'', p_seqNum = Some 1, p_status = status, p_params = ps, p_custom_tlvs = None\<rparr>"

definition mo_pdu :: "(string, pyval) dict \<Rightarrow> pdu" where
  "mo_pdu ps = \<lparr>p_command = ''deliver_sm'', p_seqNum = Some 1, p_status = ''ESME_ROK'', p_params = ps, p_custom_tlvs = None\<rparr>"

definition mo_routable :: "(string, pyval) dict \<Rightarrow> routable" where
  "mo_routable ps = RoutableDeliverSm (mo_pdu ps) (SmppClientConnector ''smsc'') (r_date sample_mo) (r_time sample_mo)"

definition sample_receipt :: "(string, pyval) dict" where
  "sample_receipt =
     [(''source_addr'', PBytes ''1''), (''destination_addr'', PBytes ''2''), (''short_message'', PBytes []),
      (''receipted_message_id'', PBytes ''0255''), (''message_state'', PEnum ''MessageState'' ''DELIVERED'')]"

definition sample_message :: amqp_msg where
  "sample_message =
     \<lparr>m_tag = 7, m_routing_key = ''submit.sm.smsc'',
      m_content = (mk_content (BPdus []) ''m1'' [])\<lparr>c_priority := Some 1\<rparr>\<rparr>"

text \<open>The message \<^verbatim>\<open>00ff\<close> of the response is the one of the receipt for \<^verbatim>\<open>0255\<close>.\<close>

theorem receipt_id_agrees_witness:
  "\<exists>c c'. resp_dlr sample_listener_env sample_message (resp_pdu ''ESME_ROK'' [(''message_id'', PBytes ''00ff'')]) = Inr c \<and>
    deliver_sm_post (Suc 2) (\<lambda>_. None) sample_listener_env sample_listener_config (undefined :: unit seg_ops) None
      (mo_routable sample_receipt) False (SMPPClientSMListener None []) =
      Some (Inr None, ls_emit (EPublish ''dlr.deliver_sm'' c') (SMPPClientSMListener None [])) \<and>
    map_of (c_headers c) ''smpp_msgid'' = Some (PStr (c_msgid c'))"
proof -
  have hex: "padded (resp_base 1) 255 ''00ff''" "padded (receipt_base 1) 255 ''0255''"
    unfolding padded_def resp_base_def receipt_base_def by (rule exI[of _ 2] exI[of _ 1]; code_simp)+
  obtain d where d: "isDeliveryReceipt sample_op_env (mo_pdu sample_receipt) = Inr (Some d)"
    "map_of d ''id'' = Some (PBytes ''0255'')" "map_of d ''stat'' = Some (PStr (receipt_stat (PEnum ''MessageState'' ''DELIVERED'')))"
    using isDeliveryReceipt_state[of "mo_pdu sample_receipt" "PBytes ''0255''" "PEnum ''MessageState'' ''DELIVERED''" sample_op_env]
    by (auto simp: mo_pdu_def sample_receipt_def)
  have dec: "decodable sample_op_env d"
    by (auto simp: decodable_def sample_op_env_def list_all_iff split: pyval.split)
  note defs = sample_listener_config_def resp_pdu_def sample_listener_env_def mo_routable_def RoutableDeliverSm_def
  show ?thesis
  proof (rule receipt_id_agrees[where bases = 1 and n = 255 and s = "''00ff''" and i = "''0255''" and b = "''0255''"])
    show "message_content (r_pdu (mo_routable sample_receipt)) = Inr (PBytes [])"
      by (simp add: defs mo_pdu_def message_content_def sample_receipt_def)
    show "isDeliveryReceipt (le_op sample_listener_env) (r_pdu (mo_routable sample_receipt)) = Inr (Some d)"
      using d(1) by (simp add: defs)
    show "map_of d ''stat'' = Some (PStr (receipt_stat (PEnum ''MessageState'' ''DELIVERED'')))" by (rule d(3))
    show "map_of d ''id'' = Some (PBytes ''0255'')" by (rule d(2))
  qed (use hex dec in \<open>simp_all add: defs mo_pdu_def sample_op_env_def\<close>)
qed
section \<open>Throughput\<close>

lemma fl_small [simp]: "fl 1 = 1" "fl 1000000 = 1000000" "fl (999999 / 1000000) < 1"
  by code_simp+

lemma qos_interval_le_second:
  assumes "1 \<le> num v" shows "qos_interval v \<le> 1000000"
proof -
  have "1 \<le> to_float v" using assms fl_mono[of 1 "num v"] by (cases v) auto
  then have "1 / to_float v \<le> 1" by (simp add: field_simps)
  then have "fl (1 / to_float v) \<le> 1" using fl_mono[of "1 / to_float v" 1] by simp
  then have "fl (fl (1 / to_float v) * 1000000) \<le> fl 1000000" by (intro fl_mono) simp
  from round_half_even_mono[OF this] show ?thesis
    using round_half_even_int[of 1000000] by (simp add: qos_interval_def)
qed

text \<open>
  A message that comes too early waits for the rest of the interval that the throughput asks for,
  rounded to a double, if less than a second is left; with a second or more left, the pause is shorter than a
  second, as only the microseconds of the duration are read.  A message that comes late does not wait.
  For a throughput of one per second or more the interval is at most a second.
\<close>

theorem qos_pause:
  assumes "0 < num (lc_throughput cfg)"
  shows "let rest = qos_interval (lc_throughput cfg) -
               (le_clock env 0 - (case ls_qos_last st of Some t \<Rightarrow> t | None \<Rightarrow> 0));
             st' = qos_step env cfg st
         in ls_qos_last st' = Some (le_clock env 1) \<and>
            (if rest \<le> 0 then ls_waits st' = ls_waits st
             else \<exists>w. ls_waits st' = ls_waits st @ [w] \<and>
                    (if rest < 1000000 then w = fl (of_int rest / 1000000) else w < 1)) \<and>
            (1 \<le> num (lc_throughput cfg) \<longrightarrow> qos_interval (lc_throughput cfg) \<le> 1000000)"
proof -
  have short: "fl (of_int (r mod 1000000) / 1000000) < 1" for r :: int
  proof -
    have "r mod 1000000 \<le> 999999" using pos_mod_bound[of 1000000 r] by linarith
    then have "fl (of_int (r mod 1000000) / 1000000) \<le> fl (999999 / 1000000)"
      by (intro fl_mono divide_right_mono) simp_all
    with fl_small(3) show ?thesis by linarith
  qed
  show ?thesis
    using assms qos_interval_le_second[of "lc_throughput cfg"] short
    by (auto simp: qos_step_def qos_slow_down_def Let_def split: option.splits)
qed

text \<open>One message every two seconds, half a second after the last one: the pause is half a second and not one and
  a half.\<close>

definition slow_config :: listener_config where
  "slow_config = sample_listener_config\<lparr>lc_throughput := PFloat (1 / 2)\<rparr>"

theorem qos_pause_witness:
  "qos_interval (PFloat (1 / 2)) = 2000000 \<and>
   ls_waits (qos_step sample_listener_env slow_config ((SMPPClientSMListener (None :: unit option) [])\<lparr>ls_qos_last := Some 0\<rparr>)) =
     [1 / 2]"
proof -
  have i: "qos_interval (PFloat (1 / 2)) = 2000000" by code_simp
  have w: "fl (1 / 2) = 1 / 2" by code_simp
  show ?thesis
    using qos_pause[of slow_config sample_listener_env "(SMPPClientSMListener (None :: unit option) [])\<lparr>ls_qos_last := Some 0\<rparr>"] i w
    by (simp add: qos_step_def slow_config_def sample_listener_config_def sample_listener_env_def
        SMPPClientSMListener_def qos_slow_down_def)
qed

section \<open>Settlement by the response\<close>

text \<open>What the log line of a sent message reads.\<close>

definition loggable :: "amqp_msg \<Rightarrow> pdu \<Rightarrow> bool" where
  "loggable m p \<longleftrightarrow>
     c_priority (m_content m) \<noteq> None \<and> (\<exists>r. map_of (p_params p) ''registered_delivery'' = Some (PList [r])) \<and>
     has_key (p_params p) ''source_addr'' \<and> has_key (p_params p) ''destination_addr'' \<and>
     (\<exists>b. map_of (p_params p) ''short_message'' = Some (PBytes b)) \<and> has_key (p_params p) ''esm_class'' \<and>
     list_all (\<lambda>(tag, _). is_int tag) (case p_custom_tlvs p of None \<Rightarrow> [] | Some ts \<Rightarrow> ts)"

lemma format_tlvs_ok:
  assumes "list_all (\<lambda>(tag, _). is_int tag) (case p_custom_tlvs p of None \<Rightarrow> [] | Some ts \<Rightarrow> ts)"
  shows "\<exists>s. format_tlvs_for_log env mandatory privacy p = Inr s"
proof -
  let ?f = "\<lambda>(tag, _, _, v). if is_int tag
      then Inr (''0x'' @ hex4 (int_of tag) @ (if privacy then [] else '':'' @ py_str env v)) else Inl TypeError"
  let ?ts = "case p_custom_tlvs p of None \<Rightarrow> [] | Some ts \<Rightarrow> ts"
  have "?f t = Inr (''0x'' @ hex4 (int_of (fst t)) @ (if privacy then [] else '':'' @ py_str env (snd (snd (snd t)))))"
    if "t \<in> set ?ts" for t
  proof -
    have "is_int (fst t)" using assms that by (simp only: list_all_iff case_prod_unfold)
    then show ?thesis by (simp add: case_prod_unfold)
  qed
  from map_res_Inr_map[of ?ts ?f, OF this] show ?thesis by (simp add: format_tlvs_for_log_def Let_def)
qed

lemma log_sent_ok:
  assumes "loggable m p" shows "log_sent env cfg m p (PBytes b) = Inr ()"
proof -
  obtain s where "format_tlvs_for_log (le_tlv env) (oe_mandatory (le_op env)) (lc_log_privacy cfg) p = Inr s"
    using assms format_tlvs_ok unfolding loggable_def by blast
  then show ?thesis
    using assms by (auto simp: loggable_def log_sent_def logged_content_def dget_def has_key_def receipt_of_def)
qed

lemma splitMethod_ok:
  assumes "loggable m p" shows "\<exists>x. splitMethod p = Inr x"
proof -
  obtain e b where "map_of (p_params p) ''esm_class'' = Some e" "map_of (p_params p) ''short_message'' = Some (PBytes b)"
    using assms by (auto simp: loggable_def has_key_def)
  then show ?thesis
    by (cases "has_key (p_params p) ''sar_msg_ref_num''"; cases "udhi_set e")
      (simp_all add: splitMethod_def dget_def has_udh_prefix_def)
qed

lemma part_content_ok: "loggable m p \<Longrightarrow> \<exists>b. part_content s ''short_message'' p = Inr (PBytes b)"
  by (cases "s = ''sar''") (auto simp: loggable_def part_content_def dget_def)

lemma join_parts_ok: "list_all (loggable m) ps \<Longrightarrow> \<exists>b. join_parts s ''short_message'' (PBytes a) ps = Inr (PBytes b)"
proof (induction ps arbitrary: a)
  case (Cons p ps)
  then obtain b where "part_content s ''short_message'' p = Inr (PBytes b)" using part_content_ok by fastforce
  with Cons.IH[of "a @ b"] Cons.prems show ?case by simp
qed simp
definition resp_bill_ok :: "listener_env \<Rightarrow> amqp_msg \<Rightarrow> bool" where
  "resp_bill_ok env m \<longleftrightarrow> (case c_bill (m_content m) of None \<Rightarrow> True | Some b \<Rightarrow> \<not> isl (getSubmitSmRespBill (le_bid env) b))"

lemma resp_bill_ok_iff:
  "resp_bill_ok env m \<Longrightarrow>
   \<exists>x. (case c_bill (m_content m) of
          None \<Rightarrow> Inr None
        | Some b \<Rightarrow> res_bind (getSubmitSmRespBill (le_bid env) b) (\<lambda>x. Inr (Some x))) = Inr x"
  by (cases "c_bill (m_content m)"; cases "getSubmitSmRespBill (le_bid env) (the (c_bill (m_content m)))")
    (simp_all add: resp_bill_ok_def)

definition error_receipt :: "amqp_msg \<Rightarrow> string \<Rightarrow> content" where
  "error_receipt m status = mk_content (BText status) (m_msgid m) [(''type'', PStr ''submit_sm_resp'')]"

lemma resp_error_event:
  assumes "p_status resp \<noteq> ''ESME_ROK''" "p_command resp = ''submit_sm_resp''" "loggable m (hd chain)"
    "resp_bill_ok env m" "\<not> lc_publish_resp cfg" "map_of (ls_retrials st) (m_msgid m) = Some n"
  shows "submit_sm_resp_event env cfg chain resp m st =
    ls_emit (EPublish ''dlr.submit_sm_resp'' (error_receipt m (p_status resp)))
      (case map_of (lc_error_retrial cfg) (p_status resp) of
         None \<Rightarrow> ls_ackMessage m (clearRejectTimer (m_msgid m) st)
       | Some (count, delay) \<Rightarrow>
           if n < count then ls_rejectAndRequeueMessage cfg m delay st
           else ls_ackMessage m (clearRejectTimer (m_msgid m) (st\<lparr>ls_retrials := ddel (ls_retrials st) (m_msgid m)\<rparr>)))"
proof -
  obtain x where x: "(case c_bill (m_content m) of
          None \<Rightarrow> Inr None
        | Some b \<Rightarrow> res_bind (getSubmitSmRespBill (le_bid env) b) (\<lambda>x. Inr (Some x))) = Inr x"
    using resp_bill_ok_iff[OF assms(4)] by blast
  obtain b where b: "map_of (p_params (hd chain)) ''short_message'' = Some (PBytes b)" using assms(3) by (auto simp: loggable_def)
  have dlr: "resp_dlr env m resp = Inr (error_receipt m (p_status resp))"
    using assms(1,2) by (simp add: resp_dlr_def mk_DLR_def error_receipt_def Let_def)
  have pos: "py_lt (PInt 0) (PFloat 0) = Inr False" by (simp add: py_lt_def is_number_def)
  have err: "sent_error env cfg m chain resp st =
      (case map_of (lc_error_retrial cfg) (p_status resp) of
         None \<Rightarrow> (Inr False, st)
       | Some (count, delay) \<Rightarrow>
           if n < count then (Inr True, ls_rejectAndRequeueMessage cfg m delay st)
           else (Inr False, st\<lparr>ls_retrials := ddel (ls_retrials st) (m_msgid m)\<rparr>))"
    using log_sent_ok[OF assms(3)] b assms(6) by (auto simp: sent_error_def Let_def dget_def split: option.splits)
  show ?thesis
    using assms(1,5) unfolding submit_sm_resp_event_def resp_body_def x dlr
    by (auto simp: act_defs err pos ls_publish_def split: option.splits)
qed

text \<open>Redelivering a message goes through the reject timer it set; the timer that fires requeues it.\<close>

lemma timer_after_requeue:
  assumes "truthy delay"
  shows "ls_timer_fires (m_msgid m) (ls_emit e (ls_rejectAndRequeueMessage cfg m delay st)) =
    ls_rejectMessage m True (ls_emit e (st\<lparr>ls_timers := dset (ddel (ls_timers st) (m_msgid m)) (m_msgid m)
      (m, (if \<not> is_bool delay then delay else lc_requeue_delay cfg), False)\<rparr>))"
  using assms by (simp add: ls_timer_fires_def ls_rejectAndRequeueMessage_def clearRejectTimer_def ls_emit_def
      ls_rejectMessage_def Let_def)

text \<open>The environment of a delivery in which the message is sent and answered with the status.\<close>

definition answers :: "listener_config \<Rightarrow> amqp_msg \<Rightarrow> string \<Rightarrow> listener_env \<Rightarrow> bool" where
  "answers cfg m status env \<longleftrightarrow>
     le_session env = Some True \<and> expired env m = Inr False \<and> resp_bill_ok env m \<and>
     (\<exists>chain p req resp. c_body (m_content m) = BPdus chain \<and> chain \<noteq> [] \<and> p_command (hd chain) = ''submit_sm'' \<and>
        prepare_tlvs env cfg (hd chain) = Inr (p, True) \<and> le_send env (p # tl chain) = Inr (req, resp) \<and>
        loggable m (hd req) \<and> p_command resp = ''submit_sm_resp'' \<and> p_status resp = status)"

lemma submit_answered:
  assumes "answers cfg m status env" "ls_queue st"
  shows "\<exists>req resp. submit_sm_callback env cfg m st =
      submit_sm_resp_event env cfg req resp m
        (qos_step env cfg (ls_count_try (m_msgid m) (st\<lparr>ls_gets := ls_gets st - 1 + 1\<rparr>))) \<and>
    loggable m (hd req) \<and> p_command resp = ''submit_sm_resp'' \<and> p_status resp = status"
proof -
  obtain chain p req resp where c: "c_body (m_content m) = BPdus chain" "chain \<noteq> []" "p_command (hd chain) = ''submit_sm''"
    "prepare_tlvs env cfg (hd chain) = Inr (p, True)" "le_send env (p # tl chain) = Inr (req, resp)"
    "loggable m (hd req)" "p_command resp = ''submit_sm_resp''" "p_status resp = status"
    "le_session env = Some True" "expired env m = Inr False"
    using assms(1) by (auto simp: answers_def)
  have "submit_sm_callback env cfg m st =
      submit_sm_resp_event env cfg req resp m
        (qos_step env cfg (ls_count_try (m_msgid m) (st\<lparr>ls_gets := ls_gets st - 1 + 1\<rparr>)))"
    using c(1-5,9,10) assms(2) by (simp add: submit_sm_callback_def submit_body_def send_ready_def act_defs)
  with c(6-8) show ?thesis by blast
qed
lemma qos_step_frame [simp]:
  "ls_out (qos_step env cfg st) = ls_out st" "ls_queue (qos_step env cfg st) = ls_queue st"
  "ls_retrials (qos_step env cfg st) = ls_retrials st" "ls_timers (qos_step env cfg st) = ls_timers st"
  by (simp_all add: qos_step_def Let_def)

definition tries_of :: "string \<Rightarrow> 'r listener \<Rightarrow> int" where
  "tries_of msgid st = (case map_of (ls_retrials st) msgid of None \<Rightarrow> 0 | Some n \<Rightarrow> n)"

definition failed_try :: "amqp_msg \<Rightarrow> string \<Rightarrow> bool \<Rightarrow> effect list" where
  "failed_try m status again =
     (if again then [EPublish ''dlr.submit_sm_resp'' (error_receipt m status), EReject (m_tag m) True]
      else [EAck (m_tag m), EPublish ''dlr.submit_sm_resp'' (error_receipt m status)])"

lemma retry_step:
  assumes "status \<noteq> ''ESME_ROK''" "map_of (lc_error_retrial cfg) status = Some (count, delay)" "truthy delay"
    "\<not> lc_publish_resp cfg" "answers cfg m status env" "ls_queue st"
    "st' = ls_timer_fires (m_msgid m) (submit_sm_callback env cfg m st)" "k = tries_of (m_msgid m) st"
  shows "ls_queue st' \<and> ls_out st' = ls_out st @ failed_try m status (k + 1 < count) \<and>
    (if k + 1 < count then tries_of (m_msgid m) st' = k + 1
     else \<not> has_key (ls_retrials st') (m_msgid m) \<and> \<not> has_key (ls_timers st') (m_msgid m))"
proof -
  obtain req resp where r: "submit_sm_callback env cfg m st =
      submit_sm_resp_event env cfg req resp m (qos_step env cfg (ls_count_try (m_msgid m) (st\<lparr>ls_gets := ls_gets st - 1 + 1\<rparr>)))"
    "loggable m (hd req)" "p_command resp = ''submit_sm_resp''" "p_status resp = status"
    using submit_answered[OF assms(5,6)] by blast
  define s where "s = qos_step env cfg (ls_count_try (m_msgid m) (st\<lparr>ls_gets := ls_gets st - 1 + 1\<rparr>))"
  have s: "ls_queue s" "ls_out s = ls_out st" "map_of (ls_retrials s) (m_msgid m) = Some (k + 1)"
    using assms(6,8) by (simp_all add: s_def ls_count_try_def tries_of_def split: option.splits)
  have b: "resp_bill_ok env m" using assms(5) by (simp add: answers_def)
  have "submit_sm_callback env cfg m st = ls_emit (EPublish ''dlr.submit_sm_resp'' (error_receipt m status))
      (if k + 1 < count then ls_rejectAndRequeueMessage cfg m delay s
       else ls_ackMessage m (clearRejectTimer (m_msgid m) (s\<lparr>ls_retrials := ddel (ls_retrials s) (m_msgid m)\<rparr>)))"
    using resp_error_event[of resp m req env cfg s "k + 1", OF _ r(3,2) b assms(4) s(3)] assms(1,2) r(1,4) by (simp add: s_def)
  with assms(7) have st': "st' = ls_timer_fires (m_msgid m) (ls_emit (EPublish ''dlr.submit_sm_resp'' (error_receipt m status))
      (if k + 1 < count then ls_rejectAndRequeueMessage cfg m delay s
       else ls_ackMessage m (clearRejectTimer (m_msgid m) (s\<lparr>ls_retrials := ddel (ls_retrials s) (m_msgid m)\<rparr>))))" by simp
  show ?thesis
  proof (cases "k + 1 < count")
    case True
    with s show ?thesis unfolding st' if_P[OF True] timer_after_requeue[OF assms(3)]
      by (simp add: failed_try_def ls_rejectMessage_def ls_emit_def tries_of_def)
  next
    case False
    with s show ?thesis unfolding st'
      by (simp add: failed_try_def ls_ackMessage_def ls_emit_def ls_timer_fires_def clearRejectTimer_def has_key_def)
  qed
qed

text \<open>
  Claim C15.  A message that the SMSC keeps refusing with a status of the retry table is sent exactly as often as
  the table says: every refusal before the last requeues it after the delay of the table and counts, the last
  acknowledges it and leaves no counter and no timer.  Every one of these attempts, not only the last,
  reports the error for the receipts of the message.
\<close>

theorem submit_retries_bounded:
  assumes "status \<noteq> ''ESME_ROK''" "map_of (lc_error_retrial cfg) status = Some (int count, delay)" "truthy delay"
    "\<not> lc_publish_resp cfg" "\<And>k. answers cfg (ms k) status (world k)" "\<And>k. m_msgid (ms k) = msgid"
    "ls_queue st" "\<not> has_key (ls_retrials st) msgid" "i < count"
  shows "let run = (\<lambda>k. redeliver (\<lambda>env. submit_sm_callback env cfg) ls_timer_fires world ms msgid k st)
         in ls_out (run (Suc i)) = ls_out (run i) @ failed_try (ms i) status (Suc i < count) \<and>
            (if Suc i < count then tries_of msgid (run (Suc i)) = int (Suc i)
             else \<not> has_key (ls_retrials (run (Suc i))) msgid \<and> \<not> has_key (ls_timers (run (Suc i))) msgid)"
proof -
  let ?run = "\<lambda>k. redeliver (\<lambda>env. submit_sm_callback env cfg) ls_timer_fires world ms msgid k st"
  have step: "ls_queue (?run j) \<Longrightarrow> ls_queue (?run (Suc j)) \<and>
      ls_out (?run (Suc j)) = ls_out (?run j) @ failed_try (ms j) status (tries_of msgid (?run j) + 1 < int count) \<and>
      (if tries_of msgid (?run j) + 1 < int count then tries_of msgid (?run (Suc j)) = tries_of msgid (?run j) + 1
       else \<not> has_key (ls_retrials (?run (Suc j))) msgid \<and> \<not> has_key (ls_timers (?run (Suc j))) msgid)" for j
    using retry_step[OF assms(1-4) assms(5) _ refl refl, unfolded assms(6)] unfolding redeliver.simps by blast
  have inv: "j < count \<Longrightarrow> ls_queue (?run j) \<and> tries_of msgid (?run j) = int j" for j
  proof (induction j)
    case 0
    then show ?case using assms(7,8) by (simp add: tries_of_def has_key_def)
  next
    case (Suc j)
    then have q: "ls_queue (?run j)" "tries_of msgid (?run j) = int j" by simp_all
    from step[OF q(1)] q(2) Suc.prems show ?case by simp
  qed
  from inv[OF assms(9)] have q: "ls_queue (?run i)" "tries_of msgid (?run i) = int i" by simp_all
  have "(int i + 1 < int count) = (Suc i < count)" by linarith
  with step[OF q(1)] q(2) show ?thesis unfolding Let_def by (simp add: add.commute del: redeliver.simps)
qed

definition sample_sent :: pdu where
  "sample_sent =
     \<lparr>p_command = ''submit_sm'', p_seqNum = Some 1, p_status = ''ESME_ROK'',
      p_params = [(''source_addr'', PBytes ''1''), (''destination_addr'', PBytes ''2''), (''esm_class'', PNone),
        (''registered_delivery'', RegisteredDelivery ''NO_SMSC_DELIVERY_RECEIPT_REQUESTED''), (''short_message'', PBytes ''hi'')],
      p_custom_tlvs = None\<rparr>"

definition sample_submit :: amqp_msg where
  "sample_submit = sample_message\<lparr>m_content := (m_content sample_message)\<lparr>c_body := BPdus [sample_sent]\<rparr>\<rparr>"

definition throttling_env :: listener_env where
  "throttling_env = sample_listener_env\<lparr>le_send := (\<lambda>ps. Inr (ps, resp_pdu ''ESME_RTHROTTLED'' []))\<rparr>"

definition retry_config :: listener_config where
  "retry_config = sample_listener_config\<lparr>lc_error_retrial := [(''ESME_RTHROTTLED'', 2, PInt 30)]\<rparr>"

lemma sample_answers: "answers retry_config sample_submit ''ESME_RTHROTTLED'' throttling_env"
proof -
  have "prepare_tlvs throttling_env retry_config sample_sent = Inr (sample_sent\<lparr>p_custom_tlvs := Some []\<rparr>, True)"
    by code_simp
  then show ?thesis
    by (simp add: answers_def throttling_env_def sample_listener_env_def expired_def sample_submit_def sample_message_def
        mk_content_def resp_bill_ok_def sample_sent_def loggable_def RegisteredDelivery_def has_key_def resp_pdu_def)
qed

theorem submit_retries_bounded_witness:
  "\<exists>st1 st2. st1 = ls_timer_fires ''m1'' (submit_sm_callback throttling_env retry_config sample_submit
       (setSubmitSmQ True (SMPPClientSMListener (None :: unit option) []))) \<and>
     st2 = ls_timer_fires ''m1'' (submit_sm_callback throttling_env retry_config sample_submit st1) \<and>
     ls_out st2 = ls_out st1 @ failed_try sample_submit ''ESME_RTHROTTLED'' False \<and> ls_retrials st2 = []"
proof -
  let ?st = "setSubmitSmQ True (SMPPClientSMListener (None :: unit option) [])"
  let ?run = "\<lambda>k. redeliver (\<lambda>env. submit_sm_callback env retry_config) ls_timer_fires (\<lambda>_. throttling_env) (\<lambda>_. sample_submit) ''m1'' k ?st"
  have "let run = ?run in ls_out (run (Suc 1)) = ls_out (run 1) @ failed_try sample_submit ''ESME_RTHROTTLED'' (Suc 1 < 2) \<and>
      (if Suc 1 < 2 then tries_of ''m1'' (run (Suc 1)) = int (Suc 1)
       else \<not> has_key (ls_retrials (run (Suc 1))) ''m1'' \<and> \<not> has_key (ls_timers (run (Suc 1))) ''m1'')"
  proof (rule submit_retries_bounded[where delay = "PInt 30"])
    show "answers retry_config sample_submit ''ESME_RTHROTTLED'' throttling_env" by (rule sample_answers)
  qed (simp_all add: retry_config_def sample_listener_config_def sample_submit_def sample_message_def mk_content_def
      setSubmitSmQ_def SMPPClientSMListener_def has_key_def)
  moreover have "ls_retrials (?run (Suc 1)) = []" by code_simp
  ultimately show ?thesis by (simp add: Let_def)
qed

end
