(* ===== verification/Listener_Mo_Correct.thy ===== *)
theory Listener_Mo_Correct
  imports Listener_Correct "HOL-Library.Multiset"
begin

text \<open>
  Long messages that arrive in parts: with a store that keeps what it was given, the parts are joined in the
  order of their numbers, whatever the order in which they came, provided the last one comes last.
  The handler calls itself at most twice.
\<close>

section \<open>The store\<close>

text \<open>The commands on the hashes of parts, as Redis documents them: \<^verbatim>\<open>HSET\<close> sets the field and tells whether it
  is new, \<^verbatim>\<open>HVALS\<close> gives the values of all fields in some order, \<^verbatim>\<open>EXPIRE\<close> changes no value.
  \<open>view\<close> is the content of the store.\<close>

definition segs_kept :: "'r seg_ops \<Rightarrow> ('r \<Rightarrow> string \<Rightarrow> (pyval, seg_value) dict) \<Rightarrow> bool" where
  "segs_kept ops view \<longleftrightarrow>
     (\<forall>r k f v. \<exists>r'. sg_hset ops r k f v = Inr (if has_key (view r k) f then 0 else 1, r') \<and>
        view r' = (view r)(k := dset (view r k) f v)) \<and>
     (\<forall>r k. \<exists>vs. sg_hvals ops r k = Inr vs \<and> mset vs = mset (map snd (view r k))) \<and>
     (\<forall>r k n. \<exists>r'. sg_expire ops r k n = Inr r' \<and> view r' = view r)"

lemma segs_hset_new:
  assumes "segs_kept ops view" "\<not> has_key (view r k) f"
  shows "\<exists>r'. sg_hset ops r k f v = Inr (1, r') \<and> view r' = (view r)(k := dset (view r k) f v)"
proof -
  from assms(1) have "\<exists>r'. sg_hset ops r k f v = Inr (if has_key (view r k) f then 0 else 1, r') \<and>
      view r' = (view r)(k := dset (view r k) f v)"
    unfolding segs_kept_def by blast
  then show ?thesis using assms(2) by simp
qed

section \<open>Joining\<close>

definition seg_entry :: "pdu \<Rightarrow> nat \<Rightarrow> seg_value" where
  "seg_entry p i = \<lparr>sv_pdu = p, sv_seq = PInt (int i)\<rparr>"

lemma seg_table_lookup:
  assumes "set vs = (\<lambda>i. seg_entry (pt i) i) ` S" "i \<in> S"
  shows "map_of (seg_table vs) (PInt (int i)) = Some (pt i)"
proof -
  have "set ws \<subseteq> (\<lambda>i. seg_entry (pt i) i) ` S \<Longrightarrow>
      map_of (foldl (\<lambda>d v. dset d (sv_seq v) (sv_pdu v)) d ws) (PInt (int i)) =
        (if seg_entry (pt i) i \<in> set ws then Some (pt i) else map_of d (PInt (int i)))" for ws d
  proof (induction ws arbitrary: d)
    case (Cons w ws)
    then obtain j where j: "w = seg_entry (pt j) j" by auto
    show ?case
    proof (cases "j = i")
      case True
      then show ?thesis using Cons by (simp add: j seg_entry_def)
    next
      case False
      then have "w \<noteq> seg_entry (pt i) i" by (simp add: j seg_entry_def)
      with False Cons show ?thesis by (simp add: j seg_entry_def)
    qed
  qed simp
  from this[of vs "[]"] assms show ?thesis by (simp add: seg_table_def)
qed

lemma range_parts_all:
  assumes "\<And>i. a < i \<Longrightarrow> i \<le> a + n \<Longrightarrow> map_of d (PInt (int i)) = Some (pt i)"
  shows "range_parts d a n = Inr (map pt [Suc a..<Suc (a + n)])"
  using assms
proof (induction n arbitrary: a)
  case (Suc n)
  have "map_of d (PInt (int a + 1)) = Some (pt (Suc a))" using Suc.prems[of "Suc a"] by (simp add: add.commute)
  moreover have "range_parts d (Suc a) n = Inr (map pt [Suc (Suc a)..<Suc (Suc a + n)])" by (rule Suc.IH) (use Suc.prems in simp)
  moreover have "[Suc a..<Suc (a + Suc n)] = Suc a # [Suc (Suc a)..<Suc (Suc a + n)]" by (simp add: upt_conv_Cons)
  ultimately show ?case by (simp add: dget_def)
qed simp

lemma joined_all:
  assumes "set vs = (\<lambda>i. seg_entry (pt i) i) ` {1..n}" "1 \<le> n"
    and "\<And>i. 1 \<le> i \<Longrightarrow> i \<le> n \<Longrightarrow> part_content split ''short_message'' (pt i) = Inr (PBytes (c i))"
    and "strip_split split (pt 1) = Inr q"
  shows "joined_pdu split n vs =
    Inr (Some (q\<lparr>p_params := dset (p_params q) ''short_message'' (PBytes (concat (map c [1..<Suc n])))\<rparr>))"
proof -
  have look: "map_of (seg_table vs) (PInt (int i)) = Some (pt i)" if "1 \<le> i" "i \<le> n" for i
    using seg_table_lookup[OF assms(1)] that by simp
  have rng: "range_parts (seg_table vs) 0 n = Inr (map pt [1..<Suc n])"
    using range_parts_all[of 0 n "seg_table vs" pt] look by simp
  have "join_parts split ''short_message'' (PBytes a) (map pt xs) = Inr (PBytes (a @ concat (map c xs)))"
    if "set xs \<subseteq> {1..n}" for xs a
    using that assms(3) by (induction xs arbitrary: a) simp_all
  then have join: "join_parts split ''short_message'' (PBytes []) (map pt [1..<Suc n]) = Inr (PBytes (concat (map c [1..<Suc n])))"
    by (metis append_Nil atLeastLessThanSuc_atLeastAtMost order_refl set_upt)
  have "has_key (p_params (pt 1)) ''short_message''"
    using assms(3)[of 1] assms(2) by (auto simp: part_content_def has_key_def dget_def split: option.splits)
  then show ?thesis
    using look[of 1] assms(2,4) rng join by (simp add: joined_pdu_def dget_def Let_def)
qed
section \<open>Delivering the parts\<close>

text \<open>\<open>p\<close> is part \<open>i\<close> of the \<open>n\<close> parts of a message with the given reference and destination, and carries
  the bytes \<open>c\<close>.\<close>

definition is_part :: "op_env \<Rightarrow> string \<Rightarrow> nat \<Rightarrow> pyval \<Rightarrow> pyval \<Rightarrow> nat \<Rightarrow> pdu \<Rightarrow> string \<Rightarrow> bool" where
  "is_part env split n ref dest i p c \<longleftrightarrow>
     p_custom_tlvs p = None \<and> isDeliveryReceipt env p = Inr None \<and> map_of (p_params p) ''destination_addr'' = Some dest \<and>
     part_content split ''short_message'' p = Inr (PBytes c) \<and>
     res_bind (message_content p) (segment_of p) =
       Inr (Some \<lparr>se_split = split, se_total = PInt (int n), se_seq = PInt (int i), se_ref = ref\<rparr>)"

text \<open>A message that is neither a receipt nor a part.\<close>

definition is_plain :: "op_env \<Rightarrow> pdu \<Rightarrow> bool" where
  "is_plain env p \<longleftrightarrow>
     p_custom_tlvs p = None \<and> isDeliveryReceipt env p = Inr None \<and> res_bind (message_content p) (segment_of p) = Inr None"

definition routed :: "listener_config \<Rightarrow> listener_env \<Rightarrow> pdu \<Rightarrow> routable" where
  "routed cfg env p = RoutableDeliverSm p (SmppClientConnector (lc_cid cfg)) (le_date env) (le_time env)"

lemma r_pdu_routed [simp]: "r_pdu (routed cfg env p) = p"
  by (simp add: routed_def RoutableDeliverSm_def)

definition mo_effect :: "listener_env \<Rightarrow> listener_config \<Rightarrow> nat \<Rightarrow> pdu \<Rightarrow> bool \<Rightarrow> bool \<Rightarrow> effect" where
  "mo_effect env cfg k p concatenated wbc = EPublish (mo_key cfg) (mo_content env cfg k p concatenated wbc)"

lemma mo_prepare_plain:
  "p_custom_tlvs (r_pdu r) = None \<Longrightarrow> isDeliveryReceipt (le_op env) (r_pdu r) = Inr None \<Longrightarrow>
   mo_prepare status_name env cfg None r st = (Inr (r_pdu r, None), st)"
  by (simp add: mo_prepare_def after_script_def act_defs)

lemma deliver_plain:
  assumes "is_plain (le_op env) p"
  shows "\<exists>res. deliver_sm_post (Suc k) status_name env cfg ops None (routed cfg env p) concatenated st =
    Some (res, ls_emit (mo_effect env cfg k p concatenated False) st)"
proof -
  obtain content where c: "message_content p = Inr content" "segment_of p content = Inr None"
    using assms by (cases "message_content p") (auto simp: is_plain_def)
  have "mo_simple env cfg k p content concatenated st =
      (log_mo cfg p content, ls_emit (mo_effect env cfg k p concatenated False) st)"
    by (simp add: mo_simple_def ls_publish_def act_defs mo_effect_def)
  then show ?thesis
    using assms c mo_prepare_plain[of "routed cfg env p" env status_name cfg st] by (simp add: is_plain_def mo_body_def)
qed

text \<open>The state after a part was stored and published, as far as the parts of that message are concerned.\<close>

lemma deliver_part_stored:
  assumes ops: "segs_kept ops view" and p: "is_part (le_op env) split n ref dest i p c"
    and st: "ls_redis st = Some r" "\<not> has_key (view r (seg_key env cfg ref dest)) (PInt (int i))" and "i \<noteq> n"
  shows "\<exists>r'. deliver_sm_post (Suc k) status_name env cfg ops None (routed cfg env p) False st =
      Some (Inr None, ls_emit (mo_effect env cfg k p False True) (st\<lparr>ls_redis := Some r'\<rparr>)) \<and>
    view r' = (view r)(seg_key env cfg ref dest := dset (view r (seg_key env cfg ref dest)) (PInt (int i)) (seg_entry p i))"
proof -
  let ?key = "seg_key env cfg ref dest"
  let ?seg = "\<lparr>se_split = split, se_total = PInt (int n), se_seq = PInt (int i), se_ref = ref\<rparr>"
  obtain content where c: "message_content p = Inr content" "segment_of p content = Inr (Some ?seg)"
    using p by (cases "message_content p") (auto simp: is_part_def)
  obtain r1 where r1: "sg_hset ops r ?key (PInt (int i)) (seg_entry p i) = Inr (1, r1)"
    "view r1 = (view r)(?key := dset (view r ?key) (PInt (int i)) (seg_entry p i))"
    using segs_hset_new[OF ops st(2)] by blast
  obtain r2 where r2: "sg_expire ops r1 ?key 300 = Inr r2" "view r2 = view r1"
    using ops unfolding segs_kept_def by blast
  have cat: "concatDeliverSMs post ops 1 ?key ?seg (st\<lparr>ls_redis := Some r1\<rparr>) = Some (Inr (), st\<lparr>ls_redis := Some r2\<rparr>)" for post
    using assms(5) by (simp add: concatDeliverSMs_def on_segs_def r2)
  have "mo_part post env cfg ops k p ?seg False st =
      Some (Inr (), ls_emit (mo_effect env cfg k p False True) (st\<lparr>ls_redis := Some r2\<rparr>))" for post
    using p st(1) r1(1) cat
    by (simp add: mo_part_def is_part_def dget_def on_segs_def seg_entry_def ls_publish_def act_defs mo_effect_def)
  then have "deliver_sm_post (Suc k) status_name env cfg ops None (routed cfg env p) False st =
      Some (Inr None, ls_emit (mo_effect env cfg k p False True) (st\<lparr>ls_redis := Some r2\<rparr>))"
    using c p mo_prepare_plain[of "routed cfg env p" env status_name cfg st]
    by (simp add: mo_body_def is_part_def mo_status_def)
  then show ?thesis using r1(2) r2(2) by auto
qed

lemma deliver_part_last:
  assumes ops: "segs_kept ops view" and p: "is_part (le_op env) split n ref dest n p c"
    and st: "ls_redis st = Some r" "\<not> has_key (view r (seg_key env cfg ref dest)) (PInt (int n))"
    and all: "mset (map snd (dset (view r (seg_key env cfg ref dest)) (PInt (int n)) (seg_entry p n))) =
      mset (map (\<lambda>i. seg_entry (pt i) i) [1..<Suc n])"
    and parts: "1 \<le> n" "\<And>i. 1 \<le> i \<Longrightarrow> i \<le> n \<Longrightarrow> part_content split ''short_message'' (pt i) = Inr (PBytes (cs i))"
    and q: "strip_split split (pt 1) = Inr q"
      "q' = q\<lparr>p_params := dset (p_params q) ''short_message'' (PBytes (concat (map cs [1..<Suc n])))\<rparr>"
      "is_plain (le_op env) q'"
  shows "\<exists>r'. deliver_sm_post (Suc (Suc k)) status_name env cfg ops None (routed cfg env p) False st =
      Some (Inr None, ls_emit (mo_effect env cfg (Suc k) p False True)
        (ls_emit (mo_effect env cfg k q' True False) (st\<lparr>ls_redis := Some r'\<rparr>)))"
proof -
  let ?key = "seg_key env cfg ref dest"
  let ?seg = "\<lparr>se_split = split, se_total = PInt (int n), se_seq = PInt (int n), se_ref = ref\<rparr>"
  obtain content where c: "message_content p = Inr content" "segment_of p content = Inr (Some ?seg)"
    using p by (cases "message_content p") (auto simp: is_part_def)
  obtain r1 where r1: "sg_hset ops r ?key (PInt (int n)) (seg_entry p n) = Inr (1, r1)"
    "view r1 = (view r)(?key := dset (view r ?key) (PInt (int n)) (seg_entry p n))"
    using segs_hset_new[OF ops st(2)] by blast
  obtain r2 where r2: "sg_expire ops r1 ?key 300 = Inr r2" "view r2 = view r1"
    using ops unfolding segs_kept_def by blast
  obtain vs where vs: "sg_hvals ops r2 ?key = Inr vs" "mset vs = mset (map snd (view r2 ?key))"
    using ops unfolding segs_kept_def by blast
  have m: "mset vs = mset (map (\<lambda>i. seg_entry (pt i) i) [1..<Suc n])" using vs(2) all by (simp add: r2(2) r1(2))
  have len: "length vs = n" using arg_cong[OF m, of size] by simp
  have "set vs = (\<lambda>i. seg_entry (pt i) i) ` {1..n}"
    using arg_cong[OF m, of set_mset] by (simp add: atLeastLessThanSuc_atLeastAtMost del: upt_Suc)
  from joined_all[OF this parts q(1)] have join: "joined_pdu split n vs = Inr (Some q')" by (simp add: q(2))
  let ?post = "\<lambda>p st1. map_option snd (deliver_sm_post (Suc k) status_name env cfg ops None
      (RoutableDeliverSm p (SmppClientConnector (lc_cid cfg)) (le_date env) (le_time env)) True st1)"
  let ?st2 = "ls_emit (mo_effect env cfg k q' True False) (st\<lparr>ls_redis := Some r2\<rparr>)"
  have post: "?post q' (st\<lparr>ls_redis := Some r2\<rparr>) = Some ?st2"
    using deliver_plain[OF q(3), of k status_name cfg ops True "st\<lparr>ls_redis := Some r2\<rparr>"]
    unfolding routed_def[symmetric] by (auto simp del: deliver_sm_post.simps)
  have cat: "concatDeliverSMs ?post ops 1 ?key ?seg (st\<lparr>ls_redis := Some r1\<rparr>) = Some (Inr (), ?st2)"
    using len join post by (simp add: concatDeliverSMs_def on_segs_def r2 vs(1) del: deliver_sm_post.simps)
  have "mo_part ?post env cfg ops (Suc k) p ?seg False st = Some (Inr (), ls_emit (mo_effect env cfg (Suc k) p False True) ?st2)"
    using p st(1) r1(1) cat
    by (simp add: mo_part_def is_part_def dget_def on_segs_def seg_entry_def ls_publish_def act_defs mo_effect_def
        del: deliver_sm_post.simps)
  then have "deliver_sm_post (Suc (Suc k)) status_name env cfg ops None (routed cfg env p) False st =
      Some (Inr None, ls_emit (mo_effect env cfg (Suc k) p False True) ?st2)"
    using c p mo_prepare_plain[of "routed cfg env p" env status_name cfg st]
    by (subst deliver_sm_post.simps) (simp add: mo_body_def is_part_def mo_status_def del: deliver_sm_post.simps)
  then show ?thesis by blast
qed
text \<open>Deliveries one after the other, each in the environment of its moment.\<close>

fun deliver_parts ::
  "(int \<Rightarrow> string option) \<Rightarrow> listener_config \<Rightarrow> 'r seg_ops \<Rightarrow> (listener_env \<times> pdu) list \<Rightarrow> 'r listener \<Rightarrow>
   (string option res list \<times> 'r listener) option" where
  "deliver_parts status_name cfg ops [] st = Some ([], st)"
| "deliver_parts status_name cfg ops ((env, p) # xs) st =
     (case deliver_sm_post 3 status_name env cfg ops None (routed cfg env p) False st of
        None \<Rightarrow> None
      | Some (res, st1) \<Rightarrow> map_option (\<lambda>(rs, st2). (res # rs, st2)) (deliver_parts status_name cfg ops xs st1))"

lemma deliver_parts_append:
  "deliver_parts status_name cfg ops (xs @ ys) st =
     (case deliver_parts status_name cfg ops xs st of
        None \<Rightarrow> None
      | Some (rs, st1) \<Rightarrow> map_option (\<lambda>(qs, st2). (rs @ qs, st2)) (deliver_parts status_name cfg ops ys st1))"
  by (induction xs arbitrary: st)
    (auto simp: option.map_comp comp_def case_prod_unfold option.map_ident split: option.splits simp del: deliver_sm_post.simps)

text \<open>The parts stored so far.\<close>

definition stored :: "(nat \<Rightarrow> pdu) \<Rightarrow> nat list \<Rightarrow> (pyval, seg_value) dict \<Rightarrow> bool" where
  "stored pt ix d \<longleftrightarrow> d = map (\<lambda>i. (PInt (int i), seg_entry (pt i) i)) ix"

lemma stored_key: "stored pt ix d \<Longrightarrow> has_key d (PInt (int i)) \<longleftrightarrow> i \<in> set ix"
  by (auto simp: stored_def has_key_fst image_iff)

lemma stored_add: "stored pt ix d \<Longrightarrow> i \<notin> set ix \<Longrightarrow> stored pt (ix @ [i]) (dset d (PInt (int i)) (seg_entry (pt i) i))"
  using stored_key[of pt ix d i] by (simp add: dset_new) (simp add: stored_def)

lemma deliver_parts_stored:
  assumes ops: "segs_kept ops view"
    and parts: "\<And>i. i \<in> set ord \<Longrightarrow> is_part (le_op (envs i)) split n ref dest i (pt i) (cs i) \<and> i \<noteq> n \<and>
      seg_key (envs i) cfg ref dest = key"
    and st: "ls_redis st = Some r" "stored pt ix (view r key)" "distinct (ix @ ord)"
  shows "\<exists>r'. deliver_parts status_name cfg ops (map (\<lambda>i. (envs i, pt i)) ord) st =
      Some (map (\<lambda>i. Inr None) ord, st\<lparr>ls_redis := Some r', ls_out := ls_out st @ map (\<lambda>i. mo_effect (envs i) cfg 2 (pt i) False True) ord\<rparr>) \<and>
    stored pt (ix @ ord) (view r' key)"
  using parts st
proof (induction ord arbitrary: ix st r)
  case Nil
  then show ?case by (intro exI[of _ r]) simp
next
  case (Cons i ord)
  have p: "is_part (le_op (envs i)) split n ref dest i (pt i) (cs i)" "i \<noteq> n" "seg_key (envs i) cfg ref dest = key"
    using Cons.prems(1)[of i] by simp_all
  have new: "\<not> has_key (view r (seg_key (envs i) cfg ref dest)) (PInt (int i))" "i \<notin> set ix"
    using stored_key[OF Cons.prems(3)] Cons.prems(4) p(3) by simp_all
  obtain r1 where r1: "deliver_sm_post 3 status_name (envs i) cfg ops None (routed cfg (envs i) (pt i)) False st =
      Some (Inr None, ls_emit (mo_effect (envs i) cfg 2 (pt i) False True) (st\<lparr>ls_redis := Some r1\<rparr>))"
    "view r1 = (view r)(key := dset (view r key) (PInt (int i)) (seg_entry (pt i) i))"
    using deliver_part_stored[OF ops p(1) Cons.prems(2) new(1) p(2), of 2 status_name]
    unfolding p(3) numeral_3_eq_3 numeral_2_eq_2 by blast
  let ?st = "ls_emit (mo_effect (envs i) cfg 2 (pt i) False True) (st\<lparr>ls_redis := Some r1\<rparr>)"
  have "stored pt (ix @ [i]) (view r1 key)" using stored_add[OF Cons.prems(3) new(2)] r1(2) by simp
  from Cons.IH[of ?st r1, OF _ _ this] Cons.prems(1,4) obtain r2 where
    "deliver_parts status_name cfg ops (map (\<lambda>i. (envs i, pt i)) ord) ?st =
      Some (map (\<lambda>i. Inr None) ord, ?st\<lparr>ls_redis := Some r2, ls_out := ls_out ?st @ map (\<lambda>i. mo_effect (envs i) cfg 2 (pt i) False True) ord\<rparr>)"
    "stored pt ((ix @ [i]) @ ord) (view r2 key)"
    by (force simp: ls_emit_def simp del: deliver_sm_post.simps)
  then show ?case
    using r1(1) by (intro exI[of _ r2]) (simp add: ls_emit_def del: deliver_sm_post.simps)
qed
text \<open>
  Claim C14.  A long message delivered in parts is put together: if the store keeps the parts and the last part is
  the last to arrive, the others coming in any order, then each part is answered without an error and
  published flagged as a part, and before the last of them one message is published that carries the
  contents of all parts in the order of their numbers and the parameters of the first part without the splitting
  information.  This holds for both ways of splitting.
\<close>

theorem long_mo_joined:
  assumes ops: "segs_kept ops view" and ord: "1 \<le> n" "set ord = {1..<n}" "distinct ord"
    and parts: "\<And>i. 1 \<le> i \<Longrightarrow> i \<le> n \<Longrightarrow>
      is_part (le_op (envs i)) split n ref dest i (pt i) (cs i) \<and> seg_key (envs i) cfg ref dest = key"
    and st: "ls_redis st = Some r" "view r key = []"
    and q: "strip_split split (pt 1) = Inr q"
      "q' = q\<lparr>p_params := dset (p_params q) ''short_message'' (PBytes (concat (map cs [1..<Suc n])))\<rparr>"
      "is_plain (le_op (envs n)) q'"
  shows "\<exists>r'. deliver_parts status_name cfg ops (map (\<lambda>i. (envs i, pt i)) (ord @ [n])) st =
    Some (map (\<lambda>i. Inr None) (ord @ [n]), st\<lparr>ls_redis := Some r',
      ls_out := ls_out st @ map (\<lambda>i. mo_effect (envs i) cfg 2 (pt i) False True) ord @
        [mo_effect (envs n) cfg 1 q' True False, mo_effect (envs n) cfg 2 (pt n) False True]\<rparr>)"
proof -
  have "is_part (le_op (envs i)) split n ref dest i (pt i) (cs i) \<and> i \<noteq> n \<and> seg_key (envs i) cfg ref dest = key"
    if "i \<in> set ord" for i using parts[of i] ord(2) that by auto
  from deliver_parts_stored[OF ops this st(1), where ix = "[]" and status_name = status_name] st(2) ord(3) obtain r1 where
    r1: "deliver_parts status_name cfg ops (map (\<lambda>i. (envs i, pt i)) ord) st =
      Some (map (\<lambda>i. Inr None) ord, st\<lparr>ls_redis := Some r1, ls_out := ls_out st @ map (\<lambda>i. mo_effect (envs i) cfg 2 (pt i) False True) ord\<rparr>)"
      "stored pt ord (view r1 key)"
    by (auto simp: stored_def)
  let ?st = "st\<lparr>ls_redis := Some r1, ls_out := ls_out st @ map (\<lambda>i. mo_effect (envs i) cfg 2 (pt i) False True) ord\<rparr>"
  have p: "is_part (le_op (envs n)) split n ref dest n (pt n) (cs n)" "seg_key (envs n) cfg ref dest = key"
    using parts[of n] ord(1) by simp_all
  have new: "\<not> has_key (view r1 (seg_key (envs n) cfg ref dest)) (PInt (int n))" "n \<notin> set ord"
    using stored_key[OF r1(2)] ord(2) by (auto simp: p(2))
  have "mset ord = mset [1..<n]" using ord(2,3) set_eq_iff_mset_eq_distinct[of ord "[1..<n]"] by simp
  then have "mset (ord @ [n]) = mset [1..<Suc n]" using ord(1) by simp
  from arg_cong[OF this, of "image_mset (\<lambda>i. seg_entry (pt i) i)"] stored_add[OF r1(2) new(2)]
  have all: "mset (map snd (dset (view r1 (seg_key (envs n) cfg ref dest)) (PInt (int n)) (seg_entry (pt n) n))) =
      mset (map (\<lambda>i. seg_entry (pt i) i) [1..<Suc n])"
    by (simp add: p(2) stored_def comp_def del: upt_Suc)
  have pc: "part_content split ''short_message'' (pt i) = Inr (PBytes (cs i))" if "1 \<le> i" "i \<le> n" for i
    using parts[OF that] by (simp add: is_part_def)
  from deliver_part_last[OF ops p(1) _ new(1) all ord(1) pc q, of ?st 1 status_name] obtain r2 where
    "deliver_sm_post 3 status_name (envs n) cfg ops None (routed cfg (envs n) (pt n)) False ?st =
      Some (Inr None, ls_emit (mo_effect (envs n) cfg 2 (pt n) False True)
        (ls_emit (mo_effect (envs n) cfg 1 q' True False) (?st\<lparr>ls_redis := Some r2\<rparr>)))"
    unfolding numeral_3_eq_3 numeral_2_eq_2 One_nat_def by auto
  with r1(1) show ?thesis
    by (intro exI[of _ r2]) (simp add: deliver_parts_append ls_emit_def del: deliver_sm_post.simps)
qed

type_synonym seg_store = "string \<Rightarrow> (pyval, seg_value) dict"

definition plain_store :: "seg_store seg_ops" where
  "plain_store =
     \<lparr>sg_hset = (\<lambda>r k f v. Inr (if has_key (r k) f then 0 else 1, r(k := dset (r k) f v))),
      sg_hvals = (\<lambda>r k. Inr (map snd (r k))), sg_expire = (\<lambda>r k n. Inr r)\<rparr>"

definition empty_listener :: "seg_store listener" where
  "empty_listener = SMPPClientSMListener (Some (\<lambda>_. [])) []"

definition sar_part :: "nat \<Rightarrow> string \<Rightarrow> pdu" where
  "sar_part i c =
     mo_pdu [(''source_addr'', PBytes ''1''), (''destination_addr'', PBytes ''2''), (''short_message'', PBytes c),
       (''sar_msg_ref_num'', PInt 7), (''sar_total_segments'', PInt 3), (''sar_segment_seqnum'', PInt (int i))]"

definition sample_text :: "nat \<Rightarrow> string" where
  "sample_text i = (if i = 1 then ''Hello '' else if i = 2 then ''big '' else ''world'')"

theorem long_mo_joined_witness:
  "\<exists>q r'. deliver_parts (\<lambda>_. None) sample_listener_config plain_store
      (map (\<lambda>i. (sample_listener_env, sar_part i (sample_text i))) [2, 1, 3]) empty_listener =
    Some ([Inr None, Inr None, Inr None], empty_listener\<lparr>ls_redis := Some r', ls_out :=
      [mo_effect sample_listener_env sample_listener_config 2 (sar_part 2 ''big '') False True,
       mo_effect sample_listener_env sample_listener_config 2 (sar_part 1 ''Hello '') False True,
       mo_effect sample_listener_env sample_listener_config 1 q True False,
       mo_effect sample_listener_env sample_listener_config 2 (sar_part 3 ''world'') False True]\<rparr>) \<and>
    map_of (p_params q) ''short_message'' = Some (PBytes ''Hello big world'')"
proof -
  let ?q = "mo_pdu [(''source_addr'', PBytes ''1''), (''destination_addr'', PBytes ''2''), (''short_message'', PBytes ''Hello '')]"
  let ?q' = "?q\<lparr>p_params := dset (p_params ?q) ''short_message'' (PBytes (concat (map sample_text [1..<Suc 3])))\<rparr>"
  have "\<exists>r'. deliver_parts (\<lambda>_. None) sample_listener_config plain_store
      (map (\<lambda>i. (sample_listener_env, sar_part i (sample_text i))) ([2, 1] @ [3])) empty_listener =
    Some (map (\<lambda>i :: nat. Inr None) ([2, 1] @ [3]), empty_listener\<lparr>ls_redis := Some r',
      ls_out := ls_out empty_listener @
        map (\<lambda>i. mo_effect sample_listener_env sample_listener_config 2 (sar_part i (sample_text i)) False True) [2, 1] @
        [mo_effect sample_listener_env sample_listener_config 1 ?q' True False,
         mo_effect sample_listener_env sample_listener_config 2 (sar_part 3 (sample_text 3)) False True]\<rparr>)"
  proof (rule long_mo_joined[where view = "\<lambda>r. r" and split = "''sar''" and ref = "PInt 7" and dest = "PBytes ''2''" and q = ?q
        and n = 3 and ord = "[2, 1]" and envs = "\<lambda>_. sample_listener_env" and pt = "\<lambda>i. sar_part i (sample_text i)"
        and cs = sample_text])
    show "segs_kept plain_store (\<lambda>r. r)" by (simp add: segs_kept_def plain_store_def)
    fix i :: nat assume "1 \<le> i" "i \<le> 3"
    then consider "i = 1" | "i = 2" | "i = 3" by linarith
    moreover have "is_part sample_op_env ''sar'' 3 (PInt 7) (PBytes ''2'') 1 (sar_part 1 (sample_text 1)) (sample_text 1)"
      "is_part sample_op_env ''sar'' 3 (PInt 7) (PBytes ''2'') 2 (sar_part 2 (sample_text 2)) (sample_text 2)"
      "is_part sample_op_env ''sar'' 3 (PInt 7) (PBytes ''2'') 3 (sar_part 3 (sample_text 3)) (sample_text 3)"
      by code_simp+
    ultimately show "is_part (le_op sample_listener_env) ''sar'' 3 (PInt 7) (PBytes ''2'') i (sar_part i (sample_text i)) (sample_text i) \<and>
      seg_key sample_listener_env sample_listener_config (PInt 7) (PBytes ''2'') =
      seg_key sample_listener_env sample_listener_config (PInt 7) (PBytes ''2'')"
      by cases (simp_all add: sample_listener_env_def)
  next
    show "strip_split ''sar'' (sar_part 1 (sample_text 1)) = Inr ?q" by code_simp
    show "is_plain (le_op sample_listener_env) ?q'" by code_simp
  qed (auto simp: empty_listener_def SMPPClientSMListener_def)
  moreover have "map_of (p_params ?q') ''short_message'' = Some (PBytes ''Hello big world'')" by code_simp
  ultimately show ?thesis
    by (intro exI[of _ ?q']) (simp add: sample_text_def empty_listener_def SMPPClientSMListener_def del: upt_Suc deliver_parts.simps)
qed
section \<open>The depth of the recursion\<close>

text \<open>What the handler stores: a part under its own number, and a part split by TLVs under the key of its own
  reference and destination.\<close>

definition seg_ok :: "listener_env \<Rightarrow> listener_config \<Rightarrow> (string \<Rightarrow> (pyval, seg_value) dict) \<Rightarrow> bool" where
  "seg_ok env cfg store \<longleftrightarrow>
     (\<forall>key. distinct (map fst (store key))) \<and>
     (\<forall>key f v. map_of (store key) f = Some v \<longrightarrow> sv_seq v = f \<and>
        (has_key (p_params (sv_pdu v)) ''sar_msg_ref_num'' \<longrightarrow>
           map_of (p_params (sv_pdu v)) ''sar_segment_seqnum'' = Some f \<and>
           (\<exists>ref dest. map_of (p_params (sv_pdu v)) ''sar_msg_ref_num'' = Some ref \<and>
              map_of (p_params (sv_pdu v)) ''destination_addr'' = Some dest \<and> key = seg_key env cfg ref dest)))"

lemma segment_of_split:
  assumes "segment_of p content = Inr (Some seg)"
  shows "if has_key (p_params p) ''sar_msg_ref_num''
    then se_split seg = ''sar'' \<and> map_of (p_params p) ''sar_segment_seqnum'' = Some (se_seq seg) \<and>
      map_of (p_params p) ''sar_msg_ref_num'' = Some (se_ref seg)
    else se_split seg = ''udh'' \<and> (\<exists>e. map_of (p_params p) ''esm_class'' = Some e \<and> udhi_set e)"
proof (cases "has_key (p_params p) ''sar_msg_ref_num''")
  case True
  with assms show ?thesis by (auto simp: segment_of_def Let_def dget_Inr_iff)
next
  case False
  with assms show ?thesis
    by (auto simp: segment_of_def Let_def split: if_splits option.splits)
qed

lemma seg_table_entry:
  assumes "map_of (seg_table vs) s = Some p" shows "\<exists>v \<in> set vs. sv_seq v = s \<and> sv_pdu v = p"
proof -
  have "map_of (foldl (\<lambda>d v. dset d (sv_seq v) (sv_pdu v)) d ws) s = Some p \<Longrightarrow>
      map_of d s = Some p \<or> (\<exists>v \<in> set ws. sv_seq v = s \<and> sv_pdu v = p)" for ws d
  proof (induction ws arbitrary: d)
    case (Cons w ws)
    then have "map_of (foldl (\<lambda>d v. dset d (sv_seq v) (sv_pdu v)) (dset d (sv_seq w) (sv_pdu w)) ws) s = Some p" by simp
    from Cons.IH[OF this] show ?case by (auto split: if_splits)
  qed simp
  from this[of "[]" vs] assms show ?thesis by (simp add: seg_table_def)
qed

lemma joined_from:
  assumes "joined_pdu split n vs = Inr (Some q)"
  shows "\<exists>v q0 key c. v \<in> set vs \<and> sv_seq v = PInt 1 \<and> strip_split split (sv_pdu v) = Inr q0 \<and>
    q = q0\<lparr>p_params := dset (p_params q0) key c\<rparr> \<and> (key = ''short_message'' \<or> key = ''message_payload'')"
proof -
  obtain first where f: "map_of (seg_table vs) (PInt 1) = Some first"
    using assms by (auto simp: joined_pdu_def dget_def Let_def split: option.splits)
  from seg_table_entry[OF f] obtain v where v: "v \<in> set vs" "sv_seq v = PInt 1" "sv_pdu v = first" by blast
  have "\<exists>q0 key c. strip_split split first = Inr q0 \<and> q = q0\<lparr>p_params := dset (p_params q0) key c\<rparr> \<and>
      (key = ''short_message'' \<or> key = ''message_payload'')"
    using assms f by (auto simp: joined_pdu_def dget_def Let_def split: if_splits option.splits)
  with v show ?thesis by blast
qed

text \<open>A message joined from parts with a user data header has none, and keeps the TLVs of its first part.\<close>

lemma strip_split_udh:
  "strip_split split p = Inr q \<Longrightarrow> split \<noteq> ''sar'' \<Longrightarrow> q = p\<lparr>p_params := dset (p_params p) ''esm_class'' PNone\<rparr>"
  by (simp add: strip_split_def)

lemma strip_split_sar:
  "strip_split ''sar'' p = Inr q \<Longrightarrow> \<not> has_key (p_params q) ''sar_msg_ref_num''"
  by (auto simp: strip_split_def raise_if_def split: if_splits)

lemma after_script_redis: "ls_redis (snd (after_script status_name script r st)) = ls_redis st"
  by (auto simp: after_script_def script_failed_def ls_count_def act_defs split: option.splits script_result.splits sum.splits prod.splits)

lemma mo_prepare_redis: "mo_prepare status_name env cfg script r st = (x, st1) \<Longrightarrow> ls_redis st1 = ls_redis st"
  using after_script_redis[of status_name script r st]
  by (auto simp: mo_prepare_def act_defs split: prod.splits sum.splits)
lemma mo_prepare_params:
  "mo_prepare status_name env cfg None r st = (Inr (p, d), st1) \<Longrightarrow> p_params p = p_params (r_pdu r)"
  by (auto simp: mo_prepare_def after_script_def act_defs split: prod.splits sum.splits option.splits if_splits)

lemma seg_ok_hset:
  assumes "seg_ok env cfg store" "segment_of p content = Inr (Some seg)" "map_of (p_params p) ''destination_addr'' = Some dest"
    "key = seg_key env cfg (se_ref seg) dest"
  shows "seg_ok env cfg (store(key := dset (store key) (se_seq seg) \<lparr>sv_pdu = p, sv_seq = se_seq seg\<rparr>))"
  unfolding seg_ok_def
proof (intro conjI allI impI)
  fix key'
  have "distinct (map fst (store k))" for k using assms(1) unfolding seg_ok_def by blast
  then show "distinct (map fst ((store(key := dset (store key) (se_seq seg) \<lparr>sv_pdu = p, sv_seq = se_seq seg\<rparr>)) key'))"
    using distinct_update[of "store key"] by (cases "key' = key") (simp_all only: fun_upd_apply simp_thms if_True if_False)
next
  fix key' f v
  let ?new = "\<lparr>sv_pdu = p, sv_seq = se_seq seg\<rparr>"
  assume m: "map_of ((store(key := dset (store key) (se_seq seg) ?new)) key') f = Some v"
  have "key' = key \<and> f = se_seq seg \<and> v = ?new \<or> map_of (store key') f = Some v"
    using m by (cases "key' = key"; cases "f = se_seq seg") simp_all
  then consider "key' = key" "f = se_seq seg" "v = ?new" | "map_of (store key') f = Some v" by blast
  then have "sv_seq v = f \<and> (has_key (p_params (sv_pdu v)) ''sar_msg_ref_num'' \<longrightarrow>
       map_of (p_params (sv_pdu v)) ''sar_segment_seqnum'' = Some f \<and>
       (\<exists>ref dest. map_of (p_params (sv_pdu v)) ''sar_msg_ref_num'' = Some ref \<and>
          map_of (p_params (sv_pdu v)) ''destination_addr'' = Some dest \<and> key' = seg_key env cfg ref dest))"
  proof cases
    case 1
    then show ?thesis using segment_of_split[OF assms(2)] assms(3,4) by auto
  next
    case 2
    then show ?thesis using assms(1) unfolding seg_ok_def by blast
  qed
  then show "sv_seq v = f" "has_key (p_params (sv_pdu v)) ''sar_msg_ref_num'' \<Longrightarrow>
      map_of (p_params (sv_pdu v)) ''sar_segment_seqnum'' = Some f"
    "has_key (p_params (sv_pdu v)) ''sar_msg_ref_num'' \<Longrightarrow>
      \<exists>ref dest. map_of (p_params (sv_pdu v)) ''sar_msg_ref_num'' = Some ref \<and>
        map_of (p_params (sv_pdu v)) ''destination_addr'' = Some dest \<and> key' = seg_key env cfg ref dest"
    by blast+
qed

text \<open>The handler calls itself only for a message joined from a part that was not stored before.\<close>

lemma mo_body_calls:
  assumes ops: "segs_kept ops view" and st: "ls_redis st = Some r" "seg_ok env cfg (view r)"
    and none: "mo_body post status_name env cfg ops k script r0 content conc st = None"
  shows "\<exists>p seg dest n vs q r' st'. segment_of p content = Inr (Some seg) \<and> (script = None \<longrightarrow> p_params p = p_params (r_pdu r0)) \<and>
    map_of (p_params p) ''destination_addr'' = Some dest \<and>
    \<not> has_key (view r (seg_key env cfg (se_ref seg) dest)) (se_seq seg) \<and>
    ls_redis st' = Some r' \<and> seg_ok env cfg (view r') \<and> set vs = snd ` set (view r' (seg_key env cfg (se_ref seg) dest)) \<and>
    joined_pdu (se_split seg) n vs = Inr (Some q) \<and> post q st' = None"
proof -
  obtain p st1 seg where prep: "mo_prepare status_name env cfg script r0 st = (Inr (p, None), st1)"
    and seg: "segment_of p content = Inr (Some seg)" and part: "mo_part post env cfg ops k p seg conc st1 = None"
    using none by (auto simp: mo_body_def split: prod.splits sum.splits option.splits)
  have red: "ls_redis st1 = Some r" using mo_prepare_redis[OF prep] st(1) by simp
  obtain dest where dest: "map_of (p_params p) ''destination_addr'' = Some dest"
    using part red by (auto simp: mo_part_def dget_def split: option.splits)
  let ?key = "seg_key env cfg (se_ref seg) dest" and ?v = "\<lparr>sv_pdu = p, sv_seq = se_seq seg\<rparr>"
  obtain r1 where r1: "sg_hset ops r ?key (se_seq seg) ?v = Inr (if has_key (view r ?key) (se_seq seg) then 0 else 1, r1)"
    "view r1 = (view r)(?key := dset (view r ?key) (se_seq seg) ?v)"
    using ops unfolding segs_kept_def by blast
  obtain r2 where r2: "sg_expire ops r1 ?key 300 = Inr r2" "view r2 = view r1" using ops unfolding segs_kept_def by blast
  obtain vs where vs: "sg_hvals ops r2 ?key = Inr vs" "mset vs = mset (map snd (view r2 ?key))"
    using ops unfolding segs_kept_def by blast
  have cat: "concatDeliverSMs post ops (if has_key (view r ?key) (se_seq seg) then 0 else 1) ?key seg (st1\<lparr>ls_redis := Some r1\<rparr>) = None"
    using part red dest r1(1) by (auto simp: mo_part_def dget_def on_segs_def Let_def split: option.splits prod.splits sum.splits)
  have new: "\<not> has_key (view r ?key) (se_seq seg)" using cat by (auto simp: concatDeliverSMs_def)
  then have "\<exists>q. joined_pdu (se_split seg) (length vs) vs = Inr (Some q) \<and> post q (st1\<lparr>ls_redis := Some r2\<rparr>) = None"
    using cat r2(1) vs(1) by (auto simp: concatDeliverSMs_def on_segs_def split: if_splits sum.splits option.splits)
  then obtain q where q: "joined_pdu (se_split seg) (length vs) vs = Inr (Some q)" "post q (st1\<lparr>ls_redis := Some r2\<rparr>) = None" by blast
  have ok: "seg_ok env cfg (view r2)" using seg_ok_hset[OF st(2) seg dest refl] by (simp add: r1(2) r2(2))
  have set_vs: "set vs = snd ` set (view r2 ?key)" using arg_cong[OF vs(2), of set_mset] by simp
  have params: "script = None \<longrightarrow> p_params p = p_params (r_pdu r0)" using prep mo_prepare_params by blast
  show ?thesis
    by (rule exI[of _ p], rule exI[of _ seg], rule exI[of _ dest], rule exI[of _ "length vs"], rule exI[of _ vs],
        rule exI[of _ q], rule exI[of _ r2], rule exI[of _ "st1\<lparr>ls_redis := Some r2\<rparr>"])
      (simp add: seg params dest new ok set_vs q)
qed
lemma post_body:
  "deliver_sm_post (Suc k) status_name env cfg ops script r conc st = None \<Longrightarrow>
   \<exists>content. mo_body (\<lambda>p st1. map_option snd (deliver_sm_post k status_name env cfg ops None (routed cfg env p) True st1))
     status_name env cfg ops k script r content conc st = None"
  by (auto simp: routed_def split: sum.splits)

lemma post_no_redis: "ls_redis st = None \<Longrightarrow> deliver_sm_post (Suc k) status_name env cfg ops script r conc st \<noteq> None"
proof
  assume n: "ls_redis st = None" "deliver_sm_post (Suc k) status_name env cfg ops script r conc st = None"
  obtain x st1 where prep: "mo_prepare status_name env cfg script r st = (x, st1)" by force
  have "ls_redis st1 = None" using mo_prepare_redis[OF prep] n(1) by simp
  then have part: "mo_part post env cfg ops k p seg conc st1 = Some (Inr (), st1)" for post p seg by (simp add: mo_part_def)
  from post_body[OF n(2)] obtain content where
    "mo_body (\<lambda>p st1. map_option snd (deliver_sm_post k status_name env cfg ops None (routed cfg env p) True st1))
      status_name env cfg ops k script r content conc st = None" by blast
  then show False
  proof (cases x)
    case (Inr y)
    obtain p d where "y = (p, d)" by force
    with \<open>mo_body _ _ _ _ _ _ _ _ _ _ _ = None\<close> prep part Inr show ?thesis
      by (cases d; cases "segment_of p content") (auto simp: mo_body_def split: option.splits)
  qed (simp add: mo_body_def prep)
qed

lemma post_after_udh:
  assumes ops: "segs_kept ops view" and st: "ls_redis st = Some r" "seg_ok env cfg (view r)"
    and v: "v \<in> snd ` set (view r key)" "sv_seq v = PInt 1" "strip_split split (sv_pdu v) = Inr q0" "split \<noteq> ''sar''"
    and q: "q = q0\<lparr>p_params := dset (p_params q0) mkey c\<rparr>" "mkey = ''short_message'' \<or> mkey = ''message_payload''"
  shows "deliver_sm_post (Suc k) status_name env cfg ops None (routed cfg env q) True st \<noteq> None"
proof
  assume "deliver_sm_post (Suc k) status_name env cfg ops None (routed cfg env q) True st = None"
  from post_body[OF this] obtain content where
    "mo_body (\<lambda>p st1. map_option snd (deliver_sm_post k status_name env cfg ops None (routed cfg env p) True st1))
      status_name env cfg ops k None (routed cfg env q) content True st = None" by blast
  from mo_body_calls[OF ops st this] obtain p seg dest where
    p: "segment_of p content = Inr (Some seg)" "p_params p = p_params q" "map_of (p_params p) ''destination_addr'' = Some dest"
      "\<not> has_key (view r (seg_key env cfg (se_ref seg) dest)) (se_seq seg)"
    by auto
  have params: "p_params q = dset (dset (p_params (sv_pdu v)) ''esm_class'' PNone) mkey c"
    using strip_split_udh[OF v(3,4)] by (simp add: q(1))
  have same: "map_of (p_params p) x = map_of (p_params (sv_pdu v)) x" if "x \<noteq> ''esm_class''" "x \<noteq> ''short_message''" "x \<noteq> ''message_payload''" for x
    using that q(2) by (auto simp: p(2) params)
  have "map_of (p_params p) ''esm_class'' = Some PNone" using q(2) by (auto simp: p(2) params)
  with segment_of_split[OF p(1)] have sar: "map_of (p_params p) ''sar_segment_seqnum'' = Some (se_seq seg)"
    "map_of (p_params p) ''sar_msg_ref_num'' = Some (se_ref seg)"
    by (auto simp: udhi_set_def gsm_features_def split: if_splits)
  obtain f where "(f, v) \<in> set (view r key)" using v(1) by force
  moreover have "distinct (map fst (view r key))" using st(2) unfolding seg_ok_def by blast
  ultimately have f: "map_of (view r key) f = Some v" by simp
  have "has_key (p_params (sv_pdu v)) ''sar_msg_ref_num''" using sar(2) same by (simp add: has_key_def)
  with f st(2) obtain ref dest' where k: "sv_seq v = f" "map_of (p_params (sv_pdu v)) ''sar_segment_seqnum'' = Some f"
    "map_of (p_params (sv_pdu v)) ''sar_msg_ref_num'' = Some ref" "map_of (p_params (sv_pdu v)) ''destination_addr'' = Some dest'"
    "key = seg_key env cfg ref dest'"
    unfolding seg_ok_def by blast
  have "se_seq seg = f" "se_ref seg = ref" "dest = dest'" using sar p(3) k(2-4) same by simp_all
  with p(4) k(5) f show False by (simp add: has_key_def)
qed

lemma post_no_sar:
  assumes ops: "segs_kept ops view" and st: "ls_redis st = Some r" "seg_ok env cfg (view r)"
    and q: "\<not> has_key (p_params q) ''sar_msg_ref_num''"
  shows "deliver_sm_post (Suc (Suc k)) status_name env cfg ops None (routed cfg env q) True st \<noteq> None"
proof
  assume "deliver_sm_post (Suc (Suc k)) status_name env cfg ops None (routed cfg env q) True st = None"
  from post_body[OF this] obtain content where
    "mo_body (\<lambda>p st1. map_option snd (deliver_sm_post (Suc k) status_name env cfg ops None (routed cfg env p) True st1))
      status_name env cfg ops (Suc k) None (routed cfg env q) content True st = None" by blast
  from mo_body_calls[OF ops st this] obtain p seg dest n vs q' r' st' where
    p: "segment_of p content = Inr (Some seg)" "p_params p = p_params q"
      "ls_redis st' = Some r'" "seg_ok env cfg (view r')" "set vs = snd ` set (view r' (seg_key env cfg (se_ref seg) dest))"
      "joined_pdu (se_split seg) n vs = Inr (Some q')"
      "deliver_sm_post (Suc k) status_name env cfg ops None (routed cfg env q') True st' = None"
    by (auto simp del: deliver_sm_post.simps)
  have "se_split seg = ''udh''" using segment_of_split[OF p(1)] q p(2) by simp
  then have split: "se_split seg \<noteq> ''sar''" by simp
  obtain v q0 mkey c where v: "v \<in> set vs" "sv_seq v = PInt 1" "strip_split (se_split seg) (sv_pdu v) = Inr q0"
    "q' = q0\<lparr>p_params := dset (p_params q0) mkey c\<rparr>" "mkey = ''short_message'' \<or> mkey = ''message_payload''"
    using joined_from[OF p(6)] by blast
  show False using post_after_udh[OF ops p(3,4) _ v(2,3) split v(4,5)] v(1) p(5,7) by blast
qed

text \<open>
  Claim C37.  The handler of a delivered message always returns: it calls itself for a joined message at most
  twice, as a message joined by its TLVs has none left, and one joined by its user data header has no header
  left and, if it still carries the TLVs of a part, is already stored.
\<close>

theorem deliver_returns:
  assumes ops: "segs_kept ops view" and st: "\<And>r. ls_redis st = Some r \<Longrightarrow> seg_ok env cfg (view r)"
  shows "\<exists>res st'. deliver_sm_post 3 status_name env cfg ops script r0 concatenated st = Some (res, st')"
proof (cases "ls_redis st")
  case None
  then show ?thesis using post_no_redis[of st 2] unfolding numeral_3_eq_3 numeral_2_eq_2 by (auto simp del: deliver_sm_post.simps)
next
  case (Some r)
  have "deliver_sm_post (Suc (Suc (Suc 0))) status_name env cfg ops script r0 concatenated st \<noteq> None"
  proof
    assume "deliver_sm_post (Suc (Suc (Suc 0))) status_name env cfg ops script r0 concatenated st = None"
    from post_body[OF this] obtain content where
      "mo_body (\<lambda>p st1. map_option snd (deliver_sm_post (Suc (Suc 0)) status_name env cfg ops None (routed cfg env p) True st1))
        status_name env cfg ops (Suc (Suc 0)) script r0 content concatenated st = None" by blast
    from mo_body_calls[OF ops Some st[OF Some] this] obtain p seg dest n vs q r' st' where
      p: "segment_of p content = Inr (Some seg)" "ls_redis st' = Some r'" "seg_ok env cfg (view r')"
        "set vs = snd ` set (view r' (seg_key env cfg (se_ref seg) dest))" "joined_pdu (se_split seg) n vs = Inr (Some q)"
        "deliver_sm_post (Suc (Suc 0)) status_name env cfg ops None (routed cfg env q) True st' = None"
      by (auto simp del: deliver_sm_post.simps)
    obtain v q0 mkey c where v: "v \<in> set vs" "sv_seq v = PInt 1" "strip_split (se_split seg) (sv_pdu v) = Inr q0"
      "q = q0\<lparr>p_params := dset (p_params q0) mkey c\<rparr>" "mkey = ''short_message'' \<or> mkey = ''message_payload''"
      using joined_from[OF p(5)] by blast
    show False
    proof (cases "se_split seg = ''sar''")
      case True
      then have "\<not> has_key (p_params q) ''sar_msg_ref_num''" using strip_split_sar v(3-5) by auto
      then show ?thesis using post_no_sar[OF ops p(2,3)] p(6) by blast
    next
      case False
      then show ?thesis using post_after_udh[OF ops p(2,3) _ v(2,3) False v(4,5)] v(1) p(4,6) by blast
    qed
  qed
  then show ?thesis unfolding numeral_3_eq_3 by (auto simp del: deliver_sm_post.simps)
qed

theorem deliver_returns_witness:
  "\<exists>res st'. deliver_sm_post 3 (\<lambda>_. None) sample_listener_env sample_listener_config plain_store None
     (routed sample_listener_config sample_listener_env (sar_part 1 ''Hello'')) False empty_listener = Some (res, st')"
proof (rule deliver_returns)
  show "segs_kept plain_store (\<lambda>r. r)" by (simp add: segs_kept_def plain_store_def)
  show "seg_ok sample_listener_env sample_listener_config r" if "ls_redis empty_listener = Some r" for r
    using that by (auto simp: seg_ok_def empty_listener_def SMPPClientSMListener_def)
qed

end
