(* ===== verification/Message_Flow.thy ===== *)
theory Message_Flow
  imports Listener_Mo_Correct Dlr
begin

text \<open>
  Properties that span components: what the listener publishes is what the lookup of receipts consumes.
\<close>

section \<open>Receipts of retried messages\<close>

text \<open>A request over HTTP for the receipts of the level that reports the response of the SMSC.\<close>

definition http_request1 :: "(string, pyval) dict \<Rightarrow> pyval \<Rightarrow> bool" where
  "http_request1 dlr url \<longleftrightarrow>
     map_of dlr ''sc'' = Some (PStr ''httpapi'') \<and> map_of dlr ''url'' = Some url \<and>
     (\<exists>lvl. map_of dlr ''level'' = Some lvl \<and> num_in lvl [1, 3]) \<and>
     (\<exists>mt. map_of dlr ''method'' = Some mt \<and> (mt = PStr ''POST'' \<or> mt = PStr ''GET'')) \<and>
     map_of dlr ''expiry'' \<noteq> None"

definition dlr_message :: "nat \<Rightarrow> content \<Rightarrow> amqp_msg" where
  "dlr_message tag c = \<lparr>m_tag = tag, m_routing_key = ''dlr.submit_sm_resp'', m_content = c\<rparr>"

lemma resp_http_failed:
  assumes "redis_ok ops" "dl_redis st = Some r" "rd_hgetall ops r (dlr_key (m_msgid m)) = Inr dlr"
    "http_request1 dlr url" "msg_status m = status" "status \<noteq> ''ESME_ROK''" "status_valid status"
  shows "\<exists>r' c. resp_lookup env cfg ops m st = (Inr (), emit (EPublish ''dlr_thrower.http'' c) st\<lparr>dl_redis := Some r'\<rparr>) \<and>
    map_of (c_headers c) ''url'' = Some url \<and> map_of (c_headers c) ''message_status'' = Some (PStr status) \<and>
    rd_hgetall ops r' (dlr_key (m_msgid m)) = Inr []"
proof -
  obtain lvl mt ex where d: "map_of dlr ''level'' = Some lvl" "num_in lvl [1, 3]"
    "map_of dlr ''method'' = Some mt" "mt = PStr ''POST'' \<or> mt = PStr ''GET''" "map_of dlr ''expiry'' = Some ex"
    "map_of dlr ''url'' = Some url" "map_of dlr ''sc'' = Some (PStr ''httpapi'')"
    using assms(4) unfolding http_request1_def by blast
  have "dlr \<noteq> []" using d(6) by auto
  define conn where "conn = (case map_of dlr ''connector'' of Some v \<Rightarrow> v | None \<Rightarrow> PStr ''unknown'')"
  have "num_in (PInt 1) [1, 2, 3]" by code_simp
  then obtain c where c: "mk_DLRContentForHttpapi status (m_msgid m) url (PInt 1) conn [] mt = Inr c"
    "map_of (c_headers c) ''url'' = Some url" "map_of (c_headers c) ''message_status'' = Some (PStr status)"
    using d(4) assms(7) by (auto simp: mk_DLRContentForHttpapi_def mk_content_def)
  obtain r' where r': "rd_delete ops r (dlr_key (m_msgid m)) = Inr r'" "rd_hgetall ops r' (dlr_key (m_msgid m)) = Inr []"
    using redis_delete[OF assms(1)] by blast
  have "resp_lookup env cfg ops m st = (Inr (), emit (EPublish ''dlr_thrower.http'' c) st\<lparr>dl_redis := Some r'\<rparr>)"
    using d c(1) r'(1) \<open>dlr \<noteq> []\<close> assms(2,3,5,6)
    by (simp add: resp_lookup_def redis_get_def resp_http_def dget_def Let_def conn_def[symmetric] publish_def
        act_defs redis_do_def emit_def)
  with c r' show ?thesis by blast
qed

lemma dispatch_forgotten:
  assumes "m_routing_key m = ''dlr.submit_sm_resp''" "dl_redis st = Some r" "rd_hgetall ops r (dlr_key (m_msgid m)) = Inr []"
    "dl_connected st"
  shows "dl_out (dlr_callback_dispatcher env cfg ops m st) = dl_out st @ [EReject (m_tag m) False]"
  using assms
  by (simp add: dlr_callback_dispatcher_def submit_sm_resp_dlr_callback_def resp_lookup_def redis_get_def act_defs
      count_try_def rejectMessage_def clearRequeueTimer_def emit_def Let_def)


definition sample_request1 :: "(string, pyval) dict" where
  "sample_request1 =
     [(''sc'', PStr ''httpapi''), (''url'', PStr ''http://h/dlr''), (''level'', PInt 1), (''method'', PStr ''GET''),
      (''expiry'', PInt 3600)]"

definition sample_lookup :: "(string, (string, pyval) dict) dict dlr_lookup" where
  "sample_lookup = DLRLookup (Some [(''dlr:m1'', sample_request1)]) True"

definition sample_success :: content where
  "sample_success = mk_content (BText ''ESME_ROK'') ''m1'' [(''type'', PStr ''submit_sm_resp''), (''smpp_msgid'', PStr ''77'')]"


end
