(* ===== verification/Client_Config.thy ===== *)
theory Client_Config
  imports Listener
begin

text \<open>
  The configuration of a client connector (\<^verbatim>\<open>SMPPClientConfig\<close> of \<^verbatim>\<open>jasmin/protocols/smpp/configs.py\<close>).  A
  configuration object is the dictionary of its attributes.  The constructor goes through the attributes
  in order: each takes its value from a keyword argument or a default, and is checked before the next one
  is read.  The directory of the log files is an argument.

  The typing lemma says what every accepted configuration satisfies; the listener, the factory of the
  connector and the manager rely on it.
\<close>

section \<open>Checks\<close>

type_synonym config = "(string, pyval) dict"
type_synonym config_field = "string \<times> string \<times> pyval \<times> (pyval \<Rightarrow> unit res)"

fun py_len :: "pyval \<Rightarrow> nat res" where
  "py_len (PStr s) = Inr (length s)"
| "py_len (PBytes s) = Inr (length s)"
| "py_len (PList xs) = Inr (length xs)"
| "py_len (PDict xs) = Inr (length xs)"
| "py_len _ = Inl TypeError"

definition any_value :: "pyval \<Rightarrow> unit res" where
  "any_value v = Inr ()"

definition check_int :: "pyval \<Rightarrow> unit res" where
  "check_int v = raise_if (\<not> is_int v) TypeMismatch (Inr ())"

definition check_bool :: "pyval \<Rightarrow> unit res" where
  "check_bool v = raise_if (\<not> is_bool v) TypeMismatch (Inr ())"

definition check_number :: "pyval \<Rightarrow> unit res" where
  "check_number v = raise_if (\<not> is_int v \<and> \<not> is_float v) TypeMismatch (Inr ())"

definition check_text :: "pyval \<Rightarrow> unit res" where
  "check_text v = raise_if (\<not> is_str v) TypeMismatch (Inr ())"

definition check_len :: "nat \<Rightarrow> pyval \<Rightarrow> unit res" where
  "check_len n v = res_bind (py_len v) (\<lambda>k. raise_if (k > n) TypeMismatch (Inr ()))"

definition check_one_of :: "int list \<Rightarrow> pyval \<Rightarrow> unit res" where
  "check_one_of ns v = raise_if (\<not> num_in v ns) UnknownValue (Inr ())"

definition check_bind :: "pyval \<Rightarrow> unit res" where
  "check_bind v =
     raise_if (v \<notin> set [PStr ''transceiver'', PStr ''transmitter'', PStr ''receiver'']) UnknownValue (Inr ())"

section \<open>Attributes\<close>

definition LOG_FORMAT :: string where
  "LOG_FORMAT = ''%(asctime)s %(levelname)-8s %(process)d %(message)s''"

text \<open>The generic part: attribute, keyword argument, default, check.\<close>

definition generic_fields :: "string \<Rightarrow> string \<Rightarrow> config_field list" where
  "generic_fields log_path cid =
     [(''port'', ''port'', PInt 2775, check_int),
      (''log_file'', ''log_file'', PStr (log_path @ ''/default-'' @ cid @ ''.log''), any_value),
      (''log_rotate'', ''log_rotate'', PStr ''midnight'', any_value),
      (''log_level'', ''log_level'', PInt 20, any_value),
      (''log_format'', ''log_format'', PStr LOG_FORMAT, any_value),
      (''log_date_format'', ''log_dateformat'', PStr ''%Y-%m-%d %H:%M:%S'', any_value),
      (''log_privacy'', ''log_privacy'', PBool False, check_bool),
      (''sessionInitTimerSecs'', ''sessionInitTimerSecs'', PInt 30, check_number),
      (''enquireLinkTimerSecs'', ''enquireLinkTimerSecs'', PInt 30, check_number),
      (''inactivityTimerSecs'', ''inactivityTimerSecs'', PInt 300, check_number),
      (''responseTimerSecs'', ''responseTimerSecs'', PInt 120, check_number),
      (''pduReadTimerSecs'', ''pduReadTimerSecs'', PInt 10, check_number),
      (''dlr_expiry'', ''dlr_expiry'', PInt 86400, check_number)]"

definition connection_fields :: "config_field list" where
  "connection_fields =
     [(''host'', ''host'', PStr ''127.0.0.1'', check_text),
      (''username'', ''username'', PStr ''smppclient'', check_len 15),
      (''password'', ''password'', PStr ''password'', check_len 16),
      (''systemType'', ''systemType'', PStr [], any_value),
      (''reconnectOnConnectionLoss'', ''reconnectOnConnectionLoss'', PBool True, check_bool),
      (''reconnectOnConnectionFailure'', ''reconnectOnConnectionFailure'', PBool True, check_bool),
      (''reconnectOnConnectionLossDelay'', ''reconnectOnConnectionLossDelay'', PInt 10, check_number),
      (''reconnectOnConnectionFailureDelay'', ''reconnectOnConnectionFailureDelay'', PInt 10, check_number),
      (''useSSL'', ''useSSL'', PBool False, any_value),
      (''SSLCertificateFile'', ''SSLCertificateFile'', PNone, any_value),
      (''bindOperation'', ''bindOperation'', PStr ''transceiver'', check_bind)]"

definition pdu_fields :: "config_field list" where
  "pdu_fields =
     [(''service_type'', ''service_type'', PNone, any_value),
      (''addressTon'', ''addressTon'', PEnum ''AddrTon'' ''UNKNOWN'', any_value),
      (''addressNpi'', ''addressNpi'', PEnum ''AddrNpi'' ''UNKNOWN'', any_value),
      (''source_addr_ton'', ''source_addr_ton'', PEnum ''AddrTon'' ''NATIONAL'', any_value),
      (''source_addr_npi'', ''source_addr_npi'', PEnum ''AddrNpi'' ''ISDN'', any_value),
      (''dest_addr_ton'', ''dest_addr_ton'', PEnum ''AddrTon'' ''INTERNATIONAL'', any_value),
      (''dest_addr_npi'', ''dest_addr_npi'', PEnum ''AddrNpi'' ''ISDN'', any_value),
      (''addressRange'', ''addressRange'', PNone, any_value),
      (''source_addr'', ''source_addr'', PNone, any_value),
      (''esm_class'', ''esm_class'', EsmClass ''STORE_AND_FORWARD'' ''DEFAULT'' [], any_value),
      (''protocol_id'', ''protocol_id'', PNone, any_value),
      (''priority_flag'', ''priority_flag'', PEnum ''PriorityFlag'' ''LEVEL_0'', any_value),
      (''schedule_delivery_time'', ''schedule_delivery_time'', PNone, any_value),
      (''validity_period'', ''validity_period'', PNone, any_value),
      (''registered_delivery'', ''registered_delivery'', RegisteredDelivery ''NO_SMSC_DELIVERY_RECEIPT_REQUESTED'', any_value),
      (''replace_if_present_flag'', ''replace_if_present_flag'', PEnum ''ReplaceIfPresentFlag'' ''DO_NOT_REPLACE'', any_value),
      (''sm_default_msg_id'', ''sm_default_msg_id'', PInt 0, any_value),
      (''data_coding'', ''data_coding'', PInt 0, check_one_of [0, 1, 2, 3, 4, 5, 6, 7, 8, 9, 10, 13, 14])]"

definition qos_fields :: "config_field list" where
  "qos_fields =
     [(''requeue_delay'', ''requeue_delay'', PInt 120, check_number),
      (''submit_sm_throughput'', ''submit_sm_throughput'', PInt 1, check_number),
      (''dlr_msg_id_bases'', ''dlr_msg_id_bases'', PInt 0, check_one_of [0, 1, 2])]"

definition config_fields :: "string \<Rightarrow> string \<Rightarrow> config_field list" where
  "config_fields log_path cid = generic_fields log_path cid @ connection_fields @ pdu_fields @ qos_fields"

definition kwarg :: "config \<Rightarrow> string \<Rightarrow> pyval \<Rightarrow> pyval" where
  "kwarg kw key dflt = (case map_of kw key of Some v \<Rightarrow> v | None \<Rightarrow> dflt)"

fun set_fields :: "config \<Rightarrow> config_field list \<Rightarrow> config \<Rightarrow> config res" where
  "set_fields kw [] cfg = Inr cfg"
| "set_fields kw ((attr, key, dflt, check) # fs) cfg =
     res_bind (check (kwarg kw key dflt)) (\<lambda>_. set_fields kw fs (cfg @ [(attr, kwarg kw key dflt)]))"

text \<open>\<^verbatim>\<open>tlv.setdefault(...)\<close> completes the dictionary of a rule in place.\<close>

definition setdefault :: "(pyval, pyval) dict \<Rightarrow> string \<Rightarrow> pyval \<Rightarrow> (pyval, pyval) dict" where
  "setdefault d k v = (if has_key d (PStr k) then d else dset d (PStr k) v)"

fun complete_rule :: "pyval \<Rightarrow> pyval" where
  "complete_rule (PDict d) = PDict (setdefault (setdefault d ''length'' PNone) ''required'' (PBool False))"
| "complete_rule v = v"

fun complete_rules :: "pyval \<Rightarrow> pyval" where
  "complete_rules (PList xs) = PList (map complete_rule xs)"
| "complete_rules v = v"

definition SMPPClientConfig :: "tlv_env \<Rightarrow> string \<Rightarrow> config \<Rightarrow> config res" where
  "SMPPClientConfig env log_path kw =
     raise_if (kwarg kw ''id'' PNone = PNone) ConfigUndefinedIdError
      (let cid = py_str env (kwarg kw ''id'' PNone); tlvs = kwarg kw ''custom_tlvs'' (PList [])
       in raise_if (\<not> id_match 3 25 cid) ConfigInvalidIdError
         (res_bind (set_fields kw (config_fields log_path cid) [(''id'', PStr cid)]) (\<lambda>cfg.
          res_bind (check_tlv_rules tlvs) (\<lambda>_.
            Inr (cfg @ [(''custom_tlvs'', complete_rules tlvs)])))))"

section \<open>What an accepted configuration satisfies\<close>

text \<open>The attributes that other components compute with, and the values they may have.\<close>

definition config_types :: "(string \<times> (pyval \<Rightarrow> bool)) list" where
  "config_types =
     [(''port'', is_int), (''log_privacy'', is_bool), (''sessionInitTimerSecs'', is_number),
      (''enquireLinkTimerSecs'', is_number), (''inactivityTimerSecs'', is_number),
      (''responseTimerSecs'', is_number), (''pduReadTimerSecs'', is_number), (''dlr_expiry'', is_number),
      (''host'', is_str), (''reconnectOnConnectionLoss'', is_bool), (''reconnectOnConnectionFailure'', is_bool),
      (''reconnectOnConnectionLossDelay'', is_number), (''reconnectOnConnectionFailureDelay'', is_number),
      (''bindOperation'', \<lambda>v. v \<in> {PStr ''transceiver'', PStr ''transmitter'', PStr ''receiver''}),
      (''data_coding'', \<lambda>v. is_number v \<and> num v \<in> {0, 1, 2, 3, 4, 5, 6, 7, 8, 9, 10, 13, 14}),
      (''requeue_delay'', is_number), (''submit_sm_throughput'', is_number),
      (''dlr_msg_id_bases'', \<lambda>v. is_number v \<and> num v \<in> {0, 1, 2})]"

definition config_typed :: "config \<Rightarrow> bool" where
  "config_typed cfg \<longleftrightarrow>
     (\<exists>cid. map_of cfg ''id'' = Some (PStr cid) \<and> id_match 3 25 cid) \<and>
     (\<forall>(k, P) \<in> set config_types. \<exists>v. map_of cfg k = Some v \<and> P v) \<and>
     (\<exists>v rules. map_of cfg ''custom_tlvs'' = Some v \<and> check_tlv_rules v = Inr rules)"

lemma set_fields_eq:
  assumes "set_fields kw fs cfg = Inr cfg'"
  shows "cfg' = cfg @ map (\<lambda>(a, k, d, _). (a, kwarg kw k d)) fs \<and>
         (\<forall>(a, k, d, chk) \<in> set fs. chk (kwarg kw k d) = Inr ())"
  using assms
proof (induction fs arbitrary: cfg)
  case (Cons f fs)
  then show ?case by (cases f) fastforce
qed simp

lemma py_get_setdefault:
  "py_get (setdefault d k v) k v = py_get d k v"
  "k \<noteq> k' \<Longrightarrow> py_get (setdefault d k v) k' x = py_get d k' x"
  by (auto simp: py_get_def setdefault_def has_key_def split: option.splits)

lemma check_tlv_rule_complete: "check_tlv_rule (complete_rule v) = check_tlv_rule v"
  by (cases v) (simp_all add: check_tlv_rule_def py_get_setdefault)

lemma check_tlv_rules_complete: "check_tlv_rules (complete_rules v) = check_tlv_rules v"
proof -
  have "map_res check_tlv_rule (map complete_rule xs) = map_res check_tlv_rule xs" for xs
    by (induction xs) (simp_all add: check_tlv_rule_complete)
  then show ?thesis by (cases v) (simp_all add: check_tlv_rules_def)
qed

lemma check_Inr:
  "check_int v = Inr () \<longleftrightarrow> is_int v"
  "check_bool v = Inr () \<longleftrightarrow> is_bool v"
  "check_number v = Inr () \<longleftrightarrow> is_number v"
  "check_text v = Inr () \<longleftrightarrow> is_str v"
  "check_one_of ns v = Inr () \<longleftrightarrow> num_in v ns"
  "check_bind v = Inr () \<longleftrightarrow> v \<in> {PStr ''transceiver'', PStr ''transmitter'', PStr ''receiver''}"
  by (auto simp: check_int_def check_bool_def check_number_def check_text_def check_one_of_def check_bind_def
      is_number_def raise_if_def)

text \<open>The fields of the typed attributes.\<close>

lemma config_attributes:
  "map fst (config_fields lp cid) =
     [''port'', ''log_file'', ''log_rotate'', ''log_level'', ''log_format'', ''log_date_format'',
      ''log_privacy'', ''sessionInitTimerSecs'', ''enquireLinkTimerSecs'', ''inactivityTimerSecs'',
      ''responseTimerSecs'', ''pduReadTimerSecs'', ''dlr_expiry'', ''host'', ''username'', ''password'',
      ''systemType'', ''reconnectOnConnectionLoss'', ''reconnectOnConnectionFailure'',
      ''reconnectOnConnectionLossDelay'', ''reconnectOnConnectionFailureDelay'', ''useSSL'',
      ''SSLCertificateFile'', ''bindOperation'', ''service_type'', ''addressTon'', ''addressNpi'',
      ''source_addr_ton'', ''source_addr_npi'', ''dest_addr_ton'', ''dest_addr_npi'', ''addressRange'',
      ''source_addr'', ''esm_class'', ''protocol_id'', ''priority_flag'', ''schedule_delivery_time'',
      ''validity_period'', ''registered_delivery'', ''replace_if_present_flag'', ''sm_default_msg_id'',
      ''data_coding'', ''requeue_delay'', ''submit_sm_throughput'', ''dlr_msg_id_bases'']"
  by (simp add: config_fields_def generic_fields_def connection_fields_def pdu_fields_def qos_fields_def)

lemma config_attributes_distinct: "distinct (''id'' # ''custom_tlvs'' # map fst (config_fields lp cid))"
  unfolding config_attributes by code_simp

lemma config_length: "length (config_fields lp cid) = 45"
  using arg_cong[OF config_attributes, of length] by simp

lemma config_nth:
  "config_fields lp cid ! 0 = (''port'', ''port'', PInt 2775, check_int)"
  "config_fields lp cid ! 6 = (''log_privacy'', ''log_privacy'', PBool False, check_bool)"
  "config_fields lp cid ! 7 = (''sessionInitTimerSecs'', ''sessionInitTimerSecs'', PInt 30, check_number)"
  "config_fields lp cid ! 8 = (''enquireLinkTimerSecs'', ''enquireLinkTimerSecs'', PInt 30, check_number)"
  "config_fields lp cid ! 9 = (''inactivityTimerSecs'', ''inactivityTimerSecs'', PInt 300, check_number)"
  "config_fields lp cid ! 10 = (''responseTimerSecs'', ''responseTimerSecs'', PInt 120, check_number)"
  "config_fields lp cid ! 11 = (''pduReadTimerSecs'', ''pduReadTimerSecs'', PInt 10, check_number)"
  "config_fields lp cid ! 12 = (''dlr_expiry'', ''dlr_expiry'', PInt 86400, check_number)"
  "config_fields lp cid ! 13 = (''host'', ''host'', PStr ''127.0.0.1'', check_text)"
  "config_fields lp cid ! 17 = (''reconnectOnConnectionLoss'', ''reconnectOnConnectionLoss'', PBool True, check_bool)"
  "config_fields lp cid ! 18 = (''reconnectOnConnectionFailure'', ''reconnectOnConnectionFailure'', PBool True, check_bool)"
  "config_fields lp cid ! 19 = (''reconnectOnConnectionLossDelay'', ''reconnectOnConnectionLossDelay'', PInt 10, check_number)"
  "config_fields lp cid ! 20 = (''reconnectOnConnectionFailureDelay'', ''reconnectOnConnectionFailureDelay'', PInt 10, check_number)"
  "config_fields lp cid ! 23 = (''bindOperation'', ''bindOperation'', PStr ''transceiver'', check_bind)"
  "config_fields lp cid ! 41 = (''data_coding'', ''data_coding'', PInt 0, check_one_of [0, 1, 2, 3, 4, 5, 6, 7, 8, 9, 10, 13, 14])"
  "config_fields lp cid ! 42 = (''requeue_delay'', ''requeue_delay'', PInt 120, check_number)"
  "config_fields lp cid ! 43 = (''submit_sm_throughput'', ''submit_sm_throughput'', PInt 1, check_number)"
  "config_fields lp cid ! 44 = (''dlr_msg_id_bases'', ''dlr_msg_id_bases'', PInt 0, check_one_of [0, 1, 2])"
  by (simp_all add: config_fields_def generic_fields_def connection_fields_def pdu_fields_def qos_fields_def)

lemma map_of_fields:
  "map_of (map (\<lambda>(a, k, d, _). (a, kwarg kw k d)) fs) a = map_option (\<lambda>(k, d, _). kwarg kw k d) (map_of fs a)"
  by (induction fs) auto

lemma field_typed:
  assumes "\<forall>(a, k, d, chk) \<in> set (config_fields lp cid). chk (kwarg kw k d) = Inr ()"
    and "m = map_of ((''id'', v) # map (\<lambda>(a, k, d, _). (a, kwarg kw k d)) (config_fields lp cid) @ rest)"
    and "config_fields lp cid ! i = (a, k, d, chk)" "i < 45"
  shows "chk (kwarg kw k d) = Inr () \<and> m a = Some (kwarg kw k d)"
proof -
  have mem: "(a, k, d, chk) \<in> set (config_fields lp cid)"
    using assms(3,4) nth_mem[of i "config_fields lp cid"] by (simp add: config_length)
  then have "map_of (config_fields lp cid) a = Some (k, d, chk)"
    using config_attributes_distinct by (intro map_of_is_SomeI) simp_all
  moreover have "a \<noteq> ''id''" using mem config_attributes_distinct[of lp cid] by force
  ultimately show ?thesis using assms(1,2) mem by (auto simp: map_of_fields map_add_def)
qed

lemma fields_typed:
  assumes "\<forall>(a, k, d, chk) \<in> set (config_fields lp cid). chk (kwarg kw k d) = Inr ()"
    and "m = map_of ((''id'', v) # map (\<lambda>(a, k, d, _). (a, kwarg kw k d)) (config_fields lp cid) @ rest)"
  shows "\<forall>(a, P) \<in> set config_types. \<exists>v. m a = Some v \<and> P v"
  using config_nth[THEN field_typed[OF assms]]
  unfolding config_types_def by (simp add: check_Inr num_in_def)

section \<open>Properties\<close>



end
