(* ===== verification/Client_Service.thy ===== *)
theory Client_Service
  imports Client_Config
begin

text \<open>
  The connection of a client connector: the factory that connects, binds and reconnects
  (\<^verbatim>\<open>SMPPClientFactory\<close> of \<^verbatim>\<open>jasmin/protocols/smpp/factory.py\<close>) and the service that starts and stops it
  (\<^verbatim>\<open>jasmin/protocols/smpp/services.py\<close>).

  What the code asks of the reactor and of the SMPP session is recorded in order as \<open>net_op\<close>.  Three fields
  record what is under way outside: the connection attempts without an outcome, the established connections, and
  the timers that have not fired.  \<^verbatim>\<open>connectDeferred\<close> is the state of that object and whether the service still
  waits on it.  The steps of the world, such as a refused connection, are the events of a step relation.
\<close>

section \<open>State\<close>

datatype net_op =
    ConnectTCP | ConnectSSL | Reconnect | CallLater nat pyval | CancelTimer nat | BindAs string | UnbindAndDisconnect
  | Exit | StartFailed

datatype deferred = Waiting | Called

record client_factory =
  cf_config :: config
  cf_smpp :: "string option"
  cf_retry :: bool
  cf_timer :: "nat option"
  cf_connect :: deferred
  cf_errback :: bool
  cf_exited :: bool
  cf_attempts :: nat
  cf_links :: nat
  cf_active :: "nat list"
  cf_next :: nat
  cf_out :: "net_op list"

definition SMPPClientFactory :: "config \<Rightarrow> client_factory" where
  "SMPPClientFactory cfg =
     \<lparr>cf_config = cfg, cf_smpp = None, cf_retry = True, cf_timer = None, cf_connect = Waiting, cf_errback = False,
      cf_exited = False, cf_attempts = 0, cf_links = 0, cf_active = [], cf_next = 0, cf_out = []\<rparr>"

record client_service =
  sv_running :: bool
  sv_start :: nat
  sv_stop :: nat
  sv_factory :: client_factory

definition SMPPClientService :: "config \<Rightarrow> client_service" where
  "SMPPClientService cfg = \<lparr>sv_running = False, sv_start = 0, sv_stop = 0, sv_factory = SMPPClientFactory cfg\<rparr>"

definition cf_attr :: "client_factory \<Rightarrow> string \<Rightarrow> pyval" where
  "cf_attr f k = kwarg (cf_config f) k PNone"

definition cf_do :: "net_op \<Rightarrow> client_factory \<Rightarrow> client_factory" where
  "cf_do x f = f\<lparr>cf_out := cf_out f @ [x]\<rparr>"

section \<open>The factory\<close>

text \<open>\<^verbatim>\<open>reactor.callLater\<close>: a new timer, held in \<^verbatim>\<open>reconnectTimer\<close> in place of the previous one.\<close>

definition call_later :: "pyval \<Rightarrow> client_factory \<Rightarrow> client_factory" where
  "call_later delay f =
     cf_do (CallLater (cf_next f) delay)
       (f\<lparr>cf_timer := Some (cf_next f), cf_active := cf_next f # cf_active f, cf_next := Suc (cf_next f)\<rparr>)"

definition connect :: "client_factory \<Rightarrow> client_factory" where
  "connect f =
     (let op = (if truthy (cf_attr f ''useSSL'') then ConnectSSL else ConnectTCP)
      in cf_do op (f\<lparr>cf_retry := True, cf_attempts := Suc (cf_attempts f), cf_connect := Waiting, cf_errback := False,
               cf_exited := False\<rparr>))"

definition connectAndBind :: "client_factory \<Rightarrow> client_factory" where
  "connectAndBind f = connect f"

text \<open>A deferred that was called is replaced by a new one, on which only \<^verbatim>\<open>bind\<close> waits.\<close>

definition reConnect :: "client_factory \<Rightarrow> client_factory" where
  "reConnect f =
     (let f1 = (if cf_connect f = Called then f\<lparr>cf_connect := Waiting, cf_errback := False\<rparr> else f)
      in cf_do Reconnect (f1\<lparr>cf_attempts := Suc (cf_attempts f1)\<rparr>))"

definition disconnect :: "client_factory \<Rightarrow> client_factory" where
  "disconnect f = (if cf_smpp f \<noteq> None then cf_do UnbindAndDisconnect f else f)"

definition stopConnectionRetrying :: "client_factory \<Rightarrow> client_factory" where
  "stopConnectionRetrying f =
     (let f1 = (case cf_timer f of
                  Some t \<Rightarrow> if t \<in> set (cf_active f)
                            then cf_do (CancelTimer t) (f\<lparr>cf_active := removeAll t (cf_active f), cf_timer := None\<rparr>)
                            else f
                | None \<Rightarrow> f)
      in f1\<lparr>cf_retry := False\<rparr>)"

definition disconnectAndDontRetryToConnect :: "client_factory \<Rightarrow> client_factory" where
  "disconnectAndDontRetryToConnect f = disconnect (stopConnectionRetrying f)"

text \<open>The callback of a connection made.  The operation is one of the three that the configuration accepts;
  for another one the callback raises and the deferred fails.\<close>

definition bind :: "client_factory \<Rightarrow> client_factory res" where
  "bind f =
     (case cf_attr f ''bindOperation'' of
        PStr m \<Rightarrow>
          raise_if (m \<notin> set [''transceiver'', ''receiver'', ''transmitter'']) SMPPClientError
            (Inr (cf_do (BindAs m) f))
      | _ \<Rightarrow> Inl SMPPClientError)"

definition getSessionState :: "client_factory \<Rightarrow> string" where
  "getSessionState f = (case cf_smpp f of None \<Rightarrow> ''NONE'' | Some s \<Rightarrow> s)"

section \<open>The service\<close>

definition on_factory :: "(client_factory \<Rightarrow> client_factory) \<Rightarrow> client_service \<Rightarrow> client_service" where
  "on_factory g s = s\<lparr>sv_factory := g (sv_factory s)\<rparr>"

definition startService :: "client_service \<Rightarrow> client_service" where
  "startService s =
     on_factory (\<lambda>f. (connectAndBind f)\<lparr>cf_errback := True\<rparr>) (s\<lparr>sv_start := Suc (sv_start s), sv_running := True\<rparr>)"

definition stopService :: "client_service \<Rightarrow> client_service" where
  "stopService s =
     on_factory disconnectAndDontRetryToConnect (s\<lparr>sv_stop := Suc (sv_stop s), sv_running := False\<rparr>)"

definition startServiceErr :: "client_service \<Rightarrow> client_service" where
  "startServiceErr s = stopService (on_factory (cf_do StartFailed) s)"

text \<open>A failure of \<^verbatim>\<open>connectDeferred\<close> reaches the service once, if it waits on this deferred.\<close>

definition connect_failed :: "client_service \<Rightarrow> client_service" where
  "connect_failed s =
     (if cf_errback (sv_factory s) then startServiceErr (on_factory (\<lambda>f. f\<lparr>cf_errback := False\<rparr>) s) else s)"

section \<open>What happens to a connection\<close>

text \<open>\<^verbatim>\<open>exitDeferred.callback(None)\<close>; calling it again raises.\<close>

definition call_exit :: "client_factory \<Rightarrow> client_factory" where
  "call_exit f = (if cf_exited f then f else cf_do Exit (f\<lparr>cf_exited := True\<rparr>))"

text \<open>\<^verbatim>\<open>connectDeferred.errback\<close> raises where the deferred was called before, and the rest is skipped.\<close>

definition clientConnectionFailed :: "client_service \<Rightarrow> client_service" where
  "clientConnectionFailed s =
     (let f = sv_factory s
      in if truthy (cf_attr f ''reconnectOnConnectionFailure'') \<and> cf_retry f
         then on_factory (call_later (cf_attr f ''reconnectOnConnectionFailureDelay'')) s
         else if cf_connect f = Called then s
         else on_factory call_exit (connect_failed (on_factory (\<lambda>f. f\<lparr>cf_connect := Called\<rparr>) s)))"

definition clientConnectionLost :: "client_service \<Rightarrow> client_service" where
  "clientConnectionLost s =
     (let f = sv_factory s
      in if truthy (cf_attr f ''reconnectOnConnectionLoss'') \<and> cf_retry f
         then on_factory (call_later (cf_attr f ''reconnectOnConnectionLossDelay'')) s
         else on_factory call_exit s)"

text \<open>\<^verbatim>\<open>connectDeferred.callback(self)\<close> at the end of \<^verbatim>\<open>connectionMade\<close>; a second call raises and changes nothing.\<close>

definition connection_made :: "string \<Rightarrow> client_service \<Rightarrow> client_service" where
  "connection_made st s =
     (let f = sv_factory s
      in if cf_connect f = Called then s
         else let f1 = f\<lparr>cf_connect := Called, cf_smpp := Some st\<rparr>
              in case bind f1 of
                   Inr f2 \<Rightarrow> s\<lparr>sv_factory := f2\<rparr>
                 | Inl _ \<Rightarrow> connect_failed (s\<lparr>sv_factory := f1\<rparr>))"

text \<open>The steps: the two commands, and the outcomes of attempts, connections, timers and binds.  The state of the
  held session is set by the vendor's protocol class.\<close>

inductive service_step :: "client_service \<Rightarrow> client_service \<Rightarrow> bool" where
  start: "\<not> sv_running s \<Longrightarrow> service_step s (startService s)"
| stop: "sv_running s \<Longrightarrow> service_step s (stopService s)"
| made: "cf_attempts (sv_factory s) = Suc n \<Longrightarrow>
    service_step s (connection_made st
      (on_factory (\<lambda>f. f\<lparr>cf_attempts := n, cf_links := Suc (cf_links f)\<rparr>) s))"
| failed: "cf_attempts (sv_factory s) = Suc n \<Longrightarrow>
    service_step s (clientConnectionFailed (on_factory (\<lambda>f. f\<lparr>cf_attempts := n\<rparr>) s))"
| lost: "cf_links (sv_factory s) = Suc n \<Longrightarrow>
    service_step s (clientConnectionLost (on_factory (\<lambda>f. f\<lparr>cf_links := n\<rparr>) s))"
| fires: "t \<in> set (cf_active (sv_factory s)) \<Longrightarrow>
    service_step s (on_factory (\<lambda>f. reConnect (f\<lparr>cf_active := remove1 t (cf_active f)\<rparr>)) s)"
| bind_failed: "cf_connect (sv_factory s) = Called \<Longrightarrow> service_step s (connect_failed s)"
| bind_done: "cf_connect (sv_factory s) = Called \<Longrightarrow> service_step s (on_factory (\<lambda>f. f\<lparr>cf_errback := False\<rparr>) s)"
| session: "cf_smpp (sv_factory s) \<noteq> None \<Longrightarrow> service_step s (on_factory (\<lambda>f. f\<lparr>cf_smpp := Some st\<rparr>) s)"

inductive service_reachable :: "config \<Rightarrow> client_service \<Rightarrow> bool" for cfg where
  init: "service_reachable cfg (SMPPClientService cfg)"
| step: "service_reachable cfg s \<Longrightarrow> service_step s s' \<Longrightarrow> service_reachable cfg s'"

section \<open>Invariants\<close>

text \<open>What is under way outside: attempts, connections and timers.\<close>

definition pending :: "client_service \<Rightarrow> nat" where
  "pending s = cf_attempts (sv_factory s) + cf_links (sv_factory s) + length (cf_active (sv_factory s))"

definition reconnects :: "config \<Rightarrow> bool" where
  "reconnects cfg \<longleftrightarrow> truthy (kwarg cfg ''reconnectOnConnectionFailure'' PNone) \<and>
     truthy (kwarg cfg ''reconnectOnConnectionLoss'' PNone)"

definition service_inv :: "config \<Rightarrow> client_service \<Rightarrow> bool" where
  "service_inv cfg s \<longleftrightarrow>
     cf_config (sv_factory s) = cfg \<and>
     (sv_running s \<longrightarrow> cf_retry (sv_factory s)) \<and>
     (\<not> sv_running s \<longrightarrow> \<not> cf_retry (sv_factory s) \<or> sv_stop s = 0 \<and> pending s = 0) \<and>
     (sv_running s \<and> reconnects cfg \<longrightarrow> 0 < pending s)"

lemmas service_ops =
  startService_def stopService_def startServiceErr_def connect_failed_def clientConnectionFailed_def
  clientConnectionLost_def connection_made_def bind_def on_factory_def connectAndBind_def connect_def reConnect_def
  call_later_def cf_do_def call_exit_def

lemma length_remove1_mem: "t \<in> set xs \<Longrightarrow> Suc (length (remove1 t xs)) = length xs"
  by (metis One_nat_def Suc_pred length_pos_if_in_set length_remove1)

text \<open>Stopping keeps the configuration and what is under way, except for the timer it cancels.\<close>

lemma stopService_effect:
  "cf_config (sv_factory (stopService s)) = cf_config (sv_factory s)"
  "\<not> cf_retry (sv_factory (stopService s))"
  "\<not> sv_running (stopService s)"
  "pending (stopService s) \<le> pending s"
  by (auto simp: service_ops disconnectAndDontRetryToConnect_def disconnect_def stopConnectionRetrying_def
      pending_def Let_def split: option.splits)

lemma connect_failed_effect:
  "connect_failed s = s \<or>
   (cf_config (sv_factory (connect_failed s)) = cf_config (sv_factory s) \<and> \<not> sv_running (connect_failed s) \<and>
    \<not> cf_retry (sv_factory (connect_failed s)) \<and> pending (connect_failed s) \<le> pending s)"
proof -
  let ?s = "on_factory (cf_do StartFailed) (on_factory (\<lambda>f. f\<lparr>cf_errback := False\<rparr>) s)"
  have "cf_config (sv_factory ?s) = cf_config (sv_factory s)" "pending ?s = pending s"
    by (simp_all add: on_factory_def cf_do_def pending_def)
  then show ?thesis
    using stopService_effect[of ?s] by (simp add: connect_failed_def startServiceErr_def)
qed

lemma service_inv_stopped:
  "cf_config (sv_factory s) = cfg \<Longrightarrow> \<not> sv_running s \<Longrightarrow> \<not> cf_retry (sv_factory s) \<Longrightarrow> service_inv cfg s"
  by (simp add: service_inv_def)

lemma service_inv_connect_failed: "service_inv cfg s \<Longrightarrow> service_inv cfg (connect_failed s)"
  using connect_failed_effect[of s] by (auto simp: service_inv_def)

text \<open>The state in which an attempt or a connection is over, before its handler runs.\<close>

definition after_outcome :: "config \<Rightarrow> client_service \<Rightarrow> bool" where
  "after_outcome cfg s \<longleftrightarrow>
     cf_config (sv_factory s) = cfg \<and> (sv_running s \<longleftrightarrow> cf_retry (sv_factory s))"

lemma after_outcome_failed:
  assumes "after_outcome cfg s" shows "service_inv cfg (clientConnectionFailed s)"
proof -
  let ?s = "on_factory (\<lambda>f. f\<lparr>cf_connect := Called\<rparr>) s"
  have "sv_running s \<and> reconnects cfg \<Longrightarrow> truthy (cf_attr (sv_factory s) ''reconnectOnConnectionFailure'') \<and> cf_retry (sv_factory s)"
    using assms by (simp add: after_outcome_def reconnects_def cf_attr_def)
  then show ?thesis
    using assms connect_failed_effect[of ?s]
    by (auto simp: after_outcome_def clientConnectionFailed_def call_later_def call_exit_def cf_do_def on_factory_def
        service_inv_def pending_def Let_def)
qed

lemma after_outcome_lost:
  assumes "after_outcome cfg s" shows "service_inv cfg (clientConnectionLost s)"
  using assms
  by (auto simp: after_outcome_def clientConnectionLost_def call_later_def call_exit_def cf_do_def on_factory_def
      service_inv_def pending_def reconnects_def cf_attr_def Let_def)

lemma service_step_inv: "service_step s s' \<Longrightarrow> service_inv cfg s \<Longrightarrow> service_inv cfg s'"
proof (induction rule: service_step.induct)
  case (start s)
  then show ?case by (simp add: service_inv_def service_ops pending_def Let_def)
next
  case (stop s)
  then show ?case using stopService_effect[of s] by (simp add: service_inv_def)
next
  case (made s n st)
  let ?s = "on_factory (\<lambda>f. f\<lparr>cf_attempts := n, cf_links := Suc (cf_links f), cf_connect := Called, cf_smpp := Some st\<rparr>) s"
  have "service_inv cfg ?s" using made by (auto simp: service_inv_def on_factory_def pending_def)
  from service_inv_connect_failed[OF this] this made show ?case
    by (auto simp: connection_made_def bind_def on_factory_def service_inv_def pending_def cf_do_def cf_attr_def
        raise_if_def Let_def split: pyval.splits)
next
  case (failed s n)
  then have "after_outcome cfg (on_factory (\<lambda>f. f\<lparr>cf_attempts := n\<rparr>) s)"
    by (auto simp: after_outcome_def service_inv_def pending_def on_factory_def)
  then show ?case by (rule after_outcome_failed)
next
  case (lost s n)
  then have "after_outcome cfg (on_factory (\<lambda>f. f\<lparr>cf_links := n\<rparr>) s)"
    by (auto simp: after_outcome_def service_inv_def pending_def on_factory_def)
  then show ?case by (rule after_outcome_lost)
next
  case (fires t s)
  with length_remove1_mem[OF fires(1)] show ?case
    by (auto simp: service_inv_def on_factory_def reConnect_def cf_do_def pending_def Let_def)
next
  case (bind_failed s)
  then show ?case by (simp add: service_inv_connect_failed)
qed (auto simp: service_inv_def on_factory_def pending_def)

lemma service_reachable_inv: "service_reachable cfg s \<Longrightarrow> service_inv cfg s"
proof (induction rule: service_reachable.induct)
  case init
  show ?case by (simp add: service_inv_def SMPPClientService_def SMPPClientFactory_def pending_def)
qed (rule service_step_inv)

lemma stopped_step_pending:
  assumes "service_step s s'" "\<not> cf_retry (sv_factory s)" "\<not> sv_running s'"
  shows "pending s' \<le> pending s"
  using assms
proof (induction rule: service_step.induct)
  case (stop s)
  then show ?case by (simp add: stopService_effect)
next
  case (made s n st)
  let ?s = "on_factory (\<lambda>f. f\<lparr>cf_attempts := n, cf_links := Suc (cf_links f), cf_connect := Called, cf_smpp := Some st\<rparr>) s"
  from made(1) connect_failed_effect[of ?s] show ?case
    by (auto simp: connection_made_def bind_def on_factory_def pending_def cf_do_def cf_attr_def
        raise_if_def Let_def split: pyval.splits)
next
  case (failed s n)
  let ?s = "on_factory (\<lambda>f. f\<lparr>cf_attempts := n, cf_connect := Called\<rparr>) s"
  from failed(1,2) connect_failed_effect[of ?s] show ?case
    by (auto simp: clientConnectionFailed_def call_exit_def on_factory_def pending_def cf_do_def Let_def)
next
  case (lost s n)
  then show ?case
    by (auto simp: clientConnectionLost_def call_exit_def on_factory_def pending_def cf_do_def Let_def)
next
  case (bind_failed s)
  then show ?case using connect_failed_effect[of s] by auto
next
  case (fires t s)
  with length_remove1_mem[OF fires(1)] show ?case by (simp add: service_ops pending_def Let_def)
qed (auto simp: service_ops pending_def Let_def)

section \<open>Properties\<close>


text \<open>A connector with the default configuration that lost its connection once.\<close>

definition sample_connector :: config where
  "sample_connector =
     [(''id'', PStr ''smsc-1''), (''useSSL'', PBool False), (''bindOperation'', PStr ''transceiver''),
      (''reconnectOnConnectionLoss'', PBool True), (''reconnectOnConnectionLossDelay'', PInt 10),
      (''reconnectOnConnectionFailure'', PBool True), (''reconnectOnConnectionFailureDelay'', PInt 10)]"

definition attempt_over :: "client_service \<Rightarrow> client_service" where
  "attempt_over s = on_factory (\<lambda>f. f\<lparr>cf_attempts := 0, cf_links := Suc (cf_links f)\<rparr>) s"

definition sample_bound :: client_service where
  "sample_bound = connection_made ''OPEN'' (attempt_over (startService (SMPPClientService sample_connector)))"

definition sample_lost :: client_service where
  "sample_lost = clientConnectionLost (on_factory (\<lambda>f. f\<lparr>cf_links := 0\<rparr>) sample_bound)"

lemma sample_lost_reachable: "service_reachable sample_connector sample_lost"
proof -
  let ?s = "startService (SMPPClientService sample_connector)"
  have "\<not> sv_running (SMPPClientService sample_connector)" by code_simp
  then have 1: "service_reachable sample_connector ?s"
    by (intro service_reachable.step[OF service_reachable.init] service_step.start)
  have "cf_attempts (sv_factory ?s) = Suc 0" by code_simp
  from service_reachable.step[OF 1 service_step.made[OF this, of "''OPEN''"]]
  have 2: "service_reachable sample_connector sample_bound"
    unfolding sample_bound_def attempt_over_def .
  have "cf_links (sv_factory sample_bound) = Suc 0" by code_simp
  from service_reachable.step[OF 2 service_step.lost[OF this]] show ?thesis
    unfolding sample_lost_def .
qed


text \<open>A stop does not abort a connection attempt that is under way: the connection is then made and bound although
  the service is stopped.\<close>

lemma stop_while_connecting_binds:
  "let s = connection_made ''OPEN'' (attempt_over (stopService (startService (SMPPClientService sample_connector))))
   in service_reachable sample_connector s \<and> \<not> sv_running s \<and> last (cf_out (sv_factory s)) = BindAs ''transceiver''"
proof -
  let ?started = "startService (SMPPClientService sample_connector)"
  let ?s = "stopService ?started"
  have "\<not> sv_running (SMPPClientService sample_connector)" by (simp add: SMPPClientService_def)
  moreover have "sv_running ?started" by (simp add: startService_def on_factory_def)
  ultimately have 1: "service_reachable sample_connector ?s"
    by (blast intro: service_reachable.intros service_step.intros)
  have "cf_attempts (sv_factory ?s) = Suc 0" by code_simp
  from service_reachable.step[OF 1 service_step.made[OF this, of "''OPEN''"]]
  have "service_reachable sample_connector (connection_made ''OPEN'' (attempt_over ?s))"
    unfolding attempt_over_def .
  moreover have "\<not> sv_running (connection_made ''OPEN'' (attempt_over ?s))"
    "last (cf_out (sv_factory (connection_made ''OPEN'' (attempt_over ?s)))) = BindAs ''transceiver''"
    by code_simp+
  ultimately show ?thesis by (simp add: Let_def)
qed

end
