(* ===== verification/Client_Manager.thy ===== *)
theory Client_Manager
  imports Client_Service Dlr Migration
begin

text \<open>
  The manager of the client connectors (\<^verbatim>\<open>jasmin/managers/clients.py\<close>): adding, removing, starting and
  stopping connectors, persisting them, and taking messages for them, which it publishes to the queue of the
  connector and whose request for receipts it stores in Redis.

  A call of the AMQP client is recorded when it succeeds; \<open>me_broker\<close> says which exception it raises.
  The identifier of a new message, the clock and the files are parts of the environment and the state.  A handler
  runs from its start to its result without another one in between, although the code gives way at
  every call of the broker.
\<close>

section \<open>State\<close>

datatype broker_op =
    BasicQos int | ExchangeDeclare string string | QueueDeclare string | QueueBind string string
  | BasicConsume string string | BasicCancel string | QueueDelete string | ClientQueue string
  | BasicPublish string content

record manager_env =
  me_broker :: "broker_op \<Rightarrow> pyexc option"
  me_redis_up :: bool
  me_writable :: "string \<Rightarrow> bool"
  me_date :: string
  me_date_ok :: "string \<Rightarrow> bool"
  me_store :: string
  me_new_id :: string
  me_created :: string
  me_clock :: pyval

record 'r connector_entry =
  ce_id :: string
  ce_config :: config
  ce_service :: client_service
  ce_tag :: "string option"
  ce_queue :: bool
  ce_listener :: "'r listener"

record 'r manager =
  mg_broker :: "bool option"
  mg_redis :: "'r option"
  mg_connectors :: "'r connector_entry list"
  mg_stats :: "(string, stats) dict"
  mg_persisted :: bool
  mg_files :: "(string, pfile) dict"
  mg_out :: "broker_op list"

definition SMPPClientManagerPB :: "(string, stats) dict \<Rightarrow> (string, pfile) dict \<Rightarrow> 'r manager" where
  "SMPPClientManagerPB stats files =
     \<lparr>mg_broker = None, mg_redis = None, mg_connectors = [], mg_stats = stats, mg_persisted = True,
      mg_files = files, mg_out = []\<rparr>"

definition addAmqpBroker :: "bool \<Rightarrow> 'r manager \<Rightarrow> 'r manager" where
  "addAmqpBroker up mg = mg\<lparr>mg_broker := Some up\<rparr>"

definition addRedisClient :: "'r \<Rightarrow> 'r manager \<Rightarrow> 'r manager" where
  "addRedisClient r mg = mg\<lparr>mg_redis := Some r\<rparr>"

definition amqp :: "manager_env \<Rightarrow> broker_op \<Rightarrow> ('r manager, unit) action" where
  "amqp env op mg =
     (case me_broker env op of Some e \<Rightarrow> (Inl e, mg) | None \<Rightarrow> (Inr (), mg\<lparr>mg_out := mg_out mg @ [op]\<rparr>))"

definition not_persisted :: "'r manager \<Rightarrow> 'r manager" where
  "not_persisted mg = mg\<lparr>mg_persisted := False\<rparr>"

section \<open>Connectors\<close>

definition config_id :: "config \<Rightarrow> string" where
  "config_id cfg = (case map_of cfg ''id'' of Some (PStr s) \<Rightarrow> s | _ \<Rightarrow> [])"

definition mg_getConnector :: "string \<Rightarrow> 'r manager \<Rightarrow> 'r connector_entry option" where
  "mg_getConnector cid mg = find (\<lambda>c. ce_id c = cid) (mg_connectors mg)"

definition on_connector ::
  "string \<Rightarrow> ('r connector_entry \<Rightarrow> 'r connector_entry) \<Rightarrow> 'r manager \<Rightarrow> 'r manager" where
  "on_connector cid f mg = mg\<lparr>mg_connectors := update_first (\<lambda>c. ce_id c = cid) f (mg_connectors mg)\<rparr>"

definition entry_details :: "'r connector_entry \<Rightarrow> (string, pyval) dict" where
  "entry_details c =
     [(''id'', PStr (ce_id c)), (''session_state'', PStr (getSessionState (sv_factory (ce_service c)))),
      (''service_status'', PInt (of_bool (sv_running (ce_service c)))),
      (''start_count'', PInt (int (sv_start (ce_service c)))), (''stop_count'', PInt (int (sv_stop (ce_service c))))]"

definition getConnectorDetails :: "string \<Rightarrow> 'r manager \<Rightarrow> (string, pyval) dict option" where
  "getConnectorDetails cid mg = map_option entry_details (mg_getConnector cid mg)"

definition delConnector :: "string \<Rightarrow> 'r manager \<Rightarrow> bool \<times> 'r manager" where
  "delConnector cid mg =
     (list_ex (\<lambda>c. ce_id c = cid) (mg_connectors mg),
      mg\<lparr>mg_connectors := remove_first (\<lambda>c. ce_id c = cid) (mg_connectors mg)\<rparr>)"

definition submit_queue :: "string \<Rightarrow> string" where
  "submit_queue cid = ''submit.sm.'' @ cid"

definition consumer_tag :: "string \<Rightarrow> string" where
  "consumer_tag cid = ''SMPPClientFactory-'' @ cid"

text \<open>The new service takes the statistics of the connector from the collector and notes its creation.\<close>

definition new_connector :: "manager_env \<Rightarrow> config \<Rightarrow> 'r manager \<Rightarrow> 'r manager" where
  "new_connector env cfg mg =
     (let cid = config_id cfg;
          (s, coll) = collector_get ClientConnectorStatistics cid (mg_stats mg);
          s1 = snd (st_set ''created_at'' (me_clock env) s)
      in mg\<lparr>mg_stats := dset coll cid s1,
            mg_connectors := mg_connectors mg @
              [\<lparr>ce_id = cid, ce_config = cfg, ce_service = SMPPClientService cfg, ce_tag = None, ce_queue = False,
                ce_listener = SMPPClientSMListener (mg_redis mg) s1\<rparr>]\<rparr>)"

definition declare_queue :: "manager_env \<Rightarrow> string \<Rightarrow> ('r manager, unit) action" where
  "declare_queue env cid =
     act_seq (amqp env (BasicQos 1))
      (act_seq (amqp env (ExchangeDeclare ''messaging'' ''topic''))
       (act_seq (amqp env (QueueDeclare (submit_queue cid)))
         (amqp env (QueueBind (submit_queue cid) (submit_queue cid)))))"

definition perspective_connector_add :: "manager_env \<Rightarrow> config \<Rightarrow> ('r manager, bool) action" where
  "perspective_connector_add env cfg mg =
     (let cid = config_id cfg
      in if mg_getConnector cid mg \<noteq> None then (Inr False, mg)
         else if mg_broker mg \<noteq> Some True then (Inr False, mg)
         else
           act_seq (declare_queue env cid)
            (act_seq (act_do (\<lambda>mg. not_persisted (new_connector env cfg mg))) (act_res (Inr True))) mg)"

text \<open>The calls that are guarded by a handler of exceptions.\<close>

definition start_consumer :: "manager_env \<Rightarrow> string option \<Rightarrow> string \<Rightarrow> ('r manager, unit) action" where
  "start_consumer env old cid =
     act_seq (case old of Some t \<Rightarrow> amqp env (BasicCancel t) | None \<Rightarrow> act_res (Inr ()))
       (amqp env (BasicConsume (submit_queue cid) (consumer_tag cid)))"

definition consuming :: "'r connector_entry \<Rightarrow> 'r connector_entry" where
  "consuming c =
     c\<lparr>ce_listener := setSubmitSmQ True ((ce_listener c)\<lparr>ls_gets := Suc (ls_gets (ce_listener c))\<rparr>),
       ce_tag := Some (consumer_tag (ce_id c)), ce_queue := True\<rparr>"

definition perspective_connector_start :: "manager_env \<Rightarrow> string \<Rightarrow> ('r manager, bool) action" where
  "perspective_connector_start env cid mg =
     (case mg_getConnector cid mg of
        None \<Rightarrow> (Inr False, mg)
      | Some c \<Rightarrow>
          if mg_broker mg \<noteq> Some True \<or> sv_running (ce_service c) \<or>
             getSessionState (sv_factory (ce_service c)) \<notin> set [''NONE'', ''UNBOUND''] then (Inr False, mg)
          else
            case start_consumer env (ce_tag c) (ce_id c)
                   (on_connector cid (\<lambda>c. c\<lparr>ce_service := startService (ce_service c)\<rparr>) mg) of
              (Inl _, mg2) \<Rightarrow> (Inr False, mg2)
            | (Inr _, mg2) \<Rightarrow>
                act_seq (amqp env (ClientQueue (consumer_tag (ce_id c))))
                 (act_seq (act_do (\<lambda>mg. not_persisted (on_connector cid consuming mg))) (act_res (Inr True))) mg2)"

text \<open>The messages that wait for a reject timer are requeued at once.\<close>

definition flush_timer :: "'r listener \<Rightarrow> string \<times> amqp_msg \<times> pyval \<times> bool \<Rightarrow> 'r listener" where
  "flush_timer l t =
     (case t of (msgid, m, _, active) \<Rightarrow>
        if active then ls_rejectMessage m True (l\<lparr>ls_timers := ddel (ls_timers l) msgid\<rparr>) else l)"

definition flush_timers :: "'r listener \<Rightarrow> 'r listener" where
  "flush_timers l = foldl flush_timer l (ls_timers l)"

definition stop_listener :: "'r listener \<Rightarrow> 'r listener" where
  "stop_listener l = setSubmitSmQ False (clearAllTimers (flush_timers l))"

definition cancel_consumer :: "manager_env \<Rightarrow> string \<Rightarrow> string option \<Rightarrow> ('r manager, unit) action" where
  "cancel_consumer env cid tag =
     (case tag of
        None \<Rightarrow> act_res (Inr ())
      | Some t \<Rightarrow> act_seq (amqp env (BasicCancel t))
                   (act_do (on_connector cid (\<lambda>c. c\<lparr>ce_queue := False, ce_tag := None\<rparr>))))"

definition perspective_connector_stop :: "manager_env \<Rightarrow> string \<Rightarrow> bool \<Rightarrow> ('r manager, bool) action" where
  "perspective_connector_stop env cid delQueues mg =
     (case mg_getConnector cid mg of
        None \<Rightarrow> (Inr False, mg)
      | Some c \<Rightarrow>
          act_seq (cancel_consumer env cid (ce_tag c))
            (if \<not> sv_running (ce_service c) then act_res (Inr False)
             else
               act_seq (act_when delQueues (amqp env (QueueDelete (submit_queue cid))))
                (act_seq (act_do (\<lambda>mg. not_persisted (on_connector cid
                     (\<lambda>c. c\<lparr>ce_listener := stop_listener (ce_listener c), ce_service := stopService (ce_service c)\<rparr>) mg)))
                  (act_res (Inr True)))) mg)"

definition perspective_connector_remove :: "manager_env \<Rightarrow> string \<Rightarrow> ('r manager, bool) action" where
  "perspective_connector_remove env cid mg =
     (case mg_getConnector cid mg of
        None \<Rightarrow> (Inr False, mg)
      | Some c \<Rightarrow>
          let mg1 = (if sv_running (ce_service c)
                     then on_connector cid (\<lambda>c. c\<lparr>ce_service := stopService (ce_service c)\<rparr>) mg else mg)
          in act_bind (perspective_connector_stop env cid False) (\<lambda>_ mg2.
               let (found, mg3) = delConnector cid mg2
               in if found then (Inr True, not_persisted mg3) else (Inr False, mg3)) mg1)"

fun stop_each :: "manager_env \<Rightarrow> bool \<Rightarrow> string list \<Rightarrow> ('r manager, unit) action" where
  "stop_each env delQueues [] = act_res (Inr ())"
| "stop_each env delQueues (cid # cids) =
     act_bind (perspective_connector_stop env cid delQueues) (\<lambda>_. stop_each env delQueues cids)"

definition perspective_connector_stopall :: "manager_env \<Rightarrow> bool \<Rightarrow> ('r manager, bool) action" where
  "perspective_connector_stopall env delQueues mg =
     act_seq (stop_each env delQueues (map ce_id (mg_connectors mg)))
       (act_seq (act_do not_persisted) (act_res (Inr True))) mg"

section \<open>Questions\<close>

definition perspective_connector_list :: "'r manager \<Rightarrow> (string, pyval) dict option list" where
  "perspective_connector_list mg = map (\<lambda>c. getConnectorDetails (ce_id c) mg) (mg_connectors mg)"

text \<open>\<^verbatim>\<open>False\<close> for an unknown connector is \<open>None\<close> here.\<close>

definition perspective_service_status :: "string \<Rightarrow> 'r manager \<Rightarrow> bool option" where
  "perspective_service_status cid mg = map_option (\<lambda>c. sv_running (ce_service c)) (mg_getConnector cid mg)"

definition perspective_session_state :: "string \<Rightarrow> 'r manager \<Rightarrow> string option" where
  "perspective_session_state cid mg =
     map_option (\<lambda>c. getSessionState (sv_factory (ce_service c))) (mg_getConnector cid mg)"

definition perspective_connector_details :: "string \<Rightarrow> 'r manager \<Rightarrow> (string, pyval) dict option" where
  "perspective_connector_details cid mg =
     (if mg_getConnector cid mg = None then None else getConnectorDetails cid mg)"

definition perspective_connector_config :: "string \<Rightarrow> 'r manager \<Rightarrow> config option" where
  "perspective_connector_config cid mg = map_option ce_config (mg_getConnector cid mg)"

definition smppccs_is_persisted :: "'r manager \<Rightarrow> bool" where
  "smppccs_is_persisted mg = mg_persisted mg"

section \<open>Persistence\<close>

definition smppccs_path :: "manager_env \<Rightarrow> string \<Rightarrow> string" where
  "smppccs_path env profile = me_store env @ ''/'' @ profile @ ''.smppccs''"

definition smppccs_persist :: "manager_env \<Rightarrow> string \<Rightarrow> 'r manager \<Rightarrow> bool \<times> 'r manager" where
  "smppccs_persist env profile mg =
     (let path = smppccs_path env profile;
          data = map (\<lambda>c. (ce_id c, ce_config c, sv_running (ce_service c))) (mg_connectors mg)
      in if \<not> me_writable env path then (False, mg)
         else (True, mg\<lparr>mg_files := dset (mg_files mg) path
                          \<lparr>pf_header = mk_header (me_date env) get_release, pf_data = DSmppccs data\<rparr>,
                        mg_persisted := True\<rparr>))"

fun remove_each :: "manager_env \<Rightarrow> string list \<Rightarrow> ('r manager, unit) action" where
  "remove_each env [] = act_res (Inr ())"
| "remove_each env (cid # cids) =
     act_bind (perspective_connector_remove env cid) (\<lambda>b.
       if b then remove_each env cids else act_res (Inl ConfigProfileLoadingError))"

fun load_each :: "manager_env \<Rightarrow> (string \<times> config \<times> bool) list \<Rightarrow> ('r manager, unit) action" where
  "load_each env [] = act_res (Inr ())"
| "load_each env ((cid, cfg, running) # ls) =
     act_bind (perspective_connector_add env cfg) (\<lambda>b.
       if \<not> b then act_res (Inl ConfigProfileLoadingError)
       else if running then act_bind (perspective_connector_start env cid) (\<lambda>_. load_each env ls)
       else load_each env ls)"

definition load_profile :: "manager_env \<Rightarrow> string \<Rightarrow> ('r manager, unit) action" where
  "load_profile env profile mg =
     (case map_of (mg_files mg) (smppccs_path env profile) of
        None \<Rightarrow> (Inl IOError, mg)
      | Some f \<Rightarrow>
          act_bind (act_res (ConfigurationMigrator (me_date_ok env) ''smppccs'' f)) (\<lambda>m.
          act_seq (remove_each env (map ce_id (mg_connectors mg)))
           (act_bind (act_res (getMigratedData m)) (\<lambda>d.
              case d of
                DSmppccs ls \<Rightarrow> act_seq (load_each env ls) (act_do (\<lambda>mg. mg\<lparr>mg_persisted := True\<rparr>))
              | _ \<Rightarrow> act_res (Inl TypeError)))) mg)"

text \<open>Every exception is caught.\<close>

definition smppccs_load :: "manager_env \<Rightarrow> string \<Rightarrow> 'r manager \<Rightarrow> bool \<times> 'r manager" where
  "smppccs_load env profile mg =
     (case load_profile env profile mg of (Inl _, mg') \<Rightarrow> (False, mg') | (Inr _, mg') \<Rightarrow> (True, mg'))"

section \<open>Messages\<close>

datatype submitter = HttpApi | SmppServer string pyval

record submit_args =
  sa_uid :: string
  sa_cid :: string
  sa_pdus :: "pdu list"
  sa_bill :: "bill option"
  sa_priority :: pyval
  sa_validity :: pyval
  sa_dlr_url :: pyval
  sa_dlr_level :: pyval
  sa_dlr_method :: pyval
  sa_dlr_connector :: pyval
  sa_source :: submitter

text \<open>\<^verbatim>\<open>hmset(...).addCallback(expire)\<close>: nothing waits for the outcome.\<close>

definition store_request ::
  "'r redis_ops \<Rightarrow> string \<Rightarrow> (string, pyval) dict \<Rightarrow> pyval \<Rightarrow> 'r manager \<Rightarrow> 'r manager" where
  "store_request ops key h expiry mg =
     (case mg_redis mg of
        None \<Rightarrow> mg
      | Some r \<Rightarrow>
          (case rd_hmset ops r key h of
             Inl _ \<Rightarrow> mg
           | Inr r1 \<Rightarrow>
               (case rd_expire ops r1 key expiry of
                  Inl _ \<Rightarrow> mg\<lparr>mg_redis := Some r1\<rparr> | Inr r2 \<Rightarrow> mg\<lparr>mg_redis := Some r2\<rparr>)))"

definition http_dlr_request :: "submit_args \<Rightarrow> pyval \<Rightarrow> (string, pyval) dict" where
  "http_dlr_request a expiry =
     [(''sc'', PStr ''httpapi''), (''url'', sa_dlr_url a), (''level'', sa_dlr_level a), (''method'', sa_dlr_method a),
      (''connector'', sa_dlr_connector a), (''expiry'', expiry)]"

definition smpps_dlr_request ::
  "string \<Rightarrow> pyval \<Rightarrow> pyval \<Rightarrow> pyval \<Rightarrow> (string, pyval) dict \<Rightarrow> (string, pyval) dict res" where
  "smpps_dlr_request system_id now receipt expiry ps =
     res_bind (map_res (\<lambda>k. res_bind (dget ps k) (\<lambda>v. Inr (k, v)))
        [''source_addr_ton'', ''source_addr_npi'', ''source_addr'', ''dest_addr_ton'', ''dest_addr_npi'',
         ''destination_addr'']) (\<lambda>vs.
       Inr ((''sc'', PStr ''smppsapi'') # (''system_id'', PStr system_id) # vs @
            [(''sub_date'', now), (''rd_receipt'', receipt), (''expiry'', expiry)]))"

definition no_receipt :: pyval where
  "no_receipt = PEnum ''RegisteredDeliveryReceipt'' ''NO_SMSC_DELIVERY_RECEIPT_REQUESTED''"

definition enqueue_dlr ::
  "manager_env \<Rightarrow> 'r redis_ops \<Rightarrow> submit_args \<Rightarrow> config \<Rightarrow> string \<Rightarrow> ('r manager, unit) action" where
  "enqueue_dlr env ops a cfg msgid =
     (let redis = (\<lambda>h expiry mg. if mg_redis mg = None \<or> \<not> me_redis_up env then mg
                                 else store_request ops (dlr_key msgid) h expiry mg);
          expiry = kwarg cfg ''dlr_expiry'' PNone
      in case sa_source a of
           HttpApi \<Rightarrow> act_when (sa_dlr_url a \<noteq> PNone) (act_do (redis (http_dlr_request a expiry) expiry))
         | SmppServer system_id ttl \<Rightarrow>
             (let ps = p_params (hd (sa_pdus a))
              in act_bind (act_res (res_bind (dget ps ''registered_delivery'') receipt_of)) (\<lambda>receipt mg.
                   if receipt = no_receipt \<or> mg_redis mg = None \<or> \<not> me_redis_up env then (Inr (), mg)
                   else
                     act_bind (act_res (smpps_dlr_request system_id (me_clock env) receipt ttl ps)) (\<lambda>h.
                       act_do (store_request ops (dlr_key msgid) h ttl)) mg)))"

definition source_name :: "submitter \<Rightarrow> string" where
  "source_name s = (case s of HttpApi \<Rightarrow> ''httpapi'' | SmppServer _ _ \<Rightarrow> ''smppsapi'')"

text \<open>The result is the id of the message, \<open>None\<close> where the code returns \<^verbatim>\<open>False\<close>.\<close>

definition perspective_submit_sm ::
  "manager_env \<Rightarrow> 'r redis_ops \<Rightarrow> submit_args \<Rightarrow> ('r manager, string option) action" where
  "perspective_submit_sm env ops a mg =
     (case mg_getConnector (sa_cid a) mg of
        None \<Rightarrow> (Inr None, mg)
      | Some c \<Rightarrow>
          if mg_broker mg \<noteq> Some True then (Inr None, mg)
          else
            act_bind (act_res (mk_SubmitSmContent (me_new_id env) (me_created env) (sa_pdus a)
                (''submit.sm.resp.'' @ sa_cid a) (sa_bill a) (sa_priority a) (sa_validity a) None
                (source_name (sa_source a)))) (\<lambda>x.
            act_seq (amqp env (BasicPublish (submit_queue (sa_cid a)) x))
             (act_seq (enqueue_dlr env ops a (ce_config c) (c_msgid x))
               (act_res (Inr (Some (c_msgid x)))))) mg)"

end
