(* ===== verification/Mt_Submission.thy ===== *)
theory Mt_Submission
  imports Client_Manager Router Listener_Mo
begin

text \<open>
  What the two front ends that take messages to send have in common: the SMPP server
  (\<^verbatim>\<open>submit_sm_post_interception\<close> of \<^verbatim>\<open>jasmin/protocols/smpp/factory.py\<close>) and the HTTP API
  (\<^verbatim>\<open>route_routable\<close> of \<^verbatim>\<open>jasmin/protocols/http/endpoints/send.py\<close>) choose the route and the connector, check the
  throughput of the user, and build the bill with the same statements; what differs between them is
  defined with each front end.

  The state \<open>gateway\<close> is the router, the manager of the client connectors and the statistics of the front end.
  A routable comes with the further PDUs of a long message.  Instants are microseconds since the epoch, and zero
  before the first message.  The deferred that \<^verbatim>\<open>perspective_submit_sm\<close> returns may not have fired yet; \<open>ge_fired\<close> says
  whether it has.
\<close>

section \<open>State and environment\<close>

text \<open>What a script returned: \<^verbatim>\<open>False\<close>, a dictionary, a pickled routable, or something else.\<close>

datatype mt_result = MtFalse | MtDict "(string, pyval) dict" | MtRoutable routable "pdu list" | MtOther

text \<open>What the interceptor answers after a script has run (\<^verbatim>\<open>perspective_run_script\<close> of
  \<^verbatim>\<open>jasmin/interceptor/interceptor.py\<close>), from the values the script has left; running the script is not modelled.\<close>

definition script_return :: "pyval \<Rightarrow> pyval \<Rightarrow> pyval \<Rightarrow> routable \<Rightarrow> pdu list \<Rightarrow> mt_result" where
  "script_return smpp_status http_status extra r rest =
     (if smpp_status = PNone \<and> http_status = PNone then MtRoutable r rest
      else if \<not> is_int smpp_status then
        MtDict [(''http_status'', http_status), (''smpp_status'', PInt 255), (''extra'', extra)]
      else if \<not> is_int http_status then
        MtDict [(''http_status'', PInt 520), (''smpp_status'', smpp_status), (''extra'', extra)]
      else MtDict [(''http_status'', http_status), (''smpp_status'', smpp_status), (''extra'', extra)])"

text \<open>The client of the interceptor; a run that fails is \<^const>\<open>None\<close>.\<close>

record mt_interceptor =
  mi_connected :: bool
  mi_run :: "script \<Rightarrow> routable \<Rightarrow> pdu list \<Rightarrow> mt_result option"

record 'r gateway =
  gw_router :: router
  gw_manager :: "'r manager"
  gw_stats :: stats

record gateway_env =
  ge_router :: router_env
  ge_manager :: manager_env
  ge_op :: op_env
  ge_tlv :: tlv_env
  ge_now :: int
  ge_bid :: string
  ge_billing :: bool
  ge_interceptor :: "mt_interceptor option"
  ge_status_name :: "int \<Rightarrow> string option"
  ge_fired :: bool
  ge_log_privacy :: bool
  ge_date :: date
  ge_time :: time
  ge_re :: "string \<Rightarrow> string \<Rightarrow> bool"

definition on_router :: "(router \<Rightarrow> 'a res \<times> router) \<Rightarrow> ('r gateway, 'a) action" where
  "on_router f g = (case f (gw_router g) of (x, ro) \<Rightarrow> (x, g\<lparr>gw_router := ro\<rparr>))"

definition on_manager :: "('r manager \<Rightarrow> 'a res \<times> 'r manager) \<Rightarrow> ('r gateway, 'a) action" where
  "on_manager f g = (case f (gw_manager g) of (x, mg) \<Rightarrow> (x, g\<lparr>gw_manager := mg\<rparr>))"

definition gw_count :: "stat_op list \<Rightarrow> ('r gateway, unit) action" where
  "gw_count xs g = (case stats_run xs (gw_stats g) of (x, s) \<Rightarrow> (x, g\<lparr>gw_stats := s\<rparr>))"

text \<open>\<^verbatim>\<open>user.getCnxStatus()\<close> followed by an update of its entries.\<close>

definition update_cnx :: "string \<Rightarrow> (cnx_status \<Rightarrow> cnx_status) \<Rightarrow> router \<Rightarrow> router" where
  "update_cnx uid f ro =
     (case stats_get uid (ro_stats ro) of (c, s) \<Rightarrow> ro\<lparr>ro_stats := stats_set uid (f c) s\<rparr>)"

definition cnx_of :: "string \<Rightarrow> router \<Rightarrow> cnx_status" where
  "cnx_of uid ro = fst (stats_get uid (ro_stats ro))"

section \<open>Route and connector\<close>

definition match_route :: "gateway_env \<Rightarrow> routable \<Rightarrow> ('r gateway, (int \<times> route) option) action" where
  "match_route env r =
     on_router (\<lambda>ro. case getRouteFor (re_filter (ge_router env)) r (ro_mt_routes ro) of
                       (x, t) \<Rightarrow> (x, ro\<lparr>ro_mt_routes := t\<rparr>))"

definition is_bound :: "'r manager \<Rightarrow> string \<Rightarrow> bool" where
  "is_bound mg cid =
     (case perspective_connector_details cid mg of
        None \<Rightarrow> False
      | Some d \<Rightarrow> (case map_of d ''session_state'' of Some (PStr s) \<Rightarrow> take 6 s = ''BOUND_'' | _ \<Rightarrow> False))"

text \<open>The loop over the connectors of a failover route, from the one that the route handed out last; \<^const>\<open>None\<close> when
  they are exhausted.  A failover route always has a pool, and \<^verbatim>\<open>getConnector\<close> advances its position.\<close>

function bound_connector :: "(string \<Rightarrow> bool) \<Rightarrow> route \<Rightarrow> connector \<Rightarrow> connector option \<times> route" where
  "bound_connector up rt c =
     (if up (conn_cid c) then (Some c, rt)
      else case rt_connector rt of
             Single _ \<Rightarrow> (None, rt)
           | Pool cs \<Rightarrow>
               (let rt1 = rt\<lparr>rt_seq := rt_seq rt + 1\<rparr>
                in case py_index cs (rt_seq rt1) of
                     None \<Rightarrow> (None, rt1)
                   | Some c' \<Rightarrow> bound_connector up rt1 c'))"
  by pat_completeness auto
termination
  by (relation "measure (\<lambda>(up, rt, c). case rt_connector rt of Pool cs \<Rightarrow> nat (int (length cs) - rt_seq rt) | _ \<Rightarrow> 0)")
    (auto simp: py_index_def Let_def split: if_splits)

declare bound_connector.simps [simp del]

definition route_connector :: "gateway_env \<Rightarrow> int \<times> route \<Rightarrow> ('r gateway, connector option) action" where
  "route_connector env kr g =
     (let (k, rt) = kr; (c, rt1) = getConnector (re_randbelow (ge_router env)) rt;
          keep = (\<lambda>rt'. g\<lparr>gw_router := (gw_router g)\<lparr>ro_mt_routes :=
                      update_first (\<lambda>e. fst e = k) (\<lambda>_. (k, rt')) (ro_mt_routes (gw_router g))\<rparr>\<rparr>)
      in if rt_class rt = FailoverMTRoute then
           (case c of
              None \<Rightarrow> (Inl AttributeError, keep rt1)
            | Some c0 \<Rightarrow> (case bound_connector (is_bound (gw_manager g)) rt1 c0 of (c', rt2) \<Rightarrow> (Inr c', keep rt2)))
         else (Inr c, keep rt1))"

section \<open>Throughput\<close>

text \<open>Whether a message comes sooner after the previous one than the throughput of the user allows.\<close>

definition too_fast :: "pyval \<Rightarrow> int \<Rightarrow> int \<Rightarrow> bool res" where
  "too_fast quota last_at now =
     (if \<not> truthy quota then Inr False
      else res_bind (py_lt quota (PInt 0)) (\<lambda>negative.
        Inr (\<not> negative \<and> last_at \<noteq> 0 \<and> now - last_at < qos_interval quota)))"

text \<open>Whether the message is refused; when it is not, its instant is recorded.\<close>

definition throttled ::
  "gateway_env \<Rightarrow> string \<Rightarrow> (cnx_status \<Rightarrow> int) \<Rightarrow> (int \<Rightarrow> cnx_status \<Rightarrow> cnx_status) \<Rightarrow> user \<Rightarrow> ('r gateway, bool) action" where
  "throttled env quota last_at stamp u g =
     (case res_bind (getQuota quota (u_mt u)) (\<lambda>q. too_fast q (last_at (cnx_of (u_uid u) (gw_router g))) (ge_now env)) of
        Inl e \<Rightarrow> (Inl e, g)
      | Inr True \<Rightarrow> (Inr True, g)
      | Inr False \<Rightarrow> (Inr False, g\<lparr>gw_router := update_cnx (u_uid u) (stamp (ge_now env)) (gw_router g)\<rparr>))"

section \<open>Value filters\<close>

text \<open>A value filter of the user against the bytes of a value; the pattern \<open>all\<close> is not matched at all.  Other values than
  bytes cannot be matched.\<close>

definition value_filter :: "gateway_env \<Rightarrow> string \<Rightarrow> string \<Rightarrow> pyexc \<Rightarrow> user \<Rightarrow> pyval \<Rightarrow> unit res" where
  "value_filter env key all err u v =
     res_bind (getValueFilter key (u_mt u)) (\<lambda>r.
     res_bind (case r of PStr p \<Rightarrow> Inr (utf8_encode p) | PBytes p \<Rightarrow> Inr p | _ \<Rightarrow> Inl AttributeError) (\<lambda>p.
       if p = all then Inr ()
       else case v of PBytes b \<Rightarrow> raise_if (\<not> ge_re env p b) err (Inr ()) | _ \<Rightarrow> Inl TypeError))"

definition authorized :: "string \<Rightarrow> user \<Rightarrow> bool res" where
  "authorized key u = res_bind (getAuthorization key (u_mt u)) (\<lambda>a. Inr (truthy a))"

section \<open>Billing\<close>

text \<open>The conditions that are checked before the user is charged for \<open>n\<close> messages.  \<open>scaled\<close> multiplies an amount
  by the number of messages, where the front end does so.\<close>

definition charging_requirements :: "(pyval \<Rightarrow> pyval res) \<Rightarrow> bill \<Rightarrow> user \<Rightarrow> bool list res" where
  "charging_requirements scaled b u =
     res_bind (getQuota ''balance'' (u_mt u)) (\<lambda>balance.
     res_bind (getQuota ''submit_sm_count'' (u_mt u)) (\<lambda>count_quota.
     res_bind (if balance = PNone then Inr []
               else res_bind (getTotalAmounts b) (\<lambda>a. res_bind (py_lt (PInt 0) a) (\<lambda>positive.
                      if \<not> positive then Inr []
                      else res_bind (scaled a) (\<lambda>due. res_bind (py_lt balance due) (\<lambda>less. Inr [\<not> less]))))) (\<lambda>bal.
     res_bind (if count_quota = PNone then Inr []
               else res_bind (getAction ''decrement_submit_sm_count'' b) (\<lambda>a.
                      res_bind (scaled a) (\<lambda>due. res_bind (py_lt count_quota due) (\<lambda>less. Inr [\<not> less])))) (\<lambda>cnt.
       Inr (bal @ cnt)))))"

text \<open>The bill of the message, and whether the user could be charged for it.\<close>

definition charge_for ::
  "gateway_env \<Rightarrow> (pyval \<Rightarrow> pyval res) \<Rightarrow> int \<Rightarrow> route \<Rightarrow> user \<Rightarrow> ('r gateway, bool \<times> bill option) action" where
  "charge_for env scaled n rt u =
     (if \<not> ge_billing env then act_res (Inr (True, None))
      else
        act_bind (act_res (getBillFor (ge_bid env) rt u)) (\<lambda>b.
        act_bind (act_res (res_bind (getTotalAmounts b) (\<lambda>_. charging_requirements scaled b u))) (\<lambda>reqs.
        act_bind (on_router (chargeUserForSubmitSms (u_uid u) b n reqs)) (\<lambda>charged.
          act_res (Inr (charged, Some b))))))"

section \<open>Submission\<close>

text \<open>What the front end finds in the deferred: nothing yet, \<^verbatim>\<open>False\<close>, the id of the message, or the failure object
  that stands for an exception.\<close>

datatype submission = NotFired | Refused | Accepted string | Failed pyexc

definition submit_message ::
  "gateway_env \<Rightarrow> 'r redis_ops \<Rightarrow> submit_args \<Rightarrow> ('r gateway, submission) action" where
  "submit_message env ops a g =
     (case perspective_submit_sm (ge_manager env) ops a (gw_manager g) of
        (x, mg) \<Rightarrow>
          (Inr (if \<not> ge_fired env then NotFired
                else case x of Inl e \<Rightarrow> Failed e | Inr None \<Rightarrow> Refused | Inr (Some i) \<Rightarrow> Accepted i),
           g\<lparr>gw_manager := mg\<rparr>))"

text \<open>The object that is handed on as the id of the message.\<close>

fun result_object :: "submission \<Rightarrow> pyval option" where
  "result_object NotFired = None"
| "result_object Refused = None"
| "result_object (Accepted i) = Some (PStr i)"
| "result_object (Failed e) = Some (PObj ''Failure'')"

end
