(* ===== verification/Smpp_Server.thy ===== *)
theory Smpp_Server
  imports Mt_Submission
begin

text \<open>
  The SMPP server: sessions and binds (\<^verbatim>\<open>SMPPServerProtocol\<close> of \<^verbatim>\<open>jasmin/protocols/smpp/protocol.py\<close>, \<^verbatim>\<open>SMPPBindManager\<close> and
  the bind half of \<^verbatim>\<open>SMPPServerFactory\<close> in \<^verbatim>\<open>jasmin/protocols/smpp/factory.py\<close>), the login of its users
  (\<^verbatim>\<open>jasmin/tools/cred\<close>), the checks on a message against the credentials of its user
  (\<^verbatim>\<open>jasmin/protocols/smpp/validation.py\<close>) and the handler of a received \<^verbatim>\<open>submit_sm\<close>.

  From the vendor's packages come the login portal, the bind manager that \<^verbatim>\<open>SMPPBindManager\<close> extends, and the
  tables of priorities; they are parameters.  A session is the record of what its protocol object holds.  The
  matching of a value filter is the function \<open>se_re\<close>.
\<close>

section \<open>Sessions and users\<close>

record session =
  ss_id :: string
  ss_system_id :: "string option"
  ss_user :: "user option"
  ss_bind_type :: "string option"
  ss_state :: string
  ss_peer :: string

definition SMPPServerProtocol :: "string \<Rightarrow> string \<Rightarrow> session" where
  "SMPPServerProtocol uuid peer =
     \<lparr>ss_id = uuid, ss_system_id = None, ss_user = None, ss_bind_type = None, ss_state = ''OPEN'', ss_peer = peer\<rparr>"

record 'b vendor_binds =
  vb_new :: "string option \<Rightarrow> 'b"
  vb_add :: "string \<Rightarrow> 'b \<Rightarrow> 'b"
  vb_remove :: "string \<Rightarrow> 'b \<Rightarrow> 'b"
  vb_count :: "'b \<Rightarrow> nat"

text \<open>\<^verbatim>\<open>SMPPBindManager\<close>: the user of the first bind, and the vendor's part.\<close>

record 'b bind_manager =
  bm_user :: user
  bm_binds :: 'b

record 'b server =
  sr_router :: router
  sr_bound :: "(string, 'b bind_manager) dict"
  sr_sessions :: "(string, session) dict"
  sr_stats :: stats

type_synonym portal = "(string \<Rightarrow> string \<Rightarrow> string res) \<Rightarrow> (string \<Rightarrow> user option) \<Rightarrow> string \<Rightarrow> string \<Rightarrow> user option res"

record bind_env =
  be_router :: router_env
  be_portal :: portal
  be_decode :: "string \<Rightarrow> string res"
  be_now :: int

definition sr_count :: "stat_op list \<Rightarrow> ('b server, unit) action" where
  "sr_count xs s = (case stats_run xs (sr_stats s) of (x, st) \<Rightarrow> (x, s\<lparr>sr_stats := st\<rparr>))"

definition on_smpps :: "string \<Rightarrow> (smpps_status \<Rightarrow> smpps_status) \<Rightarrow> router \<Rightarrow> router" where
  "on_smpps uid f = update_cnx uid (\<lambda>c. c\<lparr>cx_smpps := f (cx_smpps c)\<rparr>)"

definition sr_on_smpps :: "string \<Rightarrow> (smpps_status \<Rightarrow> smpps_status) \<Rightarrow> 'b server \<Rightarrow> 'b server" where
  "sr_on_smpps uid f s = s\<lparr>sr_router := on_smpps uid f (sr_router s)\<rparr>"

section \<open>Login\<close>

definition requestAvatarId :: "router_env \<Rightarrow> router \<Rightarrow> string \<Rightarrow> string \<Rightarrow> string res" where
  "requestAvatarId env ro username password =
     res_bind (authenticateUser env username password ro) (\<lambda>u.
       case u of Some _ \<Rightarrow> Inr username | None \<Rightarrow> Inl UnauthorizedLogin)"

definition requestAvatar :: "router \<Rightarrow> string \<Rightarrow> user option" where
  "requestAvatar ro avatarId = find (\<lambda>u. u_username u = Some avatarId) (ro_users ro)"

definition login :: "bind_env \<Rightarrow> router \<Rightarrow> string \<Rightarrow> string \<Rightarrow> user option res" where
  "login env ro = be_portal env (requestAvatarId (be_router env) ro) (requestAvatar ro)"

section \<open>Statistics\<close>

fun bind_name :: "string \<Rightarrow> string option" where
  "bind_name cmd =
     (if cmd = ''bind_transceiver'' then Some ''trx'' else if cmd = ''bind_receiver'' then Some ''rx''
      else if cmd = ''bind_transmitter'' then Some ''tx'' else None)"

definition bind_count_of :: "string \<Rightarrow> string option \<Rightarrow> int \<Rightarrow> stat_op list" where
  "bind_count_of prefix cmd n =
     (case cmd of
        None \<Rightarrow> []
      | Some c \<Rightarrow> (case bind_name c of None \<Rightarrow> [] | Some k \<Rightarrow> [SInc (prefix @ ''_'' @ k @ ''_count'') n]))"

definition sv_received_stats :: "pyval \<Rightarrow> stat_op list" where
  "sv_received_stats now = [SSet ''last_received_pdu_at'' now]"

definition sv_made_stats :: "stat_op list" where
  "sv_made_stats = [SInc ''connect_count'' 1, SInc ''connected_count'' 1]"

text \<open>The state of the session is the one that the vendor's \<^verbatim>\<open>connectionLost\<close> has left.\<close>

definition sv_lost_stats :: "session \<Rightarrow> stat_op list" where
  "sv_lost_stats s =
     [SInc ''disconnect_count'' 1, SInc ''connected_count'' (-1)] @
     (if ss_state s \<in> set [''BOUND_RX'', ''BOUND_TX'', ''BOUND_TRX''] then bind_count_of ''bound'' (ss_bind_type s) (-1) else [])"

definition sv_elink_stats :: "pyval \<Rightarrow> stat_op list" where
  "sv_elink_stats now = [SSet ''last_received_elink_at'' now, SInc ''elink_count'' 1]"

definition sv_request_stats :: "pyval \<Rightarrow> pdu \<Rightarrow> stat_op list" where
  "sv_request_stats now p =
     (if p_command p = ''enquire_link'' then [SSet ''last_received_elink_at'' now]
      else if p_command p = ''submit_sm'' then [SInc ''submit_sm_request_count'' 1]
      else [])"

definition sv_sent_stats :: "pyval \<Rightarrow> pdu \<Rightarrow> stat_op list" where
  "sv_sent_stats now p =
     SSet ''last_sent_pdu_at'' now #
     (if p_command p = ''deliver_sm'' then [SInc ''deliver_sm_count'' 1]
      else if p_command p = ''data_sm'' then [SInc ''data_sm_count'' 1]
      else if p_command p = ''submit_sm_resp'' then
        (if p_status p = ''ESME_RTHROTTLED'' then [SInc ''throttling_error_count'' 1]
         else if p_status p \<noteq> ''ESME_ROK'' then [SInc ''other_submit_error_count'' 1]
         else [SInc ''submit_sm_count'' 1])
      else [])"

definition sv_unbind_stats :: "session \<Rightarrow> stat_op list" where
  "sv_unbind_stats s = SInc ''unbind_count'' 1 # bind_count_of ''bound'' (ss_bind_type s) (-1)"

text \<open>The counters of the user that follow a PDU sent to it.\<close>

definition user_sent :: "pdu \<Rightarrow> smpps_status \<Rightarrow> smpps_status" where
  "user_sent p c =
     (if p_command p = ''deliver_sm'' then c\<lparr>deliver_sm_count := deliver_sm_count c + 1\<rparr>
      else if p_command p = ''data_sm'' then c\<lparr>data_sm_count := data_sm_count c + 1\<rparr>
      else if p_command p = ''submit_sm_resp'' then
        (if p_status p = ''ESME_RTHROTTLED'' then c\<lparr>throttling_error_count := throttling_error_count c + 1\<rparr>
         else if p_status p \<noteq> ''ESME_ROK'' then c\<lparr>other_submit_error_count := other_submit_error_count c + 1\<rparr>
         else c\<lparr>submit_sm_count := submit_sm_count c + 1\<rparr>)
      else c)"

definition for_user :: "session \<Rightarrow> (smpps_status \<Rightarrow> smpps_status) \<Rightarrow> ('b server, unit) action" where
  "for_user s f = act_do (\<lambda>srv. case ss_user s of None \<Rightarrow> srv | Some u \<Rightarrow> sr_on_smpps (u_uid u) f srv)"

text \<open>What the log line about a PDU reads before the statistics are updated.\<close>

definition log_sent_pdu :: "bool \<Rightarrow> pdu \<Rightarrow> unit res" where
  "log_sent_pdu privacy p =
     (if p_command p \<noteq> ''deliver_sm'' \<and> p_command p \<noteq> ''data_sm'' then Inr ()
      else
        let v = kwarg (p_params p) ''short_message'' PNone;
            m = (if v = PNone then kwarg (p_params p) ''message_payload'' (PStr []) else v)
        in if privacy then res_bind (py_len m) (\<lambda>_. Inr ())
           else case m of PBytes _ \<Rightarrow> Inr () | _ \<Rightarrow> Inl TypeError)"

definition server_sendPDU :: "bool \<Rightarrow> pyval \<Rightarrow> session \<Rightarrow> pdu \<Rightarrow> ('b server, unit) action" where
  "server_sendPDU privacy now s p =
     act_bind (act_res (log_sent_pdu privacy p)) (\<lambda>_.
       act_seq (sr_count (sv_sent_stats now p))
        (act_seq
          (act_res (if ss_user s \<noteq> None \<and> (p_command p = ''deliver_sm'' \<or> p_command p = ''data_sm'')
                    then res_bind (dget (p_params p) ''source_addr'') (\<lambda>_.
                         res_bind (dget (p_params p) ''destination_addr'') (\<lambda>_. Inr ()))
                    else Inr ()))
          (for_user s (user_sent p))))"

definition onPDURequest_enquire_link :: "pyval \<Rightarrow> session \<Rightarrow> ('b server, unit) action" where
  "onPDURequest_enquire_link now s =
     act_seq (sr_count (sv_elink_stats now)) (for_user s (\<lambda>c. c\<lparr>elink_count := elink_count c + 1\<rparr>))"

section \<open>Requests\<close>

definition acceptedPDUs :: "string list" where
  "acceptedPDUs =
     [''submit_sm'', ''bind_transmitter'', ''bind_receiver'', ''bind_transceiver'', ''unbind'', ''unbind_resp'',
      ''enquire_link'', ''data_sm'']"

text \<open>The status of the fatal error a request is answered with, \<^const>\<open>None\<close> when the vendor's class goes on with it.\<close>

definition PDURequestReceived :: "pdu \<Rightarrow> string option" where
  "PDURequestReceived p = (if p_command p \<notin> set acceptedPDUs then Some ''ESME_RSYSERR'' else None)"

definition PDUDataRequestReceived :: "session \<Rightarrow> string option" where
  "PDUDataRequestReceived s = (if ss_state s = ''BOUND_RX'' then Some ''ESME_RINVBNDSTS'' else None)"

definition note_activity :: "int \<Rightarrow> session \<Rightarrow> ('b server, unit) action" where
  "note_activity now s = for_user s (\<lambda>c. c\<lparr>last_activity_at := now\<rparr>)"

text \<open>Vendor TLVs that are accepted from an SMSC are not forwarded to users.\<close>

definition server_sendDataRequest :: "pdu \<Rightarrow> pdu" where
  "server_sendDataRequest p =
     (if p_command p = ''deliver_sm'' \<and> has_key (p_params p) ''vendor_specific_bypass''
      then p\<lparr>p_params := ddel (p_params p) ''vendor_specific_bypass''\<rparr> else p)"

section \<open>Binds\<close>

definition bump :: "string \<Rightarrow> int \<Rightarrow> (string, int) dict \<Rightarrow> (string, int) dict res" where
  "bump k n d = (case map_of d k of None \<Rightarrow> Inl KeyError | Some v \<Rightarrow> Inr (dset d k (v + n)))"

definition added_binding :: "string \<Rightarrow> string \<Rightarrow> string \<Rightarrow> int \<Rightarrow> smpps_status \<Rightarrow> smpps_status res" where
  "added_binding sid peer bind_type now c =
     res_bind (bump bind_type 1 (bound_connections_count c)) (\<lambda>d.
       Inr (c\<lparr>bind_count := bind_count c + 1, bound_connections_count := d,
              bound_peer_ips := bound_peer_ips c @
                [\<lparr>bp_session_id = sid, bp_peer = Some peer, bp_bind_type = bind_type, bp_bound_at = now\<rparr>]\<rparr>))"

definition removed_binding :: "string \<Rightarrow> string \<Rightarrow> smpps_status \<Rightarrow> smpps_status res" where
  "removed_binding sid bind_type c =
     res_bind (bump bind_type (-1) (bound_connections_count c)) (\<lambda>d.
       Inr (c\<lparr>unbind_count := unbind_count c + 1, bound_connections_count := d,
              bound_peer_ips := filter (\<lambda>e. bp_session_id e \<noteq> sid) (bound_peer_ips c)\<rparr>))"

definition try_smpps :: "string \<Rightarrow> (smpps_status \<Rightarrow> smpps_status res) \<Rightarrow> ('b server, unit) action" where
  "try_smpps uid f srv =
     (case f (cx_smpps (cnx_of uid (sr_router srv))) of
        Inl e \<Rightarrow> (Inl e, srv)
      | Inr c \<Rightarrow> (Inr (), sr_on_smpps uid (\<lambda>_. c) srv))"

text \<open>The bind manager of a system id is made for the user of its first bind.\<close>

definition addBoundConnection ::
  "'b vendor_binds \<Rightarrow> int \<Rightarrow> session \<Rightarrow> string \<Rightarrow> string \<Rightarrow> user \<Rightarrow> ('b server, unit) action" where
  "addBoundConnection vb now s system_id bind_type u srv =
     (let bm = (case map_of (sr_bound srv) system_id of
                  Some b \<Rightarrow> b | None \<Rightarrow> \<lparr>bm_user = u, bm_binds = vb_new vb (u_username u)\<rparr>);
          bm1 = bm\<lparr>bm_binds := vb_add vb (ss_id s) (bm_binds bm)\<rparr>
      in try_smpps (u_uid (bm_user bm)) (added_binding (ss_id s) (ss_peer s) bind_type now)
           (srv\<lparr>sr_bound := dset (sr_bound srv) system_id bm1\<rparr>))"

definition removeConnection :: "'b vendor_binds \<Rightarrow> session \<Rightarrow> ('b server, unit) action" where
  "removeConnection vb s srv =
     (case (ss_system_id s, ss_bind_type s) of
        (Some system_id, Some bind_type) \<Rightarrow>
          (case map_of (sr_bound srv) system_id of
             None \<Rightarrow> (Inl KeyError, srv)
           | Some bm \<Rightarrow>
               let bm1 = bm\<lparr>bm_binds := vb_remove vb (ss_id s) (bm_binds bm)\<rparr>
               in act_seq
                    (try_smpps (u_uid (bm_user bm)) (removed_binding (ss_id s) bind_type))
                    (act_do (\<lambda>srv. if vb_count vb (bm_binds bm1) = 0
                                   then srv\<lparr>sr_bound := ddel (sr_bound srv) system_id\<rparr> else srv))
                    (srv\<lparr>sr_bound := dset (sr_bound srv) system_id bm1\<rparr>))
      | _ \<Rightarrow> (Inr (), srv))"

definition bound_total :: "(string, int) dict \<Rightarrow> int res" where
  "bound_total d =
     res_bind (dget d ''bind_transmitter'') (\<lambda>a. res_bind (dget d ''bind_receiver'') (\<lambda>b.
     res_bind (dget d ''bind_transceiver'') (\<lambda>c. Inr (a + b + c))))"

definition canOpenNewConnection :: "user \<Rightarrow> router \<Rightarrow> bool res" where
  "canOpenNewConnection u ro =
     res_bind (smpps_getAuthorization ''bind'' (u_smpps u)) (\<lambda>allowed.
       if \<not> truthy allowed then Inr False
       else res_bind (getQuota ''max_bindings'' (u_smpps u)) (\<lambda>q.
         if q = PNone then Inr True
         else res_bind (bound_total (bound_connections_count (cx_smpps (cnx_of (u_uid u) ro)))) (\<lambda>n.
                py_lt (PInt n) q)))"

definition unbindAndRemoveGateway :: "bool \<Rightarrow> user \<Rightarrow> user res" where
  "unbindAndRemoveGateway ban u =
     (if ban then res_bind (smpps_setAuthorization ''bind'' (PBool False) (u_smpps u)) (\<lambda>c. Inr (u\<lparr>u_smpps := c\<rparr>))
      else Inr u)"

text \<open>Whether the whitelist of the user denies the address.  A check that raises never denies.\<close>

definition ip_denied :: "string \<Rightarrow> user \<Rightarrow> bool" where
  "ip_denied peer u =
     (case smpps_getAuthorization ''ip'' (u_smpps u) of
        Inr (PStr w) \<Rightarrow> w \<noteq> [] \<and> \<not> is_ip_allowed (Some peer) (Some w)
      | _ \<Rightarrow> False)"

definition bound_session :: "string \<Rightarrow> string \<Rightarrow> string \<Rightarrow> user \<Rightarrow> session \<Rightarrow> session" where
  "bound_session system_id bind_type state u s =
     s\<lparr>ss_user := Some u, ss_system_id := Some system_id, ss_state := state, ss_bind_type := Some bind_type\<rparr>"

text \<open>The status of the response to a bind request.  \<open>state\<close> is the session state of the kind of bind.\<close>

definition doBindRequest ::
  "bind_env \<Rightarrow> 'b vendor_binds \<Rightarrow> session \<Rightarrow> string \<Rightarrow> string \<Rightarrow> string \<Rightarrow> string \<Rightarrow> ('b server, string) action" where
  "doBindRequest env vb s bind_type system_id0 password0 state =
     act_seq (sr_count (bind_count_of ''bind'' (Some bind_type) 1))
      (act_bind (act_res (be_decode env system_id0)) (\<lambda>username.
       act_bind (act_res (be_decode env password0)) (\<lambda>password srv.
         case login env (sr_router srv) username password of
           Inl e \<Rightarrow> (if e = UnauthorizedLogin then Inr ''ESME_RINVPASWD'' else Inl e, srv)
         | Inr avatar \<Rightarrow>
             if (\<exists>u \<in> set_option avatar. ip_denied (ss_peer s) u) then (Inr ''ESME_RBINDFAIL'', srv)
             else if ss_state s \<noteq> ''OPEN'' then (Inr ''ESME_RALYBND'', srv)
             else case avatar of
                    None \<Rightarrow> (Inl AttributeError, srv)
                  | Some u \<Rightarrow>
                      (case canOpenNewConnection u (sr_router srv) of
                         Inl e \<Rightarrow> (Inl e, srv)
                       | Inr False \<Rightarrow> (Inr ''ESME_RBINDFAIL'', srv)
                       | Inr True \<Rightarrow>
                           act_seq
                             (act_do (\<lambda>srv. srv\<lparr>sr_sessions :=
                                dset (sr_sessions srv) (ss_id s) (bound_session username bind_type state u s)\<rparr>))
                             (act_seq (addBoundConnection vb (be_now env) s username bind_type u)
                               (act_seq (sr_count (bind_count_of ''bound'' (Some bind_type) 1))
                                 (act_res (Inr ''ESME_ROK'')))) srv))))"

section \<open>Received messages\<close>

text \<open>The tables of priorities of the vendor's package: the value of priority zero, the number of a priority's name and
  the number that an enumeration value stands for.\<close>

record smpps_env =
  sx_gw :: gateway_env
  sx_priority_0 :: pyval
  sx_priority_num :: "string \<Rightarrow> int option"
  sx_value :: "pyval \<Rightarrow> int"
  sx_dlr_expiry :: pyval
  sx_mandatory :: "string list"

subsection \<open>Credentials\<close>

definition smpps_checkSendAuthorizations :: "smpps_env \<Rightarrow> user \<Rightarrow> pdu \<Rightarrow> unit res" where
  "smpps_checkSendAuthorizations env u p =
     (let unless = (\<lambda>key broken k. res_bind (authorized key u) (\<lambda>ok.
                      if ok then k else res_bind broken (\<lambda>b. raise_if b AuthorizationError k)))
      in unless ''smpps_send'' (Inr True)
        (unless ''set_dlr_level'' (res_bind (dget (p_params p) ''registered_delivery'') (\<lambda>v.
             Inr (v \<noteq> RegisteredDelivery ''NO_SMSC_DELIVERY_RECEIPT_REQUESTED'')))
        (unless ''set_source_address'' (res_bind (dget (p_params p) ''source_addr'') (\<lambda>v.
             res_bind (py_len v) (\<lambda>n. Inr (n > 0))))
        (unless ''set_priority'' (res_bind (dget (p_params p) ''priority_flag'') (\<lambda>v. Inr (v \<noteq> sx_priority_0 env)))
          (Inr ())))))"

definition priority_text :: "smpps_env \<Rightarrow> pyval \<Rightarrow> pyval res" where
  "priority_text env v =
     (case v of
        PEnum _ name \<Rightarrow> (case sx_priority_num env name of None \<Rightarrow> Inl KeyError | Some n \<Rightarrow> Inr (PBytes (str_int n)))
      | _ \<Rightarrow> Inl AttributeError)"

definition smpps_checkSendFilters :: "smpps_env \<Rightarrow> user \<Rightarrow> pdu \<Rightarrow> unit res" where
  "smpps_checkSendFilters env u p =
     (let check = (\<lambda>key all. value_filter (sx_gw env) key all (FilterError key) u)
      in res_bind (dget (p_params p) ''destination_addr'') (\<lambda>v. res_bind (check ''destination_address'' ''.*'' v) (\<lambda>_.
         res_bind (dget (p_params p) ''source_addr'') (\<lambda>v. res_bind (check ''source_address'' ''.*'' v) (\<lambda>_.
         res_bind (dget (p_params p) ''priority_flag'') (\<lambda>v. res_bind (priority_text env v) (\<lambda>t.
           res_bind (check ''priority'' ''^[0-3]$'' t) (\<lambda>_.
         res_bind (dget (p_params p) ''short_message'') (\<lambda>v. check ''content'' ''.*'' v)))))))))"

definition smpps_validate :: "smpps_env \<Rightarrow> user \<Rightarrow> pdu \<Rightarrow> unit res" where
  "smpps_validate env u p =
     res_bind (smpps_checkSendAuthorizations env u p) (\<lambda>_. smpps_checkSendFilters env u p)"

definition smpps_updatePDUWithUserDefaults :: "user \<Rightarrow> pdu \<Rightarrow> pdu res" where
  "smpps_updatePDUWithUserDefaults u p =
     res_bind (getDefaultValue ''source_address'' (u_mt u)) (\<lambda>d.
       if d = PNone then Inr p
       else res_bind (dget (p_params p) ''source_addr'') (\<lambda>v.
            res_bind (if v = PNone then Inr 0 else py_len v) (\<lambda>n.
              Inr (if n = 0 then p\<lparr>p_params := dset (p_params p) ''source_addr'' d\<rparr> else p))))"

text \<open>The status of the response to a message that the handler raises on, as the classes of
  \<^verbatim>\<open>jasmin/protocols/smpp/error.py\<close> define it; \<^const>\<open>None\<close> for the classes that carry none.\<close>

definition error_status :: "pyexc \<Rightarrow> string option" where
  "error_status e =
     (case e of
        InterceptorError _ status \<Rightarrow> Some status
      | FilterError key \<Rightarrow> Some
          (if key = ''destination_address'' then ''ESME_RINVDSTADR''
           else if key = ''source_address'' then ''ESME_RINVSRCADR''
           else if key = ''priority'' then ''ESME_RINVPRTFLG'' else ''ESME_RSYSERR'')
      | SubmitSmInvalidArgsError \<Rightarrow> Some ''ESME_RSYSERR''
      | SubmitSmWithoutDestinationAddrError \<Rightarrow> Some ''ESME_RINVDSTADR''
      | SubmitSmRouteNotFoundError \<Rightarrow> Some ''ESME_RINVDSTADR''
      | SubmitSmRoutingError \<Rightarrow> Some ''ESME_RSUBMITFAIL''
      | SubmitSmChargingError \<Rightarrow> Some ''ESME_RSYSERR''
      | SubmitSmThroughputExceededError \<Rightarrow> Some ''ESME_RTHROTTLED''
      | AuthorizationError \<Rightarrow> Some ''ESME_RINVSYSID''
      | _ \<Rightarrow> None)"

subsection \<open>After the interception\<close>

text \<open>What the handler is called with: the routable itself, or the outcome of a script.\<close>

datatype smpps_event = Plain routable "pdu list" | Script "mt_result option"

text \<open>The exceptions that the handler answers with their own status.\<close>

definition smpps_known :: "pyexc \<Rightarrow> bool" where
  "smpps_known e =
     (case e of
        InterceptorError c _ \<Rightarrow>
          c \<in> set [''SubmitSmInterceptionError'', ''SubmitSmInterceptionSuccess'', ''InterceptorRunError'']
      | _ \<Rightarrow> e \<in> set [SubmitSmRouteNotFoundError, SubmitSmThroughputExceededError, SubmitSmChargingError,
                     SubmitSmRoutingError])"

definition answer_status :: "pyexc \<Rightarrow> string" where
  "answer_status e =
     (if smpps_known e then (case error_status e of Some s \<Rightarrow> s | None \<Rightarrow> ''ESME_RUNKNOWNERR'') else ''ESME_RUNKNOWNERR'')"

definition smpps_script_failed :: "pyexc \<Rightarrow> ('r gateway, 'a) action" where
  "smpps_script_failed e = act_seq (gw_count [SInc ''interceptor_error_count'' 1]) (act_res (Inl e))"

definition is_zero :: "pyval \<Rightarrow> bool" where
  "is_zero v \<longleftrightarrow> v \<in> set [PInt 0, PFloat 0, PBool False]"

text \<open>The message id of a script that ends the message with success.\<close>

definition script_message_id :: "smpps_env \<Rightarrow> smpps_event \<Rightarrow> pyval option" where
  "script_message_id env x =
     (case x of
        Script (Some (MtDict d)) \<Rightarrow>
          (case (map_of d ''smpp_status'', map_of d ''extra'') of
             (Some v, Some (PDict extra)) \<Rightarrow>
               if is_zero v then
                 map_option (\<lambda>i. PStr (py_str (ge_tlv (sx_gw env)) i)) (map_of extra (PStr ''message_id''))
               else None
           | _ \<Rightarrow> None)
      | _ \<Rightarrow> None)"

text \<open>Whether looking for the message id does not raise: in a dictionary it is read, in a list or a text it may only be
  looked for in vain.\<close>

definition id_readable :: "pyval \<Rightarrow> bool" where
  "id_readable extra =
     (case extra of
        PDict _ \<Rightarrow> True
      | PList xs \<Rightarrow> PStr ''message_id'' \<notin> set xs
      | PStr t \<Rightarrow> \<not> list_ex (\<lambda>i. take 10 (drop i t) = ''message_id'') [0..<length t]
      | _ \<Rightarrow> False)"

definition smpps_routable :: "smpps_env \<Rightarrow> smpps_event \<Rightarrow> ('r gateway, routable \<times> pdu list) action" where
  "smpps_routable env x =
     (let name = ge_status_name (sx_gw env); run_error = mk_InterceptorRunError name
      in case x of
           Plain r rest \<Rightarrow> act_res (Inr (r, rest))
         | Script (Some (MtRoutable r rest)) \<Rightarrow>
             act_seq (gw_count [SInc ''interceptor_count'' 1]) (act_res (Inr (r, rest)))
         | Script (Some (MtDict d)) \<Rightarrow>
             act_bind (act_res (dget d ''smpp_status'')) (\<lambda>code.
             act_bind (act_res (py_lt (PInt 0) code)) (\<lambda>positive.
               if positive then
                 smpps_script_failed (InterceptorError ''SubmitSmInterceptionError'' (interceptor_status name code))
               else if is_zero code then
                 act_seq (gw_count [SInc ''interceptor_count'' 1])
                   (act_bind (act_res (dget d ''extra'')) (\<lambda>extra.
                      act_res (if id_readable extra
                               then Inl (InterceptorError ''SubmitSmInterceptionSuccess'' ''ESME_ROK'') else Inl TypeError)))
               else smpps_script_failed run_error))
         | Script _ \<Rightarrow> smpps_script_failed run_error)"

definition smpps_priority :: "smpps_env \<Rightarrow> pdu \<Rightarrow> pyval res" where
  "smpps_priority env p =
     res_bind (dget (p_params p) ''priority_flag'') (\<lambda>v.
       case v of PNone \<Rightarrow> Inr (PInt 0) | PEnum _ _ \<Rightarrow> Inr (PInt (sx_value env v)) | _ \<Rightarrow> Inl AttributeError)"

definition smpps_submit_args ::
  "smpps_env \<Rightarrow> string \<Rightarrow> user \<Rightarrow> connector \<Rightarrow> pdu list \<Rightarrow> bill option \<Rightarrow> pyval \<Rightarrow> submit_args" where
  "smpps_submit_args env system_id u c pdus bill priority =
     \<lparr>sa_uid = u_uid u, sa_cid = conn_cid c, sa_pdus = pdus, sa_bill = bill, sa_priority = priority, sa_validity = PNone,
      sa_dlr_url = PNone, sa_dlr_level = PInt 1, sa_dlr_method = PStr ''POST'', sa_dlr_connector = PNone,
      sa_source = SmppServer system_id (sx_dlr_expiry env)\<rparr>"

text \<open>From the route to the submission: the object that is the message id, and what the log line reads.\<close>

definition smpps_deliver ::
  "smpps_env \<Rightarrow> 'r redis_ops \<Rightarrow> string \<Rightarrow> routable \<Rightarrow> pdu list \<Rightarrow> ('r gateway, pyval) action" where
  "smpps_deliver env ops system_id r rest =
     (let gw = sx_gw env
      in act_bind (match_route gw r) (\<lambda>m.
         case m of
           None \<Rightarrow> act_res (Inl SubmitSmRouteNotFoundError)
         | Some (k, rt) \<Rightarrow>
         act_bind (route_connector gw (k, rt)) (\<lambda>c.
         case c of
           None \<Rightarrow> act_res (Inl SubmitSmRoutingError)
         | Some c \<Rightarrow>
         act_bind (act_res (case r_user r of None \<Rightarrow> Inl AttributeError | Some u \<Rightarrow> Inr u)) (\<lambda>u.
         act_bind (throttled gw ''smpps_throughput'' (\<lambda>x. qos_last_submit_sm_at (cx_smpps x))
                     (\<lambda>now x. x\<lparr>cx_smpps := (cx_smpps x)\<lparr>qos_last_submit_sm_at := now\<rparr>\<rparr>) u) (\<lambda>fast.
         if fast then act_res (Inl SubmitSmThroughputExceededError)
         else act_bind (charge_for gw Inr 1 rt u) (\<lambda>(charged, bill).
         if \<not> charged then act_res (Inl SubmitSmChargingError)
         else act_bind (act_res (smpps_priority env (r_pdu r))) (\<lambda>priority.
         act_bind (submit_message gw ops (smpps_submit_args env system_id u c (r_pdu r # rest) bill priority)) (\<lambda>x.
           act_res (case result_object x of None \<Rightarrow> Inl SubmitSmRoutingError | Some i \<Rightarrow> Inr i)))))))))"

definition smpps_log :: "smpps_env \<Rightarrow> pdu \<Rightarrow> unit res" where
  "smpps_log env p =
     (let privacy = ge_log_privacy (sx_gw env)
      in res_bind (dget (p_params p) ''short_message'') (\<lambda>v.
         res_bind (if privacy then res_bind (py_len v) (\<lambda>_. Inr ())
                   else case v of PBytes _ \<Rightarrow> Inr () | PStr _ \<Rightarrow> Inr () | _ \<Rightarrow> Inl TypeError) (\<lambda>_.
         res_bind (dget (p_params p) ''source_addr'') (\<lambda>_. res_bind (dget (p_params p) ''destination_addr'') (\<lambda>_.
         res_bind (format_tlvs_for_log (ge_tlv (sx_gw env)) (sx_mandatory env) privacy p) (\<lambda>_. Inr ()))))))"

text \<open>The status and the message id of the response.  A log line that cannot be built leaves the status unset.\<close>

definition submit_sm_post_interception ::
  "smpps_env \<Rightarrow> 'r redis_ops \<Rightarrow> string \<Rightarrow> smpps_event \<Rightarrow> 'r gateway \<Rightarrow> (string option \<times> pyval option) \<times> 'r gateway" where
  "submit_sm_post_interception env ops system_id x g =
     (case act_bind (smpps_routable env x) (\<lambda>(r, rest).
             act_bind (smpps_deliver env ops system_id r rest) (\<lambda>i. act_res (Inr (r, i)))) g of
        (Inl e, g') \<Rightarrow> ((Some (answer_status e), script_message_id env x), g')
      | (Inr (r, i), g') \<Rightarrow> ((case smpps_log env (r_pdu r) of Inl _ \<Rightarrow> None | Inr _ \<Rightarrow> Some ''ESME_ROK'', Some i), g'))"

subsection \<open>The event handler\<close>

definition smpps_intercept ::
  "smpps_env \<Rightarrow> 'r redis_ops \<Rightarrow> string \<Rightarrow> routable \<Rightarrow> pdu list \<Rightarrow> ('r gateway, string option \<times> pyval option) action" where
  "smpps_intercept env ops system_id r rest g =
     (let gw = sx_gw env;
          unavailable = (\<lambda>cls. InterceptorError cls (interceptor_status (ge_status_name gw) (PInt 8)));
          answer = (\<lambda>x g. apfst Inr (submit_sm_post_interception env ops system_id x g))
      in case getInterceptorFor (re_filter (ge_router gw)) r (ro_mt_icpts (gw_router g)) of
           Inl e \<Rightarrow> (Inl e, g)
         | Inr None \<Rightarrow> answer (Plain r rest) g
         | Inr (Some i) \<Rightarrow>
             (case ge_interceptor gw of
                None \<Rightarrow> smpps_script_failed (unavailable ''InterceptorNotSetError'') g
              | Some a \<Rightarrow>
                  if \<not> mi_connected a then smpps_script_failed (unavailable ''InterceptorNotConnectedError'') g
                  else answer (Script (mi_run a (ic_script i) r rest)) g))"

definition submit_sm_event_interceptor ::
  "smpps_env \<Rightarrow> 'r redis_ops \<Rightarrow> string \<Rightarrow> user \<Rightarrow> pdu \<Rightarrow> pdu list \<Rightarrow> ('r gateway, string option \<times> pyval option) action" where
  "submit_sm_event_interceptor env ops system_id u p rest =
     (if p_command p \<noteq> ''submit_sm'' then act_res (Inl SubmitSmInvalidArgsError)
      else act_seq
        (act_do (\<lambda>g. g\<lparr>gw_router := on_smpps (u_uid u)
           (\<lambda>c. c\<lparr>submit_sm_request_count := submit_sm_request_count c + 1\<rparr>) (gw_router g)\<rparr>))
        (act_bind (act_res (res_bind (dget (p_params p) ''destination_addr'') py_len)) (\<lambda>n.
         if n < 1 then act_res (Inl SubmitSmWithoutDestinationAddrError)
         else act_bind (act_res (smpps_validate env u p)) (\<lambda>_.
              act_bind (act_res (map_res (smpps_updatePDUWithUserDefaults u) (p # rest))) (\<lambda>ps.
                smpps_intercept env ops system_id
                  (RoutableSubmitSm (hd ps) u (ge_date (sx_gw env)) (ge_time (sx_gw env))) (tl ps))))))"

end
