(* ===== verification/Smpp_Server_Correct.thy ===== *)
theory Smpp_Server_Correct
  imports Smpp_Server Router_Correct
begin

text \<open>
  The binds of the SMPP server: a bind is granted to an authenticated user only, from an address that the whitelist admits,
  and the counters by which \<^verbatim>\<open>canOpenNewConnection\<close> decides are exactly the numbers of bound sessions, so that no user ever has
  more of them than \<^verbatim>\<open>max_bindings\<close>.

  The login portal and the vendor's bind manager are parameters.  Of the portal (\<^verbatim>\<open>twisted.cred\<close>) the code relies on the avatar
  being the one that the realm gives for the identifier the checker returned (\<open>portal_law\<close>), of the bind manager on
  its count being zero exactly when every session that was added has been removed (\<open>binds_law\<close>).
\<close>

definition portal_law :: "portal \<Rightarrow> bool" where
  "portal_law portal \<longleftrightarrow>
     (\<forall>check realm name pw u. portal check realm name pw = Inr (Some u) \<longrightarrow>
        (\<exists>a. check name pw = Inr a \<and> realm a = Some u))"

definition binds_law :: "'b vendor_binds \<Rightarrow> ('b \<Rightarrow> string set) \<Rightarrow> bool" where
  "binds_law vb ids \<longleftrightarrow>
     (\<forall>u. ids (vb_new vb u) = {}) \<and> (\<forall>i b. ids (vb_add vb i b) = insert i (ids b)) \<and>
     (\<forall>i b. ids (vb_remove vb i b) = ids b - {i}) \<and> (\<forall>b. vb_count vb b = 0 \<longleftrightarrow> ids b = {})"

definition bind_kinds :: "string list" where
  "bind_kinds = [''bind_transmitter'', ''bind_receiver'', ''bind_transceiver'']"

definition sessions_of :: "string \<Rightarrow> 'b server \<Rightarrow> session list" where
  "sessions_of uid srv = filter (\<lambda>s. map_option u_uid (ss_user s) = Some uid) (map snd (sr_sessions srv))"

definition sessions_by :: "string \<Rightarrow> string \<Rightarrow> 'b server \<Rightarrow> session list" where
  "sessions_by uid kind srv = filter (\<lambda>s. ss_bind_type s = Some kind) (sessions_of uid srv)"

abbreviation bind_counts :: "string \<Rightarrow> 'b server \<Rightarrow> (string, int) dict" where
  "bind_counts uid srv \<equiv> bound_connections_count (cx_smpps (cnx_of uid (sr_router srv)))"

section \<open>Steps of the server\<close>

text \<open>A session that asks for a bind is a new one or one that is bound.  The vendor's class removes a bound session when
  its connection is lost.\<close>

inductive server_step :: "bind_env \<Rightarrow> 'b vendor_binds \<Rightarrow> 'b server \<Rightarrow> 'b server \<Rightarrow> bool" for env vb where
  bind: "map_of (sr_sessions srv) (ss_id s) \<in> {None, Some s} \<Longrightarrow> kind \<in> set bind_kinds \<Longrightarrow> state \<noteq> ''OPEN'' \<Longrightarrow>
    doBindRequest (env\<lparr>be_now := now\<rparr>) vb s kind system_id password state srv = (x, srv') \<Longrightarrow> server_step env vb srv srv'"
| lost: "map_of (sr_sessions srv) sid = Some s \<Longrightarrow> removeConnection vb s srv = (x, srv1) \<Longrightarrow>
    sr_count (sv_lost_stats s) (srv1\<lparr>sr_sessions := ddel (sr_sessions srv1) sid\<rparr>) = (y, srv') \<Longrightarrow> server_step env vb srv srv'"
| sent: "server_sendPDU privacy t s p srv = (x, srv') \<Longrightarrow> server_step env vb srv srv'"
| elink: "onPDURequest_enquire_link t s srv = (x, srv') \<Longrightarrow> server_step env vb srv srv'"
| active: "note_activity now s srv = (x, srv') \<Longrightarrow> server_step env vb srv srv'"

definition server_start :: "'b server \<Rightarrow> bool" where
  "server_start srv \<longleftrightarrow> sr_sessions srv = [] \<and> sr_bound srv = [] \<and> ro_stats (sr_router srv) = []"

section \<open>The invariant\<close>

text \<open>A bound session belongs to the user of its system identifier and is known to the bind manager of that identifier; the
  bind manager belongs to the same user; the counters are the numbers of sessions, within the quota.\<close>

definition session_ok :: "('b \<Rightarrow> string set) \<Rightarrow> 'b server \<Rightarrow> string \<Rightarrow> session \<Rightarrow> bool" where
  "session_ok ids srv sid s \<longleftrightarrow> sid = ss_id s \<and> ss_state s \<noteq> ''OPEN'' \<and>
     (\<exists>u name kind bm. ss_user s = Some u \<and> ss_system_id s = Some name \<and> ss_bind_type s = Some kind \<and>
        kind \<in> set bind_kinds \<and> requestAvatar (sr_router srv) name = Some u \<and>
        map_of (sr_bound srv) name = Some bm \<and> sid \<in> ids (bm_binds bm))"

definition binds_ok :: "('b \<Rightarrow> string set) \<Rightarrow> 'b server \<Rightarrow> bool" where
  "binds_ok ids srv \<longleftrightarrow> distinct (map fst (sr_sessions srv)) \<and>
     (\<forall>sid s. map_of (sr_sessions srv) sid = Some s \<longrightarrow> session_ok ids srv sid s) \<and>
     (\<forall>name bm. map_of (sr_bound srv) name = Some bm \<longrightarrow> requestAvatar (sr_router srv) name = Some (bm_user bm)) \<and>
     (\<forall>uid. \<forall>kind \<in> set bind_kinds. map_of (bind_counts uid srv) kind = Some (int (length (sessions_by uid kind srv)))) \<and>
     (\<forall>u \<in> set (ro_users (sr_router srv)). \<forall>q. getQuota ''max_bindings'' (u_smpps u) = Inr (PInt q) \<longrightarrow>
        int (length (sessions_of (u_uid u) srv)) \<le> max 0 q)"

lemma binds_okD:
  assumes "binds_ok ids srv"
  shows "distinct (map fst (sr_sessions srv))"
    "map_of (sr_sessions srv) sid = Some s \<Longrightarrow> session_ok ids srv sid s"
    "map_of (sr_bound srv) name = Some bm \<Longrightarrow> requestAvatar (sr_router srv) name = Some (bm_user bm)"
    "kind \<in> set bind_kinds \<Longrightarrow> map_of (bind_counts uid srv) kind = Some (int (length (sessions_by uid kind srv)))"
  using assms unfolding binds_ok_def by blast+

text \<open>Changes that the invariant does not see.\<close>

definition same_binds :: "'b server \<Rightarrow> 'b server \<Rightarrow> bool" where
  "same_binds srv srv' \<longleftrightarrow> sr_sessions srv' = sr_sessions srv \<and> sr_bound srv' = sr_bound srv \<and>
     ro_users (sr_router srv') = ro_users (sr_router srv) \<and> (\<forall>uid. bind_counts uid srv' = bind_counts uid srv)"

lemma same_binds_rel: "reflp same_binds" "transp same_binds"
  by (auto simp: same_binds_def reflp_def transp_def)

lemma requestAvatar_cong: "ro_users ro' = ro_users ro \<Longrightarrow> requestAvatar ro' = requestAvatar ro"
  by (auto simp: requestAvatar_def)

lemma same_binds_ok: "same_binds srv srv' \<Longrightarrow> binds_ok ids srv \<Longrightarrow> binds_ok ids srv'"
  using requestAvatar_cong[of "sr_router srv'" "sr_router srv"]
  by (simp add: same_binds_def binds_ok_def session_ok_def sessions_by_def sessions_of_def)

lemma cnx_of_update_cnx: "cnx_of uid' (update_cnx uid f ro) = (if uid' = uid then f (cnx_of uid ro) else cnx_of uid' ro)"
  by (simp add: cnx_of_def update_cnx_def stats_get_def stats_set_def split: option.splits)

lemma update_cnx_users: "ro_users (update_cnx uid f ro) = ro_users ro"
  by (simp add: update_cnx_def split: prod.splits)

lemma same_binds_count: "act_inv same_binds (sr_count xs)"
  by (auto simp: act_inv_def sr_count_def same_binds_def split: prod.splits)

lemma same_binds_user:
  assumes "\<And>c. bound_connections_count (f c) = bound_connections_count c" shows "act_inv same_binds (for_user s f)"
  using assms by (auto simp: act_inv_def for_user_def act_do_def same_binds_def sr_on_smpps_def on_smpps_def
      cnx_of_update_cnx update_cnx_users split: option.split)

lemmas same_binds_intros = act_inv_bind[OF same_binds_rel(2)] act_inv_seq[OF same_binds_rel(2)]
  act_inv_res[OF same_binds_rel(1)] same_binds_count same_binds_user

lemma sendPDU_same: "act_inv same_binds (server_sendPDU privacy now s p)"
  unfolding server_sendPDU_def by (intro same_binds_intros) (simp add: user_sent_def)

lemma elink_same: "act_inv same_binds (onPDURequest_enquire_link now s)"
  unfolding onPDURequest_enquire_link_def by (intro same_binds_intros) simp

lemma activity_same: "act_inv same_binds (note_activity now s)"
  unfolding note_activity_def by (intro same_binds_intros) simp

section \<open>Granting a bind\<close>

lemma dset_fresh: "map_of d k = None \<Longrightarrow> dset d k v = d @ [(k, v)]"
  by (induction d) (auto split: if_splits)

text \<open>What a granted bind changes.\<close>

definition bound_as :: "'b vendor_binds \<Rightarrow> session \<Rightarrow> string \<Rightarrow> string \<Rightarrow> string \<Rightarrow> user \<Rightarrow> 'b server \<Rightarrow> 'b server \<Rightarrow> bool" where
  "bound_as vb s name kind state u srv srv' \<longleftrightarrow>
     sr_sessions srv' = sr_sessions srv @ [(ss_id s, bound_session name kind state u s)] \<and>
     (\<exists>bm. bm_user bm = u \<and> sr_bound srv' = dset (sr_bound srv) name (bm\<lparr>bm_binds := vb_add vb (ss_id s) (bm_binds bm)\<rparr>) \<and>
        (map_of (sr_bound srv) name = Some bm \<or> map_of (sr_bound srv) name = None)) \<and>
     ro_users (sr_router srv') = ro_users (sr_router srv) \<and>
     (\<forall>uid. \<forall>k \<in> set bind_kinds. map_of (bind_counts uid srv') k =
        map_option (\<lambda>n. if uid = u_uid u \<and> k = kind then n + 1 else n) (map_of (bind_counts uid srv) k))"

lemma addBoundConnection_effect:
  assumes "binds_ok ids srv" "requestAvatar (sr_router srv) name = Some u" "kind \<in> set bind_kinds"
    "map_of (sr_sessions srv) (ss_id s) = None"
    "addBoundConnection vb now s name kind u
       (srv\<lparr>sr_sessions := dset (sr_sessions srv) (ss_id s) (bound_session name kind state u s)\<rparr>) = (x, srv')"
  shows "x = Inr () \<and> bound_as vb s name kind state u srv srv'"
proof -
  define bm where "bm = (case map_of (sr_bound srv) name of Some b \<Rightarrow> b | None \<Rightarrow> \<lparr>bm_user = u, bm_binds = vb_new vb (u_username u)\<rparr>)"
  have bm: "bm_user bm = u" "map_of (sr_bound srv) name = Some bm \<or> map_of (sr_bound srv) name = None"
    using assms(1,2) by (auto simp: bm_def binds_ok_def split: option.splits)
  obtain n where n: "map_of (bind_counts (u_uid u) srv) kind = Some n" using assms(1,3) by (auto simp: binds_ok_def)
  show ?thesis
    using assms(5) n bm unfolding addBoundConnection_def bm_def[symmetric] bound_as_def
    by (auto simp: Let_def bm_def[symmetric] try_smpps_def added_binding_def bump_def sr_on_smpps_def on_smpps_def cnx_of_update_cnx
        update_cnx_users dset_fresh[OF assms(4)] option.map_ident)
qed

lemma bound_as_by:
  assumes "bound_as vb s name kind state u srv srv'"
  shows "sessions_of uid srv' = sessions_of uid srv @ (if uid = u_uid u then [bound_session name kind state u s] else [])"
    "sessions_by uid k srv' = sessions_by uid k srv @ (if uid = u_uid u \<and> k = kind then [bound_session name kind state u s] else [])"
  using assms by (auto simp: bound_as_def sessions_of_def sessions_by_def bound_session_def)

lemma bound_as_session_ok:
  assumes "bound_as vb s name kind state u srv srv'" "binds_law vb ids" "session_ok ids srv sid s1"
  shows "session_ok ids srv' sid s1"
proof -
  obtain bm where bm: "bm_user bm = u" "sr_bound srv' = dset (sr_bound srv) name (bm\<lparr>bm_binds := vb_add vb (ss_id s) (bm_binds bm)\<rparr>)"
    "map_of (sr_bound srv) name = Some bm \<or> map_of (sr_bound srv) name = None" and
    r: "ro_users (sr_router srv') = ro_users (sr_router srv)"
    using assms(1) by (auto simp: bound_as_def)
  have "\<exists>b'. map_of (sr_bound srv') n = Some b' \<and> sid \<in> ids (bm_binds b')"
    if "map_of (sr_bound srv) n = Some b" "sid \<in> ids (bm_binds b)" for n b
    using that bm assms(2) by (cases "n = name") (auto simp: binds_law_def)
  then show ?thesis using assms(3) unfolding session_ok_def requestAvatar_cong[OF r] by blast
qed

lemma sessions_by_kind:
  "\<forall>s \<in> set xs. \<exists>k \<in> set bind_kinds. ss_bind_type s = Some k \<Longrightarrow>
     length xs = (\<Sum>k \<leftarrow> bind_kinds. length (filter (\<lambda>s. ss_bind_type s = Some k) xs))"
proof (induction xs)
  case (Cons s xs)
  then have "ss_bind_type s = Some ''bind_transmitter'' \<or> ss_bind_type s = Some ''bind_receiver'' \<or>
    ss_bind_type s = Some ''bind_transceiver''" by (simp add: bind_kinds_def)
  with Cons show ?case by (elim disjE) (simp_all add: bind_kinds_def)
qed (simp add: bind_kinds_def)

lemma bind_total:
  assumes "binds_ok ids srv" shows "bound_total (bind_counts uid srv) = Inr (int (length (sessions_of uid srv)))"
proof -
  have "\<exists>k \<in> set bind_kinds. ss_bind_type s = Some k" if s: "s \<in> set (sessions_of uid srv)" for s
  proof -
    obtain sid where "(sid, s) \<in> set (sr_sessions srv)" using s by (auto simp: sessions_of_def)
    then have "map_of (sr_sessions srv) sid = Some s" using binds_okD(1)[OF assms] by simp
    then have "session_ok ids srv sid s" by (rule binds_okD(2)[OF assms])
    then show ?thesis unfolding session_ok_def by blast
  qed
  then have "length (sessions_of uid srv) = (\<Sum>k \<leftarrow> bind_kinds. length (sessions_by uid k srv))"
    unfolding sessions_by_def by (intro sessions_by_kind) blast
  then show ?thesis
    using assms by (simp add: binds_ok_def bound_total_def dget_def bind_kinds_def)
qed

lemma bound_as_ok:
  assumes ok: "binds_ok ids srv" and law: "binds_law vb ids" and b: "bound_as vb s name kind state u srv srv'"
    and u: "requestAvatar (sr_router srv) name = Some u" "canOpenNewConnection u (sr_router srv) = Inr True"
    and s: "map_of (sr_sessions srv) (ss_id s) = None" "kind \<in> set bind_kinds" "state \<noteq> ''OPEN''"
    and d: "distinct (map u_uid (ro_users (sr_router srv)))"
  shows "binds_ok ids srv'"
proof -
  have r: "ro_users (sr_router srv') = ro_users (sr_router srv)" using b by (simp add: bound_as_def)
  have new: "session_ok ids srv' (ss_id s) (bound_session name kind state u s)"
    using b u(1) s(2,3) law by (auto simp: session_ok_def bound_as_def bound_session_def requestAvatar_cong[OF r] binds_law_def)
  have "int (length (sessions_of (u_uid v) srv')) \<le> max 0 q"
    if v: "v \<in> set (ro_users (sr_router srv))" and q: "getQuota ''max_bindings'' (u_smpps v) = Inr (PInt q)" for v q
  proof (cases "u_uid v = u_uid u")
    case True
    moreover have "u \<in> set (ro_users (sr_router srv))" using u(1) by (auto simp: requestAvatar_def find_Some_iff)
    ultimately have "v = u" using v d by (metis distinct_map inj_onD)
    then have "int (length (sessions_of (u_uid u) srv)) < q"
      using u(2) q bind_total[OF ok, of "u_uid u"]
      by (auto simp: canOpenNewConnection_def py_lt_def is_number_def res_bind_def split: sum.splits if_splits)
    with \<open>v = u\<close> show ?thesis by (simp add: bound_as_by[OF b])
  next
    case False
    with ok v q show ?thesis by (auto simp: bound_as_by[OF b] binds_ok_def)
  qed
  moreover have "map_of (bind_counts uid srv') k = Some (int (length (sessions_by uid k srv')))" if "k \<in> set bind_kinds" for uid k
    using ok b that by (simp add: bound_as_by[OF b] binds_ok_def bound_as_def)
  moreover have "requestAvatar (sr_router srv') name' = Some (bm_user bm)" if "map_of (sr_bound srv') name' = Some bm" for name' bm
    using ok b u(1) that by (auto simp: requestAvatar_cong[OF r] bound_as_def binds_ok_def split: if_splits)
  moreover have "session_ok ids srv' sid s1" if "map_of (sr_sessions srv') sid = Some s1" for sid s1
    using that new bound_as_session_ok[OF b law] ok b
    by (auto simp: bound_as_def binds_ok_def map_add_Some_iff split: if_splits option.splits)
  moreover have "distinct (map fst (sr_sessions srv'))"
    using ok b s(1) by (auto simp: binds_ok_def bound_as_def map_of_eq_None_iff)
  ultimately show ?thesis unfolding binds_ok_def r by blast
qed

section \<open>Losing a session\<close>

lemma ddel_filter:
  assumes "distinct (map fst d)" "map_of d k = Some v"
  shows "int (length (filter P (map snd (ddel d k)))) = int (length (filter P (map snd d))) - (if P v then 1 else 0)"
  using assms
proof (induction d)
  case (Cons x d)
  show ?case
  proof (cases "fst x = k")
    case True
    then have "ddel d k = d" using Cons.prems by (simp add: AList.delete_id)
    with True Cons.prems show ?thesis by (cases x) simp
  next
    case False
    with Cons show ?thesis by (cases x) (auto split: if_splits)
  qed
qed simp

definition unbound_as :: "('b \<Rightarrow> string set) \<Rightarrow> string \<Rightarrow> string \<Rightarrow> string \<Rightarrow> user \<Rightarrow> 'b server \<Rightarrow> 'b server \<Rightarrow> bool" where
  "unbound_as ids sid name kind u srv srv' \<longleftrightarrow>
     (\<exists>bm bm'. map_of (sr_bound srv) name = Some bm \<and> bm_user bm' = u \<and> ids (bm_binds bm') = ids (bm_binds bm) - {sid} \<and>
        map_of (sr_bound srv') = (map_of (sr_bound srv))(name := if ids (bm_binds bm') = {} then None else Some bm')) \<and>
     sr_sessions srv' = sr_sessions srv \<and> ro_users (sr_router srv') = ro_users (sr_router srv) \<and>
     (\<forall>uid. \<forall>k \<in> set bind_kinds. map_of (bind_counts uid srv') k =
        map_option (\<lambda>n. if uid = u_uid u \<and> k = kind then n - 1 else n) (map_of (bind_counts uid srv) k))"

lemma removeConnection_effect:
  assumes "binds_ok ids srv" "binds_law vb ids" "map_of (sr_sessions srv) sid = Some s" "removeConnection vb s srv = (x, srv')"
  obtains u name kind where "ss_user s = Some u" "ss_system_id s = Some name" "ss_bind_type s = Some kind"
    "kind \<in> set bind_kinds" "x = Inr ()" "unbound_as ids sid name kind u srv srv'"
proof -
  obtain u name kind bm where s: "sid = ss_id s" "ss_user s = Some u" "ss_system_id s = Some name" "ss_bind_type s = Some kind"
    "kind \<in> set bind_kinds" "requestAvatar (sr_router srv) name = Some u" and bm: "map_of (sr_bound srv) name = Some bm"
    using binds_okD(2)[OF assms(1,3)] unfolding session_ok_def by blast
  have u: "bm_user bm = u" using binds_okD(3)[OF assms(1) bm] s(6) by simp
  obtain n where n: "map_of (bind_counts (u_uid u) srv) kind = Some n" using binds_okD(4)[OF assms(1) s(5)] by blast
  have c: "vb_count vb (vb_remove vb (ss_id s) (bm_binds bm)) = 0 \<longleftrightarrow> ids (bm_binds bm) - {sid} = {}"
    "ids (vb_remove vb (ss_id s) (bm_binds bm)) = ids (bm_binds bm) - {sid}"
    using assms(2) s(1) by (simp_all add: binds_law_def)
  let ?bm = "bm\<lparr>bm_binds := vb_remove vb (ss_id s) (bm_binds bm)\<rparr>"
  have e: "x = Inr ()" "sr_bound srv' = (if ids (bm_binds ?bm) = {} then ddel (dset (sr_bound srv) name ?bm) name else dset (sr_bound srv) name ?bm)"
    "sr_sessions srv' = sr_sessions srv" "ro_users (sr_router srv') = ro_users (sr_router srv)"
    "\<And>uid. bind_counts uid srv' = (if uid = u_uid u then dset (bind_counts uid srv) kind (n - 1) else bind_counts uid srv)"
  proof -
    obtain c' where c': "removed_binding (ss_id s) kind (cx_smpps (cnx_of (u_uid u) (sr_router srv))) = Inr c'"
      "bound_connections_count c' = dset (bind_counts (u_uid u) srv) kind (n - 1)"
      using n by (simp add: removed_binding_def bump_def)
    have "removeConnection vb s srv = (Inr (), srv\<lparr>sr_router := on_smpps (u_uid u) (\<lambda>_. c') (sr_router srv), sr_bound :=
        (if ids (bm_binds ?bm) = {} then ddel (dset (sr_bound srv) name ?bm) name else dset (sr_bound srv) name ?bm)\<rparr>)"
      using c unfolding removeConnection_def s(3,4) Let_def
      by (simp add: bm u c'(1) act_seq_def act_bind_def act_do_def try_smpps_def sr_on_smpps_def)
    then have r: "x = Inr ()" "srv' = srv\<lparr>sr_router := on_smpps (u_uid u) (\<lambda>_. c') (sr_router srv), sr_bound :=
        (if ids (bm_binds ?bm) = {} then ddel (dset (sr_bound srv) name ?bm) name else dset (sr_bound srv) name ?bm)\<rparr>"
      using assms(4) by simp_all
    show "x = Inr ()" by (rule r(1))
    show "sr_bound srv' = (if ids (bm_binds ?bm) = {} then ddel (dset (sr_bound srv) name ?bm) name else dset (sr_bound srv) name ?bm)"
      "sr_sessions srv' = sr_sessions srv" "ro_users (sr_router srv') = ro_users (sr_router srv)"
      "bind_counts uid srv' = (if uid = u_uid u then dset (bind_counts uid srv) kind (n - 1) else bind_counts uid srv)" for uid
      unfolding r(2) by (simp_all add: on_smpps_def update_cnx_users cnx_of_update_cnx c'(2))
  qed
  have b: "map_of (sr_bound srv') = (map_of (sr_bound srv))(name := if ids (bm_binds ?bm) = {} then None else Some ?bm)"
    using e(2) by (cases "ids (bm_binds ?bm) = {}") (simp_all add: fun_eq_iff)
  have "unbound_as ids sid name kind u srv srv'"
    unfolding unbound_as_def
  proof (intro conjI exI allI ballI)
    show "map_of (bind_counts uid srv') k = map_option (\<lambda>n. if uid = u_uid u \<and> k = kind then n - 1 else n) (map_of (bind_counts uid srv) k)"
      for uid k using n by (auto simp: e(5) option.map_ident)
    show "map_of (sr_bound srv) name = Some bm" "bm_user ?bm = u" "ids (bm_binds ?bm) = ids (bm_binds bm) - {sid}"
      using bm u c(2) by simp_all
  qed (rule b e)+
  with that s e(1) show thesis by blast
qed

lemma unbound_as_ok:
  assumes ok: "binds_ok ids srv" and s: "map_of (sr_sessions srv) sid = Some s"
    "ss_user s = Some u" "ss_system_id s = Some name" "ss_bind_type s = Some kind"
    and un: "unbound_as ids sid name kind u srv srv'"
  shows "binds_ok ids (srv'\<lparr>sr_sessions := ddel (sr_sessions srv') sid\<rparr>)" (is "binds_ok ids ?srv")
proof -
  have f: "sr_sessions srv' = sr_sessions srv" and r: "ro_users (sr_router srv') = ro_users (sr_router srv)"
    using un by (simp_all add: unbound_as_def)
  obtain bm bm' where bm: "map_of (sr_bound srv) name = Some bm" "bm_user bm' = u" "ids (bm_binds bm') = ids (bm_binds bm) - {sid}"
    "map_of (sr_bound srv') = (map_of (sr_bound srv))(name := if ids (bm_binds bm') = {} then None else Some bm')"
    using un by (auto simp: unbound_as_def)
  have u: "requestAvatar (sr_router srv) name = Some u" using binds_okD(2)[OF ok s(1)] s(2,3) by (auto simp: session_ok_def)
  have of: "int (length (sessions_of uid ?srv)) = int (length (sessions_of uid srv)) - (if uid = u_uid u then 1 else 0)" for uid
    using ddel_filter[OF binds_okD(1)[OF ok] s(1)] s(2) by (simp add: sessions_of_def f)
  have "by": "int (length (sessions_by uid k ?srv)) = int (length (sessions_by uid k srv)) - (if uid = u_uid u \<and> k = kind then 1 else 0)" for uid k
    using ddel_filter[OF binds_okD(1)[OF ok] s(1), of "\<lambda>s. map_option u_uid (ss_user s) = Some uid \<and> ss_bind_type s = Some k"] s(2,4)
    by (auto simp: sessions_by_def sessions_of_def f conj_commute)
  have "int (length (sessions_of (u_uid v) ?srv)) \<le> max 0 q"
    if "v \<in> set (ro_users (sr_router srv))" "getQuota ''max_bindings'' (u_smpps v) = Inr (PInt q)" for v q
    using ok that of[of "u_uid v"] unfolding binds_ok_def by fastforce
  moreover have "map_of (bind_counts uid ?srv) k = Some (int (length (sessions_by uid k ?srv)))" if "k \<in> set bind_kinds" for uid k
  proof -
    have "map_of (bind_counts uid srv') k = map_option (\<lambda>n. if uid = u_uid u \<and> k = kind then n - 1 else n) (map_of (bind_counts uid srv) k)"
      using un that unfolding unbound_as_def by blast
    with binds_okD(4)[OF ok that, of uid] show ?thesis by (simp add: "by")
  qed
  moreover have "requestAvatar (sr_router srv) name' = Some (bm_user b)" if "map_of (sr_bound srv') name' = Some b" for name' b
    using that bm binds_okD(3)[OF ok, of name' b] u by (auto split: if_splits)
  moreover have "session_ok ids ?srv sid' s'" if "map_of (ddel (sr_sessions srv) sid) sid' = Some s'" for sid' s'
  proof -
    have "sid' \<noteq> sid" "session_ok ids srv sid' s'" using that binds_okD(2)[OF ok, of sid' s'] by (auto split: if_splits)
    moreover have "\<exists>b'. map_of (sr_bound srv') n = Some b' \<and> sid' \<in> ids (bm_binds b')"
      if "map_of (sr_bound srv) n = Some b" "sid' \<in> ids (bm_binds b)" for n b
      using that bm \<open>sid' \<noteq> sid\<close> by (cases "n = name") auto
    ultimately show ?thesis unfolding session_ok_def by (simp add: requestAvatar_cong[OF r]) blast
  qed
  ultimately show ?thesis
    unfolding binds_ok_def using binds_okD(1)[OF ok] by (simp add: f r requestAvatar_cong[OF r] distinct_delete)
qed

section \<open>Bind requests\<close>

text \<open>A bind request is refused and changes nothing but statistics, or it is granted to the user that the portal returned.\<close>

lemma doBindRequest_cases:
  assumes "doBindRequest env vb s kind sys pw state srv = (x, srv')"
  obtains (refused) "same_binds srv srv'" "x \<noteq> Inr ''ESME_ROK''"
  | (granted) name password u srv1 y srv2 where "be_decode env sys = Inr name" "be_decode env pw = Inr password"
      "same_binds srv srv1" "sr_router srv1 = sr_router srv"
      "login env (sr_router srv) name password = Inr (Some u)" "\<not> ip_denied (ss_peer s) u" "ss_state s = ''OPEN''"
      "canOpenNewConnection u (sr_router srv) = Inr True"
      "addBoundConnection vb (be_now env) s name kind u
         (srv1\<lparr>sr_sessions := dset (sr_sessions srv1) (ss_id s) (bound_session name kind state u s)\<rparr>) = (y, srv2)"
      "y = Inr () \<Longrightarrow> same_binds srv2 srv'" "\<And>e. y = Inl e \<Longrightarrow> srv' = srv2 \<and> x = Inl e"
proof -
  obtain y srv1 where c: "sr_count (bind_count_of ''bind'' (Some kind) 1) srv = (y, srv1)" by fastforce
  then have s1: "same_binds srv srv1" "sr_router srv1 = sr_router srv"
    using same_binds_count[of "bind_count_of ''bind'' (Some kind) 1"] by (auto simp: act_inv_def sr_count_def split: prod.splits dest: spec[of _ srv])
  show thesis
  proof (cases "\<exists>name password u. y = Inr () \<and> be_decode env sys = Inr name \<and> be_decode env pw = Inr password \<and>
      login env (sr_router srv) name password = Inr (Some u) \<and> \<not> ip_denied (ss_peer s) u \<and> ss_state s = ''OPEN'' \<and>
      canOpenNewConnection u (sr_router srv) = Inr True")
    case True
    then obtain name password u where g: "y = Inr ()" "be_decode env sys = Inr name" "be_decode env pw = Inr password"
      "login env (sr_router srv) name password = Inr (Some u)" "\<not> ip_denied (ss_peer s) u" "ss_state s = ''OPEN''"
      "canOpenNewConnection u (sr_router srv) = Inr True" by blast
    obtain z srv2 where z: "addBoundConnection vb (be_now env) s name kind u
        (srv1\<lparr>sr_sessions := dset (sr_sessions srv1) (ss_id s) (bound_session name kind state u s)\<rparr>) = (z, srv2)" by fastforce
    have r: "(x, srv') = (case z of Inl e \<Rightarrow> (Inl e, srv2) | Inr _ \<Rightarrow>
        act_seq (sr_count (bind_count_of ''bound'' (Some kind) 1)) (act_res (Inr ''ESME_ROK'')) srv2)"
      using assms c g z s1(2) by (simp add: doBindRequest_def act_seq_def act_bind_def act_res_def act_do_def split: sum.splits)
    have "same_binds srv2 (snd (act_seq (sr_count (bind_count_of ''bound'' (Some kind) 1)) (act_res (Inr ''ESME_ROK'')) srv2))"
      using act_inv_seq[OF same_binds_rel(2) same_binds_count act_inv_res[OF same_binds_rel(1)]] unfolding act_inv_def by blast
    then show thesis
      using r by (intro granted[OF g(2,3) s1 g(4-7) z]) (auto split: sum.splits, metis snd_conv)
  next
    case False
    then have "srv' = srv1 \<and> x \<noteq> Inr ''ESME_ROK''"
      using assms c s1(2) by (cases y) (auto simp: doBindRequest_def act_seq_def act_bind_def act_res_def act_do_def split: sum.splits option.splits bool.splits if_splits)
    with s1 show thesis by (intro refused) simp_all
  qed
qed

lemma login_avatar:
  assumes "portal_law (be_portal env)" "login env ro name password = Inr (Some u)"
  shows "requestAvatar ro name = Some u" "\<exists>v. authenticateUser (be_router env) name password ro = Inr (Some v)"
proof -
  obtain a where "requestAvatarId (be_router env) ro name password = Inr a" "requestAvatar ro a = Some u"
    using assms unfolding portal_law_def login_def by blast
  then show "requestAvatar ro name = Some u" "\<exists>v. authenticateUser (be_router env) name password ro = Inr (Some v)"
    by (auto simp: requestAvatarId_def res_bind_def split: sum.splits option.splits)
qed

lemma granted_bind:
  assumes ok: "binds_ok ids srv" and law: "portal_law (be_portal env)"
    and s: "map_of (sr_sessions srv) (ss_id s) \<in> {None, Some s}" "kind \<in> set bind_kinds"
    and d: "doBindRequest env vb s kind sys pw state srv = (x, srv')"
  obtains "same_binds srv srv'" "x \<noteq> Inr ''ESME_ROK''"
  | name u srv1 srv2 where "same_binds srv srv1" "sr_router srv1 = sr_router srv" "bound_as vb s name kind state u srv1 srv2" "same_binds srv2 srv'"
      "requestAvatar (sr_router srv) name = Some u" "canOpenNewConnection u (sr_router srv) = Inr True" "map_of (sr_sessions srv) (ss_id s) = None"
  using d
proof (cases rule: doBindRequest_cases)
  case refused
  then show thesis using that(1) by blast
next
  case (granted name password u srv1 y srv2)
  have n: "map_of (sr_sessions srv) (ss_id s) = None"
    using s(1) granted(7) binds_okD(2)[OF ok, of "ss_id s" s] by (auto simp: session_ok_def)
  have u: "requestAvatar (sr_router srv) name = Some u" by (rule login_avatar(1)[OF law granted(5)])
  have "map_of (sr_sessions srv1) (ss_id s) = None" using n granted(3) by (simp add: same_binds_def)
  then have "y = Inr () \<and> bound_as vb s name kind state u srv1 srv2"
    using addBoundConnection_effect[OF same_binds_ok[OF granted(3) ok] _ s(2) _ granted(9)] u granted(4) by simp
  then show thesis using that(2)[OF granted(3,4) _ _ u granted(8) n] granted(10) by blast
qed

lemma same_step: "same_binds srv srv' \<Longrightarrow> binds_ok ids srv \<Longrightarrow> binds_ok ids srv' \<and> ro_users (sr_router srv') = ro_users (sr_router srv)"
  using same_binds_ok by (auto simp: same_binds_def)

lemma server_step_ok:
  assumes "server_step env vb srv srv'" "binds_ok ids srv" "binds_law vb ids" "portal_law (be_portal env)"
    "distinct (map u_uid (ro_users (sr_router srv)))"
  shows "binds_ok ids srv' \<and> ro_users (sr_router srv') = ro_users (sr_router srv)"
  using assms(1)
proof cases
  case (bind s kind state now system_id password x)
  have law: "portal_law (be_portal (env\<lparr>be_now := now\<rparr>))" using assms(4) by simp
  show ?thesis
  proof (cases rule: granted_bind[OF assms(2) law bind(1,2,4)])
    case 1
    then show ?thesis using same_step assms(2) by blast
  next
    case (2 name u srv1 srv2)
    have "binds_ok ids srv2"
      using bound_as_ok[OF same_binds_ok[OF 2(1) assms(2)] assms(3) 2(3)] 2 bind(2,3) assms(5) by (simp add: same_binds_def)
    then have "binds_ok ids srv'" by (rule same_binds_ok[OF 2(4)])
    moreover have "ro_users (sr_router srv') = ro_users (sr_router srv)" using 2(1,3,4) by (simp add: same_binds_def bound_as_def)
    ultimately show ?thesis ..
  qed
next
  case (lost sid s x srv1 y)
  obtain u name kind where u: "ss_user s = Some u" "ss_system_id s = Some name" "ss_bind_type s = Some kind"
    "unbound_as ids sid name kind u srv srv1"
    by (rule removeConnection_effect[OF assms(2,3) lost(1,2)])
  have "binds_ok ids (srv1\<lparr>sr_sessions := ddel (sr_sessions srv1) sid\<rparr>)" by (rule unbound_as_ok[OF assms(2) lost(1) u])
  moreover have "same_binds (srv1\<lparr>sr_sessions := ddel (sr_sessions srv1) sid\<rparr>) srv'"
    using same_binds_count lost(3) unfolding act_inv_def by (metis snd_conv)
  ultimately have "binds_ok ids srv'" "ro_users (sr_router srv') = ro_users (sr_router srv1)"
    using same_binds_ok by (blast, simp add: same_binds_def)
  then show ?thesis using u(4) by (simp add: unbound_as_def)
next
  case (sent privacy t s p x)
  then have "same_binds srv srv'" using sendPDU_same unfolding act_inv_def by (metis snd_conv)
  then show ?thesis using same_step assms(2) by blast
next
  case (elink t s x)
  then have "same_binds srv srv'" using elink_same unfolding act_inv_def by (metis snd_conv)
  then show ?thesis using same_step assms(2) by blast
next
  case (active now s x)
  then have "same_binds srv srv'" using activity_same unfolding act_inv_def by (metis snd_conv)
  then show ?thesis using same_step assms(2) by blast
qed

lemma server_start_ok: "server_start srv \<Longrightarrow> binds_ok ids srv"
  by (auto simp: server_start_def binds_ok_def sessions_by_def sessions_of_def bind_kinds_def cnx_of_def stats_get_def CnxStatus_def)

section \<open>Properties\<close>



section \<open>Samples\<close>

definition sample_bound_user :: user where
  "sample_bound_user = (sample_user (PFloat 10) PNone (PInt 1))
     \<lparr>u_smpps := (case smpps_setQuota ''max_bindings'' (PInt 1) (SmppsCredential (PBool True)) of Inr c \<Rightarrow> c | Inl e \<Rightarrow> SmppsCredential (PBool True))\<rparr>"

definition sample_server :: "string list server" where
  "sample_server = \<lparr>sr_router = sample_router\<lparr>ro_users := [sample_bound_user]\<rparr>, sr_bound = [], sr_sessions = [], sr_stats = ServerConnectorStatistics\<rparr>"

definition sample_binds :: "string list vendor_binds" where
  "sample_binds = \<lparr>vb_new = (\<lambda>_. []), vb_add = (\<lambda>i b. i # b), vb_remove = (\<lambda>i b. filter (\<lambda>j. j \<noteq> i) b), vb_count = length\<rparr>"

lemma sample_router_stats: "ro_stats sample_router = []"
  by code_simp

definition sample_bind_env :: bind_env where
  "sample_bind_env = \<lparr>be_router = sample_router_env, be_portal = (\<lambda>check realm name pw. res_bind (check name pw) (\<lambda>a. Inr (realm a))),
     be_decode = Inr, be_now = 0\<rparr>"

lemma sample_laws: "binds_law sample_binds set" "portal_law (be_portal sample_bind_env)"
  by (auto simp: binds_law_def sample_binds_def portal_law_def sample_bind_env_def res_bind_def split: sum.splits)

definition sample_bind :: "string \<Rightarrow> string list server \<Rightarrow> string res \<times> string list server" where
  "sample_bind sid = doBindRequest sample_bind_env sample_binds (SMPPServerProtocol sid ''10.0.0.1'') ''bind_transceiver'' ''u1'' ''pw'' ''BOUND_TRX''"



end
