(* ===== verification/Http_Api.thy ===== *)
theory Http_Api
  imports Mt_Submission
begin

text \<open>
  The HTTP API (\<^verbatim>\<open>jasmin/protocols/http\<close>): the validation of the arguments and of the credentials of the user, and the
  endpoints \<^verbatim>\<open>/send\<close>, \<^verbatim>\<open>/rate\<close>, \<^verbatim>\<open>/balance\<close> and \<^verbatim>\<open>/ping\<close>.

  Of each argument only its first value is read, so the arguments are a dictionary of values.  The decoded JSON body of a
  request is given with it.  Parameters are the GSM 03.38 codec, the parser of SMPP times, the table of priorities and what
  the constructor of a PDU keeps of the TLVs it is given, all from vendor packages.  Instants are microseconds.  The text of
  an error answer is not modelled; an exception \<^const>\<open>HttpApiError\<close> carries its code and the name of its class.
\<close>

section \<open>Requests and answers\<close>

type_synonym http_args = "(string, pyval) dict"

record http_env =
  hx_gw :: gateway_env
  hx_gsm :: "string \<Rightarrow> string"
  hx_parse_time :: "pyval \<Rightarrow> pyval res"
  hx_priority :: "int \<Rightarrow> pyval option"
  hx_tlvs :: "pyval list list \<Rightarrow> custom_tlv list option"
  hx_mandatory :: "string list"

text \<open>\<open>NoAnswer\<close>: building the answer failed, and nothing is written.\<close>

datatype http_answer = Answer int pyval | NoAnswer

definition api_error :: "pyexc \<Rightarrow> http_answer" where
  "api_error e = Answer (case e of HttpApiError code _ \<Rightarrow> code | _ \<Rightarrow> 500) PNone"

abbreviation UrlArgsValidationError :: pyexc where
  "UrlArgsValidationError \<equiv> HttpApiError 400 ''UrlArgsValidationError''"

abbreviation HttpCredentialError :: pyexc where
  "HttpCredentialError \<equiv> HttpApiError 400 ''CredentialValidationError''"

section \<open>Arguments\<close>

text \<open>A field: whether it is optional, and its pattern.\<close>

type_synonym field = "bool \<times> (string \<Rightarrow> bool) option"

definition digits1 :: "string \<Rightarrow> bool" where
  "digits1 s \<longleftrightarrow> s \<noteq> [] \<and> list_all is_digit s"

definition pat_to :: "string \<Rightarrow> bool" where
  "pat_to = dollar (\<lambda>s. digits1 s \<or> (s \<noteq> [] \<and> hd s = CHR ''+'' \<and> digits1 (tl s)))"

definition pat_coding :: "string \<Rightarrow> bool" where
  "pat_coding = dollar (\<lambda>s. s \<in> set [''0'', ''1'', ''2'', ''3'', ''4'', ''5'', ''6'', ''7'', ''8'', ''9'', ''10'', ''13'', ''14''])"

definition pat_16 :: "string \<Rightarrow> bool" where
  "pat_16 = dollar (\<lambda>s. 1 \<le> length s \<and> length s \<le> 16 \<and> CHR 0x0A \<notin> set s)"

definition pat_priority :: "string \<Rightarrow> bool" where
  "pat_priority = dollar (\<lambda>s. s \<in> set [''0'', ''1'', ''2'', ''3''])"

definition pat_sdt :: "string \<Rightarrow> bool" where
  "pat_sdt = dollar (\<lambda>s. length s = 16 \<and> list_all is_digit (butlast s) \<and> last s \<in> set ''+-R'')"

definition pat_validity :: "string \<Rightarrow> bool" where
  "pat_validity = dollar digits1"

definition pat_dlr :: "string \<Rightarrow> bool" where
  "pat_dlr = dollar (\<lambda>s. s = ''yes'' \<or> s = ''no'')"

definition pat_url :: "string \<Rightarrow> bool" where
  "pat_url = dollar (\<lambda>s. (startswith s ''http://'' \<or> startswith s ''https://'') \<and> CHR 0x0A \<notin> set s)"

definition pat_level :: "string \<Rightarrow> bool" where
  "pat_level = dollar (\<lambda>s. s \<in> set [''1'', ''2'', ''3''])"

definition pat_method :: "string \<Rightarrow> bool" where
  "pat_method = dollar (\<lambda>s. lower s = ''get'' \<or> lower s = ''post'')"

definition pat_tags :: "string \<Rightarrow> bool" where
  "pat_tags = dollar (list_all (\<lambda>c. is_alnum c \<or> c = CHR ''-'' \<or> c = CHR '',''))"

definition send_fields :: "(string, field) dict" where
  "send_fields =
     [(''to'', (False, Some pat_to)), (''from'', (True, None)), (''coding'', (True, Some pat_coding)),
      (''username'', (False, Some pat_16)), (''password'', (False, Some pat_16)), (''priority'', (True, Some pat_priority)),
      (''sdt'', (True, Some pat_sdt)), (''validity-period'', (True, Some pat_validity)), (''dlr'', (False, Some pat_dlr)),
      (''dlr-url'', (True, Some pat_url)), (''dlr-level'', (True, Some pat_level)), (''dlr-method'', (True, Some pat_method)),
      (''tags'', (True, Some pat_tags)), (''content'', (True, None)), (''hex-content'', (True, None)),
      (''custom_tlvs'', (True, None))]"

definition rate_fields :: "(string, field) dict" where
  "rate_fields =
     [(''to'', (False, Some pat_to)), (''from'', (True, None)), (''coding'', (True, Some pat_coding)),
      (''username'', (False, Some pat_16)), (''password'', (False, Some pat_16)), (''priority'', (True, Some pat_priority)),
      (''validity-period'', (True, Some pat_validity)), (''tags'', (True, Some pat_tags)), (''content'', (True, None)),
      (''hex-content'', (True, None))]"

definition balance_fields :: "(string, field) dict" where
  "balance_fields = [(''username'', (False, Some pat_16)), (''password'', (False, Some pat_16))]"

definition check_field :: "tlv_env \<Rightarrow> http_args \<Rightarrow> string \<times> field \<Rightarrow> unit res" where
  "check_field env args f =
     (case f of (name, opt, pat) \<Rightarrow>
        case map_of args name of
          None \<Rightarrow> raise_if (\<not> opt) UrlArgsValidationError (Inr ())
        | Some v \<Rightarrow>
            let check = (\<lambda>b. raise_if (case pat of Some p \<Rightarrow> \<not> p b | None \<Rightarrow> False) UrlArgsValidationError (Inr ()))
            in case v of
                 PDict _ \<Rightarrow> Inr ()
               | PList _ \<Rightarrow> Inr ()
               | PBytes b \<Rightarrow> check b
               | PStr s \<Rightarrow> check (utf8_encode s)
               | _ \<Rightarrow> if is_number v then check (py_str env v) else raise_if (\<not> Option.is_none pat) TypeError (Inr ()))"

definition url_args_validate :: "tlv_env \<Rightarrow> (string, field) dict \<Rightarrow> http_args \<Rightarrow> unit res" where
  "url_args_validate env fs args =
     raise_if (args = []) UrlArgsValidationError
      (for_check (\<lambda>(name, _). raise_if (\<not> has_key fs name) UrlArgsValidationError
                                (for_check (check_field env args) fs)) args)"

section \<open>Credentials\<close>

text \<open>The authorization that the presence of an argument asks for.\<close>

definition send_authorizations :: "(string \<times> string) list" where
  "send_authorizations =
     [(''dlr-level'', ''set_dlr_level''), (''dlr-method'', ''http_set_dlr_method''), (''from'', ''set_source_address''),
      (''priority'', ''set_priority''), (''validity-period'', ''set_validity_period''), (''hex-content'', ''set_hex_content''),
      (''sdt'', ''set_schedule_delivery_time'')]"

definition need :: "bool \<Rightarrow> string \<Rightarrow> user \<Rightarrow> unit res" where
  "need asked key u =
     (if \<not> asked then Inr () else res_bind (authorized key u) (\<lambda>ok. raise_if (\<not> ok) HttpCredentialError (Inr ())))"

definition http_checkSendAuthorizations :: "user \<Rightarrow> http_args \<Rightarrow> pdu list \<Rightarrow> unit res" where
  "http_checkSendAuthorizations u args ps =
     res_bind (need True ''http_send'' u) (\<lambda>_.
     res_bind (need (length ps > 1) ''http_long_content'' u) (\<lambda>_.
       for_check (\<lambda>(arg, key). need (has_key args arg) key u) send_authorizations))"

definition http_checkSendFilters :: "gateway_env \<Rightarrow> user \<Rightarrow> http_args \<Rightarrow> unit res" where
  "http_checkSendFilters env u args =
     (let check = (\<lambda>key all. value_filter env key all HttpCredentialError u);
          given = (\<lambda>arg f. case map_of args arg of None \<Rightarrow> Inr () | Some v \<Rightarrow> f v)
      in res_bind (res_bind (dget args ''to'') (check ''destination_address'' ''.*'')) (\<lambda>_.
         res_bind (given ''from'' (check ''source_address'' ''.*'')) (\<lambda>_.
         res_bind (given ''priority'' (check ''priority'' ''^[0-3]$'')) (\<lambda>_.
         res_bind (given ''validity-period'' (\<lambda>v.
             if is_int v then res_bind (getValueFilter ''validity_period'' (u_mt u)) (\<lambda>_. Inr ())
             else check ''validity_period'' ''.*'' v)) (\<lambda>_.
           given ''content'' (check ''content'' ''.*''))))))"

definition http_updatePDUWithUserDefaults :: "user \<Rightarrow> pdu \<Rightarrow> pdu res" where
  "http_updatePDUWithUserDefaults u p =
     res_bind (getDefaultValue ''source_address'' (u_mt u)) (\<lambda>d.
       if d = PNone then Inr p
       else res_bind (dget (p_params p) ''source_addr'') (\<lambda>v.
              Inr (if v = PNone then p\<lparr>p_params := dset (p_params p) ''source_addr'' d\<rparr> else p)))"

definition http_validate :: "gateway_env \<Rightarrow> string \<Rightarrow> user \<Rightarrow> http_args \<Rightarrow> pdu list \<Rightarrow> unit res" where
  "http_validate env act u args ps =
     (if act = ''Send'' then
        res_bind (http_checkSendAuthorizations u args ps) (\<lambda>_. http_checkSendFilters env u args)
      else if act = ''Rate'' then need True ''http_rate'' u
      else if act = ''Balance'' then need True ''http_balance'' u
      else Inl HttpCredentialError)"

text \<open>A user name that is not a text is nobody's; a password that is not a text cannot be encoded.\<close>

definition decoded :: "op_env \<Rightarrow> pyval \<Rightarrow> pyval res" where
  "decoded env v = (case v of PBytes b \<Rightarrow> res_bind (oe_decode env b) (\<lambda>s. Inr (PStr s)) | _ \<Rightarrow> Inr v)"

definition find_login :: "router_env \<Rightarrow> router \<Rightarrow> pyval \<Rightarrow> pyval \<Rightarrow> user option res" where
  "find_login env ro username password =
     (case username of
        PStr n \<Rightarrow>
          (case password of
             PStr p \<Rightarrow> authenticateUser env n p ro
           | _ \<Rightarrow> if list_ex (\<lambda>u. u_username u = Some n) (ro_users ro) then Inl AttributeError else Inr None)
      | _ \<Rightarrow> Inr None)"

definition authenticate_user :: "gateway_env \<Rightarrow> http_args \<Rightarrow> ('r gateway, user) action" where
  "authenticate_user env args =
     act_bind (act_res (res_bind (dget args ''username'') (decoded (ge_op env)))) (\<lambda>username.
     act_bind (act_res (res_bind (dget args ''password'') (decoded (ge_op env)))) (\<lambda>password.
     act_bind (on_router (\<lambda>ro. (find_login (ge_router env) ro username password, ro))) (\<lambda>x.
       case x of
         Some u \<Rightarrow> act_res (Inr u)
       | None \<Rightarrow> act_seq (gw_count [SInc ''auth_error_count'' 1]) (act_res (Inl (HttpApiError 403 ''AuthenticationError''))))))"

definition on_httpapi :: "string \<Rightarrow> (httpapi_status \<Rightarrow> httpapi_status) \<Rightarrow> ('r gateway, unit) action" where
  "on_httpapi uid f =
     act_do (\<lambda>g. g\<lparr>gw_router := update_cnx uid (\<lambda>c. c\<lparr>cx_httpapi := f (cx_httpapi c)\<rparr>) (gw_router g)\<rparr>)"

definition http_seen :: "int \<Rightarrow> httpapi_status \<Rightarrow> httpapi_status" where
  "http_seen now c = c\<lparr>ha_connects_count := ha_connects_count c + 1, ha_last_activity_at := now\<rparr>"

section \<open>Content\<close>

fun unhexlify :: "string \<Rightarrow> string option" where
  "unhexlify [] = Some []"
| "unhexlify [c] = None"
| "unhexlify (c # d # cs) =
     (case (digit_val c, digit_val d, unhexlify cs) of
        (Some a, Some b, Some r) \<Rightarrow> if a < 16 \<and> b < 16 then Some (char_of (16 * a + b) # r) else None
      | _ \<Rightarrow> None)"

definition hex2bin :: "pyval \<Rightarrow> pyval res" where
  "hex2bin v =
     (case (case v of PBytes b \<Rightarrow> unhexlify b | PStr s \<Rightarrow> unhexlify s | _ \<Rightarrow> None) of
        Some b \<Rightarrow> Inr (PBytes b) | None \<Rightarrow> Inl UrlArgsValidationError)"

text \<open>The content of the message, and the arguments with the content converted.  \<open>default_coding\<close> is what the endpoint
  compares the coding with.\<close>

definition short_message :: "http_env \<Rightarrow> pyval \<Rightarrow> http_args \<Rightarrow> (pyval \<times> http_args) res" where
  "short_message env default_coding args =
     (case map_of args ''hex-content'' of
        Some v \<Rightarrow> res_bind (hex2bin v) (\<lambda>b. Inr (b, args))
      | None \<Rightarrow>
          res_bind (dget args ''coding'') (\<lambda>coding. res_bind (dget args ''content'') (\<lambda>v.
            if coding = default_coding then
              res_bind (decoded (ge_op (hx_gw env)) v) (\<lambda>t.
                case t of
                  PStr s \<Rightarrow> (let b = PBytes (hx_gsm env s) in Inr (b, dset args ''content'' b))
                | _ \<Rightarrow> Inl AttributeError)
            else Inr (v, args))))"

definition optional_arg :: "http_args \<Rightarrow> string \<Rightarrow> pyval" where
  "optional_arg args k = (case map_of args k of Some v \<Rightarrow> v | None \<Rightarrow> PNone)"

text \<open>The TLVs of the request; the fuel is the length of their text, which every level of nesting shortens.\<close>

definition request_tlvs :: "tlv_env \<Rightarrow> pyval \<Rightarrow> pyval list list res" where
  "request_tlvs env v =
     (case normalize_custom_tlvs env (length (raw_text env v) + 2) v of Some r \<Rightarrow> r | None \<Rightarrow> Inl OverflowError)"

definition send_pdus :: "http_env \<Rightarrow> op_factory \<Rightarrow> pyval \<Rightarrow> http_args \<Rightarrow> pdu list res \<times> op_factory" where
  "send_pdus env f content args =
     (case res_bind (dget args ''to'') (\<lambda>dest.
           res_bind (res_bind (dget args ''coding'') int_val) (\<lambda>dc.
           res_bind (res_bind (dget args ''custom_tlvs'') (request_tlvs (ge_tlv (hx_gw env)))) (\<lambda>ts.
             Inr (dest, dc, ts)))) of
        Inl e \<Rightarrow> (Inl e, f)
      | Inr (dest, dc, ts) \<Rightarrow>
          apfst (map_sum id (map (\<lambda>p. p\<lparr>p_custom_tlvs := hx_tlvs env ts\<rparr>)))
            (SubmitSM (ge_op (hx_gw env)) f content (PInt dc)
              [(''source_addr'', optional_arg args ''from''), (''destination_addr'', dest)]))"

definition rate_pdus :: "http_env \<Rightarrow> op_factory \<Rightarrow> pyval \<Rightarrow> http_args \<Rightarrow> pdu list res \<times> op_factory" where
  "rate_pdus env f content args =
     (case res_bind (dget args ''to'') (\<lambda>dest. res_bind (res_bind (dget args ''coding'') int_val) (\<lambda>dc. Inr (dest, dc))) of
        Inl e \<Rightarrow> (Inl e, f)
      | Inr (dest, dc) \<Rightarrow>
          SubmitSM (ge_op (hx_gw env)) f content (PInt dc)
            [(''source_add'', optional_arg args ''from''), (''destination_addr'', dest)])"

definition add_tags :: "op_env \<Rightarrow> http_args \<Rightarrow> routable \<Rightarrow> routable res" where
  "add_tags env args r =
     (case map_of args ''tags'' of
        None \<Rightarrow> Inr r
      | Some (PBytes b) \<Rightarrow>
          foldl (\<lambda>x tag. res_bind x (\<lambda>r. res_bind (oe_decode env tag) (\<lambda>s. addTag (PStr s) r))) (Inr r)
            (split_on CHR '','' b)
      | Some (PStr _) \<Rightarrow> Inl TypeError
      | Some _ \<Rightarrow> Inl AttributeError)"

section \<open>Receipts asked for\<close>

record dlr_request =
  dq_url :: pyval
  dq_level :: pyval
  dq_method :: pyval

definition with_receipt :: "string \<Rightarrow> pdu \<Rightarrow> pdu" where
  "with_receipt receipt p = p\<lparr>p_params := dset (p_params p) ''registered_delivery'' (RegisteredDelivery receipt)\<rparr>"

definition dlr_request :: "http_args \<Rightarrow> dlr_request res" where
  "dlr_request args =
     res_bind (dget args ''dlr'') (\<lambda>dlr.
       if dlr = PBytes ''yes'' then
         res_bind (res_bind (dget args ''dlr-level'') int_val) (\<lambda>level.
         res_bind (dget args ''dlr-method'') (\<lambda>m.
           Inr \<lparr>dq_url = optional_arg args ''dlr-url'', dq_level = PInt level, dq_method = m\<rparr>))
       else Inr \<lparr>dq_url = PNone, dq_level = PInt 0, dq_method = PNone\<rparr>)"

text \<open>The bit mask is set on the last PDU of the message.\<close>

definition set_receipt :: "http_args \<Rightarrow> pdu list \<Rightarrow> pdu list" where
  "set_receipt args ps =
     butlast ps @ [with_receipt (if map_of args ''dlr'' = Some (PBytes ''yes'') then ''SMSC_DELIVERY_RECEIPT_REQUESTED''
                                 else ''NO_SMSC_DELIVERY_RECEIPT_REQUESTED'') (last ps)]"

section \<open>Interception\<close>

definition http_script_failed :: "pyexc \<Rightarrow> ('r gateway, 'a) action" where
  "http_script_failed e = act_seq (gw_count [SInc ''interceptor_error_count'' 1]) (act_res (Inl e))"

text \<open>The routable to go on with, or the status that the script has set.  A failed run is raised as it comes.\<close>

definition http_intercept :: "gateway_env \<Rightarrow> routable \<Rightarrow> pdu list \<Rightarrow> ('r gateway, pyval + routable \<times> pdu list) action" where
  "http_intercept env r rest g =
     (case getInterceptorFor (re_filter (ge_router env)) r (ro_mt_icpts (gw_router g)) of
        Inl e \<Rightarrow> (Inl e, g)
      | Inr None \<Rightarrow> (Inr (Inr (r, rest)), g)
      | Inr (Some i) \<Rightarrow>
          (case ge_interceptor env of
             None \<Rightarrow> http_script_failed (HttpApiError 503 ''InterceptorNotSetError'') g
           | Some a \<Rightarrow>
               if \<not> mi_connected a then http_script_failed (HttpApiError 503 ''InterceptorNotConnectedError'') g
               else case mi_run a (ic_script i) r rest of
                      None \<Rightarrow> (Inl IOError, g)
                    | Some (MtRoutable r' rest') \<Rightarrow>
                        act_seq (gw_count [SInc ''interceptor_count'' 1]) (act_res (Inr (Inr (r', rest')))) g
                    | Some (MtDict d) \<Rightarrow>
                        act_bind (act_res (dget d ''http_status'')) (\<lambda>v.
                          if is_number v \<and> num v = 200 then http_script_failed (HttpApiError 400 ''InterceptorRunError'')
                          else act_seq (gw_count [SInc ''interceptor_error_count'' 1]) (act_res (Inr (Inl v)))) g
                    | Some _ \<Rightarrow> http_script_failed (HttpApiError 400 ''InterceptorRunError'') g))"

text \<open>A status that is not an integer cannot be set as the code of the answer.\<close>

definition script_answer :: "pyval \<Rightarrow> http_answer" where
  "script_answer v = (if is_int v then api_error (HttpApiError (int_of v) ''InterceptorRunError'') else NoAnswer)"

section \<open>Parameters of the connector and of the request\<close>

definition config_update_params :: "string list" where
  "config_update_params =
     [''protocol_id'', ''replace_if_present_flag'', ''dest_addr_ton'', ''source_addr_npi'', ''dest_addr_npi'',
      ''service_type'', ''source_addr_ton'', ''sm_default_msg_id'']"

definition set_param :: "string \<Rightarrow> pyval \<Rightarrow> pdu \<Rightarrow> pdu" where
  "set_param k v p = p\<lparr>p_params := dset (p_params p) k v\<rparr>"

definition update_param :: "(string, pyval) dict \<Rightarrow> string \<Rightarrow> routable \<times> pdu list \<Rightarrow> (routable \<times> pdu list) res" where
  "update_param config param x =
     (case x of (r, rest) \<Rightarrow>
        res_bind (pduParamIsLocked param r) (\<lambda>locked.
          Inr (case (locked, map_of config param) of
                 (False, Some v) \<Rightarrow> (r\<lparr>r_pdu := set_param param v (r_pdu r)\<rparr>, map (set_param param v) rest)
               | _ \<Rightarrow> (r, rest))))"

definition update_submit_sm_pdu ::
  "(string, pyval) dict \<Rightarrow> string list \<Rightarrow> routable \<times> pdu list \<Rightarrow> (routable \<times> pdu list) res" where
  "update_submit_sm_pdu config params x = foldl (\<lambda>y k. res_bind y (update_param config k)) (Inr x) params"

definition last_instant :: int where
  "last_instant = 253402300799999999"

text \<open>The priority, and the parameters that the request sets.\<close>

definition request_params :: "http_env \<Rightarrow> http_args \<Rightarrow> pdu \<Rightarrow> (pyval \<times> (string, pyval) dict) res" where
  "request_params env args p =
     res_bind (case map_of args ''priority'' of
                 None \<Rightarrow> Inr (PInt 0, [])
               | Some v \<Rightarrow>
                   res_bind (int_val v) (\<lambda>n.
                     case hx_priority env n of None \<Rightarrow> Inl KeyError | Some flag \<Rightarrow> Inr (PInt n, [(''priority_flag'', flag)]))) (\<lambda>(prio, d0).
     res_bind (case map_of args ''sdt'' of
                 None \<Rightarrow> Inr d0
               | Some v \<Rightarrow>
                   res_bind (hx_parse_time env v) (\<lambda>t. res_bind (dget (p_params p) ''schedule_delivery_time'') (\<lambda>_.
                     Inr (dset d0 ''schedule_delivery_time'' t)))) (\<lambda>d1.
     res_bind (case map_of args ''validity-period'' of
                 None \<Rightarrow> Inr d1
               | Some v \<Rightarrow>
                   res_bind (int_val v) (\<lambda>n.
                     let t = ge_now (hx_gw env) + n * 60000000
                     in raise_if (t > last_instant) OverflowError
                          (res_bind (dget (p_params p) ''validity_period'') (\<lambda>_.
                             Inr (dset d1 ''validity_period'' (PInt t)))))) (\<lambda>d2.
       Inr (prio, d2))))"

definition apply_params ::
  "http_env \<Rightarrow> http_args \<Rightarrow> connector \<Rightarrow> routable \<times> pdu list \<Rightarrow> ('r gateway, pyval \<times> routable \<times> pdu list) action" where
  "apply_params env args c x g =
     (act_res
       (res_bind (case perspective_connector_config (conn_cid c) (gw_manager g) of
                    None \<Rightarrow> Inr x
                  | Some cfg \<Rightarrow> update_submit_sm_pdu cfg config_update_params x) (\<lambda>y.
        res_bind (request_params env args (r_pdu (fst y))) (\<lambda>(prio, d).
        res_bind (update_submit_sm_pdu d (map fst d) y) (\<lambda>z. Inr (prio, z)))) ) g)"

section \<open>Sending\<close>

definition http_submit_args ::
  "user \<Rightarrow> connector \<Rightarrow> pdu list \<Rightarrow> bill option \<Rightarrow> pyval \<Rightarrow> dlr_request \<Rightarrow> submit_args" where
  "http_submit_args u c pdus bill priority q =
     \<lparr>sa_uid = u_uid u, sa_cid = conn_cid c, sa_pdus = pdus, sa_bill = bill, sa_priority = priority, sa_validity = PNone,
      sa_dlr_url = dq_url q, sa_dlr_level = dq_level q, sa_dlr_method = dq_method q,
      sa_dlr_connector = PStr (conn_cid c), sa_source = HttpApi\<rparr>"

definition http_failed :: "string \<Rightarrow> int \<Rightarrow> string \<Rightarrow> ('r gateway, 'a) action" where
  "http_failed counter code cls = act_seq (gw_count [SInc counter 1]) (act_res (Inl (HttpApiError code cls)))"

definition http_log :: "http_env \<Rightarrow> pyval \<Rightarrow> pdu \<Rightarrow> unit res" where
  "http_log env content p =
     (let privacy = ge_log_privacy (hx_gw env)
      in res_bind (if privacy then res_bind (py_len content) (\<lambda>_. Inr ())
                   else case content of PBytes _ \<Rightarrow> Inr () | PStr _ \<Rightarrow> Inr () | _ \<Rightarrow> Inl TypeError) (\<lambda>_.
         res_bind (dget (p_params p) ''source_addr'') (\<lambda>_.
         res_bind (format_tlvs_for_log (ge_tlv (hx_gw env)) (hx_mandatory env) privacy p) (\<lambda>_. Inr ()))))"

text \<open>The statement reads the result of the deferred, which it does not have before it has fired.\<close>

definition http_result :: "http_env \<Rightarrow> submission \<Rightarrow> ('r gateway, pyval) action" where
  "http_result env x =
     (if x = NotFired then act_res (Inl AttributeError)
      else case result_object x of
             None \<Rightarrow> http_failed ''server_error_count'' 500 ''ServerError''
           | Some i \<Rightarrow>
               act_seq (gw_count [SInc ''success_count'' 1, SSet ''last_success_at'' (PInt (ge_now (hx_gw env)))])
                 (act_res (Inr i)))"

text \<open>From the route to the answer.\<close>

definition http_deliver ::
  "http_env \<Rightarrow> 'r redis_ops \<Rightarrow> user \<Rightarrow> http_args \<Rightarrow> dlr_request \<Rightarrow> routable \<Rightarrow> pdu list \<Rightarrow> ('r gateway, pyval \<times> pdu) action" where
  "http_deliver env ops u args q r rest =
     (let gw = hx_gw env
      in act_bind (match_route gw r) (\<lambda>m.
         case m of
           None \<Rightarrow> http_failed ''route_error_count'' 412 ''RouteNotFoundError''
         | Some (k, rt) \<Rightarrow>
         act_bind (route_connector gw (k, rt)) (\<lambda>c.
         case c of
           None \<Rightarrow> http_failed ''route_error_count'' 412 ''ConnectorNotFoundError''
         | Some c \<Rightarrow>
         act_bind (apply_params env args c (r, rest)) (\<lambda>(priority, r', rest').
         act_bind (throttled gw ''http_throughput'' (\<lambda>x. ha_qos_last_submit_sm_at (cx_httpapi x))
                     (\<lambda>now x. x\<lparr>cx_httpapi := (cx_httpapi x)\<lparr>ha_qos_last_submit_sm_at := now\<rparr>\<rparr>) u) (\<lambda>fast.
         if fast then http_failed ''throughput_error_count'' 403 ''ThroughputExceededError''
         else let n = 1 + int (length rest')
         in act_bind (charge_for gw (\<lambda>a. py_mul a (PInt n)) n rt u) (\<lambda>(charged, bill).
         if \<not> charged then http_failed ''charging_error_count'' 403 ''ChargingError''
         else act_bind (submit_message gw ops (http_submit_args u c (r_pdu r' # rest') bill priority q)) (\<lambda>x.
              act_bind (http_result env x) (\<lambda>i. act_res (Inr (i, r_pdu r'))))))))))"

definition http_route ::
  "http_env \<Rightarrow> 'r redis_ops \<Rightarrow> user \<Rightarrow> pyval \<Rightarrow> http_args \<Rightarrow> pdu list \<Rightarrow> ('r gateway, http_answer) action" where
  "http_route env ops u content args ps =
     (let gw = hx_gw env
      in act_bind (act_res (http_validate gw ''Send'' u args ps)) (\<lambda>_.
         act_bind (act_res (map_res (http_updatePDUWithUserDefaults u) ps)) (\<lambda>ps1.
         act_bind (act_res (add_tags (ge_op gw) args (RoutableSubmitSm (hd ps1) u (ge_date gw) (ge_time gw)))) (\<lambda>r0.
         let ps2 = set_receipt args ps1; r = r0\<lparr>r_pdu := hd ps2\<rparr>
         in act_bind (act_res (dlr_request args)) (\<lambda>q.
            act_bind (http_intercept gw r (tl ps2)) (\<lambda>x.
              case x of
                Inl v \<Rightarrow> act_res (Inr (script_answer v))
              | Inr (r', rest') \<Rightarrow>
                  act_bind (http_deliver env ops u args q r' rest') (\<lambda>(i, p).
                    act_res (Inr (case http_log env content p of Inl _ \<Rightarrow> NoAnswer | Inr _ \<Rightarrow> Answer 200 i)))))))))"

definition answered :: "http_answer res \<Rightarrow> http_answer" where
  "answered x = (case x of Inl e \<Rightarrow> api_error e | Inr a \<Rightarrow> a)"

definition route_routable ::
  "http_env \<Rightarrow> 'r redis_ops \<Rightarrow> http_args \<Rightarrow> op_factory \<Rightarrow> 'r gateway \<Rightarrow> http_answer \<times> op_factory \<times> 'r gateway" where
  "route_routable env ops args f g =
     (let gw = hx_gw env
      in case act_bind (act_res (short_message env (PBytes ''0'') args)) (\<lambda>(content, args1).
              act_bind (authenticate_user gw args1) (\<lambda>u.
              act_seq (on_httpapi (u_uid u) (\<lambda>c. http_seen (ge_now gw) (c\<lparr>ha_submit_sm_request_count := ha_submit_sm_request_count c + 1\<rparr>)))
                (act_res (Inr (content, args1, u))))) g of
           (Inl e, g1) \<Rightarrow> (api_error e, f, g1)
         | (Inr (content, args1, u), g1) \<Rightarrow>
             (case send_pdus env f content args1 of
                (Inl e, f1) \<Rightarrow> (api_error e, f1, g1)
              | (Inr ps, f1) \<Rightarrow>
                  (case http_route env ops u content args1 ps g1 of (x, g2) \<Rightarrow> (answered x, f1, g2))))"

text \<open>The arguments of a request: those of its JSON body replace the others, and the defaults are filled in.\<close>

record http_request =
  rq_args :: http_args
  rq_json :: "(string, pyval) dict res option"

definition json_args :: "http_request \<Rightarrow> http_args res" where
  "json_args rq =
     (case rq_json rq of
        None \<Rightarrow> Inr (rq_args rq)
      | Some x \<Rightarrow> res_bind (x) (\<lambda>d.
          Inr (foldl (\<lambda>args (k, v). dset args (utf8_encode k) (case v of PStr s \<Rightarrow> PBytes (utf8_encode s) | _ \<Rightarrow> v)) (rq_args rq) d)))"

definition arg_default :: "http_args \<Rightarrow> string \<Rightarrow> pyval \<Rightarrow> http_args" where
  "arg_default args k v = (if has_key args k then args else dset args k v)"

definition send_defaults :: "http_args \<Rightarrow> http_args res" where
  "send_defaults args0 =
     (let args1 = arg_default (arg_default args0 ''custom_tlvs'' (PList [])) ''coding'' (PBytes ''0'');
          args2 = (if has_key args1 ''dlr-url'' \<or> has_key args1 ''dlr-level'' then dset args1 ''dlr'' (PBytes ''yes'') else args1);
          args3 = arg_default args2 ''dlr'' (PBytes ''no'');
          args4 = (if map_of args3 ''dlr'' = Some (PBytes ''yes'')
                   then arg_default (arg_default args3 ''dlr-level'' (PInt 1)) ''dlr-method'' (PBytes ''POST'') else args3)
      in case map_of args4 ''dlr-method'' of
           None \<Rightarrow> Inr args4
         | Some (PBytes m) \<Rightarrow> Inr (dset args4 ''dlr-method'' (PBytes (upper m)))
         | Some (PStr m) \<Rightarrow> Inr (dset args4 ''dlr-method'' (PStr (upper m)))
         | Some _ \<Rightarrow> Inl AttributeError)"

definition send_args :: "http_env \<Rightarrow> http_request \<Rightarrow> http_args res" where
  "send_args env rq =
     res_bind (json_args rq) (\<lambda>args0. res_bind (send_defaults args0) (\<lambda>args.
     res_bind (url_args_validate (ge_tlv (hx_gw env)) send_fields args) (\<lambda>_.
       raise_if (has_key args ''content'' = has_key args ''hex-content'') UrlArgsValidationError (Inr args))))"

definition http_requested :: "http_env \<Rightarrow> stat_op list" where
  "http_requested env = [SInc ''request_count'' 1, SSet ''last_request_at'' (PInt (ge_now (hx_gw env)))]"

definition send_render_POST ::
  "http_env \<Rightarrow> 'r redis_ops \<Rightarrow> http_request \<Rightarrow> op_factory \<Rightarrow> 'r gateway \<Rightarrow> http_answer \<times> op_factory \<times> 'r gateway" where
  "send_render_POST env ops rq f g =
     (case gw_count (http_requested env) g of
        (Inl e, g1) \<Rightarrow> (api_error e, f, g1)
      | (Inr _, g1) \<Rightarrow>
          (case send_args env rq of
             Inl e \<Rightarrow> (api_error e, f, g1)
           | Inr args \<Rightarrow> route_routable env ops args f g1))"

section \<open>Rates\<close>

definition rate_args :: "http_env \<Rightarrow> http_args \<Rightarrow> http_args res" where
  "rate_args env args0 =
     (let args1 = arg_default args0 ''coding'' (PBytes ''0'');
          args = (if has_key args1 ''hex-content'' then args1 else arg_default args1 ''content'' (PBytes []))
      in res_bind (url_args_validate (ge_tlv (hx_gw env)) rate_fields args) (\<lambda>_.
           raise_if (has_key args ''content'' \<and> has_key args ''hex-content'') UrlArgsValidationError (Inr args)))"

definition rate_route ::
  "http_env \<Rightarrow> user \<Rightarrow> http_args \<Rightarrow> pdu list \<Rightarrow> ('r gateway, http_answer) action" where
  "rate_route env u args ps =
     (let gw = hx_gw env
      in act_bind (act_res (http_validate gw ''Rate'' u args ps)) (\<lambda>_.
         act_bind (act_res (http_updatePDUWithUserDefaults u (hd ps))) (\<lambda>p.
         act_bind (act_res (add_tags (ge_op gw) args (RoutableSubmitSm p u (ge_date gw) (ge_time gw)))) (\<lambda>r.
         act_bind (http_intercept gw r (tl ps)) (\<lambda>x.
           case x of
             Inl v \<Rightarrow> act_res (Inr (script_answer v))
           | Inr (r', _) \<Rightarrow>
               act_bind (match_route gw r') (\<lambda>m.
                 case m of
                   None \<Rightarrow> act_res (Inl (HttpApiError 412 ''RouteNotFoundError''))
                 | Some (_, rt) \<Rightarrow>
                     act_bind (act_res (getBillFor (ge_bid gw) rt u)) (\<lambda>b.
                     act_bind (act_res (getTotalAmounts b)) (\<lambda>a.
                       act_res (Inr (Answer 200 (PDict [(PStr ''unit_rate'', a),
                                       (PStr ''submit_sm_count'', PInt (int (length ps)))]))))))))))) "

definition rate_render_GET ::
  "http_env \<Rightarrow> http_args \<Rightarrow> op_factory \<Rightarrow> 'r gateway \<Rightarrow> http_answer \<times> op_factory \<times> 'r gateway" where
  "rate_render_GET env args0 f g =
     (let gw = hx_gw env
      in case act_seq (gw_count (http_requested env))
             (act_bind (act_res (rate_args env args0)) (\<lambda>args.
              act_bind (act_res (short_message env (PStr ''0'') args)) (\<lambda>(content, args1).
              act_bind (authenticate_user gw args1) (\<lambda>u.
              act_seq (on_httpapi (u_uid u) (\<lambda>c. http_seen (ge_now gw) (c\<lparr>ha_rate_request_count := ha_rate_request_count c + 1\<rparr>)))
                (act_res (Inr (content, args1, u))))))) g of
           (Inl e, g1) \<Rightarrow> (api_error e, f, g1)
         | (Inr (content, args1, u), g1) \<Rightarrow>
             (case rate_pdus env f content args1 of
                (Inl e, f1) \<Rightarrow> (api_error e, f1, g1)
              | (Inr ps, f1) \<Rightarrow> (case rate_route env u args1 ps g1 of (x, g2) \<Rightarrow> (answered x, f1, g2))))"

section \<open>Balance and ping\<close>

definition shown_quota :: "pyval \<Rightarrow> pyval" where
  "shown_quota q = (if q = PNone then PStr ''ND'' else q)"

definition balance_render_GET :: "http_env \<Rightarrow> http_args \<Rightarrow> 'r gateway \<Rightarrow> http_answer \<times> 'r gateway" where
  "balance_render_GET env args g =
     (let gw = hx_gw env
      in apfst answered
           (act_seq (gw_count (http_requested env))
             (act_bind (act_res (url_args_validate (ge_tlv gw) balance_fields args)) (\<lambda>_.
              act_bind (authenticate_user gw args) (\<lambda>u.
              act_seq (on_httpapi (u_uid u) (\<lambda>c. http_seen (ge_now gw) (c\<lparr>ha_balance_request_count := ha_balance_request_count c + 1\<rparr>)))
               (act_res
                 (res_bind (http_validate gw ''Balance'' u args []) (\<lambda>_.
                  res_bind (getQuota ''balance'' (u_mt u)) (\<lambda>b. res_bind (getQuota ''submit_sm_count'' (u_mt u)) (\<lambda>n.
                    Inr (Answer 200 (PDict [(PStr ''balance'', shown_quota b), (PStr ''sms_count'', shown_quota n)]))))))))))
             g))"

definition ping_render_GET :: http_answer where
  "ping_render_GET = Answer 200 (PBytes ''Jasmin/PONG'')"

end
