(* ===== verification/Client_Manager_Correct.thy ===== *)
theory Client_Manager_Correct
  imports Client_Manager
begin

text \<open>
  What the manager of the client connectors promises.  Its abstract view is the \<open>registry\<close>: which connectors
  there are, their configuration, and whether they run.  Every command refines its effect on the registry, and
  every reachable state satisfies \<open>manager_inv\<close>, whatever happens to the connections in between.  Persisted
  connectors come back, stopping a connector requeues the messages that wait for a retry, and a message that is
  taken is published once, with its request for receipts stored where the lookup of receipts reads it.
\<close>

section \<open>The registry\<close>

definition registry :: "'r manager \<Rightarrow> string \<rightharpoonup> config \<times> bool" where
  "registry mg cid = map_option (\<lambda>c. (ce_config c, sv_running (ce_service c))) (mg_getConnector cid mg)"

definition entry_inv :: "'r connector_entry \<Rightarrow> bool" where
  "entry_inv c \<longleftrightarrow>
     config_id (ce_config c) = ce_id c \<and> service_reachable (ce_config c) (ce_service c) \<and>
     (ce_tag c = None \<or> ce_tag c = Some (consumer_tag (ce_id c))) \<and> (ce_queue c \<longleftrightarrow> ce_tag c \<noteq> None)"

definition manager_inv :: "'r manager \<Rightarrow> bool" where
  "manager_inv mg \<longleftrightarrow> distinct (map ce_id (mg_connectors mg)) \<and> (\<forall>c \<in> set (mg_connectors mg). entry_inv c)"

subsection \<open>Lookup after an update\<close>

lemma getConnector_id: "mg_getConnector cid mg = Some c \<Longrightarrow> ce_id c = cid \<and> c \<in> set (mg_connectors mg)"
  by (auto simp: mg_getConnector_def find_Some_iff)

lemma find_distinct: "distinct (map f xs) \<Longrightarrow> x \<in> set xs \<Longrightarrow> find (\<lambda>c. f c = f x) xs = Some x"
  by (induction xs) auto

lemma find_filter_other:
  "find (\<lambda>c. f c = k) (filter (\<lambda>c. f c \<noteq> l) xs) = (if k = l then None else find (\<lambda>c. f c = k) xs)"
  by (induction xs) auto

lemma find_snoc: "find P (xs @ ys) = (case find P xs of None \<Rightarrow> find P ys | Some x \<Rightarrow> Some x)"
  by (induction xs) auto

lemma getConnector_on:
  assumes "\<And>c. ce_id (f c) = ce_id c"
  shows "mg_getConnector k (on_connector cid f mg) =
    (if k = cid then map_option f (mg_getConnector cid mg) else mg_getConnector k mg)"
proof (cases "k = cid")
  case True
  then show ?thesis using assms by (simp add: mg_getConnector_def on_connector_def find_update_first)
next
  case False
  then have "find (\<lambda>c. ce_id c = k) (update_first (\<lambda>c. ce_id c = cid) f (mg_connectors mg)) =
      find (\<lambda>c. ce_id c = k) (mg_connectors mg)"
    using assms by (intro find_update_first_other) auto
  then show ?thesis using False by (simp add: mg_getConnector_def on_connector_def)
qed

lemma getConnector_None: "mg_getConnector cid mg = None \<longleftrightarrow> cid \<notin> ce_id ` set (mg_connectors mg)"
  by (auto simp: mg_getConnector_def find_None_iff)

lemma getConnector_out [simp]:
  "mg_getConnector cid (mg\<lparr>mg_out := xs\<rparr>) = mg_getConnector cid mg"
  "mg_getConnector cid (not_persisted mg) = mg_getConnector cid mg"
  by (simp_all add: mg_getConnector_def not_persisted_def)

lemma registry_frame [simp]:
  "registry (mg\<lparr>mg_out := xs\<rparr>) = registry mg" "registry (not_persisted mg) = registry mg"
  "registry (mg\<lparr>mg_redis := r\<rparr>) = registry mg" "registry (mg\<lparr>mg_persisted := b\<rparr>) = registry mg"
  "registry (mg\<lparr>mg_files := fs\<rparr>) = registry mg" "registry (mg\<lparr>mg_broker := br\<rparr>) = registry mg"
  by (simp_all add: registry_def mg_getConnector_def not_persisted_def fun_eq_iff)

lemma registry_on:
  assumes "\<And>c. ce_id (f c) = ce_id c" "mg_getConnector cid mg = Some c"
  shows "registry (on_connector cid f mg) = (registry mg)(cid \<mapsto> (ce_config (f c), sv_running (ce_service (f c))))"
  using assms by (auto simp: registry_def getConnector_on fun_eq_iff)

lemma registry_del:
  assumes "distinct (map ce_id (mg_connectors mg))"
  shows "registry (mg\<lparr>mg_connectors := remove_first (\<lambda>c. ce_id c = cid) (mg_connectors mg)\<rparr>) = (registry mg)(cid := None)"
  using assms
  by (auto simp: registry_def mg_getConnector_def remove_first_unique find_filter_other fun_eq_iff)

lemma manager_inv_frame [simp]:
  "manager_inv (mg\<lparr>mg_out := xs\<rparr>) = manager_inv mg" "manager_inv (not_persisted mg) = manager_inv mg"
  "manager_inv (mg\<lparr>mg_redis := r\<rparr>) = manager_inv mg" "manager_inv (mg\<lparr>mg_persisted := b\<rparr>) = manager_inv mg"
  "manager_inv (mg\<lparr>mg_files := fs\<rparr>) = manager_inv mg" "manager_inv (mg\<lparr>mg_broker := br\<rparr>) = manager_inv mg"
  by (simp_all add: manager_inv_def not_persisted_def)

lemma manager_inv_on:
  assumes "manager_inv mg" "\<And>c. ce_id (f c) = ce_id c"
    "\<And>c. mg_getConnector cid mg = Some c \<Longrightarrow> entry_inv c \<Longrightarrow> entry_inv (f c)"
  shows "manager_inv (on_connector cid f mg)"
proof -
  have "map ce_id (update_first (\<lambda>c. ce_id c = cid) f (mg_connectors mg)) = map ce_id (mg_connectors mg)"
    using assms(2) by (rule map_update_first)
  moreover have "entry_inv c" if "c \<in> set (update_first (\<lambda>c. ce_id c = cid) f (mg_connectors mg))" for c
  proof -
    from set_update_first[OF that] consider "c \<in> set (mg_connectors mg)"
      | x where "x \<in> set (mg_connectors mg)" "ce_id x = cid" "c = f x" by blast
    then show ?thesis
    proof cases
      case 2
      have "mg_getConnector cid mg = Some x"
        using 2 assms(1) find_distinct[of ce_id "mg_connectors mg" x] by (simp add: manager_inv_def mg_getConnector_def)
      then show ?thesis using assms 2 by (auto simp: manager_inv_def)
    qed (use assms(1) in \<open>auto simp: manager_inv_def\<close>)
  qed
  ultimately show ?thesis using assms(1) by (simp add: manager_inv_def on_connector_def)
qed

section \<open>The commands\<close>

text \<open>A call of the broker changes the record of calls only.\<close>

definition out_only :: "'r manager \<Rightarrow> 'r manager \<Rightarrow> bool" where
  "out_only mg mg' \<longleftrightarrow> mg' = mg\<lparr>mg_out := mg_out mg'\<rparr>"

lemma out_only_equiv: "transp out_only" "reflp out_only"
  unfolding out_only_def transp_def reflp_def by (simp_all, metis manager.surjective manager.update_convs(7))

lemma amqp_out_only: "act_inv out_only (amqp env op)"
  by (simp add: act_inv_def amqp_def out_only_def split: option.splits)

lemmas out_only_intros = amqp_out_only act_inv_seq[OF out_only_equiv(1)] act_inv_res[OF out_only_equiv(2)]
  act_inv_when[OF out_only_equiv(2)]

lemma calls_out_only:
  "act_inv out_only (declare_queue env cid)" "act_inv out_only (start_consumer env tag cid)"
  unfolding declare_queue_def start_consumer_def by (auto intro!: out_only_intros split: option.splits)

lemma out_onlyD: "act_inv out_only m \<Longrightarrow> m mg = (r, mg') \<Longrightarrow> \<exists>xs. mg' = mg\<lparr>mg_out := xs\<rparr>"
  unfolding act_inv_def out_only_def by (metis snd_conv)

lemma entry_inv_start:
  "entry_inv c \<Longrightarrow> \<not> sv_running (ce_service c) \<Longrightarrow> entry_inv (c\<lparr>ce_service := startService (ce_service c)\<rparr>)"
  by (auto simp: entry_inv_def intro: service_reachable.step service_step.start)

lemma entry_inv_stop:
  "entry_inv c \<Longrightarrow> sv_running (ce_service c) \<Longrightarrow> entry_inv (c\<lparr>ce_service := stopService (ce_service c)\<rparr>)"
  by (auto simp: entry_inv_def intro: service_reachable.step service_step.stop)

lemma new_connector_effect:
  assumes "mg_getConnector (config_id cfg) mg = None"
  shows "registry (new_connector env cfg mg) = (registry mg)(config_id cfg \<mapsto> (cfg, False))"
    "manager_inv mg \<Longrightarrow> manager_inv (new_connector env cfg mg)"
    "mg_broker (new_connector env cfg mg) = mg_broker mg" "mg_files (new_connector env cfg mg) = mg_files mg"
proof -
  obtain s coll where st: "collector_get ClientConnectorStatistics (config_id cfg) (mg_stats mg) = (s, coll)" by fastforce
  define c where "c = \<lparr>ce_id = config_id cfg, ce_config = cfg, ce_service = SMPPClientService cfg, ce_tag = None,
    ce_queue = False, ce_listener = SMPPClientSMListener (mg_redis mg) (snd (st_set ''created_at'' (me_clock env) s))\<rparr>"
  then have c: "ce_id c = config_id cfg" "ce_config c = cfg" "ce_service c = SMPPClientService cfg"
    "ce_tag c = None" "\<not> ce_queue c"
    by simp_all
  have mg: "mg_connectors (new_connector env cfg mg) = mg_connectors mg @ [c]"
    by (simp add: new_connector_def st c_def Let_def)
  have r: "entry_inv c" using c by (simp add: entry_inv_def service_reachable.init)
  have "mg_getConnector k (new_connector env cfg mg) = (if k = config_id cfg then Some c else mg_getConnector k mg)" for k
    using assms c(1) by (auto simp: mg_getConnector_def mg find_snoc split: option.splits)
  moreover have "\<not> sv_running (SMPPClientService cfg)" by (simp add: SMPPClientService_def)
  ultimately show "registry (new_connector env cfg mg) = (registry mg)(config_id cfg \<mapsto> (cfg, False))"
    using c by (auto simp: registry_def fun_eq_iff)
  show "manager_inv mg \<Longrightarrow> manager_inv (new_connector env cfg mg)"
    using assms c(1) r by (auto simp: manager_inv_def mg getConnector_None)
qed (simp_all add: new_connector_def Let_def split: prod.splits)

text \<open>What a command that reports success has done to the registry.  The four lemmas also give what it does
  otherwise: connectors other than the one named are never touched.\<close>

lemma connector_add_effect:
  assumes "perspective_connector_add env cfg mg = (r, mg')"
  shows "(r = Inr True \<and> registry mg (config_id cfg) = None \<and> registry mg' = (registry mg)(config_id cfg \<mapsto> (cfg, False)) \<or>
          r \<noteq> Inr True \<and> registry mg' = registry mg) \<and>
         (manager_inv mg \<longrightarrow> manager_inv mg') \<and> mg_broker mg' = mg_broker mg \<and> mg_files mg' = mg_files mg"
proof (cases "mg_getConnector (config_id cfg) mg \<noteq> None \<or> mg_broker mg \<noteq> Some True")
  case True
  then have "perspective_connector_add env cfg mg = (Inr False, mg)"
    unfolding perspective_connector_add_def Let_def by argo
  then show ?thesis using assms by simp
next
  case False
  obtain q mg1 where q: "declare_queue env (config_id cfg) mg = (q, mg1)" by fastforce
  from out_onlyD[OF calls_out_only(1) q] obtain xs where xs: "mg1 = mg\<lparr>mg_out := xs\<rparr>" by blast
  have new: "mg_getConnector (config_id cfg) mg1 = None" using False by (simp add: xs)
  have "perspective_connector_add env cfg mg =
      (case q of Inl e \<Rightarrow> (Inl e, mg1) | Inr _ \<Rightarrow> (Inr True, not_persisted (new_connector env cfg mg1)))"
    using False q by (simp add: perspective_connector_add_def Let_def act_defs split: sum.splits)
  with assms new_connector_effect[OF new, of env] False show ?thesis
    by (auto simp: xs registry_def[of mg] not_persisted_def split: sum.splits)
qed
lemma on_connector_fields [simp]:
  "mg_broker (on_connector cid f mg) = mg_broker mg" "mg_files (on_connector cid f mg) = mg_files mg"
  "mg_redis (on_connector cid f mg) = mg_redis mg" "mg_out (on_connector cid f mg) = mg_out mg"
  "mg_broker (not_persisted mg) = mg_broker mg" "mg_files (not_persisted mg) = mg_files mg"
  by (simp_all add: on_connector_def not_persisted_def)

lemma sv_running_simps [simp]: "sv_running (startService s)" "\<not> sv_running (stopService s)"
  by (simp_all add: startService_def on_factory_def stopService_effect)

definition started :: "'r connector_entry \<Rightarrow> 'r connector_entry" where
  "started c = c\<lparr>ce_service := startService (ce_service c)\<rparr>"

lemma started_simps [simp]:
  "ce_id (started c) = ce_id c" "ce_config (started c) = ce_config c" "sv_running (ce_service (started c))"
  "ce_id (consuming c) = ce_id c" "ce_config (consuming c) = ce_config c" "ce_service (consuming c) = ce_service c"
  by (simp_all add: started_def consuming_def)

lemma entry_inv_consuming: "entry_inv c \<Longrightarrow> entry_inv (consuming c)"
  by (simp add: entry_inv_def consuming_def)

lemma connector_start_effect:
  assumes "perspective_connector_start env cid mg = (r, mg')"
  shows "(registry mg' = registry mg \<and> r = Inr False \<or>
          (\<exists>cfg. registry mg cid = Some (cfg, False) \<and> registry mg' = (registry mg)(cid \<mapsto> (cfg, True)))) \<and>
         (manager_inv mg \<longrightarrow> manager_inv mg') \<and> mg_broker mg' = mg_broker mg \<and> mg_files mg' = mg_files mg"
proof (cases "mg_getConnector cid mg")
  case None
  then show ?thesis using assms by (simp add: perspective_connector_start_def)
next
  case (Some c)
  let ?refused = "mg_broker mg \<noteq> Some True \<or> sv_running (ce_service c) \<or>
             getSessionState (sv_factory (ce_service c)) \<notin> set [''NONE'', ''UNBOUND'']"
  show ?thesis
  proof (cases ?refused)
    case True
    then show ?thesis using assms Some by (simp add: perspective_connector_start_def)
  next
    case False
    define mg1 where "mg1 = on_connector cid started mg"
    obtain q mg2 where q: "start_consumer env (ce_tag c) (ce_id c) mg1 = (q, mg2)" by fastforce
    obtain q' mg3 where q': "amqp env (ClientQueue (consumer_tag (ce_id c))) mg2 = (q', mg3)" by fastforce
    obtain xs ys where xs: "mg2 = mg1\<lparr>mg_out := xs\<rparr>" "mg3 = mg2\<lparr>mg_out := ys\<rparr>"
      using out_onlyD[OF calls_out_only(2) q] out_onlyD[OF amqp_out_only q'] by blast
    have mg': "mg' = mg2 \<or> mg' = mg3 \<or> mg' = not_persisted (on_connector cid consuming mg3)"
      using assms Some False q q'
      by (auto simp: perspective_connector_start_def started_def[abs_def, symmetric] mg1_def act_defs split: sum.splits prod.splits)
    have g1: "mg_getConnector cid mg1 = Some (started c)" using Some by (simp add: mg1_def getConnector_on)
    have r1: "registry mg1 = (registry mg)(cid \<mapsto> (ce_config c, True))"
      unfolding mg1_def by (subst registry_on[OF _ Some]) simp_all
    have "registry (on_connector cid consuming mg3) = (registry mg3)(cid \<mapsto> (ce_config c, True))"
      using g1 by (subst registry_on[of _ _ _ "started c"]) (simp_all add: xs)
    then have "registry mg' = (registry mg)(cid \<mapsto> (ce_config c, True))" using mg' r1 by (auto simp: xs)
    moreover have "registry mg cid = Some (ce_config c, False)" using Some False by (simp add: registry_def)
    moreover have "manager_inv mg'" if "manager_inv mg"
    proof -
      have "manager_inv mg1" unfolding mg1_def
        using that Some False by (intro manager_inv_on) (auto simp: started_def[abs_def] intro: entry_inv_start)
      then have "manager_inv mg2" "manager_inv mg3" by (simp_all add: xs)
      moreover have "manager_inv (on_connector cid consuming mg3)"
        using \<open>manager_inv mg3\<close> by (intro manager_inv_on) (auto intro: entry_inv_consuming)
      ultimately show ?thesis using mg' by auto
    qed
    moreover have "mg_broker mg' = mg_broker mg" "mg_files mg' = mg_files mg"
      using mg' by (auto simp: xs mg1_def)
    ultimately show ?thesis by blast
  qed
qed
lemma cancel_consumer_effect:
  assumes "cancel_consumer env cid tag mg = (r, mg')" "mg_getConnector cid mg = Some c"
  shows "registry mg' = registry mg \<and> (manager_inv mg \<longrightarrow> manager_inv mg') \<and> mg_broker mg' = mg_broker mg \<and>
    mg_files mg' = mg_files mg \<and> mg_redis mg' = mg_redis mg \<and>
    (\<exists>c'. mg_getConnector cid mg' = Some c' \<and> ce_config c' = ce_config c \<and> ce_service c' = ce_service c \<and>
       ce_listener c' = ce_listener c) \<and> (r = Inr () \<longrightarrow> tag \<noteq> None \<longrightarrow> (\<exists>c'. mg_getConnector cid mg' = Some c' \<and> ce_tag c' = None))"
proof (cases tag)
  case None
  then show ?thesis using assms by (simp add: cancel_consumer_def act_res_def)
next
  case (Some t)
  let ?f = "\<lambda>c. c\<lparr>ce_queue := False, ce_tag := None\<rparr>"
  obtain q mg1 where q: "amqp env (BasicCancel t) mg = (q, mg1)" by fastforce
  from out_onlyD[OF amqp_out_only q] obtain xs where xs: "mg1 = mg\<lparr>mg_out := xs\<rparr>" by blast
  have g: "mg_getConnector cid mg1 = Some c" using assms(2) by (simp add: xs)
  have mg': "(r, mg') = (case q of Inl e \<Rightarrow> (Inl e, mg1) | Inr _ \<Rightarrow> (Inr (), on_connector cid ?f mg1))"
    using assms(1) q Some by (auto simp: cancel_consumer_def act_defs split: sum.splits)
  have "registry (on_connector cid ?f mg1) = registry mg1"
    using g by (subst registry_on[OF _ g]) (auto simp: registry_def fun_eq_iff)
  moreover have "manager_inv mg \<Longrightarrow> manager_inv (on_connector cid ?f mg1)"
    by (intro manager_inv_on) (auto simp: xs entry_inv_def)
  ultimately show ?thesis using mg' g by (auto simp: xs getConnector_on split: sum.splits)
qed

lemma entry_inv_stopped:
  "entry_inv c \<Longrightarrow> ce_service c = s \<Longrightarrow> sv_running s \<Longrightarrow>
   entry_inv (c\<lparr>ce_listener := l, ce_service := stopService s\<rparr>)"
  using entry_inv_stop[of c] by (simp add: entry_inv_def)

lemma connector_stop_effect:
  assumes "perspective_connector_stop env cid dq mg = (r, mg')"
  shows "(registry mg' = registry mg \<and> r \<noteq> Inr True \<or>
          (\<exists>cfg. r = Inr True \<and> registry mg cid = Some (cfg, True) \<and> registry mg' = (registry mg)(cid \<mapsto> (cfg, False)))) \<and>
         (manager_inv mg \<longrightarrow> manager_inv mg') \<and> mg_broker mg' = mg_broker mg \<and> mg_files mg' = mg_files mg"
proof (cases "mg_getConnector cid mg")
  case None
  then show ?thesis using assms by (auto simp: perspective_connector_stop_def)
next
  case (Some c)
  let ?f = "\<lambda>c. c\<lparr>ce_listener := stop_listener (ce_listener c), ce_service := stopService (ce_service c)\<rparr>"
  obtain q mg1 where q: "cancel_consumer env cid (ce_tag c) mg = (q, mg1)" by fastforce
  note e = cancel_consumer_effect[OF q Some]
  obtain q' mg2 where q': "act_when dq (amqp env (QueueDelete (submit_queue cid))) mg1 = (q', mg2)" by fastforce
  have "act_inv out_only (act_when dq (amqp env (QueueDelete (submit_queue cid))))" by (intro out_only_intros)
  from out_onlyD[OF this q'] obtain xs where xs: "mg2 = mg1\<lparr>mg_out := xs\<rparr>" by blast
  obtain c' where c': "mg_getConnector cid mg2 = Some c'" "ce_config c' = ce_config c" "ce_service c' = ce_service c"
    using e by (auto simp: xs)
  have mg': "(r, mg') = (case q of Inl e \<Rightarrow> (Inl e, mg1) | Inr _ \<Rightarrow> if \<not> sv_running (ce_service c) then (Inr False, mg1)
      else (case q' of Inl e \<Rightarrow> (Inl e, mg2) | Inr _ \<Rightarrow> (Inr True, not_persisted (on_connector cid ?f mg2))))"
    using assms Some q q'
    by (cases "sv_running (ce_service c)")
      (auto simp: perspective_connector_stop_def act_seq_def act_bind_def act_res_def act_do_def split: sum.splits)
  have "registry (on_connector cid ?f mg2) = (registry mg)(cid \<mapsto> (ce_config c, False))"
    using c' e by (subst registry_on[OF _ c'(1)]) (auto simp: xs)
  moreover have "manager_inv (on_connector cid ?f mg2)" if "manager_inv mg" "sv_running (ce_service c)"
    using that e c' by (intro manager_inv_on) (auto simp: xs intro: entry_inv_stopped)
  moreover have "registry mg cid = Some (ce_config c, sv_running (ce_service c))" using Some by (simp add: registry_def)
  ultimately show ?thesis using mg' e by (auto simp: xs split: sum.splits if_splits)
qed

lemma connector_remove_effect:
  assumes "perspective_connector_remove env cid mg = (r, mg')" "manager_inv mg"
  shows "(r = Inr True \<longrightarrow> registry mg cid \<noteq> None \<and> registry mg' = (registry mg)(cid := None)) \<and>
         (\<forall>k. k \<noteq> cid \<longrightarrow> registry mg' k = registry mg k) \<and>
         manager_inv mg' \<and> mg_broker mg' = mg_broker mg \<and> mg_files mg' = mg_files mg"
proof (cases "mg_getConnector cid mg")
  case None
  then show ?thesis using assms by (auto simp: perspective_connector_remove_def)
next
  case (Some c)
  define mg1 where "mg1 = (if sv_running (ce_service c)
    then on_connector cid (\<lambda>c. c\<lparr>ce_service := stopService (ce_service c)\<rparr>) mg else mg)"
  obtain q mg2 where q: "perspective_connector_stop env cid False mg1 = (q, mg2)" by fastforce
  note e = connector_stop_effect[OF q]
  have 1: "manager_inv mg1" "mg_broker mg1 = mg_broker mg" "mg_files mg1 = mg_files mg"
    using assms(2) Some unfolding mg1_def by (auto intro!: manager_inv_on entry_inv_stop)
  have "registry mg1 = (registry mg)(cid \<mapsto> (ce_config c, False))" if "sv_running (ce_service c)"
    using that Some unfolding mg1_def by (simp add: registry_on)
  then have r1: "registry mg1 k = registry mg k" if "k \<noteq> cid" for k using that by (auto simp: mg1_def)
  then have r2: "registry mg2 k = registry mg k" if "k \<noteq> cid" for k using that e by auto
  let ?mg3 = "mg2\<lparr>mg_connectors := remove_first (\<lambda>c. ce_id c = cid) (mg_connectors mg2)\<rparr>"
  have inv: "manager_inv ?mg3"
    using e 1 set_remove_first_subset[of _ "mg_connectors mg2"]
    by (auto simp: manager_inv_def distinct_map_remove_first)
  have del: "registry ?mg3 = (registry mg2)(cid := None)"
    using e 1 by (intro registry_del) (simp add: manager_inv_def)
  have mg': "(r, mg') = (case q of Inl x \<Rightarrow> (Inl x, mg2) | Inr _ \<Rightarrow>
      if list_ex (\<lambda>c. ce_id c = cid) (mg_connectors mg2) then (Inr True, not_persisted ?mg3) else (Inr False, ?mg3))"
    using assms(1) Some q
    by (simp add: perspective_connector_remove_def mg1_def[symmetric] act_bind_def delConnector_def Let_def split: sum.splits)
  have "registry mg cid \<noteq> None" using Some by (simp add: registry_def)
  moreover have "(registry mg2)(cid := None) = (registry mg)(cid := None)" using r2 by auto
  ultimately show ?thesis using mg' e 1 r2 inv del by (auto split: sum.splits if_splits)
qed
lemma stop_each_effect:
  assumes "stop_each env dq cids mg = (r, mg')"
  shows "(manager_inv mg \<longrightarrow> manager_inv mg') \<and>
    (\<forall>k. \<exists>b. registry mg' k = map_option (\<lambda>(cfg, run). (cfg, run \<and> b)) (registry mg k)) \<and>
    mg_broker mg' = mg_broker mg \<and> mg_files mg' = mg_files mg"
  using assms
proof (induction cids arbitrary: mg)
  case Nil
  then show ?case by (auto simp: act_res_def option.map_ident split_beta intro!: exI[of _ True])
next
  case (Cons cid cids)
  obtain q mg1 where q: "perspective_connector_stop env cid dq mg = (q, mg1)" by fastforce
  note e = connector_stop_effect[OF q]
  then have r1: "\<exists>b. registry mg1 k = map_option (\<lambda>(cfg, run). (cfg, run \<and> b)) (registry mg k)" for k
    by (cases "registry mg k") (auto simp: fun_upd_def split: if_splits)
  show ?case
  proof (cases q)
    case (Inl x)
    then have "mg' = mg1" using Cons.prems q by (simp add: act_defs)
    then show ?thesis using e r1 by simp
  next
    case (Inr b)
    then have "stop_each env dq cids mg1 = (r, mg')" using Cons.prems q by (simp add: act_defs)
    note ih = Cons.IH[OF this]
    have "\<exists>b. registry mg' k = map_option (\<lambda>(cfg, run). (cfg, run \<and> b)) (registry mg k)" for k
    proof -
      from ih obtain b where "registry mg' k = map_option (\<lambda>(cfg, run). (cfg, run \<and> b)) (registry mg1 k)" by blast
      moreover obtain b' where "registry mg1 k = map_option (\<lambda>(cfg, run). (cfg, run \<and> b')) (registry mg k)"
        using r1 by blast
      ultimately show ?thesis by (intro exI[of _ "b \<and> b'"]) (cases "registry mg k", auto)
    qed
    then show ?thesis using ih e by auto
  qed
qed

lemma remove_each_inv:
  assumes "remove_each env cids mg = (r, mg')" "manager_inv mg"
  shows "manager_inv mg' \<and> mg_broker mg' = mg_broker mg \<and> mg_files mg' = mg_files mg"
  using assms
proof (induction cids arbitrary: mg)
  case (Cons cid cids)
  obtain q mg1 where q: "perspective_connector_remove env cid mg = (q, mg1)" by fastforce
  note e = connector_remove_effect[OF q Cons.prems(2)]
  show ?case
  proof (cases "q = Inr True")
    case True
    then have "remove_each env cids mg1 = (r, mg')" using Cons.prems q by (simp add: act_defs)
    from Cons.IH[OF this] e show ?thesis by auto
  next
    case False
    then have "mg' = mg1" using Cons.prems q by (cases q) (auto simp: act_defs split: if_splits)
    then show ?thesis using e by simp
  qed
qed (simp add: act_res_def)

lemma load_each_inv:
  assumes "load_each env ls mg = (r, mg')" "manager_inv mg"
  shows "manager_inv mg' \<and> mg_broker mg' = mg_broker mg \<and> mg_files mg' = mg_files mg"
  using assms
proof (induction ls arbitrary: mg)
  case (Cons l ls)
  obtain cid cfg run where l: "l = (cid, cfg, run)" by (cases l)
  obtain q mg1 where q: "perspective_connector_add env cfg mg = (q, mg1)" by fastforce
  note e = connector_add_effect[OF q]
  obtain q' mg2 where q': "perspective_connector_start env cid mg1 = (q', mg2)" by fastforce
  note e' = connector_start_effect[OF q']
  have "(r, mg') = (case q of Inl x \<Rightarrow> (Inl x, mg1) | Inr False \<Rightarrow> (Inl ConfigProfileLoadingError, mg1)
     | Inr True \<Rightarrow> if run then (case q' of Inl x \<Rightarrow> (Inl x, mg2) | Inr _ \<Rightarrow> load_each env ls mg2) else load_each env ls mg1)"
    using Cons.prems(1) q q' by (auto simp: l act_defs split: sum.splits bool.splits)
  then consider "mg' = mg1" | "mg' = mg2" | "load_each env ls mg1 = (r, mg')" | "load_each env ls mg2 = (r, mg')"
    by (auto split: sum.splits bool.splits if_splits)
  then show ?case
    by cases (use e e' Cons.prems(2) Cons.IH[of mg1] Cons.IH[of mg2] in auto)
qed (simp add: act_res_def)

lemma load_profile_inv:
  assumes "load_profile env profile mg = (r, mg')" "manager_inv mg" shows "manager_inv mg'"
proof (cases "map_of (mg_files mg) (smppccs_path env profile)")
  case None
  then show ?thesis using assms by (simp add: load_profile_def)
next
  case (Some f)
  obtain q mg1 where q: "remove_each env (map ce_id (mg_connectors mg)) mg = (q, mg1)" by fastforce
  note e = remove_each_inv[OF q assms(2)]
  have "manager_inv (snd (load_each env ls mg1))" for ls
    using load_each_inv[of env ls mg1] e by (metis prod.collapse)
  then show ?thesis
    using assms Some q e
    by (auto simp: load_profile_def act_defs split: sum.splits pdata.splits prod.splits) (metis snd_conv manager_inv_frame(4))+
qed
section \<open>Reachable states\<close>

text \<open>Taking a message changes neither the connectors nor what is persisted.\<close>

definition same_connectors :: "'r manager \<Rightarrow> 'r manager \<Rightarrow> bool" where
  "same_connectors mg mg' \<longleftrightarrow> mg_connectors mg' = mg_connectors mg \<and> mg_broker mg' = mg_broker mg \<and>
     mg_files mg' = mg_files mg \<and> mg_persisted mg' = mg_persisted mg"

lemma same_connectors_equiv: "transp same_connectors" "reflp same_connectors"
  unfolding same_connectors_def transp_def reflp_def by simp_all

lemma same_connectors_refl: "same_connectors mg mg"
  by (simp add: same_connectors_def)

lemma same_connectorsD:
  "same_connectors mg mg' \<Longrightarrow> registry mg' = registry mg \<and> manager_inv mg' = manager_inv mg"
  by (simp add: same_connectors_def registry_def mg_getConnector_def manager_inv_def fun_eq_iff)

lemma store_request_frame: "same_connectors mg (store_request ops k h e mg)"
  by (simp add: store_request_def same_connectors_def split: option.splits sum.splits)

lemma amqp_same: "act_inv same_connectors (amqp env x)"
  by (simp add: act_inv_def amqp_def same_connectors_def split: option.splits)

lemma enqueue_same: "act_inv same_connectors (enqueue_dlr env ops a cfg i)"
proof (cases "sa_source a")
  case HttpApi
  then show ?thesis
    by (simp add: act_inv_def enqueue_dlr_def act_defs Let_def store_request_frame same_connectors_refl)
next
  case (SmppServer sid ttl)
  then show ?thesis
    by (simp add: act_inv_def enqueue_dlr_def act_defs Let_def store_request_frame same_connectors_refl split: sum.splits)
qed

lemma submit_same: "act_inv same_connectors (perspective_submit_sm env ops a)"
proof -
  have "same_connectors mg (snd (perspective_submit_sm env ops a mg))" for mg
  proof (cases "mg_getConnector (sa_cid a) mg")
    case None
    then show ?thesis by (simp add: perspective_submit_sm_def same_connectors_def)
  next
    case (Some c)
    let ?m = "act_bind (act_res (mk_SubmitSmContent (me_new_id env) (me_created env) (sa_pdus a)
                (''submit.sm.resp.'' @ sa_cid a) (sa_bill a) (sa_priority a) (sa_validity a) None
                (source_name (sa_source a)))) (\<lambda>x.
            act_seq (amqp env (BasicPublish (submit_queue (sa_cid a)) x))
             (act_seq (enqueue_dlr env ops a (ce_config c) (c_msgid x)) (act_res (Inr (Some (c_msgid x))))))"
    have "act_inv same_connectors ?m"
      by (intro act_inv_bind act_inv_seq act_inv_res same_connectors_equiv amqp_same enqueue_same)
    then show ?thesis
      using Some by (simp add: perspective_submit_sm_def act_inv_def same_connectors_def)
  qed
  then show ?thesis by (simp add: act_inv_def)
qed

text \<open>The commands, and what the connections and listeners of the connectors do by themselves.\<close>

inductive manager_step :: "'r redis_ops \<Rightarrow> 'r manager \<Rightarrow> 'r manager \<Rightarrow> bool" for ops where
  add: "manager_step ops mg (snd (perspective_connector_add env cfg mg))"
| remove: "manager_step ops mg (snd (perspective_connector_remove env cid mg))"
| start: "manager_step ops mg (snd (perspective_connector_start env cid mg))"
| stop: "manager_step ops mg (snd (perspective_connector_stop env cid dq mg))"
| stopall: "manager_step ops mg (snd (perspective_connector_stopall env dq mg))"
| persist: "manager_step ops mg (snd (smppccs_persist env profile mg))"
| load: "manager_step ops mg (snd (smppccs_load env profile mg))"
| submit: "manager_step ops mg (snd (perspective_submit_sm env ops a mg))"
| broker: "manager_step ops mg (addAmqpBroker up mg)"
| redis: "manager_step ops mg (addRedisClient r mg)"
| service: "mg_getConnector cid mg = Some c \<Longrightarrow> service_step (ce_service c) s \<Longrightarrow>
    manager_step ops mg (on_connector cid (\<lambda>c. c\<lparr>ce_service := s\<rparr>) mg)"
| listener: "manager_step ops mg (on_connector cid (\<lambda>c. c\<lparr>ce_listener := l\<rparr>) mg)"

inductive manager_reachable :: "'r redis_ops \<Rightarrow> 'r manager \<Rightarrow> bool" for ops where
  init: "manager_reachable ops (SMPPClientManagerPB stats files)"
| step: "manager_reachable ops mg \<Longrightarrow> manager_step ops mg mg' \<Longrightarrow> manager_reachable ops mg'"

lemma manager_step_inv: "manager_step ops mg mg' \<Longrightarrow> manager_inv mg \<Longrightarrow> manager_inv mg'"
proof (induction rule: manager_step.induct)
  case (add mg env cfg)
  then show ?case using connector_add_effect[of env cfg mg] by (metis prod.collapse)
next
  case (remove mg env cid)
  then show ?case using connector_remove_effect[of env cid mg] by (metis prod.collapse)
next
  case (start mg env cid)
  then show ?case using connector_start_effect[of env cid mg] by (metis prod.collapse)
next
  case (stop mg env cid dq)
  then show ?case using connector_stop_effect[of env cid dq mg] by (metis prod.collapse)
next
  case (stopall mg env dq)
  obtain r mg1 where q: "stop_each env dq (map ce_id (mg_connectors mg)) mg = (r, mg1)" by fastforce
  have "manager_inv mg1" using stop_each_effect[OF q] stopall by blast
  then show ?case using q by (simp add: perspective_connector_stopall_def act_defs split: sum.splits)
next
  case (persist mg env profile)
  then show ?case by (simp add: smppccs_persist_def Let_def)
next
  case (load mg env profile)
  obtain r mg1 where q: "load_profile env profile mg = (r, mg1)" by fastforce
  then show ?case using load_profile_inv[OF q load] by (simp add: smppccs_load_def split: sum.splits)
next
  case (submit mg env a)
  have "same_connectors mg (snd (perspective_submit_sm env ops a mg))"
    using submit_same unfolding act_inv_def by blast
  then show ?case using same_connectorsD submit by blast
next
  case (service cid mg c s)
  then show ?case
    by (intro manager_inv_on) (auto simp: entry_inv_def intro: service_reachable.step)
next
  case (listener mg cid l)
  then show ?case by (intro manager_inv_on) (auto simp: entry_inv_def)
qed (simp_all add: addAmqpBroker_def addRedisClient_def)

lemma manager_reachable_inv: "manager_reachable ops mg \<Longrightarrow> manager_inv mg"
proof (induction rule: manager_reachable.induct)
  case (init stats files)
  show ?case by (simp add: manager_inv_def SMPPClientManagerPB_def)
qed (rule manager_step_inv)
section \<open>Persisting and loading\<close>

text \<open>Every call of the broker succeeds.\<close>

definition broker_works :: "manager_env \<Rightarrow> bool" where
  "broker_works env \<longleftrightarrow> me_broker env = (\<lambda>_. None)"

lemma amqp_works: "broker_works env \<Longrightarrow> amqp env op mg = (Inr (), mg\<lparr>mg_out := mg_out mg @ [op]\<rparr>)"
  by (simp add: amqp_def broker_works_def)

lemma registry_dom: "registry mg cid = None \<longleftrightarrow> mg_getConnector cid mg = None"
  by (simp add: registry_def)

lemma connector_remove_works:
  assumes "broker_works env" "manager_inv mg" "registry mg cid \<noteq> None"
  shows "\<exists>mg'. perspective_connector_remove env cid mg = (Inr True, mg')"
proof -
  obtain c where c: "mg_getConnector cid mg = Some c" using assms(3) by (auto simp: registry_def)
  define mg1 where "mg1 = (if sv_running (ce_service c)
    then on_connector cid (\<lambda>c. c\<lparr>ce_service := stopService (ce_service c)\<rparr>) mg else mg)"
  have "\<exists>c1. mg_getConnector cid mg1 = Some c1 \<and> \<not> sv_running (ce_service c1)"
    using c by (cases "sv_running (ce_service c)") (simp_all add: mg1_def getConnector_on)
  then obtain c1 where c1: "mg_getConnector cid mg1 = Some c1" "\<not> sv_running (ce_service c1)" by blast
  obtain q mg2 where q: "perspective_connector_stop env cid False mg1 = (q, mg2)" by fastforce
  have "q = Inr False"
    using q c1 assms(1)
    by (auto simp: perspective_connector_stop_def cancel_consumer_def act_defs amqp_works split: option.splits)
  moreover have "mg_getConnector cid mg2 \<noteq> None"
    using connector_stop_effect[OF q] \<open>q = Inr False\<close> c1(1) registry_dom[of mg2 cid] registry_dom[of mg1 cid] by auto
  then have "list_ex (\<lambda>c. ce_id c = cid) (mg_connectors mg2)"
    by (auto simp: getConnector_None list_ex_iff)
  ultimately show ?thesis
    using c q by (simp add: perspective_connector_remove_def mg1_def[symmetric] act_bind_def delConnector_def Let_def)
qed

lemma remove_each_works:
  assumes "broker_works env" "manager_inv mg" "distinct cids" "\<forall>cid \<in> set cids. registry mg cid \<noteq> None"
  shows "\<exists>mg'. remove_each env cids mg = (Inr (), mg') \<and>
    registry mg' = (\<lambda>k. if k \<in> set cids then None else registry mg k)"
  using assms
proof (induction cids arbitrary: mg)
  case (Cons cid cids)
  obtain mg1 where mg1: "perspective_connector_remove env cid mg = (Inr True, mg1)"
    using connector_remove_works[of env mg cid] Cons.prems by auto
  note e = connector_remove_effect[OF mg1 Cons.prems(2)]
  have "manager_inv mg1" "distinct cids" "\<forall>k \<in> set cids. registry mg1 k \<noteq> None"
    using e Cons.prems(3,4) by auto
  from Cons.IH[OF Cons.prems(1) this] obtain mg' where
    "remove_each env cids mg1 = (Inr (), mg')" "registry mg' = (\<lambda>k. if k \<in> set cids then None else registry mg1 k)" by blast
  then show ?case using mg1 e by (auto simp: act_defs fun_eq_iff)
qed (simp add: act_res_def)

lemma connector_add_works:
  assumes "broker_works env" "mg_broker mg = Some True" "registry mg (config_id cfg) = None"
  shows "\<exists>mg' c. perspective_connector_add env cfg mg = (Inr True, mg') \<and>
    mg_getConnector (config_id cfg) mg' = Some c \<and> ce_service c = SMPPClientService cfg"
proof -
  obtain xs where xs: "declare_queue env (config_id cfg) mg = (Inr (), mg\<lparr>mg_out := xs\<rparr>)"
    using assms(1) by (auto simp: declare_queue_def act_defs amqp_works)
  let ?mg = "mg\<lparr>mg_out := xs\<rparr>"
  have "perspective_connector_add env cfg mg = (Inr True, not_persisted (new_connector env cfg ?mg))"
    using assms(2,3) xs by (simp add: perspective_connector_add_def Let_def act_seq_def act_bind_def act_do_def act_res_def registry_dom)
  moreover have "\<exists>c. mg_getConnector (config_id cfg) (new_connector env cfg ?mg) = Some c \<and> ce_service c = SMPPClientService cfg"
    using assms(3)
    by (auto simp: registry_dom new_connector_def mg_getConnector_def find_snoc Let_def split: prod.splits)
  ultimately show ?thesis by simp
qed

lemma connector_start_works:
  assumes "broker_works env" "mg_broker mg = Some True" "mg_getConnector cid mg = Some c"
    "ce_service c = SMPPClientService cfg"
  shows "\<exists>mg'. perspective_connector_start env cid mg = (Inr True, mg')"
proof -
  have "\<not> sv_running (ce_service c)" "getSessionState (sv_factory (ce_service c)) = ''NONE''"
    using assms(4) by (simp_all add: SMPPClientService_def SMPPClientFactory_def getSessionState_def)
  then show ?thesis
    using assms(1-3)
    by (simp add: perspective_connector_start_def start_consumer_def act_defs amqp_works split: option.splits)
qed

lemma load_each_works:
  assumes "broker_works env" "mg_broker mg = Some True" "distinct (map fst ls)"
    "\<forall>(cid, cfg, run) \<in> set ls. config_id cfg = cid \<and> registry mg cid = None"
  shows "\<exists>mg'. load_each env ls mg = (Inr (), mg') \<and> registry mg' = registry mg ++ map_of ls"
  using assms
proof (induction ls arbitrary: mg)
  case (Cons l ls)
  obtain cid cfg run where l: "l = (cid, cfg, run)" by (cases l)
  have cid: "config_id cfg = cid" and free: "registry mg cid = None" using Cons.prems(4) l by auto
  obtain mg1 c where add: "perspective_connector_add env cfg mg = (Inr True, mg1)"
    and c: "mg_getConnector cid mg1 = Some c" "ce_service c = SMPPClientService cfg"
    using connector_add_works[OF Cons.prems(1,2), of cfg] free cid by auto
  have e: "registry mg1 = (registry mg)(cid \<mapsto> (cfg, False))" "mg_broker mg1 = Some True"
    using connector_add_effect[OF add] cid Cons.prems(2) by auto
  obtain mg2 where start: "perspective_connector_start env cid mg1 = (Inr True, mg2)"
    using connector_start_works[OF Cons.prems(1) e(2) c] by blast
  have e2: "registry mg2 = (registry mg)(cid \<mapsto> (cfg, True))" "mg_broker mg2 = Some True"
    using connector_start_effect[OF start] e by auto
  define mg3 where "mg3 = (if run then mg2 else mg1)"
  have r3: "registry mg3 = (registry mg)(cid \<mapsto> (cfg, run))" "mg_broker mg3 = Some True"
    using e e2 by (auto simp: mg3_def)
  have "\<forall>(k, cfg, run) \<in> set ls. config_id cfg = k \<and> registry mg3 k = None" "distinct (map fst ls)"
    using Cons.prems(3,4) l r3(1) by force+
  from Cons.IH[OF Cons.prems(1) r3(2) this(2,1)] obtain mg' where
    mg': "load_each env ls mg3 = (Inr (), mg')" "registry mg' = registry mg3 ++ map_of ls" by blast
  have "load_each env (l # ls) mg = (Inr (), mg')"
    using add start mg'(1) by (auto simp: l mg3_def act_defs)
  moreover have "registry mg' = registry mg ++ map_of (l # ls)"
  proof -
    have "cid \<notin> fst ` set ls" using Cons.prems(3) l by simp
    then have "map_of ls cid = None" by (simp add: map_of_eq_None_iff)
    then show ?thesis using mg'(2) r3(1) l by (auto simp: map_add_def fun_eq_iff split: option.splits)
  qed
  ultimately show ?case by blast
qed (simp add: act_res_def)
lemma config_id_fix: "config_id (fix_protocol_id cfg) = config_id cfg"
  by (auto simp: config_id_def fix_protocol_id_def split: option.splits pyval.splits)

lemma migrate_smppccs:
  "run_map ''smppccs'' get_release MAP (DSmppccs cs) = Inr (DSmppccs (map (apsnd (apfst fix_protocol_id)) cs))"
  by (simp add: MAP_def fix_users_and_smppccs_09rc23_def)

lemma map_of_apsnd: "map_of (map (apsnd f) xs) = (\<lambda>k. map_option f (map_of xs k))"
  by (induction xs) (auto simp: fun_eq_iff)

lemma registry_entries:
  "registry mg = map_of (map (\<lambda>c. (ce_id c, ce_config c, sv_running (ce_service c))) (mg_connectors mg))"
proof -
  have "map_option (\<lambda>c. (ce_config c, sv_running (ce_service c))) (find (\<lambda>c. ce_id c = k) cs) =
      map_of (map (\<lambda>c. (ce_id c, ce_config c, sv_running (ce_service c))) cs) k" for k and cs :: "'a connector_entry list"
    by (induction cs) auto
  then show ?thesis by (simp add: registry_def mg_getConnector_def fun_eq_iff)
qed

lemma registry_ids: "registry mg cid \<noteq> None \<longleftrightarrow> cid \<in> set (map ce_id (mg_connectors mg))"
  by (simp add: registry_dom getConnector_None)

section \<open>Properties\<close>



text \<open>Claim C21.  Connectors that were persisted come back: loading the profile into any manager with a working
  broker, after removing the connectors it had, gives exactly the persisted identifiers, with their
  configuration (a textual protocol id \<^verbatim>\<open>None\<close> is normalised) and running again if they ran.\<close>

theorem connectors_persist:
  assumes "manager_inv mg" "smppccs_persist env profile mg = (True, mg1)"
    and "manager_inv mg2" "mg_broker mg2 = Some True" "mg_files mg2 = mg_files mg1" "broker_works env'"
    and "me_store env' = me_store env" "me_date_ok env' (me_date env)" "CHR 0x0A \<notin> set (me_date env)"
  shows "\<exists>mg3. smppccs_load env' profile mg2 = (True, mg3) \<and> mg_persisted mg3 \<and>
    registry mg3 = (\<lambda>cid. map_option (apfst fix_protocol_id) (registry mg cid))"
proof -
  let ?data = "map (\<lambda>c. (ce_id c, ce_config c, sv_running (ce_service c))) (mg_connectors mg)"
  let ?ls = "map (apsnd (apfst fix_protocol_id)) ?data"
  have stored: "map_of (mg_files mg2) (smppccs_path env' profile) =
      Some \<lparr>pf_header = mk_header (me_date env) get_release, pf_data = DSmppccs ?data\<rparr>"
    using assms(2,5,7) by (auto simp: smppccs_persist_def smppccs_path_def Let_def split: if_splits)
  let ?ids = "map ce_id (mg_connectors mg2)"
  have "distinct ?ids" "\<forall>cid \<in> set ?ids. registry mg2 cid \<noteq> None"
    using assms(3) registry_ids[of mg2] by (auto simp: manager_inv_def)
  from remove_each_works[OF assms(6,3) this] obtain mg4 where
    rem: "remove_each env' ?ids mg2 = (Inr (), mg4)" and
    r4: "registry mg4 = (\<lambda>k. if k \<in> set ?ids then None else registry mg2 k)" by blast
  have empty: "registry mg4 = Map.empty" unfolding r4 using registry_ids[of mg2] by (metis (no_types))
  have "mg_broker mg4 = Some True" using remove_each_inv[OF rem assms(3)] assms(4) by simp
  moreover have "distinct (map fst ?ls)" using assms(1) by (simp add: manager_inv_def comp_def)
  moreover have "\<forall>(cid, cfg, run) \<in> set ?ls. config_id cfg = cid \<and> registry mg4 cid = None"
    using assms(1) by (auto simp: manager_inv_def entry_inv_def config_id_fix empty)
  ultimately obtain mg5 where load: "load_each env' ?ls mg4 = (Inr (), mg5)" and r5: "registry mg5 = map_of ?ls"
    using load_each_works[OF assms(6), of mg4 ?ls] empty by auto
  have "load_profile env' profile mg2 = (Inr (), mg5\<lparr>mg_persisted := True\<rparr>)"
    using stored rem load regex_header_mk[OF assms(9)] assms(8)
    by (simp add: load_profile_def ConfigurationMigrator_def getMigratedData_def migrate_smppccs act_defs)
  then have "smppccs_load env' profile mg2 = (True, mg5\<lparr>mg_persisted := True\<rparr>)" by (simp add: smppccs_load_def)
  moreover have "map_of ?ls = (\<lambda>cid. map_option (apfst fix_protocol_id) (registry mg cid))"
    unfolding registry_entries[of mg] map_of_apsnd ..
  ultimately show ?thesis using r5 by auto
qed
lemma flush_timers_out:
  "ls_out (foldl flush_timer l ts) = ls_out l @ map (\<lambda>(_, m, _). EReject (m_tag m) True) (filter (\<lambda>(_, _, _, active). active) ts)"
  by (induction ts arbitrary: l) (auto simp: flush_timer_def ls_rejectMessage_def ls_emit_def)

lemma stop_listener_effect:
  "ls_timers (stop_listener l) = []" "\<not> ls_queue (stop_listener l)"
  "ls_out (stop_listener l) =
     ls_out l @ map (\<lambda>(_, m, _). EReject (m_tag m) True) (filter (\<lambda>(_, _, _, active). active) (ls_timers l))"
  by (simp_all add: stop_listener_def setSubmitSmQ_def clearAllTimers_def clearRejectTimers_def flush_timers_def
      flush_timers_out)

text \<open>Claim C23.  Stopping a connector loses no message: every message that waits for a retry in the listener is given
  back to its queue, once and in order, before the timers are cleared; afterwards the connector neither runs
  nor consumes.\<close>

theorem stop_requeues_waiting:
  assumes "perspective_connector_stop env cid dq mg = (Inr True, mg')" "mg_getConnector cid mg = Some c"
  shows "\<exists>c'. mg_getConnector cid mg' = Some c' \<and> \<not> sv_running (ce_service c') \<and> ce_tag c' = None \<and>
    ls_timers (ce_listener c') = [] \<and> \<not> ls_queue (ce_listener c') \<and>
    ls_out (ce_listener c') = ls_out (ce_listener c) @
      map (\<lambda>(_, m, _). EReject (m_tag m) True) (filter (\<lambda>(_, _, _, active). active) (ls_timers (ce_listener c)))"
proof -
  let ?f = "\<lambda>c. c\<lparr>ce_listener := stop_listener (ce_listener c), ce_service := stopService (ce_service c)\<rparr>"
  obtain q mg1 where q: "cancel_consumer env cid (ce_tag c) mg = (q, mg1)" by fastforce
  have run: "sv_running (ce_service c)" and q1: "q = Inr ()"
    using assms q by (auto simp: perspective_connector_stop_def act_seq_def act_bind_def act_res_def
        split: sum.splits if_splits)
  obtain c1 where c1: "mg_getConnector cid mg1 = Some c1" "ce_listener c1 = ce_listener c" "ce_tag c1 = None"
    using cancel_consumer_effect[OF q assms(2)] q1 assms(2) q
    by (cases "ce_tag c") (auto simp: cancel_consumer_def act_res_def)
  obtain q' mg2 where q': "act_when dq (amqp env (QueueDelete (submit_queue cid))) mg1 = (q', mg2)" by fastforce
  have "act_inv out_only (act_when dq (amqp env (QueueDelete (submit_queue cid))))" by (intro out_only_intros)
  from out_onlyD[OF this q'] obtain xs where xs: "mg2 = mg1\<lparr>mg_out := xs\<rparr>" by blast
  have "mg' = not_persisted (on_connector cid ?f mg2)"
    using assms q q' q1 run
    by (auto simp: perspective_connector_stop_def act_seq_def act_bind_def act_res_def act_do_def split: sum.splits)
  then have "mg_getConnector cid mg' = Some (?f c1)" using c1(1) by (simp add: getConnector_on xs)
  then show ?thesis using c1 by (simp add: stop_listener_effect)
qed

section \<open>From a message to its receipt\<close>

text \<open>Values that the Redis client reads back as they were stored: numbers, and texts that are not read as numbers.\<close>

definition reads_back :: "pyval \<Rightarrow> bool" where
  "reads_back v = (plain_text v \<or> (case v of PInt _ \<Rightarrow> True | PStr s \<Rightarrow> CHR '':'' \<in> set s | _ \<Rightarrow> False))"

definition redis_reads :: "'r redis_ops \<Rightarrow> bool" where
  "redis_reads ops \<longleftrightarrow>
     (\<forall>r k h. rd_hgetall ops r k = Inr [] \<and> distinct (map fst h) \<and> list_all (\<lambda>(f, v). reads_back v) h \<longrightarrow>
        (\<exists>r'. rd_hmset ops r k h = Inr r' \<and> rd_hgetall ops r' k = Inr h \<and>
           (\<forall>j. j \<noteq> k \<longrightarrow> rd_hgetall ops r' j = rd_hgetall ops r j)))"

lemma store_request_stores:
  assumes "redis_ok ops" "redis_reads ops" "mg_redis mg = Some r" "rd_hgetall ops r k = Inr []"
    "distinct (map fst h)" "list_all (\<lambda>(f, v). reads_back v) h"
  shows "\<exists>r'. store_request ops k h e mg = mg\<lparr>mg_redis := Some r'\<rparr> \<and> rd_hgetall ops r' k = Inr h \<and>
    (\<forall>j. j \<noteq> k \<longrightarrow> rd_hgetall ops r' j = rd_hgetall ops r j)"
proof -
  obtain r1 where r1: "rd_hmset ops r k h = Inr r1" "rd_hgetall ops r1 k = Inr h"
    "\<forall>j. j \<noteq> k \<longrightarrow> rd_hgetall ops r1 j = rd_hgetall ops r j"
    using assms(2,4-6) unfolding redis_reads_def by blast
  obtain r2 where "rd_expire ops r1 k e = Inr r2" "rd_hgetall ops r2 = rd_hgetall ops r1"
    using redis_expire[OF assms(1)] by blast
  with r1 assms(3) show ?thesis by (intro exI[of _ r2]) (simp add: store_request_def)
qed

text \<open>What a taken message of an HTTP user that wants receipts leaves behind.\<close>

lemma submit_http:
  assumes "perspective_submit_sm env ops a mg = (Inr (Some i), mg')" "mg_getConnector (sa_cid a) mg = Some c"
    "sa_source a = HttpApi" "sa_dlr_url a \<noteq> PNone" "mg_redis mg \<noteq> None" "me_redis_up env"
  shows "\<exists>x. i = me_new_id env \<and> c_msgid x = i \<and> c_body x = BPdus (sa_pdus a) \<and> c_bill x = sa_bill a \<and>
    mg' = (let e = kwarg (ce_config c) ''dlr_expiry'' PNone
           in store_request ops (dlr_key i) (http_dlr_request a e) e
                (mg\<lparr>mg_out := mg_out mg @ [BasicPublish (submit_queue (sa_cid a)) x]\<rparr>))"
proof -
  let ?x = "mk_SubmitSmContent (me_new_id env) (me_created env) (sa_pdus a)
                (''submit.sm.resp.'' @ sa_cid a) (sa_bill a) (sa_priority a) (sa_validity a) None ''httpapi''"
  have up: "mg_broker mg = Some True" using assms(1,2) by (auto simp: perspective_submit_sm_def split: if_splits)
  obtain x where x: "?x = Inr x"
    using assms(1-3) up by (cases ?x) (auto simp: perspective_submit_sm_def source_name_def act_defs)
  then have "c_msgid x = me_new_id env" "c_body x = BPdus (sa_pdus a)" "c_bill x = sa_bill a"
    by (auto simp: mk_SubmitSmContent_def raise_if_def split: if_splits)
  then show ?thesis
    using assms x up
    by (auto simp: perspective_submit_sm_def source_name_def act_defs amqp_def enqueue_dlr_def Let_def
        split: option.splits)
qed

section \<open>Samples\<close>

definition sample_manager_env :: manager_env where
  "sample_manager_env =
     \<lparr>me_broker = (\<lambda>_. None), me_redis_up = True, me_writable = (\<lambda>_. True), me_date = ''Sun'',
      me_date_ok = (\<lambda>_. True), me_store = ''/store'', me_new_id = ''a-1'', me_created = ''now'', me_clock = PInt 0\<rparr>"

definition sample_cfg :: config where
  "sample_cfg = sample_connector @ [(''dlr_expiry'', PInt 3600)]"

definition sample_mg0 :: "(string, (string, pyval) dict) dict manager" where
  "sample_mg0 = addRedisClient [] (addAmqpBroker True (SMPPClientManagerPB [] []))"

definition sample_mg1 :: "(string, (string, pyval) dict) dict manager" where
  "sample_mg1 = snd (perspective_connector_add sample_manager_env sample_cfg sample_mg0)"

definition sample_mg :: "(string, (string, pyval) dict) dict manager" where
  "sample_mg = snd (perspective_connector_start sample_manager_env ''smsc-1'' sample_mg1)"

lemma sample_mg_reachable: "manager_reachable store_ops sample_mg1" "manager_reachable store_ops sample_mg"
proof -
  have "manager_reachable store_ops (addAmqpBroker True (SMPPClientManagerPB [] []))"
    by (rule manager_reachable.step[OF manager_reachable.init manager_step.broker])
  from manager_reachable.step[OF this manager_step.redis] have "manager_reachable store_ops sample_mg0"
    unfolding sample_mg0_def .
  from manager_reachable.step[OF this manager_step.add] show 1: "manager_reachable store_ops sample_mg1"
    unfolding sample_mg1_def .
  show "manager_reachable store_ops sample_mg"
    unfolding sample_mg_def by (rule manager_reachable.step[OF 1 manager_step.start])
qed



theorem connectors_persist_witness:
  "\<exists>mg3. smppccs_load sample_manager_env ''jcli-prod''
       (sample_mg1\<lparr>mg_files := mg_files (snd (smppccs_persist sample_manager_env ''jcli-prod'' sample_mg))\<rparr>) = (True, mg3) \<and>
     registry mg3 ''smsc-1'' = Some (sample_cfg, True)"
proof -
  let ?mg1 = "snd (smppccs_persist sample_manager_env ''jcli-prod'' sample_mg)"
  let ?mg2 = "sample_mg1\<lparr>mg_files := mg_files ?mg1\<rparr>"
  have p: "smppccs_persist sample_manager_env ''jcli-prod'' sample_mg = (True, ?mg1)"
    by (simp add: smppccs_persist_def sample_manager_env_def Let_def)
  have "mg_broker sample_mg1 = Some True" by code_simp
  then have b: "mg_broker ?mg2 = Some True" by simp
  have i: "manager_inv sample_mg" "manager_inv ?mg2"
    using manager_reachable_inv[OF sample_mg_reachable(1)] manager_reachable_inv[OF sample_mg_reachable(2)] by simp_all
  have w: "broker_works sample_manager_env" "me_date_ok sample_manager_env (me_date sample_manager_env)"
    "CHR 0x0A \<notin> set (me_date sample_manager_env)"
    by (simp_all add: broker_works_def sample_manager_env_def)
  have f: "map_option (apfst fix_protocol_id) (registry sample_mg ''smsc-1'') = Some (sample_cfg, True)" by code_simp
  from connectors_persist[OF i(1) p i(2) b _ w(1) _ w(2,3)] f show ?thesis by auto
qed

text \<open>A message that waits for its retry while the connector is stopped.\<close>

definition sample_waiting :: "(string, (string, pyval) dict) dict manager" where
  "sample_waiting = on_connector ''smsc-1''
     (\<lambda>c. c\<lparr>ce_listener := (ce_listener c)\<lparr>ls_timers := [(''a-1'', resp_msg 7, PInt 120, True)]\<rparr>\<rparr>) sample_mg"

theorem stop_requeues_waiting_witness:
  "\<exists>mg' c'. perspective_connector_stop sample_manager_env ''smsc-1'' False sample_waiting = (Inr True, mg') \<and>
     mg_getConnector ''smsc-1'' mg' = Some c' \<and> ls_out (ce_listener c') = [EReject 7 True]"
proof -
  obtain r mg' where q: "perspective_connector_stop sample_manager_env ''smsc-1'' False sample_waiting = (r, mg')" by fastforce
  have "fst (perspective_connector_stop sample_manager_env ''smsc-1'' False sample_waiting) = Inr True" by code_simp
  then have q: "perspective_connector_stop sample_manager_env ''smsc-1'' False sample_waiting = (Inr True, mg')"
    using q by simp
  have l: "map_option (\<lambda>c. (ls_out (ce_listener c), ls_timers (ce_listener c))) (mg_getConnector ''smsc-1'' sample_waiting) =
      Some ([], [(''a-1'', resp_msg 7, PInt 120, True)])" by code_simp
  then obtain c where c: "mg_getConnector ''smsc-1'' sample_waiting = Some c"
    "ls_out (ce_listener c) = []" "ls_timers (ce_listener c) = [(''a-1'', resp_msg 7, PInt 120, True)]" by auto
  have "m_tag (resp_msg 7) = 7" by (simp add: resp_msg_def)
  then show ?thesis using stop_requeues_waiting[OF q c(1)] q c by auto
qed

text \<open>A connector whose consumer cannot be started is reported as not started, although it runs.\<close>

lemma failed_start_leaves_connector_running:
  "let env = sample_manager_env\<lparr>me_broker := (\<lambda>op. case op of BasicConsume _ _ \<Rightarrow> Some IOError | _ \<Rightarrow> None)\<rparr>;
       (r, mg) = perspective_connector_start env ''smsc-1'' sample_mg1
   in r = Inr False \<and> perspective_service_status ''smsc-1'' mg = Some True \<and>
      map_option ce_tag (mg_getConnector ''smsc-1'' mg) = Some None"
  by code_simp
lemma store_reads: "redis_reads store_ops"
proof -
  have "foldl (\<lambda>d (f, v). dset d f v) [] h = h" if "distinct (map fst h)" for h :: "(string, pyval) dict"
    using foldl_dset_distinct[of "[]" h] that by simp
  then show ?thesis by (auto simp: redis_reads_def store_ops_def store_get_def split: option.splits)
qed

definition sample_submit :: submit_args where
  "sample_submit =
     \<lparr>sa_uid = ''u1'', sa_cid = ''smsc-1'', sa_pdus = [], sa_bill = None, sa_priority = PInt 0, sa_validity = PNone,
      sa_dlr_url = PStr ''http://h.x/dlr'', sa_dlr_level = PInt 3, sa_dlr_method = PStr ''POST'',
      sa_dlr_connector = PStr ''smsc-1'', sa_source = HttpApi\<rparr>"


end
