(* ===== verification/Front_Ends.thy ===== *)
theory Front_Ends
  imports Smpp_Server Http_Api Client_Manager_Correct Router_Correct
begin

text \<open>
  The two front ends side by side.  The comments of \<^verbatim>\<open>submit_sm_post_interception\<close> and of \<^verbatim>\<open>render_POST\<close> ask that each behaves
  exactly like the other; the first section proves in which sense they do.  A simulation between actions relates the
  states of the two gateways: the routers agree except for the statistics of the connections, the managers have the same
  connectors and have published the same messages, and the user has last sent at the same instant over either.
\<close>

section \<open>Simulation of actions\<close>

definition act_sim ::
  "('s \<Rightarrow> 't \<Rightarrow> bool) \<Rightarrow> (pyexc \<Rightarrow> pyexc \<Rightarrow> bool) \<Rightarrow> ('a \<Rightarrow> 'b \<Rightarrow> bool) \<Rightarrow> ('s, 'a) action \<Rightarrow> ('t, 'b) action \<Rightarrow> bool" where
  "act_sim R E V m n \<longleftrightarrow> (\<forall>s t. R s t \<longrightarrow> rel_prod (rel_sum E V) R (m s) (n t))"

lemma act_simI: "(\<And>s t. R s t \<Longrightarrow> rel_prod (rel_sum E V) R (m s) (n t)) \<Longrightarrow> act_sim R E V m n"
  by (simp add: act_sim_def)

lemma act_simD: "act_sim R E V m n \<Longrightarrow> R s t \<Longrightarrow> rel_prod (rel_sum E V) R (m s) (n t)"
  by (simp add: act_sim_def)

lemma act_sim_bind:
  assumes "act_sim R E V m n" "\<And>x y. V x y \<Longrightarrow> act_sim R E W (f x) (k y)"
  shows "act_sim R E W (act_bind m f) (act_bind n k)"
proof (rule act_simI)
  fix s t assume "R s t"
  then have r: "rel_prod (rel_sum E V) R (m s) (n t)" by (rule act_simD[OF assms(1)])
  obtain a s' b t' where eq: "m s = (a, s')" "n t = (b, t')" by fastforce
  with r have "rel_sum E V a b" "R s' t'" by auto
  then show "rel_prod (rel_sum E W) R (act_bind m f s) (act_bind n k t)"
    using assms(2) by (cases a; cases b) (auto simp: act_bind_def eq act_sim_def)
qed

lemma act_sim_res: "rel_sum E V a b \<Longrightarrow> act_sim R E V (act_res a) (act_res b)"
  by (simp add: act_sim_def act_res_def)

lemma act_sim_left_res: "(\<And>x. a = Inr x \<Longrightarrow> act_sim R E V (f x) n) \<Longrightarrow> \<exists>x. a = Inr x \<Longrightarrow> act_sim R E V (act_bind (act_res a) f) n"
  by auto

section \<open>The same message over both front ends\<close>

fun published :: "broker_op \<Rightarrow> (string \<times> string \<times> bill option \<times> int option) option" where
  "published (BasicPublish q c) = Some (q, c_msgid c, c_bill c, c_priority c)"
| "published _ = None"

definition same_router :: "router \<Rightarrow> router \<Rightarrow> bool" where
  "same_router a b \<longleftrightarrow>
     ro_users a = ro_users b \<and> ro_groups a = ro_groups b \<and> ro_mt_routes a = ro_mt_routes b \<and> ro_mt_icpts a = ro_mt_icpts b"

definition same_gateway :: "string \<Rightarrow> 'r gateway \<Rightarrow> 'r gateway \<Rightarrow> bool" where
  "same_gateway uid g h \<longleftrightarrow>
     same_router (gw_router g) (gw_router h) \<and>
     mg_broker (gw_manager g) = mg_broker (gw_manager h) \<and>
     mg_connectors (gw_manager g) = mg_connectors (gw_manager h) \<and>
     map published (mg_out (gw_manager g)) = map published (mg_out (gw_manager h)) \<and>
     stats_typed HttpAPIStatistics (gw_stats h) \<and>
     qos_last_submit_sm_at (cx_smpps (cnx_of uid (gw_router g))) =
       ha_qos_last_submit_sm_at (cx_httpapi (cnx_of uid (gw_router h)))"

text \<open>The errors of the SMPP server and those of the HTTP API that stand for the same refusal; other exceptions are the
  same.\<close>

definition same_refusal :: "pyexc \<Rightarrow> pyexc \<Rightarrow> bool" where
  "same_refusal e e' \<longleftrightarrow>
     (e, e') \<in> {(SubmitSmRouteNotFoundError, HttpApiError 412 ''RouteNotFoundError''),
               (SubmitSmRoutingError, HttpApiError 412 ''ConnectorNotFoundError''),
               (SubmitSmThroughputExceededError, HttpApiError 403 ''ThroughputExceededError''),
               (SubmitSmChargingError, HttpApiError 403 ''ChargingError''),
               (SubmitSmRoutingError, HttpApiError 500 ''ServerError''),
               (SubmitSmRoutingError, AttributeError)} \<or> e = e'"

lemma same_refusal_refl [simp]: "same_refusal e e"
  by (simp add: same_refusal_def)

subsection \<open>Steps that both have\<close>

lemma cnx_of_update [simp]: "cnx_of uid (update_cnx uid f ro) = f (cnx_of uid ro)"
  by (simp add: cnx_of_def update_cnx_def stats_get_def stats_set_def split: option.splits)

lemma update_cnx_fields [simp]:
  "ro_users (update_cnx uid f ro) = ro_users ro" "ro_groups (update_cnx uid f ro) = ro_groups ro"
  "ro_mt_routes (update_cnx uid f ro) = ro_mt_routes ro" "ro_mt_icpts (update_cnx uid f ro) = ro_mt_icpts ro"
  by (simp_all add: update_cnx_def split: prod.splits)

lemma cnx_of_frame [simp]:
  "cnx_of uid (ro\<lparr>ro_mt_routes := x\<rparr>) = cnx_of uid ro" "cnx_of uid (ro\<lparr>ro_users := y\<rparr>) = cnx_of uid ro"
  by (simp_all add: cnx_of_def)

lemma match_route_sim: "act_sim (same_gateway uid) same_refusal (=) (match_route env r) (match_route env r)"
proof (rule act_simI)
  fix g h :: "'r gateway" assume R: "same_gateway uid g h"
  then have s: "ro_mt_routes (gw_router g) = ro_mt_routes (gw_router h)" by (simp add: same_gateway_def same_router_def)
  obtain x t where x: "getRouteFor (re_filter (ge_router env)) r (ro_mt_routes (gw_router h)) = (x, t)" by fastforce
  have "rel_sum same_refusal (=) x x" by (cases x) auto
  then show "rel_prod (rel_sum same_refusal (=)) (same_gateway uid) (match_route env r g) (match_route env r h)"
    using R by (auto simp: match_route_def on_router_def same_gateway_def same_router_def s x)
qed

lemma is_bound_cong: "mg_connectors a = mg_connectors b \<Longrightarrow> is_bound a = is_bound b"
  by (simp add: fun_eq_iff is_bound_def perspective_connector_details_def getConnectorDetails_def mg_getConnector_def)

lemma route_connector_sim:
  "act_sim (same_gateway uid) same_refusal (=) (route_connector env kr) (route_connector env kr)"
proof (rule act_simI)
  fix g h :: "'r gateway" assume R: "same_gateway uid g h"
  then have b: "is_bound (gw_manager g) = is_bound (gw_manager h)" unfolding same_gateway_def by (intro is_bound_cong) simp
  obtain k rt where kr: "kr = (k, rt)" by fastforce
  obtain c rt1 where c: "getConnector (re_randbelow (ge_router env)) rt = (c, rt1)" by fastforce
  have "\<exists>x rt'. \<forall>g :: 'r gateway. is_bound (gw_manager g) = is_bound (gw_manager h) \<longrightarrow>
      route_connector env kr g = (x, g\<lparr>gw_router := (gw_router g)\<lparr>ro_mt_routes :=
        update_first (\<lambda>e. fst e = k) (\<lambda>_. (k, rt')) (ro_mt_routes (gw_router g))\<rparr>\<rparr>)"
  proof (cases "rt_class rt = FailoverMTRoute")
    case True
    show ?thesis
    proof (cases c)
      case None with True kr c show ?thesis by (intro exI[of _ "Inl AttributeError"] exI[of _ rt1]) (simp add: route_connector_def)
    next
      case (Some c0)
      obtain c' rt2 where "bound_connector (is_bound (gw_manager h)) rt1 c0 = (c', rt2)" by fastforce
      with Some True kr c show ?thesis by (intro exI[of _ "Inr c'"] exI[of _ rt2]) (simp add: route_connector_def)
    qed
  next
    case False with kr c show ?thesis by (intro exI[of _ "Inr c"] exI[of _ rt1]) (simp add: route_connector_def)
  qed
  then obtain x rt' where x: "\<And>g :: 'r gateway. is_bound (gw_manager g) = is_bound (gw_manager h) \<Longrightarrow>
      route_connector env kr g = (x, g\<lparr>gw_router := (gw_router g)\<lparr>ro_mt_routes :=
        update_first (\<lambda>e. fst e = k) (\<lambda>_. (k, rt')) (ro_mt_routes (gw_router g))\<rparr>\<rparr>)" by blast
  have "rel_sum same_refusal (=) x x" by (cases x) auto
  then show "rel_prod (rel_sum same_refusal (=)) (same_gateway uid) (route_connector env kr g) (route_connector env kr h)"
    using R by (simp add: x[OF b] x[OF refl] same_gateway_def same_router_def)
qed

text \<open>A charging step depends on the users only, and changes at most one credential.\<close>

definition set_credential :: "string \<Rightarrow> credential option \<Rightarrow> router \<Rightarrow> router" where
  "set_credential uid c ro = (case c of None \<Rightarrow> ro | Some c \<Rightarrow> set_mt uid c ro)"

lemma charge_step_shape:
  "\<exists>x c. \<forall>ro'. ro_users ro' = ro_users (ro :: router) \<longrightarrow> charge_step uid key due ro' = (x, set_credential uid c ro')"
proof -
  have u: "getUser uid ro' = getUser uid ro" if "ro_users ro' = ro_users ro" for ro' using that by (simp add: getUser_def)
  have none: ?thesis if "\<And>ro'. getUser uid ro' = getUser uid ro \<Longrightarrow> charge_step uid key due ro' = (x, ro')" for x
    by (rule exI[of _ x], rule exI[of _ None]) (auto simp: set_credential_def intro: that u)
  note d = charge_step_def
  show ?thesis
  proof (cases "py_lt (PInt 0) due")
    case (Inl e) then show ?thesis by (intro none[of "Inl e"]) (simp add: d)
  next
    case (Inr b)
    show ?thesis
    proof (cases b)
      case False with Inr show ?thesis by (intro none[of "Inr True"]) (simp add: d)
    next
      case True
      with Inr have p: "py_lt (PInt 0) due = Inr True" by simp
      show ?thesis
      proof (cases "getUser uid ro")
        case None with p show ?thesis by (intro none[of "Inl AttributeError"]) (simp add: d)
      next
        case (Some v)
        show ?thesis
        proof (cases "getQuota key (u_mt v)")
          case (Inl e) with p Some show ?thesis by (intro none[of "Inl e"]) (simp add: d)
        next
          case (Inr q)
          note p' = p Some Inr
          show ?thesis
          proof (cases "q = PNone")
            case True with p' show ?thesis by (intro none[of "Inr True"]) (simp add: d)
          next
            case q: False
            show ?thesis
            proof (cases "py_lt q due")
              case (Inl e) with p' q show ?thesis by (intro none[of "Inl e"]) (simp add: d)
            next
              case less: (Inr l)
              show ?thesis
              proof (cases l)
                case True with p' q less show ?thesis by (intro none[of "Inr False"]) (simp add: d)
              next
                case False
                show ?thesis
                proof (cases "res_bind (py_neg due) (\<lambda>x. updateQuota key x (u_mt v))")
                  case (Inl e)
                  with p' q less False show ?thesis by (intro none[of "Inl e"]) (simp add: d)
                next
                  case (Inr c)
                  have "charge_step uid key due ro' = (Inr True, set_mt uid c ro')" if "ro_users ro' = ro_users ro" for ro'
                    using p' q less False Inr u[OF that] by (auto simp: d)
                  then show ?thesis
                    by (intro exI[of _ "Inr True"] exI[of _ "Some c"]) (simp add: set_credential_def)
                qed
              qed
            qed
          qed
        qed
      qed
    qed
  qed
qed

lemma charge_shape:
  "\<exists>x c d. \<forall>ro'. ro_users ro' = ro_users (ro :: router) \<longrightarrow>
     chargeUserForSubmitSms uid b n reqs ro' = (x, set_credential uid d (set_credential uid c ro'))"
proof (cases "list_all (\<lambda>c. c) reqs")
  case False
  then show ?thesis
    by (intro exI[of _ "Inr False"] exI[of _ None]) (simp add: chargeUserForSubmitSms_def set_credential_def)
next
  case True
  show ?thesis
  proof (cases "res_bind (getAmount ''submit_sm'' b) (\<lambda>a. py_mul a (PInt n))")
    case (Inl e)
    with True show ?thesis
      by (intro exI[of _ "Inl e"] exI[of _ None]) (simp add: chargeUserForSubmitSms_def set_credential_def)
  next
    case due: (Inr due)
    obtain x c where x: "\<And>ro'. ro_users ro' = ro_users ro \<Longrightarrow>
        charge_step uid ''balance'' due ro' = (x, set_credential uid c ro')" using charge_step_shape by blast
    have users: "ro_users (set_credential uid c ro') = ro_users (set_credential uid c ro)"
      if "ro_users ro' = ro_users ro" for ro' :: router
      using that by (simp add: set_credential_def set_mt_def split: option.split)
    show ?thesis
    proof (cases "x = Inr True")
      case False
      then show ?thesis using True due
        by (intro exI[of _ x] exI[of _ c] exI[of _ None])
          (auto simp: chargeUserForSubmitSms_def x set_credential_def split: sum.splits bool.splits)
    next
      case t: True
      show ?thesis
      proof (cases "res_bind (getAction ''decrement_submit_sm_count'' b) (\<lambda>a. py_mul a (PInt n))")
        case (Inl e)
        with True due t show ?thesis
          by (intro exI[of _ "Inl e"] exI[of _ c] exI[of _ None]) (auto simp: chargeUserForSubmitSms_def x set_credential_def)
      next
        case (Inr cnt)
        obtain y d where y: "\<And>ro'. ro_users ro' = ro_users (set_credential uid c ro) \<Longrightarrow>
            charge_step uid ''submit_sm_count'' cnt ro' = (y, set_credential uid d ro')" using charge_step_shape by blast
        have "chargeUserForSubmitSms uid b n reqs ro' = (y, set_credential uid d (set_credential uid c ro'))"
          if "ro_users ro' = ro_users ro" for ro'
          using True due t Inr by (auto simp: chargeUserForSubmitSms_def x[OF that] y[OF users[OF that]])
        then show ?thesis by blast
      qed
    qed
  qed
qed

lemma set_credential_fields [simp]:
  "ro_groups (set_credential uid c ro) = ro_groups ro" "ro_mt_routes (set_credential uid c ro) = ro_mt_routes ro"
  "ro_mt_icpts (set_credential uid c ro) = ro_mt_icpts ro" "ro_stats (set_credential uid c ro) = ro_stats ro"
  by (simp_all add: set_credential_def set_mt_def split: option.splits)

lemma set_credential_users: "ro_users a = ro_users b \<Longrightarrow> ro_users (set_credential uid c a) = ro_users (set_credential uid c b)"
  by (simp add: set_credential_def set_mt_def split: option.splits)

lemma charge_sim:
  "act_sim (same_gateway uid) same_refusal (=) (on_router (chargeUserForSubmitSms uid' b n reqs))
     (on_router (chargeUserForSubmitSms uid' b n reqs))"
proof (rule act_simI)
  fix g h :: "'r gateway" assume R: "same_gateway uid g h"
  then have u: "ro_users (gw_router g) = ro_users (gw_router h)" by (simp add: same_gateway_def same_router_def)
  obtain x c d where x: "\<And>ro'. ro_users ro' = ro_users (gw_router h) \<Longrightarrow>
      chargeUserForSubmitSms uid' b n reqs ro' = (x, set_credential uid' d (set_credential uid' c ro'))"
    using charge_shape by blast
  have "rel_sum same_refusal (=) x x" by (cases x) auto
  then show "rel_prod (rel_sum same_refusal (=)) (same_gateway uid)
      (on_router (chargeUserForSubmitSms uid' b n reqs) g) (on_router (chargeUserForSubmitSms uid' b n reqs) h)"
    using R by (auto simp: on_router_def x[OF u] x[OF refl] same_gateway_def same_router_def cnx_of_def
        intro: set_credential_users)
qed

text \<open>Multiplying by one changes neither a sum of amounts nor a number of messages.\<close>

lemma sum_amounts_float: "sum_amounts (PFloat (fl x)) d = Inr v \<Longrightarrow> \<exists>y. v = PFloat (fl y)"
proof (induction d arbitrary: x)
  case (Cons kv d)
  obtain k w where kv: "kv = (k, w)" by fastforce
  from Cons.prems show ?case by (auto simp: kv py_num_defs intro: Cons.IH split: if_splits)
qed auto

lemma getTotalAmounts_float: "getTotalAmounts b = Inr v \<Longrightarrow> \<exists>y. v = PFloat (fl y)"
  using sum_amounts_float[of 0 "b_amounts b" v] by (simp add: getTotalAmounts_def)

lemma setAmount_actions: "setAmount k a b = Inr b' \<Longrightarrow> b_actions b' = b_actions b"
  by (auto simp: setAmount_def raise_if_def split: if_splits)

lemma res_bind_keeps: "(\<And>x. m = Inr x \<Longrightarrow> \<forall>y. f x = Inr y \<longrightarrow> P y) \<Longrightarrow> \<forall>y. res_bind m f = Inr y \<longrightarrow> P y"
  by auto

lemma if_keeps: "\<forall>y. a = Inr y \<longrightarrow> P y \<Longrightarrow> \<forall>y. b = Inr y \<longrightarrow> P y \<Longrightarrow> \<forall>y. (if c then a else b) = Inr y \<longrightarrow> P y"
  by simp

lemma bill_rate_actions: "\<forall>b'. bill_rate rate u b = Inr b' \<longrightarrow> b_actions b' = b_actions b"
  unfolding bill_rate_def by (intro res_bind_keeps if_keeps) (auto dest!: setAmount_actions)

lemma fl_one [simp]: "fl 1 = 1"
  by code_simp

lemma bill_action_int:
  assumes "getBillFor bid rt u = Inr b"
  shows "\<exists>k. getAction ''decrement_submit_sm_count'' b = Inr (PInt k)"
proof -
  obtain b0 where b0: "bill_rate (getRate rt) u (SubmitSmBill bid u) = Inr b0" "bill_count u b0 = Inr b"
    using assms by (auto simp: getBillFor_def bill_for_rate_def)
  have "b_actions b0 = [(''decrement_submit_sm_count'', PInt 0)]"
    using bill_rate_actions b0(1) by (fastforce simp: SubmitSmBill_def)
  then show ?thesis
    using b0(2) by (auto simp: bill_count_def setAction_def getAction_def raise_if_def split: if_splits)
qed

lemma py_mul_one_int: "py_mul (PInt k) (PInt 1) = Inr (PInt k)"
  by (simp add: py_num_defs)

lemma py_mul_one_float: "py_mul (PFloat (fl y)) (PInt 1) = Inr (PFloat (fl y))"
  by (simp add: py_num_defs)

lemma charging_requirements_one:
  assumes "getBillFor bid rt u = Inr b"
  shows "charging_requirements (\<lambda>a. py_mul a (PInt 1)) b u = charging_requirements Inr b u"
proof -
  obtain k where k: "getAction ''decrement_submit_sm_count'' b = Inr (PInt k)" using bill_action_int[OF assms] by blast
  have t: "res_bind (getTotalAmounts b) (\<lambda>a. res_bind (py_lt (PInt 0) a) (\<lambda>positive. if \<not> positive then Inr []
             else res_bind (py_mul a (PInt 1)) (\<lambda>due. res_bind (py_lt v due) (\<lambda>less. Inr [\<not> less])))) =
          res_bind (getTotalAmounts b) (\<lambda>a. res_bind (py_lt (PInt 0) a) (\<lambda>positive. if \<not> positive then Inr []
             else res_bind (Inr a) (\<lambda>due. res_bind (py_lt v due) (\<lambda>less. Inr [\<not> less]))))" for v
  proof (cases "getTotalAmounts b")
    case (Inr a)
    then obtain y where "a = PFloat (fl y)" using getTotalAmounts_float by blast
    with Inr show ?thesis by (simp add: py_mul_one_float cong: if_cong)
  qed simp
  show ?thesis unfolding charging_requirements_def t by (simp add: k py_mul_one_int cong: if_cong)
qed

lemma charge_for_sim:
  "act_sim (same_gateway uid) same_refusal (=) (charge_for env Inr 1 rt u) (charge_for env (\<lambda>a. py_mul a (PInt 1)) 1 rt u)"
proof (cases "ge_billing env")
  case True
  have "act_sim (same_gateway uid) same_refusal (=)
      (act_bind (act_res (res_bind (getTotalAmounts b) (\<lambda>_. charging_requirements Inr b u))) (\<lambda>reqs.
        act_bind (on_router (chargeUserForSubmitSms (u_uid u) b 1 reqs)) (\<lambda>charged. act_res (Inr (charged, Some b)))))
      (act_bind (act_res (res_bind (getTotalAmounts b) (\<lambda>_. charging_requirements (\<lambda>a. py_mul a (PInt 1)) b u))) (\<lambda>reqs.
        act_bind (on_router (chargeUserForSubmitSms (u_uid u) b 1 reqs)) (\<lambda>charged. act_res (Inr (charged, Some b)))))"
    if "getBillFor (ge_bid env) rt u = Inr b" for b
    unfolding charging_requirements_one[OF that]
    by (rule act_sim_bind[where V = "(=)"] act_sim_res sum.rel_refl charge_sim | simp)+
  with True show ?thesis
    by (cases "getBillFor (ge_bid env) rt u") (simp_all add: charge_for_def act_sim_res)
qed (simp add: charge_for_def act_sim_res)

lemma throttled_sim:
  assumes "getQuota q (u_mt u) = getQuota q' (u_mt u)"
  shows "act_sim (same_gateway (u_uid u)) same_refusal (=)
    (throttled env q (\<lambda>x. qos_last_submit_sm_at (cx_smpps x))
       (\<lambda>now x. x\<lparr>cx_smpps := (cx_smpps x)\<lparr>qos_last_submit_sm_at := now\<rparr>\<rparr>) u)
    (throttled env q' (\<lambda>x. ha_qos_last_submit_sm_at (cx_httpapi x))
       (\<lambda>now x. x\<lparr>cx_httpapi := (cx_httpapi x)\<lparr>ha_qos_last_submit_sm_at := now\<rparr>\<rparr>) u)"
    (is "act_sim _ _ _ ?m ?n")
proof (rule act_simI)
  fix g h :: "'a gateway" assume R: "same_gateway (u_uid u) g h"
  then have l: "qos_last_submit_sm_at (cx_smpps (cnx_of (u_uid u) (gw_router g))) =
      ha_qos_last_submit_sm_at (cx_httpapi (cnx_of (u_uid u) (gw_router h)))" by (simp add: same_gateway_def)
  show "rel_prod (rel_sum same_refusal (=)) (same_gateway (u_uid u)) (?m g) (?n h)"
  proof (cases "res_bind (getQuota q' (u_mt u)) (\<lambda>x. too_fast x
      (ha_qos_last_submit_sm_at (cx_httpapi (cnx_of (u_uid u) (gw_router h)))) (ge_now env))")
    case (Inl e) with R show ?thesis by (simp add: throttled_def assms l)
  next
    case (Inr b) with R show ?thesis
      by (cases b) (auto simp: throttled_def assms l same_gateway_def same_router_def)
  qed
qed

subsection \<open>Submission\<close>

definition address_params :: "string list" where
  "address_params =
     [''source_addr_ton'', ''source_addr_npi'', ''source_addr'', ''dest_addr_ton'', ''dest_addr_npi'', ''destination_addr'']"

definition receipt_readable :: "submit_args \<Rightarrow> bool" where
  "receipt_readable a \<longleftrightarrow> sa_source a = HttpApi \<or>
     (\<exists>v. map_of (p_params (hd (sa_pdus a))) ''registered_delivery'' = Some (PList [v])) \<and>
     (\<forall>k \<in> set address_params. has_key (p_params (hd (sa_pdus a))) k)"

definition redis_only :: "'r manager \<Rightarrow> 'r manager \<Rightarrow> bool" where
  "redis_only mg mg' \<longleftrightarrow> mg' = mg\<lparr>mg_redis := mg_redis mg'\<rparr>"

lemma redis_only_refl [simp]: "redis_only mg mg"
  by (simp add: redis_only_def)

lemma redis_only_store [simp]: "redis_only mg (store_request ops key h expiry mg)"
  by (simp add: redis_only_def store_request_def split: option.split sum.split)

lemma smpps_dlr_request_ok:
  "\<forall>k \<in> set address_params. has_key ps k \<Longrightarrow> \<exists>h. smpps_dlr_request system_id now receipt expiry ps = Inr h"
  by (fastforce simp: smpps_dlr_request_def address_params_def has_key_def dget_def)

lemma enqueue_dlr_ok:
  assumes "receipt_readable a"
  shows "fst (enqueue_dlr env ops a cfg i mg) = Inr () \<and> redis_only mg (snd (enqueue_dlr env ops a cfg i mg))"
proof (cases "sa_source a")
  case HttpApi
  then show ?thesis by (simp add: enqueue_dlr_def act_defs Let_def)
next
  case (SmppServer system_id ttl)
  let ?ps = "p_params (hd (sa_pdus a))"
  obtain v where v: "map_of ?ps ''registered_delivery'' = Some (PList [v])" and k: "\<forall>k \<in> set address_params. has_key ?ps k"
    using assms SmppServer by (auto simp: receipt_readable_def)
  obtain h where "smpps_dlr_request system_id (me_clock env) v ttl ?ps = Inr h" using smpps_dlr_request_ok[OF k] by blast
  then show ?thesis
    using SmppServer v by (simp add: enqueue_dlr_def act_defs dget_def receipt_of_def Let_def)
qed

definition submitted :: "manager_env \<Rightarrow> submit_args \<Rightarrow> content" where
  "submitted env a =
     \<lparr>c_body = BPdus (sa_pdus a), c_msgid = me_new_id env,
      c_headers = [(''source_connector'', PStr (source_name (sa_source a))), (''created_at'', PStr (me_created env))],
      c_priority = Some (int_of (sa_priority a)), c_replyto = Some (''submit.sm.resp.'' @ sa_cid a), c_bill = sa_bill a, c_dcs = []\<rparr>"

text \<open>While the broker works, a message for a known connector is published, and the answer is its id.\<close>

lemma submit_sm_publishes:
  assumes "broker_works env" "receipt_readable a" "sa_validity a = PNone" "is_int (sa_priority a)" "0 \<le> int_of (sa_priority a)"
    and "mg_getConnector (sa_cid a) mg = Some c" "mg_broker mg = Some True"
  shows "fst (perspective_submit_sm env ops a mg) = Inr (Some (me_new_id env)) \<and>
    redis_only (mg\<lparr>mg_out := mg_out mg @ [BasicPublish (submit_queue (sa_cid a)) (submitted env a)]\<rparr>)
      (snd (perspective_submit_sm env ops a mg))"
proof -
  let ?mg = "mg\<lparr>mg_out := mg_out mg @ [BasicPublish (submit_queue (sa_cid a)) (submitted env a)]\<rparr>"
  have s: "source_name (sa_source a) = ''httpapi'' \<or> source_name (sa_source a) = ''smppsapi''"
    by (simp add: source_name_def split: submitter.split)
  have x: "mk_SubmitSmContent (me_new_id env) (me_created env) (sa_pdus a) (''submit.sm.resp.'' @ sa_cid a) (sa_bill a)
      (sa_priority a) (sa_validity a) None (source_name (sa_source a)) = Inr (submitted env a)"
    using assms(3-5) s by (simp add: mk_SubmitSmContent_def submitted_def)
  obtain mg' where e: "enqueue_dlr env ops a (ce_config c) (me_new_id env) ?mg = (Inr (), mg')" "redis_only ?mg mg'"
    using enqueue_dlr_ok[OF assms(2), of env ops "ce_config c" "me_new_id env" ?mg] by (metis prod.collapse)
  have "c_msgid (submitted env a) = me_new_id env" by (simp add: submitted_def)
  with assms(1,6,7) x e show ?thesis
    by (simp add: perspective_submit_sm_def act_seq_def act_bind_def act_res_def amqp_works)
qed

lemma submit_message_sim:
  assumes "broker_works (ge_manager env)" "receipt_readable a" "receipt_readable b"
    and "sa_cid a = sa_cid b" "sa_bill a = sa_bill b" "sa_validity a = PNone" "sa_validity b = PNone"
    and "sa_priority a = PInt 0" "sa_priority b = PInt 0"
  shows "act_sim (same_gateway uid) same_refusal (=) (submit_message env ops a) (submit_message env ops b)"
proof (rule act_simI)
  fix g h :: "'a gateway" assume R: "same_gateway uid g h"
  then have c: "mg_getConnector (sa_cid b) (gw_manager g) = mg_getConnector (sa_cid b) (gw_manager h)"
    "mg_broker (gw_manager g) = mg_broker (gw_manager h)" by (simp_all add: same_gateway_def mg_getConnector_def)
  show "rel_prod (rel_sum same_refusal (=)) (same_gateway uid) (submit_message env ops a g) (submit_message env ops b h)"
  proof (cases "mg_getConnector (sa_cid b) (gw_manager h) = None \<or> mg_broker (gw_manager h) \<noteq> Some True")
    case True
    with R c assms(4) show ?thesis
      by (auto simp: submit_message_def perspective_submit_sm_def same_gateway_def split: option.splits)
  next
    case False
    then obtain e where e: "mg_getConnector (sa_cid b) (gw_manager h) = Some e" "mg_broker (gw_manager h) = Some True" by auto
    let ?p = "perspective_submit_sm (ge_manager env) ops"
    have 1: "fst (?p a (gw_manager g)) = Inr (Some (me_new_id (ge_manager env)))"
      "redis_only ((gw_manager g)\<lparr>mg_out := mg_out (gw_manager g) @ [BasicPublish (submit_queue (sa_cid b)) (submitted (ge_manager env) a)]\<rparr>)
         (snd (?p a (gw_manager g)))"
      using submit_sm_publishes[OF assms(1,2,6), of "gw_manager g" e ops] assms(4,8) e c by simp_all
    have 2: "fst (?p b (gw_manager h)) = Inr (Some (me_new_id (ge_manager env)))"
      "redis_only ((gw_manager h)\<lparr>mg_out := mg_out (gw_manager h) @ [BasicPublish (submit_queue (sa_cid b)) (submitted (ge_manager env) b)]\<rparr>)
         (snd (?p b (gw_manager h)))"
      using submit_sm_publishes[OF assms(1,3,7), of "gw_manager h" e ops] assms(9) e by simp_all
    obtain ma mb where m: "?p a (gw_manager g) = (Inr (Some (me_new_id (ge_manager env))), ma)"
      "?p b (gw_manager h) = (Inr (Some (me_new_id (ge_manager env))), mb)" using 1(1) 2(1) by (metis prod.collapse)
    have "published (BasicPublish q (submitted (ge_manager env) a)) = published (BasicPublish q (submitted (ge_manager env) b))" for q
      using assms(5,8,9) by (simp add: submitted_def)
    moreover obtain x y where "ma = (gw_manager g)\<lparr>mg_out := mg_out (gw_manager g) @ [BasicPublish (submit_queue (sa_cid b)) (submitted (ge_manager env) a)], mg_redis := x\<rparr>"
      "mb = (gw_manager h)\<lparr>mg_out := mg_out (gw_manager h) @ [BasicPublish (submit_queue (sa_cid b)) (submitted (ge_manager env) b)], mg_redis := y\<rparr>"
      using 1(2) 2(2) m unfolding redis_only_def by (metis snd_conv)
    ultimately show ?thesis
      using R by (simp add: submit_message_def m same_gateway_def same_router_def)
  qed
qed

subsection \<open>From the route to the submission\<close>

text \<open>A message of one part that both front ends can send: the parameters that the connector and the manager read are there, and
  the message asks for the lowest priority.\<close>

definition plain_message :: "smpps_env \<Rightarrow> user \<Rightarrow> routable \<Rightarrow> bool" where
  "plain_message env u r \<longleftrightarrow>
     r_user r = Some u \<and> r_locks r \<noteq> None \<and>
     (\<forall>k \<in> set (config_update_params @ address_params). has_key (p_params (r_pdu r)) k) \<and>
     (\<exists>v. map_of (p_params (r_pdu r)) ''registered_delivery'' = Some (PList [v])) \<and>
     smpps_priority env (r_pdu r) = Inr (PInt 0)"

lemma update_submit_sm_pdu_ok:
  assumes "r_locks r \<noteq> None" "\<forall>k \<in> set ks. has_key (p_params (r_pdu r)) k"
  shows "\<exists>r'. update_submit_sm_pdu cfg ks (r, []) = Inr (r', [])"
  using assms
proof (induction ks arbitrary: r)
  case (Cons k ks)
  obtain ls where ls: "r_locks r = Some ls" using Cons.prems(1) by auto
  let ?r = "case (k \<in> set ls, map_of cfg k) of (False, Some v) \<Rightarrow> r\<lparr>r_pdu := set_param k v (r_pdu r)\<rparr> | _ \<Rightarrow> r"
  have one: "update_param cfg k (r, []) = Inr (?r, [])"
    using Cons.prems(2) ls by (auto simp: update_param_def pduParamIsLocked_def split: bool.split option.split)
  have "r_locks ?r \<noteq> None" "\<forall>k \<in> set ks. has_key (p_params (r_pdu ?r)) k"
    using Cons.prems ls by (auto simp: set_param_def split: bool.split option.split)
  then obtain r' where "update_submit_sm_pdu cfg ks (?r, []) = Inr (r', [])" using Cons.IH by blast
  with one show ?case by (simp add: update_submit_sm_pdu_def)
qed (simp add: update_submit_sm_pdu_def)

lemma apply_params_ok:
  assumes "plain_message env u r"
  shows "\<exists>r'. apply_params he [] c (r, []) g = (Inr (PInt 0, r', []), g)"
proof -
  have "\<exists>r'. update_submit_sm_pdu cfg config_update_params (r, []) = Inr (r', [])" for cfg
    using assms by (intro update_submit_sm_pdu_ok) (auto simp: plain_message_def)
  then obtain r' where "(case perspective_connector_config (conn_cid c) (gw_manager g) of
      None \<Rightarrow> Inr (r, []) | Some cfg \<Rightarrow> update_submit_sm_pdu cfg config_update_params (r, [])) = Inr (r', [])"
    by (cases "perspective_connector_config (conn_cid c) (gw_manager g)") auto
  then show ?thesis
    by (simp add: apply_params_def act_res_def request_params_def update_submit_sm_pdu_def)
qed

lemma act_sim_skip:
  assumes "\<And>t. \<exists>y. n t = (Inr y, t) \<and> act_sim R E W m (k y)"
  shows "act_sim R E W m (act_bind n k)"
proof (rule act_simI)
  fix s t assume "R s t"
  obtain y where "n t = (Inr y, t)" "act_sim R E W m (k y)" using assms by blast
  then show "rel_prod (rel_sum E W) R (m s) (act_bind n k t)" using \<open>R s t\<close> by (simp add: act_bind_def act_sim_def)
qed

lemma gw_count_typed:
  assumes "same_gateway uid g h" "list_all (stat_op_ok HttpAPIStatistics) xs"
  shows "\<exists>h'. gw_count xs h = (Inr (), h') \<and> same_gateway uid g h'"
proof -
  obtain s where "stats_run xs (gw_stats h) = (Inr (), s)" "stats_typed HttpAPIStatistics s"
    using stats_run_typed[OF _ assms(2)] assms(1) by (auto simp: same_gateway_def)
  with assms(1) show ?thesis by (simp add: gw_count_def same_gateway_def)
qed

lemma http_failed_sim:
  assumes "same_refusal e (HttpApiError code cls)" "stat_op_ok HttpAPIStatistics (SInc counter 1)"
  shows "act_sim (same_gateway uid) same_refusal V (act_res (Inl e)) (http_failed counter code cls)"
proof (rule act_simI)
  fix g h :: "'a gateway" assume R: "same_gateway uid g h"
  obtain h' where "gw_count [SInc counter 1] h = (Inr (), h')" "same_gateway uid g h'"
    using gw_count_typed[OF R, of "[SInc counter 1]"] assms(2) by auto
  with assms(1) show "rel_prod (rel_sum same_refusal V) (same_gateway uid) (act_res (Inl e) g) (http_failed counter code cls h)"
    by (simp add: http_failed_def act_defs)
qed

lemma http_failed_bind [simp]: "act_bind (http_failed a b c) f = http_failed a b c"
  by (auto simp: http_failed_def act_defs fun_eq_iff split: sum.splits prod.splits)

lemma refusals:
  "same_refusal SubmitSmRouteNotFoundError (HttpApiError 412 ''RouteNotFoundError'')"
  "same_refusal SubmitSmRoutingError (HttpApiError 412 ''ConnectorNotFoundError'')"
  "same_refusal SubmitSmThroughputExceededError (HttpApiError 403 ''ThroughputExceededError'')"
  "same_refusal SubmitSmChargingError (HttpApiError 403 ''ChargingError'')"
  "same_refusal SubmitSmRoutingError (HttpApiError 500 ''ServerError'')"
  by (simp_all add: same_refusal_def)

lemma counters_ok:
  "stat_op_ok HttpAPIStatistics (SInc ''route_error_count'' 1)" "stat_op_ok HttpAPIStatistics (SInc ''throughput_error_count'' 1)"
  "stat_op_ok HttpAPIStatistics (SInc ''charging_error_count'' 1)" "stat_op_ok HttpAPIStatistics (SInc ''server_error_count'' 1)"
  "stat_op_ok HttpAPIStatistics (SInc ''success_count'' 1)" "stat_op_ok HttpAPIStatistics (SSet ''last_success_at'' (PInt 0))"
  by code_simp+

definition same_id :: "pyval \<Rightarrow> pyval \<times> pdu \<Rightarrow> bool" where
  "same_id i x \<longleftrightarrow> i = fst x"

lemma http_result_sim:
  "act_sim (same_gateway uid) same_refusal same_id
     (act_res (case result_object x of None \<Rightarrow> Inl SubmitSmRoutingError | Some i \<Rightarrow> Inr i))
     (act_bind (http_result env x) (\<lambda>i. act_res (Inr (i, p))))"
proof (cases "result_object x")
  case None
  then have "x = NotFired \<or> x = Refused" by (cases x) auto
  moreover have "act_sim (same_gateway uid) same_refusal same_id (act_res (Inl SubmitSmRoutingError))
      (http_failed ''server_error_count'' 500 ''ServerError'')"
    by (rule http_failed_sim[OF refusals(5) counters_ok(4)])
  ultimately show ?thesis
    using None by (auto simp: http_result_def same_refusal_def intro!: act_sim_res)
next
  case (Some i)
  let ?ops = "[SInc ''success_count'' 1, SSet ''last_success_at'' (PInt (ge_now (hx_gw env)))]"
  have "list_all (stat_op_ok HttpAPIStatistics) ?ops" using counters_ok(5,6) by simp
  then have n: "\<exists>h'. gw_count ?ops h = (Inr (), h') \<and> same_gateway uid g h'" if "same_gateway uid g h" for g h :: "'a gateway"
    using gw_count_typed[OF that] by blast
  have "x \<noteq> NotFired" using Some by auto
  show ?thesis
  proof (rule act_simI)
    fix g h :: "'a gateway" assume "same_gateway uid g h"
    then obtain h' where "gw_count ?ops h = (Inr (), h')" "same_gateway uid g h'" using n by blast
    with Some \<open>x \<noteq> NotFired\<close>
    show "rel_prod (rel_sum same_refusal same_id) (same_gateway uid)
        (act_res (case result_object x of None \<Rightarrow> Inl SubmitSmRoutingError | Some i \<Rightarrow> Inr i) g)
        (act_bind (http_result env x) (\<lambda>i. act_res (Inr (i, p))) h)"
      by (simp add: http_result_def act_defs same_id_def)
  qed
qed

lemma smpps_http_sim:
  assumes "sx_gw se = gw" "hx_gw he = gw" "broker_works (ge_manager gw)" "plain_message se u r"
    and "getQuota ''smpps_throughput'' (u_mt u) = getQuota ''http_throughput'' (u_mt u)"
  shows "act_sim (same_gateway (u_uid u)) same_refusal same_id
    (smpps_deliver se ops system_id r []) (http_deliver he ops u [] q r [])"
proof -
  let ?R = "same_gateway (u_uid u)"
  have u: "r_user r = Some u" "smpps_priority se (r_pdu r) = Inr (PInt 0)" using assms(4) by (auto simp: plain_message_def)
  have submit: "act_sim ?R same_refusal same_id
      (act_bind (submit_message gw ops (smpps_submit_args se system_id u c [r_pdu r] bill (PInt 0))) (\<lambda>x.
         act_res (case result_object x of None \<Rightarrow> Inl SubmitSmRoutingError | Some i \<Rightarrow> Inr i)))
      (act_bind (submit_message gw ops (http_submit_args u c [r_pdu r'] bill (PInt 0) q)) (\<lambda>x.
         act_bind (http_result he x) (\<lambda>i. act_res (Inr (i, r_pdu r')))))" for c bill r'
    using assms(4)
    by (intro act_sim_bind[where V = "(=)"] submit_message_sim assms(3))
      (auto simp: receipt_readable_def smpps_submit_args_def http_submit_args_def plain_message_def http_result_sim)
  have charge: "act_sim ?R same_refusal same_id
      (act_bind (charge_for gw Inr 1 rt u) (\<lambda>(charged, bill).
         if \<not> charged then act_res (Inl SubmitSmChargingError)
         else act_bind (submit_message gw ops (smpps_submit_args se system_id u c [r_pdu r] bill (PInt 0))) (\<lambda>x.
           act_res (case result_object x of None \<Rightarrow> Inl SubmitSmRoutingError | Some i \<Rightarrow> Inr i))))
      (act_bind (charge_for gw (\<lambda>a. py_mul a (PInt 1)) 1 rt u) (\<lambda>(charged, bill).
         if \<not> charged then http_failed ''charging_error_count'' 403 ''ChargingError''
         else act_bind (submit_message gw ops (http_submit_args u c [r_pdu r'] bill (PInt 0) q)) (\<lambda>x.
           act_bind (http_result he x) (\<lambda>i. act_res (Inr (i, r_pdu r'))))))" for rt c r'
    by (intro act_sim_bind[where V = "(=)"] charge_for_sim)
      (auto simp: submit http_failed_sim[OF refusals(4) counters_ok(3)])
  have throttle: "act_sim ?R same_refusal same_id
      (act_bind (throttled gw ''smpps_throughput'' (\<lambda>x. qos_last_submit_sm_at (cx_smpps x))
          (\<lambda>now x. x\<lparr>cx_smpps := (cx_smpps x)\<lparr>qos_last_submit_sm_at := now\<rparr>\<rparr>) u) (\<lambda>fast.
         if fast then act_res (Inl SubmitSmThroughputExceededError) else m))
      (act_bind (throttled gw ''http_throughput'' (\<lambda>x. ha_qos_last_submit_sm_at (cx_httpapi x))
          (\<lambda>now x. x\<lparr>cx_httpapi := (cx_httpapi x)\<lparr>ha_qos_last_submit_sm_at := now\<rparr>\<rparr>) u) (\<lambda>fast.
         if fast then http_failed ''throughput_error_count'' 403 ''ThroughputExceededError'' else n))"
    if "act_sim ?R same_refusal same_id m n" for m :: "('a gateway, pyval) action" and n
    by (intro act_sim_bind[where V = "(=)"] throttled_sim[OF assms(5)])
      (auto simp: that http_failed_sim[OF refusals(3) counters_ok(2)])
  show ?thesis
    unfolding smpps_deliver_def http_deliver_def assms(1,2) Let_def
  proof (rule act_sim_bind[OF match_route_sim], goal_cases)
    case (1 m m')
    then show ?case
    proof (cases m)
      case None
      with 1 show ?thesis by (simp add: http_failed_sim[OF refusals(1) counters_ok(1)])
    next
      case (Some kr)
      obtain k rt where kr: "kr = (k, rt)" by fastforce
      show ?thesis
        unfolding 1[symmetric] Some kr option.case prod.case
      proof (rule act_sim_bind[OF route_connector_sim], goal_cases)
        case (1 c c')
        then show ?case
        proof (cases c)
          case None
          with 1 show ?thesis by (simp add: http_failed_sim[OF refusals(2) counters_ok(1)])
        next
          case (Some c0)
          have "\<exists>y. apply_params he [] c0 (r, []) g = (Inr (PInt 0, y, []), g)" for g :: "'a gateway"
            by (rule apply_params_ok[OF assms(4)])
          then show ?thesis
            unfolding 1[symmetric] Some option.case u act_simps sum.case
            by (intro act_sim_skip) (fastforce simp: u intro!: throttle charge)
        qed
      qed
    qed
  qed
qed


section \<open>Samples\<close>

definition sample_sender :: user where
  "sample_sender = sample_user (PFloat 10) PNone (PInt 1)"

definition sample_gateway_env :: gateway_env where
  "sample_gateway_env =
     \<lparr>ge_router = sample_router_env, ge_manager = sample_manager_env, ge_op = sample_op_env, ge_tlv = sample_tlv_env,
      ge_now = 5000000, ge_bid = ''b'', ge_billing = True, ge_interceptor = None, ge_status_name = (\<lambda>_. None),
      ge_fired = True, ge_log_privacy = False, ge_date = (2026, 1, 15), ge_time = (12, 0, 0, 0),
      ge_re = (\<lambda>p s. startswith s p)\<rparr>"

definition sample_smpps_env :: smpps_env where
  "sample_smpps_env =
     \<lparr>sx_gw = sample_gateway_env, sx_priority_0 = PEnum ''PriorityFlag'' ''LEVEL_0'',
      sx_priority_num = (\<lambda>n. if n = ''LEVEL_0'' then Some 0 else None), sx_value = (\<lambda>_. 0), sx_dlr_expiry = PInt 3600,
      sx_mandatory = []\<rparr>"

definition sample_http_env :: http_env where
  "sample_http_env =
     \<lparr>hx_gw = sample_gateway_env, hx_gsm = (\<lambda>s. s), hx_parse_time = Inr, hx_priority = (\<lambda>_. None), hx_tlvs = (\<lambda>_. None),
      hx_mandatory = []\<rparr>"

definition sample_gateway :: "stats \<Rightarrow> (string, (string, pyval) dict) dict gateway" where
  "sample_gateway s =
     \<lparr>gw_router = sample_router\<lparr>ro_mt_routes :=
        [(0, \<lparr>rt_class = DefaultRoute, rt_filters = [], rt_connector = Single (SmppClientConnector ''smsc-1''),
              rt_rate = PFloat 2, rt_seq = -1\<rparr>)]\<rparr>,
      gw_manager = sample_mg, gw_stats = s\<rparr>"

definition sample_message :: pdu where
  "sample_message =
     \<lparr>p_command = ''submit_sm'', p_seqNum = None, p_status = ''ESME_ROK'',
      p_params = (''source_addr'', PBytes ''1111'') # (''destination_addr'', PBytes ''2222'') # (''short_message'', PBytes ''hello'') #
        (''registered_delivery'', RegisteredDelivery ''NO_SMSC_DELIVERY_RECEIPT_REQUESTED'') # (''priority_flag'', PNone) #
        map (\<lambda>k. (k, PNone)) (config_update_params @ address_params),
      p_custom_tlvs = None\<rparr>"

definition sample_submission :: routable where
  "sample_submission = RoutableSubmitSm sample_message sample_sender (2026, 1, 15) (12, 0, 0, 0)"

lemma sample_plain: "plain_message sample_smpps_env sample_sender sample_submission"
proof -
  have 1: "list_all (has_key (p_params sample_message)) (config_update_params @ address_params)" by code_simp
  have 2: "map_of (p_params sample_message) ''registered_delivery'' =
      Some (PList [PEnum ''RegisteredDeliveryReceipt'' ''NO_SMSC_DELIVERY_RECEIPT_REQUESTED''])" by code_simp
  have 3: "smpps_priority sample_smpps_env sample_message = Inr (PInt 0)" by code_simp
  from 1 2 3 show ?thesis
    by (auto simp: plain_message_def sample_submission_def RoutableSubmitSm_def list_all_iff)
qed

lemma sample_same: "same_gateway uid (sample_gateway s) (sample_gateway HttpAPIStatistics)"
proof -
  have "ro_stats sample_router = []" by code_simp
  then show ?thesis
    by (simp add: same_gateway_def sample_gateway_def same_router_def stats_typed_fresh cnx_of_def stats_get_def CnxStatus_def)
qed


end
