(* ===== verification/Http_Api_Correct.thy ===== *)
theory Http_Api_Correct
  imports Front_Ends
begin

text \<open>
  What the HTTP API guarantees: a message is only charged and sent for an authenticated user with the authorizations that the
  request needs, and what is sent has been charged for, part by part.
\<close>

section \<open>Steps that neither charge nor publish\<close>

definition quiet :: "'r gateway \<Rightarrow> 'r gateway \<Rightarrow> bool" where
  "quiet g g' \<longleftrightarrow> ro_users (gw_router g') = ro_users (gw_router g) \<and> gw_manager g' = gw_manager g"

lemma quiet_refl [simp]: "quiet g g"
  by (simp add: quiet_def)

lemma quiet_trans: "quiet a b \<Longrightarrow> quiet b c \<Longrightarrow> quiet a c"
  by (simp add: quiet_def)

lemma quiet_rel: "reflp quiet" "transp quiet"
  by (auto simp: reflp_def transp_def intro: quiet_trans)

lemma quiet_count: "act_inv quiet (gw_count xs)"
  by (simp add: act_inv_def gw_count_def quiet_def split: prod.split)

lemma quiet_httpapi: "act_inv quiet (on_httpapi uid f)"
  by (simp add: act_inv_def on_httpapi_def act_do_def quiet_def)

lemma quiet_login: "act_inv quiet (on_router (\<lambda>ro. (find_login env ro username password, ro)))"
  by (simp add: act_inv_def on_router_def)

lemmas quiet_intros = act_inv_bind[OF quiet_rel(2)] act_inv_seq[OF quiet_rel(2)] act_inv_res[OF quiet_rel(1)]
  quiet_count quiet_httpapi quiet_login

lemma quiet_authenticate: "act_inv quiet (authenticate_user env args)"
  unfolding authenticate_user_def by (auto intro!: quiet_intros split: option.split)

lemma authenticated:
  assumes "authenticate_user env args g = (Inr u, g')"
  shows "\<exists>username password. res_bind (dget args ''username'') (decoded (ge_op env)) = Inr (PStr username) \<and>
    res_bind (dget args ''password'') (decoded (ge_op env)) = Inr (PStr password) \<and>
    authenticateUser (ge_router env) username password (gw_router g) = Inr (Some u)"
proof -
  obtain v where v: "res_bind (dget args ''username'') (decoded (ge_op env)) = Inr v"
    using assms by (cases "res_bind (dget args ''username'') (decoded (ge_op env))") (auto simp: authenticate_user_def act_defs)
  obtain w where w: "res_bind (dget args ''password'') (decoded (ge_op env)) = Inr w"
    using assms v by (cases "res_bind (dget args ''password'') (decoded (ge_op env))") (auto simp: authenticate_user_def act_defs)
  have "find_login (ge_router env) (gw_router g) v w = Inr (Some u)"
    using assms unfolding authenticate_user_def v w
    by (auto simp: act_defs on_router_def split: sum.splits option.splits prod.splits)
  then show ?thesis
    using v w by (auto simp: find_login_def split: pyval.splits if_splits)
qed

section \<open>Authorizations\<close>

text \<open>What the validator has checked of a user: the authorization to send, those for the arguments that are there, and the
  filter of the destination.\<close>

definition may_send :: "gateway_env \<Rightarrow> user \<Rightarrow> http_args \<Rightarrow> bool" where
  "may_send env u args \<longleftrightarrow>
     authorized ''http_send'' u = Inr True \<and>
     (\<forall>(arg, key) \<in> set send_authorizations. has_key args arg \<longrightarrow> authorized key u = Inr True) \<and>
     (\<exists>dest. map_of args ''to'' = Some dest \<and> value_filter env ''destination_address'' ''.*'' HttpCredentialError u dest = Inr ())"

lemma need_ok: "need asked key u = Inr () \<Longrightarrow> asked \<Longrightarrow> authorized key u = Inr True"
  by (auto simp: need_def raise_if_def split: if_splits)

lemma validated:
  assumes "http_validate env ''Send'' u args ps = Inr ()" shows "may_send env u args"
proof -
  have a: "http_checkSendAuthorizations u args ps = Inr ()" "http_checkSendFilters env u args = Inr ()"
    using assms by (auto simp: http_validate_def)
  have "for_check (\<lambda>(arg, key). need (has_key args arg) key u) send_authorizations = Inr ()" "need True ''http_send'' u = Inr ()"
    using a(1) by (auto simp: http_checkSendAuthorizations_def)
  moreover have "\<exists>dest. map_of args ''to'' = Some dest \<and>
      value_filter env ''destination_address'' ''.*'' HttpCredentialError u dest = Inr ()"
    using a(2) by (auto simp: http_checkSendFilters_def Let_def dget_def split: option.splits)
  ultimately show ?thesis
    unfolding may_send_def by (fastforce intro: need_ok)
qed

lemma short_message_args:
  assumes "short_message env dflt args = Inr (content, args1)"
  shows "map_of args1 k = map_of args k \<or> k = ''content''"
proof (cases "map_of args ''hex-content''")
  case None
  obtain coding v where c: "dget args ''coding'' = Inr coding" "dget args ''content'' = Inr v"
    using assms None by (auto simp: short_message_def)
  show ?thesis
  proof (cases "coding = dflt")
    case True
    then obtain t where "decoded (ge_op (hx_gw env)) v = Inr t" using assms None c by (auto simp: short_message_def)
    with assms None c True show ?thesis by (cases t) (auto simp: short_message_def Let_def)
  next
    case False
    with assms None c show ?thesis by (simp add: short_message_def)
  qed
next
  case (Some v)
  with assms show ?thesis by (auto simp: short_message_def)
qed

lemma may_send_args:
  assumes "short_message env dflt args = Inr (content, args1)" "may_send gw u args1" shows "may_send gw u args"
proof -
  have "map_of args1 k = map_of args k" if "k \<noteq> ''content''" for k using short_message_args[OF assms(1), of k] that by blast
  then show ?thesis
    using assms(2) by (auto simp: may_send_def has_key_def send_authorizations_def)
qed

definition login_part :: "http_env \<Rightarrow> http_args \<Rightarrow> ('r gateway, pyval \<times> http_args \<times> user) action" where
  "login_part env args =
     act_bind (act_res (short_message env (PBytes ''0'') args)) (\<lambda>(content, args1).
       act_bind (authenticate_user (hx_gw env) args1) (\<lambda>u.
         act_seq (on_httpapi (u_uid u) (\<lambda>c. http_seen (ge_now (hx_gw env))
             (c\<lparr>ha_submit_sm_request_count := ha_submit_sm_request_count c + 1\<rparr>)))
           (act_res (Inr (content, args1, u)))))"

lemma login_part_quiet: "act_inv quiet (login_part env args)"
  unfolding login_part_def by (auto intro!: quiet_intros quiet_authenticate split: prod.split)

lemma login_part_ok:
  assumes "login_part env args g = (Inr (content, args1, u), g1)"
  shows "short_message env (PBytes ''0'') args = Inr (content, args1)" "\<exists>g2. authenticate_user (hx_gw env) args1 g = (Inr u, g2)"
proof -
  obtain c a where s: "short_message env (PBytes ''0'') args = Inr (c, a)"
    using assms by (cases "short_message env (PBytes ''0'') args") (auto simp: login_part_def act_defs)
  obtain x g2 where x: "authenticate_user (hx_gw env) a g = (x, g2)" by fastforce
  with assms s have "c = content \<and> a = args1 \<and> x = Inr u"
    by (cases x) (auto simp: login_part_def act_defs on_httpapi_def)
  with s x show "short_message env (PBytes ''0'') args = Inr (content, args1)"
    "\<exists>g2. authenticate_user (hx_gw env) args1 g = (Inr u, g2)" by auto
qed

lemma route_routable_login:
  "route_routable env ops args f g =
     (case login_part env args g of
        (Inl e, g1) \<Rightarrow> (api_error e, f, g1)
      | (Inr (content, args1, u), g1) \<Rightarrow>
          (case send_pdus env f content args1 of
             (Inl e, f1) \<Rightarrow> (api_error e, f1, g1)
           | (Inr ps, f1) \<Rightarrow> (case http_route env ops u content args1 ps g1 of (x, g2) \<Rightarrow> (answered x, f1, g2))))"
  by (simp add: route_routable_def login_part_def Let_def)

lemma route_routable_authorized:
  assumes "route_routable env ops args f g = (a, f', g')" "\<not> quiet g g'"
  shows "\<exists>args1 content u g1. login_part env args g = (Inr (content, args1, u), g1) \<and> may_send (hx_gw env) u args1"
proof -
  obtain x g1 where x: "login_part env args g = (x, g1)" by fastforce
  then have q: "quiet g g1" using login_part_quiet[of env args] by (metis act_inv_def snd_conv)
  obtain content args1 u where r: "x = Inr (content, args1, u)"
    using assms x q by (cases x) (auto simp: route_routable_login)
  obtain y f1 where y: "send_pdus env f content args1 = (y, f1)" by fastforce
  obtain ps where ps: "y = Inr ps" using assms x r y q by (cases y) (auto simp: route_routable_login)
  have "http_validate (hx_gw env) ''Send'' u args1 ps = Inr ()"
  proof (cases "http_validate (hx_gw env) ''Send'' u args1 ps")
    case (Inl e)
    then have "http_route env ops u content args1 ps g1 = (Inl e, g1)" by (simp add: http_route_def Let_def act_res_def)
    with assms x r y ps q show ?thesis by (simp add: route_routable_login)
  qed simp
  with x r show ?thesis using validated by blast
qed


definition sample_api_env :: http_env where
  "sample_api_env =
     sample_http_env\<lparr>hx_gw := sample_gateway_env\<lparr>ge_op := sample_op_env\<lparr>oe_mandatory := config_update_params @ address_params\<rparr>\<rparr>\<rparr>"

definition sample_http_request :: http_request where
  "sample_http_request =
     \<lparr>rq_args = [(''username'', PBytes ''u1''), (''password'', PBytes ''pw''), (''to'', PBytes ''2222''), (''content'', PBytes ''hello'')],
      rq_json = None\<rparr>"


section \<open>Every message sent is paid for\<close>

lemma quiet_match: "act_inv quiet (match_route env r)"
  by (simp add: act_inv_def match_route_def on_router_def quiet_def split: prod.split)

lemma quiet_connector: "act_inv quiet (route_connector env kr)"
  by (simp add: act_inv_def route_connector_def quiet_def Let_def split: prod.split option.split)

lemma quiet_throttled: "act_inv quiet (throttled env key last_at stamp u)"
  by (simp add: act_inv_def throttled_def quiet_def split: sum.split bool.split)

lemma quiet_apply: "act_inv quiet (apply_params env args c x)"
  by (simp add: act_inv_def apply_params_def act_res_def)

lemma quiet_failed: "act_inv quiet (http_failed counter code cls)"
  unfolding http_failed_def by (intro quiet_intros)

lemma quiet_result: "act_inv quiet (http_result env x)"
  unfolding http_result_def by (auto intro!: quiet_intros quiet_failed split: option.split)

text \<open>A quiet step before or after changes nothing about what is charged and published.\<close>

lemma quiet_step:
  assumes "act_inv quiet m" "act_bind m f g = (x, g')" "\<not> quiet g g'"
  shows "\<exists>y g1. m g = (Inr y, g1) \<and> quiet g g1 \<and> f y g1 = (x, g') \<and> \<not> quiet g1 g'"
proof -
  obtain y g1 where m: "m g = (y, g1)" by fastforce
  then have q: "quiet g g1" using assms(1) by (metis act_inv_def snd_conv)
  then have "\<exists>z. y = Inr z" using assms(2,3) m by (cases y) (auto simp: act_bind_def)
  with m q assms(2,3) show ?thesis by (auto simp: act_bind_def dest: quiet_trans)
qed

lemma submit_published:
  assumes "perspective_submit_sm env ops a mg = (y, mg')" "BasicPublish k c \<in> set (mg_out mg') - set (mg_out mg)"
  shows "c_bill c = sa_bill a \<and> c_body c = BPdus (sa_pdus a)"
proof -
  have out: "mg_out (snd (enqueue_dlr env ops a cfg i m)) = mg_out m" for cfg i m
    by (auto simp: enqueue_dlr_def act_defs Let_def store_request_def split: submitter.split sum.split option.split)
  obtain e where e: "mg_getConnector (sa_cid a) mg = Some e" "mg_broker mg = Some True"
    using assms by (auto simp: perspective_submit_sm_def split: option.splits if_splits)
  let ?mk = "mk_SubmitSmContent (me_new_id env) (me_created env) (sa_pdus a) (''submit.sm.resp.'' @ sa_cid a) (sa_bill a)
      (sa_priority a) (sa_validity a) None (source_name (sa_source a))"
  obtain x where x: "?mk = Inr x" using assms e by (cases ?mk) (auto simp: perspective_submit_sm_def act_res_def)
  then have "c_bill x = sa_bill a \<and> c_body x = BPdus (sa_pdus a)"
    by (auto simp: mk_SubmitSmContent_def raise_if_def split: if_splits)
  moreover have "set (mg_out mg') \<subseteq> set (mg_out mg) \<union> {BasicPublish (submit_queue (sa_cid a)) x}"
  proof (cases "me_broker env (BasicPublish (submit_queue (sa_cid a)) x)")
    case None
    let ?m = "mg\<lparr>mg_out := mg_out mg @ [BasicPublish (submit_queue (sa_cid a)) x]\<rparr>"
    obtain z m' where z: "enqueue_dlr env ops a (ce_config e) (c_msgid x) ?m = (z, m')" by fastforce
    then have "mg_out m' = mg_out ?m" by (metis out snd_conv)
    with assms(1) e x None z show ?thesis
      by (cases z) (auto simp: perspective_submit_sm_def act_defs amqp_def)
  next
    case (Some b)
    with assms(1) e x show ?thesis by (auto simp: perspective_submit_sm_def act_defs amqp_def)
  qed
  ultimately show ?thesis using assms(2) by auto
qed

lemma charge_for_billed:
  assumes "charge_for env scaled n rt u g = (Inr (True, bill), g1)" "ge_billing env"
  shows "\<exists>b reqs ro'. bill = Some b \<and> getBillFor (ge_bid env) rt u = Inr b \<and>
    charging_requirements scaled b u = Inr reqs \<and>
    chargeUserForSubmitSms (u_uid u) b n reqs (gw_router g) = (Inr True, ro') \<and> g1 = g\<lparr>gw_router := ro'\<rparr>"
proof -
  obtain b where b: "getBillFor (ge_bid env) rt u = Inr b"
    using assms by (cases "getBillFor (ge_bid env) rt u") (auto simp: charge_for_def act_res_def)
  let ?reqs = "res_bind (getTotalAmounts b) (\<lambda>_. charging_requirements scaled b u)"
  obtain reqs where reqs: "?reqs = Inr reqs"
    using assms b by (cases ?reqs) (auto simp: charge_for_def act_res_def)
  obtain c ro' where c: "chargeUserForSubmitSms (u_uid u) b n reqs (gw_router g) = (c, ro')" by fastforce
  have "charging_requirements scaled b u = Inr reqs" using reqs by auto
  with assms b reqs c show ?thesis
    by (cases c) (auto simp: charge_for_def act_defs on_router_def)
qed

lemma charge_for_manager: "gw_manager (snd (charge_for env scaled n rt u g)) = gw_manager g"
  by (auto simp: charge_for_def act_defs on_router_def split: sum.split prod.split)

text \<open>The users were charged with a bill of the user for the parts that were published with it.\<close>

definition paid :: "gateway_env \<Rightarrow> user \<Rightarrow> 'r gateway \<Rightarrow> 'r gateway \<Rightarrow> bool" where
  "paid gw u g g' \<longleftrightarrow>
     (\<exists>rt b reqs ro ro' ps. getBillFor (ge_bid gw) rt u = Inr b \<and>
       charging_requirements (\<lambda>a. py_mul a (PInt (int (length ps)))) b u = Inr reqs \<and>
       ro_users ro = ro_users (gw_router g) \<and>
       chargeUserForSubmitSms (u_uid u) b (int (length ps)) reqs ro = (Inr True, ro') \<and>
       ro_users (gw_router g') = ro_users ro' \<and>
       (\<forall>k c. BasicPublish k c \<in> set (mg_out (gw_manager g')) - set (mg_out (gw_manager g)) \<longrightarrow>
          c_bill c = Some b \<and> c_body c = BPdus ps))"

definition pays :: "gateway_env \<Rightarrow> user \<Rightarrow> ('r gateway, 'a) action \<Rightarrow> bool" where
  "pays gw u m \<longleftrightarrow> (\<forall>g x g'. m g = (x, g') \<longrightarrow> gw_manager g' = gw_manager g \<or> paid gw u g g')"

lemma pays_quiet: "act_inv quiet m \<Longrightarrow> pays gw u m"
  unfolding pays_def act_inv_def by (metis quiet_def snd_conv)

lemma paid_quiet: "quiet g g1 \<Longrightarrow> paid gw u g1 g' \<Longrightarrow> paid gw u g g'"
  by (simp add: quiet_def paid_def)

lemma pays_bind:
  assumes "act_inv quiet m" "\<And>y. pays gw u (f y)" shows "pays gw u (act_bind m f)"
  unfolding pays_def
proof (intro allI impI)
  fix g x g' assume e: "act_bind m f g = (x, g')"
  obtain y g1 where m: "m g = (y, g1)" by fastforce
  then have q: "quiet g g1" using assms(1) by (metis act_inv_def snd_conv)
  show "gw_manager g' = gw_manager g \<or> paid gw u g g'"
  proof (cases y)
    case (Inl e')
    with e m q show ?thesis by (simp add: act_bind_def quiet_def)
  next
    case (Inr z)
    with e m have "f z g1 = (x, g')" by (simp add: act_bind_def)
    then have "gw_manager g' = gw_manager g1 \<or> paid gw u g1 g'" using assms(2)[of z] unfolding pays_def by blast
    then show ?thesis using q paid_quiet[OF q, of gw u g'] by (metis quiet_def)
  qed
qed

lemma pays_submit:
  assumes "ge_billing gw" "n = int (length (sa_pdus (a bill)))" "sa_bill (a bill) = bill" "\<And>y. act_inv quiet (f y)"
    and "charge_for gw (\<lambda>v. py_mul v (PInt n)) n rt u g = (Inr (True, bill), g1)"
    and "act_bind (submit_message gw ops (a bill)) f g1 = (x, g')"
  shows "paid gw u g g'"
proof -
  obtain b reqs ro' where b: "bill = Some b" "getBillFor (ge_bid gw) rt u = Inr b"
    "charging_requirements (\<lambda>v. py_mul v (PInt n)) b u = Inr reqs"
    "chargeUserForSubmitSms (u_uid u) b n reqs (gw_router g) = (Inr True, ro')" "g1 = g\<lparr>gw_router := ro'\<rparr>"
    using charge_for_billed[OF assms(5,1)] by blast
  obtain y mg where y: "perspective_submit_sm (ge_manager gw) ops (a bill) (gw_manager g1) = (y, mg)" by fastforce
  then obtain z where "f z (g1\<lparr>gw_manager := mg\<rparr>) = (x, g')"
    using assms(6) by (auto simp: submit_message_def act_bind_def)
  then have "quiet (g1\<lparr>gw_manager := mg\<rparr>) g'" using assms(4) by (metis act_inv_def snd_conv)
  then have "gw_manager g' = mg" "ro_users (gw_router g') = ro_users ro'" by (simp_all add: quiet_def b(5))
  moreover have "c_bill c = Some b \<and> c_body c = BPdus (sa_pdus (a bill))"
    if "BasicPublish k c \<in> set (mg_out mg) - set (mg_out (gw_manager g))" for k c
    using submit_published[OF y, of k c] that b(1,5) assms(3) by simp
  ultimately show ?thesis
    using b(2-4) assms(2) unfolding paid_def by blast
qed

lemma pays_charge:
  assumes "ge_billing gw" "\<And>bill. n = int (length (sa_pdus (a bill)))" "\<And>bill. sa_bill (a bill) = bill"
    and "\<And>y. act_inv quiet (f y)" "act_inv quiet refuse"
  shows "pays gw u (act_bind (charge_for gw (\<lambda>v. py_mul v (PInt n)) n rt u) (\<lambda>(charged, bill).
    if \<not> charged then refuse else act_bind (submit_message gw ops (a bill)) f))"
  unfolding pays_def
proof (intro allI impI)
  fix g x g' assume e: "act_bind (charge_for gw (\<lambda>v. py_mul v (PInt n)) n rt u) (\<lambda>(charged, bill).
    if \<not> charged then refuse else act_bind (submit_message gw ops (a bill)) f) g = (x, g')"
  obtain y g1 where y: "charge_for gw (\<lambda>v. py_mul v (PInt n)) n rt u g = (y, g1)" by fastforce
  then have m: "gw_manager g1 = gw_manager g" by (metis charge_for_manager snd_conv)
  show "gw_manager g' = gw_manager g \<or> paid gw u g g'"
  proof (cases y)
    case (Inl e')
    with e y m show ?thesis by (simp add: act_bind_def)
  next
    case (Inr z)
    obtain charged bill where z: "z = (charged, bill)" by fastforce
    show ?thesis
    proof (cases charged)
      case True
      then have "act_bind (submit_message gw ops (a bill)) f g1 = (x, g')" using e y Inr z by (simp add: act_bind_def)
      then have "paid gw u g g'"
        using pays_submit[where a = a and bill = bill and f = f and n = n, OF assms(1) assms(2) assms(3) assms(4)]
          y Inr z True by simp
      then show ?thesis ..
    next
      case False
      then have "refuse g1 = (x, g')" using e y Inr z by (simp add: act_bind_def)
      then have "quiet g1 g'" using assms(5) by (metis act_inv_def snd_conv)
      with m show ?thesis by (simp add: quiet_def)
    qed
  qed
qed

lemma http_deliver_pays:
  assumes "ge_billing (hx_gw env)" shows "pays (hx_gw env) u (http_deliver env ops u args q r rest)"
proof -
  have charge: "pays (hx_gw env) u (act_bind (charge_for (hx_gw env) (\<lambda>a. py_mul a (PInt (1 + int (length ps)))) (1 + int (length ps)) rt u)
      (\<lambda>(charged, bill). if \<not> charged then http_failed ''charging_error_count'' 403 ''ChargingError''
        else act_bind (submit_message (hx_gw env) ops (http_submit_args u c (p # ps) bill priority q)) (\<lambda>x.
          act_bind (http_result env x) (\<lambda>i. act_res (Inr (i, p))))))" for ps rt c p priority
    by (intro pays_charge assms quiet_intros quiet_result quiet_failed) (simp_all add: http_submit_args_def)
  show ?thesis
    unfolding http_deliver_def Let_def
    by (intro pays_bind quiet_match quiet_connector quiet_apply quiet_throttled)
      (auto intro!: pays_bind pays_quiet[OF quiet_failed] quiet_connector quiet_apply quiet_throttled charge split: option.split prod.split)
qed

text \<open>Claim C4.  Whenever the HTTP API hands a message to the manager of the connectors with billing enabled, the user has been
  charged for it first: once for every part of the message, with the bill of a route and after its requirements
  were checked, and this same bill and these parts are what is published.
\<close>

theorem sent_is_paid:
  assumes "http_deliver env ops u args q r rest g = (x, g')" "gw_manager g' \<noteq> gw_manager g" "ge_billing (hx_gw env)"
  shows "\<exists>rt b reqs ro ro' ps. getBillFor (ge_bid (hx_gw env)) rt u = Inr b \<and>
    charging_requirements (\<lambda>a. py_mul a (PInt (int (length ps)))) b u = Inr reqs \<and>
    ro_users ro = ro_users (gw_router g) \<and>
    chargeUserForSubmitSms (u_uid u) b (int (length ps)) reqs ro = (Inr True, ro') \<and>
    ro_users (gw_router g') = ro_users ro' \<and>
    (\<forall>k c. BasicPublish k c \<in> set (mg_out (gw_manager g')) - set (mg_out (gw_manager g)) \<longrightarrow>
       c_bill c = Some b \<and> c_body c = BPdus ps)"
  using http_deliver_pays[OF assms(3), of u ops args q r rest] assms(1,2) unfolding pays_def paid_def[symmetric] by blast

theorem sent_is_paid_witness:
  "\<exists>g' b ro ro' reqs (ps :: pdu list). g' = snd (http_deliver sample_http_env store_ops sample_sender []
        \<lparr>dq_url = PNone, dq_level = PInt 0, dq_method = PNone\<rparr> sample_submission [] (sample_gateway HttpAPIStatistics)) \<and>
     gw_manager g' \<noteq> gw_manager (sample_gateway HttpAPIStatistics) \<and>
     ro_users ro = ro_users (gw_router (sample_gateway HttpAPIStatistics)) \<and>
     chargeUserForSubmitSms ''u1'' b (int (length ps)) reqs ro = (Inr True, ro') \<and> ro_users (gw_router g') = ro_users ro'"
proof -
  let ?r = "http_deliver sample_http_env store_ops sample_sender [] \<lparr>dq_url = PNone, dq_level = PInt 0, dq_method = PNone\<rparr>
      sample_submission [] (sample_gateway HttpAPIStatistics)"
  obtain x g' where r: "?r = (x, g')" by fastforce
  have "length (mg_out (gw_manager (snd ?r))) \<noteq> length (mg_out (gw_manager (sample_gateway HttpAPIStatistics)))" by code_simp
  then have m: "gw_manager g' \<noteq> gw_manager (sample_gateway HttpAPIStatistics)" using r by auto
  have b: "ge_billing (hx_gw sample_http_env)" by (simp add: sample_http_env_def sample_gateway_env_def)
  have u: "u_uid sample_sender = ''u1''" by code_simp
  obtain bl reqs ro ro' and ps :: "pdu list" where "ro_users ro = ro_users (gw_router (sample_gateway HttpAPIStatistics))"
    "chargeUserForSubmitSms ''u1'' bl (int (length ps)) reqs ro = (Inr True, ro')" "ro_users (gw_router g') = ro_users ro'"
    using sent_is_paid[OF r m b, unfolded u] by blast
  moreover have "g' = snd ?r" using r by simp
  ultimately show ?thesis using m by blast
qed

end
