(* ===== verification/Spec2Isabelle.thy ===== *)
theory Spec2Isabelle
  imports Router_Behaviour Throwers Client_Protocol_Correct Message_Flow Smpp_Server_Correct Http_Api_Correct
begin

text \<open>
  A verification library for the Jasmin SMS gateway (\<^verbatim>\<open>src/jasmin\<close>, Python).

  \<^bold>\<open>The program.\<close>  Jasmin accepts short messages over HTTP and SMPP, authenticates the sender,
  checks and charges quotas, selects a route and queues the message for an SMPP client connector; it
  receives messages and delivery receipts from those connectors and throws them to HTTP or SMPP
  receivers.

  \<^bold>\<open>Conventions.\<close>  A Python value that the code inspects at run time is a \<open>pyval\<close>, an exception a \<open>pyexc\<close>, and a
  computation that may raise returns a \<open>res\<close> (\<open>Inl\<close> the exception).  Code that changes state is an action: a function from
  a state to a result and a new state, so that the changes made before an exception are kept, as in Python.  A dictionary is
  an association list in insertion order.  A float is the rational number it denotes, and every operation rounds
  to 53 bits.  A text is a list of code points below 256.  Clocks, identifiers drawn at random, regular expressions
  and the codecs of third parties are parameters.

  \<^bold>\<open>The theories\<close>, in the order of the imports.
  \<^item> \<open>Py_Values\<close>, \<open>Py_Float\<close>, \<open>Py_Text\<close>: the prelude, with Python values, exceptions, dictionaries, numbers and text.
  \<^item> \<open>Ip_Match\<close>: the IP whitelist (\<^verbatim>\<open>tools/ipmatch.py\<close>); it admits exactly the addresses of its networks.
  \<^item> \<open>Credentials\<close>: users, groups, credentials, connectors (\<^verbatim>\<open>routing/jasminApi.py\<close>); quotas and whitelists keep their types.
  \<^item> \<open>Routing_Filters\<close>, \<open>Routes\<close>, \<open>Routing_Tables\<close>: \<^verbatim>\<open>Routables.py\<close>, \<^verbatim>\<open>Filters.py\<close>, \<^verbatim>\<open>Routes.py\<close>,
    \<^verbatim>\<open>Interceptors.py\<close> and the tables of \<^verbatim>\<open>routing/\<close>.  The locale \<open>order_table\<close> is the contract of the four tables: sorted by
    descending order, one entry per order, the default at order 0.  A lookup finds the matching entry of highest order.
  \<^item> \<open>Billing\<close>: \<^verbatim>\<open>Bills.py\<close> and \<^verbatim>\<open>getBillFor\<close>; the two parts of a bill differ from the rate by rounding only.
  \<^item> \<open>Migration\<close>: \<^verbatim>\<open>tools/migrations\<close>.
  \<^item> \<open>Router\<close>, \<open>Router_Correct\<close>, \<open>Router_Behaviour\<close>: \<^verbatim>\<open>routing/router.py\<close>, a step relation with one rule per operation, and
    its invariants: quotas never negative, groups of users, charging, persistence.
  \<^item> \<open>Tlv\<close>: \<^verbatim>\<open>tools/tlv_encoder.py\<close>, \<^verbatim>\<open>tools/tlv.py\<close> and the TLV rules of \<^verbatim>\<open>cli/smppccm.py\<close>; round trips on the wire.
  \<^item> \<open>Operations\<close>: \<^verbatim>\<open>protocols/smpp/operations.py\<close>; the split of long messages and the round trip of receipts.
  \<^item> \<open>Messaging\<close>: the messages between the components (\<^verbatim>\<open>content.py\<close>), the effects on queues and the locale
    \<open>retrying_consumer\<close>, the contract of a consumer that requeues a message a bounded number of times.
  \<^item> \<open>Dlr\<close>, \<open>Throwers\<close>: \<^verbatim>\<open>managers/dlr.py\<close> and \<^verbatim>\<open>routing/throwers.py\<close>; both interpret \<open>retrying_consumer\<close>, so that every
    message is settled after finitely many deliveries.
  \<^item> \<open>Stats\<close>, \<open>Client_Protocol\<close>, \<open>Client_Protocol_Correct\<close>: the statistics and the client session of \<^verbatim>\<open>protocols/smpp/protocol.py\<close>;
    a long message is answered once, when its last response arrives.
  \<^item> \<open>Listener\<close>, \<open>Listener_Mo\<close>, \<open>Listener_Correct\<close>, \<open>Listener_Mo_Correct\<close>: \<^verbatim>\<open>managers/listeners.py\<close>; bounded retries, the pause between
    messages, the joining of delivered parts.
  \<^item> \<open>Message_Flow\<close>: what the listener publishes is what the lookup of receipts reads.
  \<^item> \<open>Client_Config\<close>, \<open>Client_Service\<close>, \<open>Client_Manager\<close>, \<open>Client_Manager_Correct\<close>: \<^verbatim>\<open>protocols/smpp/configs.py\<close>, the client factory
    and service, and \<^verbatim>\<open>managers/clients.py\<close>; the manager refines a registry of connectors.
  \<^item> \<open>Mt_Submission\<close>, \<open>Smpp_Server\<close>, \<open>Http_Api\<close>: the front ends that take messages, the SMPP server of \<^verbatim>\<open>protocols/smpp\<close> and the
    endpoints of \<^verbatim>\<open>protocols/http\<close>, with the steps they share: route, connector, throughput, charge, submission.
  \<^item> \<open>Smpp_Server_Correct\<close>: a bind is granted to an authenticated user only, and the counters of binds are exact.
  \<^item> \<open>Front_Ends\<close>, \<open>Http_Api_Correct\<close>: the two front ends treat a message of one part alike, and the HTTP API sends only what
    an authorized user asked for and was charged for.

  \<^bold>\<open>How the parts interact.\<close>  A front end builds a routable, runs an interception script on it, asks the routing table for a
  connector, charges the user and hands the message to the manager of the connectors, which publishes it on the queue of the
  connector.  The listener of the connector takes it from there, sends it through the client session and publishes the
  response, which the lookup of receipts and the billing queue of the router read.  Deliveries take the opposite way to
  the throwers.  A queue is the list of effects on it; delivering a message again is another call of its consumer.

  \<^bold>\<open>Fuel and bounds.\<close>  Every function is total.  Two recursions carry fuel, and running out
  of it is the value \<open>None\<close>.  The handler of a delivery calls itself for a message joined from parts; three steps are enough
  for every message, which \<open>deliver_returns\<close> proves.  The normalisation of TLVs calls itself for a JSON text inside
  a JSON text; the length of the text is enough, by \<open>normalize_custom_tlvs_returns\<close>.

  \<^bold>\<open>Not modelled.\<close>  The event loop and timers of Twisted (a timer is a call of the function that it fires), AMQP and Redis
  (parameters, or the list of effects), the wire format of SMPP apart from TLVs, pickling (a value is its own image), the
  evaluation of interception scripts (a parameter), logging apart from the cases in which it raises, the console
  jCli apart from its TLV rules, the REST API, the Prometheus endpoint, the daemons and their configuration files.
\<close>

end
